(* ===== verification/Prelude.thy ===== *)
theory Prelude
  imports Main "HOL-Library.AList"
begin

text \<open>
  The generic part of the development: programs with exceptions over a state, the
  rules that reason about them, Python's dictionaries as insertion-ordered
  association lists, and the facts on lists that several components share.

  A Python function that may raise and that talks to the outside world is a
  \<^emph>\<open>program\<close> \<open>'s \<Rightarrow> ('e + 'a) \<times> 's\<close>: it maps a world to an outcome (\<open>Inl\<close> an
  exception, \<open>Inr\<close> a result) and the world it leaves behind.  The world \<open>'s\<close> is a type
  variable throughout: it stands for the storage arrays and everything else behind a
  third-party client, of which nothing is assumed.
\<close>

section \<open>Programs: state and exceptions\<close>

type_synonym ('e, 's, 'a) prog = "'s \<Rightarrow> ('e + 'a) \<times> 's"

named_theorems run \<open>evaluation of program combinators on a state\<close>
named_theorems keeps_rules \<open>rules for predicates on the world that a program keeps\<close>
named_theorems spec_rules \<open>rules for what a program returns and raises\<close>

definition ret :: "'a \<Rightarrow> ('e, 's, 'a) prog" where
  "ret x = (\<lambda>s. (Inr x, s))"

definition raise :: "'e \<Rightarrow> ('e, 's, 'a) prog" where
  "raise e = (\<lambda>s. (Inl e, s))"

definition bnd :: "('e, 's, 'a) prog \<Rightarrow> ('a \<Rightarrow> ('e, 's, 'b) prog) \<Rightarrow> ('e, 's, 'b) prog" where
  "bnd m f = (\<lambda>s. case m s of (Inl e, s') \<Rightarrow> (Inl e, s') | (Inr x, s') \<Rightarrow> f x s')"

text \<open>\<open>try: m except: h\<close>; a handler that does not match raises its argument again.\<close>

definition try_except :: "('e, 's, 'a) prog \<Rightarrow> ('e \<Rightarrow> ('e, 's, 'a) prog) \<Rightarrow> ('e, 's, 'a) prog" where
  "try_except m h = (\<lambda>s. case m s of (Inl e, s') \<Rightarrow> h e s' | (Inr x, s') \<Rightarrow> (Inr x, s'))"

text \<open>\<open>try: m except: h else: f\<close>: exceptions of \<open>f\<close> are not handled by \<open>h\<close>.\<close>

definition try_else ::
  "('e, 's, 'a) prog \<Rightarrow> ('e \<Rightarrow> ('e, 's, 'b) prog) \<Rightarrow> ('a \<Rightarrow> ('e, 's, 'b) prog) \<Rightarrow> ('e, 's, 'b) prog" where
  "try_else m h f = (\<lambda>s. case m s of (Inl e, s') \<Rightarrow> h e s' | (Inr x, s') \<Rightarrow> f x s')"

text \<open>\<open>try: m finally: f\<close>: an exception of \<open>f\<close> replaces the outcome of \<open>m\<close>.\<close>

definition finally_do :: "('e, 's, 'a) prog \<Rightarrow> ('e, 's, unit) prog \<Rightarrow> ('e, 's, 'a) prog" where
  "finally_do m f = (\<lambda>s. case m s of (r, s1) \<Rightarrow>
     (case f s1 of (Inl e, s2) \<Rightarrow> (Inl e, s2) | (Inr u, s2) \<Rightarrow> (r, s2)))"

text \<open>A pure computation that may raise.\<close>

definition lift :: "'e + 'a \<Rightarrow> ('e, 's, 'a) prog" where
  "lift r = (\<lambda>s. (r, s))"

text \<open>A call of third-party code: its own exceptions, embedded in the program's.\<close>

definition call :: "('l \<Rightarrow> 'e) \<Rightarrow> ('l, 's, 'a) prog \<Rightarrow> ('e, 's, 'a) prog" where
  "call emb m = (\<lambda>s. case m s of (Inl e, s') \<Rightarrow> (Inl (emb e), s') | (Inr x, s') \<Rightarrow> (Inr x, s'))"

text \<open>\<open>for x in xs: body\<close>.\<close>

fun for_each :: "('a \<Rightarrow> ('e, 's, unit) prog) \<Rightarrow> 'a list \<Rightarrow> ('e, 's, unit) prog" where
  "for_each f [] = ret ()"
| "for_each f (x # xs) = bnd (f x) (\<lambda>_. for_each f xs)"

text \<open>The same over a pure body that may raise, with an accumulator.\<close>

fun fold_err :: "('a \<Rightarrow> 'b \<Rightarrow> 'e + 'b) \<Rightarrow> 'a list \<Rightarrow> 'b \<Rightarrow> 'e + 'b" where
  "fold_err f [] b = Inr b"
| "fold_err f (x # xs) b = (case f x b of Inl e \<Rightarrow> Inl e | Inr b' \<Rightarrow> fold_err f xs b')"

text \<open>Sequencing of pure computations that may raise.\<close>

definition bnd_err :: "'e + 'a \<Rightarrow> ('a \<Rightarrow> 'e + 'b) \<Rightarrow> 'e + 'b" where
  "bnd_err r f = (case r of Inl e \<Rightarrow> Inl e | Inr x \<Rightarrow> f x)"

lemma bnd_err_simps [simp]:
  "bnd_err (Inl e) f = Inl e"
  "bnd_err (Inr x) f = f x"
  by (simp_all add: bnd_err_def)

lemma bnd_err_Inr_iff: "bnd_err r f = Inr y \<longleftrightarrow> (\<exists>x. r = Inr x \<and> f x = Inr y)"
  by (cases r) auto

lemma bnd_err_Inl_iff: "bnd_err r f = Inl e \<longleftrightarrow> r = Inl e \<or> (\<exists>x. r = Inr x \<and> f x = Inl e)"
  by (cases r) auto

subsection \<open>Evaluation\<close>

lemma run_ret [simp]: "ret x s = (Inr x, s)"
  by (simp add: ret_def)

lemma run_raise [simp]: "raise e s = (Inl e, s)"
  by (simp add: raise_def)

lemma run_lift [simp]: "lift r s = (r, s)"
  by (simp add: lift_def)

lemma run_bnd [run]:
  "bnd m f s = (case m s of (Inl e, s') \<Rightarrow> (Inl e, s') | (Inr x, s') \<Rightarrow> f x s')"
  by (simp add: bnd_def)

lemma run_try_except [run]:
  "try_except m h s = (case m s of (Inl e, s') \<Rightarrow> h e s' | (Inr x, s') \<Rightarrow> (Inr x, s'))"
  by (simp add: try_except_def)

lemma run_try_else [run]:
  "try_else m h f s = (case m s of (Inl e, s') \<Rightarrow> h e s' | (Inr x, s') \<Rightarrow> f x s')"
  by (simp add: try_else_def)

lemma run_finally [run]:
  "finally_do m f s = (case m s of (r, s1) \<Rightarrow>
     (case f s1 of (Inl e, s2) \<Rightarrow> (Inl e, s2) | (Inr u, s2) \<Rightarrow> (r, s2)))"
  by (simp add: finally_do_def)

lemma run_call [run]:
  "call emb m s = (case m s of (Inl e, s') \<Rightarrow> (Inl (emb e), s') | (Inr x, s') \<Rightarrow> (Inr x, s'))"
  by (simp add: call_def)

text \<open>The same as conditional rules, which do not split stuck calls.\<close>

lemma bnd_Inr: "m s = (Inr x, s') \<Longrightarrow> bnd m f s = f x s'"
  and bnd_Inl: "m s = (Inl e, s') \<Longrightarrow> bnd m f s = (Inl e, s')"
  and try_Inr: "m s = (Inr x, s') \<Longrightarrow> try_except m h s = (Inr x, s')"
  and try_Inl: "m s = (Inl e, s') \<Longrightarrow> try_except m h s = h e s'"
  and else_Inr: "m s = (Inr x, s') \<Longrightarrow> try_else m h2 g s = g x s'"
  and else_Inl: "m s = (Inl e, s') \<Longrightarrow> try_else m h2 g s = h2 e s'"
  and call_Inr: "c s = (Inr x, s') \<Longrightarrow> call emb c s = (Inr x, s')"
  and call_Inl: "c s = (Inl l, s') \<Longrightarrow> call emb c s = (Inl (emb l), s')"
  by (simp_all add: run)

lemmas step_rules = bnd_Inr bnd_Inl try_Inr try_Inl else_Inr else_Inl call_Inr call_Inl

text \<open>The two ways a sequence ends.\<close>

lemma bnd_cases [consumes 1, case_names error result]:
  assumes "bnd m f s = (r, s')"
  obtains e where "m s = (Inl e, s')" "r = Inl e" | x s1 where "m s = (Inr x, s1)" "f x s1 = (r, s')"
  using assms by (auto simp: run split: prod.splits sum.splits)

lemma bnd_ret [simp]: "bnd (ret x) f = f x"
  by (simp add: fun_eq_iff run)

lemma bnd_raise [simp]: "bnd (raise e) f = raise e"
  by (simp add: fun_eq_iff run)

lemma bnd_assoc: "bnd (bnd m f) g = bnd m (\<lambda>x. bnd (f x) g)"
  by (simp add: fun_eq_iff run split: prod.split sum.split)

lemma lift_simps [simp]: "lift (Inr x) = ret x" "lift (Inl e) = raise e"
  by (simp_all add: fun_eq_iff)

lemma try_ret [simp]: "try_except (ret x) h = ret x"
  and try_raise [simp]: "try_except (raise e) h = h e"
  by (simp_all add: fun_eq_iff run)


subsection \<open>What a program keeps of the world\<close>

text \<open>
  \<open>keeps P m\<close>: a predicate on the world that holds before the program holds after it,
  however it ends.  Proved for an arbitrary \<open>P\<close> that some of the client's calls keep, it
  says which calls of the client the program can make: a frame condition.
\<close>

definition keeps :: "('s \<Rightarrow> bool) \<Rightarrow> ('e, 's, 'a) prog \<Rightarrow> bool" where
  "keeps P m \<longleftrightarrow> (\<forall>s. P s \<longrightarrow> P (snd (m s)))"

lemma keepsI: "(\<And>s. P s \<Longrightarrow> P (snd (m s))) \<Longrightarrow> keeps P m"
  by (simp add: keeps_def)

lemma keeps_apply: "keeps P m \<Longrightarrow> P s \<Longrightarrow> P (snd (m s))"
  by (simp add: keeps_def)

lemma keepsD: "keeps P m \<Longrightarrow> P s \<Longrightarrow> m s = (r, s') \<Longrightarrow> P s'"
  unfolding keeps_def by (metis snd_conv)

lemma keeps_ret [keeps_rules]: "keeps P (ret x)"
  and keeps_raise [keeps_rules]: "keeps P (raise e)"
  and keeps_lift [keeps_rules]: "keeps P (lift r)"
  by (simp_all add: keeps_def)

lemma keeps_bnd [keeps_rules]: "keeps P m \<Longrightarrow> (\<And>x. keeps P (f x)) \<Longrightarrow> keeps P (bnd m f)"
  by (intro keepsI) (auto simp: run split: prod.split sum.split dest: keepsD intro: keeps_apply)

lemma keeps_try_except [keeps_rules]:
  "keeps P m \<Longrightarrow> (\<And>e. keeps P (h e)) \<Longrightarrow> keeps P (try_except m h)"
  by (intro keepsI) (auto simp: run split: prod.split sum.split dest: keepsD intro: keeps_apply)

lemma keeps_try_else [keeps_rules]:
  "keeps P m \<Longrightarrow> (\<And>e. keeps P (h e)) \<Longrightarrow> (\<And>x. keeps P (f x)) \<Longrightarrow> keeps P (try_else m h f)"
  by (intro keepsI) (auto simp: run split: prod.split sum.split dest: keepsD intro: keeps_apply)

lemma keeps_finally [keeps_rules]: "keeps P m \<Longrightarrow> keeps P f \<Longrightarrow> keeps P (finally_do m f)"
  by (intro keepsI) (auto simp: run split: prod.split sum.split dest: keepsD intro: keeps_apply)

lemma keeps_call [keeps_rules]: "keeps P m \<Longrightarrow> keeps P (call emb m)"
  by (intro keepsI) (auto simp: run split: prod.split sum.split dest: keepsD intro: keeps_apply)

lemma keeps_for_each [keeps_rules]: "(\<And>x. keeps P (f x)) \<Longrightarrow> keeps P (for_each f xs)"
  by (induction xs) (auto intro: keeps_rules)

lemma keeps_if [keeps_rules]: "(b \<Longrightarrow> keeps P m) \<Longrightarrow> (\<not> b \<Longrightarrow> keeps P n) \<Longrightarrow> keeps P (if b then m else n)"
  by simp

subsection \<open>What a program returns and raises\<close>

text \<open>
  \<open>yields Q F m\<close>: from every world, a result of \<open>m\<close> satisfies \<open>Q\<close> and an exception of
  \<open>m\<close> satisfies \<open>F\<close>.
\<close>

definition yields :: "('a \<Rightarrow> bool) \<Rightarrow> ('e \<Rightarrow> bool) \<Rightarrow> ('e, 's, 'a) prog \<Rightarrow> bool" where
  "yields Q F m \<longleftrightarrow> (\<forall>s. case fst (m s) of Inl e \<Rightarrow> F e | Inr x \<Rightarrow> Q x)"

lemma yieldsI:
  "(\<And>s x s'. m s = (Inr x, s') \<Longrightarrow> Q x) \<Longrightarrow> (\<And>s e s'. m s = (Inl e, s') \<Longrightarrow> F e) \<Longrightarrow> yields Q F m"
  unfolding yields_def by (metis prod.collapse sum.case(1,2) sum.exhaust)

lemma yields_resultD: "yields Q F m \<Longrightarrow> m s = (Inr x, s') \<Longrightarrow> Q x"
  unfolding yields_def by (metis fst_conv sum.case(2))

lemma yields_errorD: "yields Q F m \<Longrightarrow> m s = (Inl e, s') \<Longrightarrow> F e"
  unfolding yields_def by (metis fst_conv sum.case(1))

lemma yields_weaken:
  "yields Q F m \<Longrightarrow> (\<And>x. Q x \<Longrightarrow> Q' x) \<Longrightarrow> (\<And>e. F e \<Longrightarrow> F' e) \<Longrightarrow> yields Q' F' m"
  by (rule yieldsI) (auto dest: yields_resultD yields_errorD)

lemma yields_ret [spec_rules]: "Q x \<Longrightarrow> yields Q F (ret x)"
  and yields_raise [spec_rules]: "F e \<Longrightarrow> yields Q F (raise e)"
  by (simp_all add: yields_def)

lemma yields_lift: "(\<And>x. r = Inr x \<Longrightarrow> Q x) \<Longrightarrow> (\<And>e. r = Inl e \<Longrightarrow> F e) \<Longrightarrow> yields Q F (lift r)"
  by (auto simp: yields_def split: sum.split)

lemma yields_bnd: "yields R F m \<Longrightarrow> (\<And>x. R x \<Longrightarrow> yields Q F (f x)) \<Longrightarrow> yields Q F (bnd m f)"
  by (rule yieldsI)
    (auto simp: run split: prod.split_asm sum.split_asm dest: yields_resultD yields_errorD)

lemma yields_bnd_any [spec_rules]:
  "yields (\<lambda>_. True) F m \<Longrightarrow> (\<And>x. yields Q F (f x)) \<Longrightarrow> yields Q F (bnd m f)"
  by (rule yields_bnd)

lemma yields_try_except:
  "yields Q G m \<Longrightarrow> (\<And>e. G e \<Longrightarrow> yields Q F (h e)) \<Longrightarrow> yields Q F (try_except m h)"
  by (rule yieldsI)
    (auto simp: run split: prod.split_asm sum.split_asm dest: yields_resultD yields_errorD)

lemma yields_try_else:
  "yields R G m \<Longrightarrow> (\<And>e. G e \<Longrightarrow> yields Q F (h e)) \<Longrightarrow> (\<And>x. R x \<Longrightarrow> yields Q F (f x))
   \<Longrightarrow> yields Q F (try_else m h f)"
  by (rule yieldsI)
    (auto simp: run split: prod.split_asm sum.split_asm, (metis yields_resultD yields_errorD)+)

lemma yields_finally:
  "yields Q F m \<Longrightarrow> yields (\<lambda>_. True) F f \<Longrightarrow> yields Q F (finally_do m f)"
  by (rule yieldsI)
    (auto simp: run split: prod.split_asm sum.split_asm dest: yields_resultD yields_errorD)

lemma yields_call: "(\<And>l. F (emb l)) \<Longrightarrow> (\<And>x. Q x) \<Longrightarrow> yields Q F (call emb m)"
  by (rule yieldsI) (auto simp: run split: prod.split_asm sum.split_asm)

lemma yields_for_each [spec_rules]:
  "(\<And>x. yields (\<lambda>_. True) F (f x)) \<Longrightarrow> yields (\<lambda>_. True) F (for_each f xs)"
  by (induction xs) (auto intro: spec_rules)

lemma yields_if [spec_rules]:
  "(b \<Longrightarrow> yields Q F m) \<Longrightarrow> (\<not> b \<Longrightarrow> yields Q F n) \<Longrightarrow> yields Q F (if b then m else n)"
  by simp

lemma yields_option [spec_rules]:
  "(x = None \<Longrightarrow> yields Q F m) \<Longrightarrow> (\<And>y. x = Some y \<Longrightarrow> yields Q F (f y)) \<Longrightarrow>
   yields Q F (case x of None \<Rightarrow> m | Some y \<Rightarrow> f y)"
  by (cases x) auto

lemma yields_any: "yields (\<lambda>_. True) (\<lambda>_. True) m"
  by (auto intro: yieldsI)

lemma fold_err_error:
  "fold_err f xs b = Inl e \<Longrightarrow> (\<And>x b e. f x b = Inl e \<Longrightarrow> F e) \<Longrightarrow> F e"
  by (induction xs arbitrary: b) (auto split: sum.splits)

subsection \<open>The retry decorator\<close>

text \<open>
  \<^verbatim>\<open>@retry(exceptions, tries=n, delay=d)\<close> comes from the third-party package \<^verbatim>\<open>retry\<close>, so it
  is a parameter \<open>r\<close> of the definitions that use it.  What the code relies on is its
  documented behaviour, \<open>retry_law r\<close>: the function is called; when it raises one of the
  exceptions and attempts are left, it is called again; otherwise its outcome stands.
  The delay between two attempts is not modelled.  \<open>retry_loop\<close> is a function with this law.
\<close>

type_synonym ('e, 's, 'a) retrier = "('e \<Rightarrow> bool) \<Rightarrow> nat \<Rightarrow> ('e, 's, 'a) prog \<Rightarrow> ('e, 's, 'a) prog"

definition retry_law :: "('e, 's, 'a) retrier \<Rightarrow> bool" where
  "retry_law r \<longleftrightarrow> (\<forall>p n m s. r p n m s =
     (case m s of
        (Inr x, s') \<Rightarrow> (Inr x, s')
      | (Inl e, s') \<Rightarrow> if p e \<and> 1 < n then r p (n - 1) m s' else (Inl e, s')))"

fun retry_loop :: "('e, 's, 'a) retrier" where
  "retry_loop p n m s =
     (case m s of
        (Inr x, s') \<Rightarrow> (Inr x, s')
      | (Inl e, s') \<Rightarrow> if p e \<and> 1 < n then retry_loop p (n - 1) m s' else (Inl e, s'))"

declare retry_loop.simps [simp del]

lemma retry_loop_law: "retry_law retry_loop"
  unfolding retry_law_def by (intro allI, subst retry_loop.simps) (rule refl)

lemma retry_unfold:
  "retry_law r \<Longrightarrow> r p n m s =
     (case m s of
        (Inr x, s') \<Rightarrow> (Inr x, s')
      | (Inl e, s') \<Rightarrow> if p e \<and> 1 < n then r p (n - 1) m s' else (Inl e, s'))"
  unfolding retry_law_def by blast

lemma retry_success: "retry_law r \<Longrightarrow> m s = (Inr x, s') \<Longrightarrow> r p n m s = (Inr x, s')"
  by (subst retry_unfold) simp_all

lemma retry_other_error:
  "retry_law r \<Longrightarrow> m s = (Inl e, s') \<Longrightarrow> \<not> p e \<Longrightarrow> r p n m s = (Inl e, s')"
  by (subst retry_unfold) simp_all

lemma retry_again:
  "retry_law r \<Longrightarrow> m s = (Inl e, s') \<Longrightarrow> p e \<Longrightarrow> 1 < n \<Longrightarrow> r p n m s = r p (n - 1) m s'"
  by (subst retry_unfold) simp_all

lemma retry_last:
  "retry_law r \<Longrightarrow> m s = (Inl e, s') \<Longrightarrow> n \<le> 1 \<Longrightarrow> r p n m s = (Inl e, s')"
  by (subst retry_unfold) simp_all

text \<open>
  \<open>attempt m i s\<close>: the world in which the attempt number \<open>i\<close> of the program begins.  A retried program
  has the outcome of the first attempt that is not to be retried, or else of the last.
\<close>

definition attempt :: "('e, 's, 'a) prog \<Rightarrow> nat \<Rightarrow> 's \<Rightarrow> 's" where
  "attempt m i = (snd \<circ> m) ^^ i"

lemma attempt_simps [simp]:
  "attempt m 0 s = s"
  "attempt m (Suc i) s = attempt m i (snd (m s))"
  by (simp_all add: attempt_def funpow_swap1 del: funpow.simps add: funpow_Suc_right)

lemma attempt_next: "attempt m (Suc i) s = snd (m (attempt m i s))"
  by (simp add: attempt_def)

lemma retry_settles:
  assumes law: "retry_law r" and "0 < n"
  shows "\<exists>k<n. (\<forall>i<k. \<exists>e. fst (m (attempt m i s)) = Inl e \<and> p e) \<and>
    (\<forall>e. fst (m (attempt m k s)) = Inl e \<longrightarrow> p e \<longrightarrow> Suc k = n) \<and>
    r p n m s = m (attempt m k s)"
  using \<open>0 < n\<close>
proof (induction n arbitrary: s)
  case (Suc n)
  show ?case
  proof (cases "\<exists>e s'. m s = (Inl e, s') \<and> p e \<and> 0 < n")
    case False
    then have "r p (Suc n) m s = m s"
      by (subst retry_unfold [OF law]) (auto split: prod.split sum.split)
    moreover have "fst (m s) = Inl e \<Longrightarrow> p e \<Longrightarrow> n = 0" for e
      using False by (cases "m s") auto
    ultimately show ?thesis by (intro exI [of _ 0]) simp
  next
    case True
    then obtain e s' where e: "m s = (Inl e, s')" "p e" "0 < n" by auto
    from Suc.IH [OF e(3), of s'] obtain k where k: "k < n"
      "\<forall>i<k. \<exists>e. fst (m (attempt m i s')) = Inl e \<and> p e"
      "\<forall>e. fst (m (attempt m k s')) = Inl e \<longrightarrow> p e \<longrightarrow> Suc k = n"
      "r p n m s' = m (attempt m k s')" by auto
    have "r p (Suc n) m s = r p n m s'" using retry_again [OF law, of m s e s' p "Suc n"] e by simp
    with k e show ?thesis
      by (intro exI [of _ "Suc k"]) (simp add: All_less_Suc2)
  qed
qed simp

text \<open>Whatever the program keeps or yields, its retried form does too.\<close>

lemma retry_inv:
  assumes law: "retry_law r" and "\<And>s. I s \<Longrightarrow> I (snd (m s))" and "I s"
  shows "I (snd (r p n m s))"
  using \<open>I s\<close>
proof (induction n arbitrary: s)
  case 0
  then show ?case
    by (subst retry_unfold [OF law]) (use assms(2) [OF 0] in \<open>auto split: prod.split sum.split\<close>)
next
  case (Suc n)
  show ?case
    by (subst retry_unfold [OF law])
      (use assms(2) [OF Suc.prems] Suc.IH in \<open>auto split: prod.split sum.split\<close>)
qed

lemma keeps_retry: "retry_law r \<Longrightarrow> keeps P m \<Longrightarrow> keeps P (r p n m)"
  by (rule keepsI, rule retry_inv) (auto simp: keeps_def)

lemma yields_retry:
  assumes law: "retry_law r" and m: "yields Q F m"
  shows "yields Q F (r p n m)"
proof -
  have "case fst (r p n m s) of Inl e \<Rightarrow> F e | Inr x \<Rightarrow> Q x" for s
  proof (induction n arbitrary: s)
    case 0
    show ?case
      by (subst retry_unfold [OF law])
        (auto split: prod.split sum.split dest: yields_resultD [OF m] yields_errorD [OF m])
  next
    case (Suc n)
    show ?case
      by (subst retry_unfold [OF law])
        (use Suc.IH [of "snd (m s)"] in
        \<open>auto split: prod.split sum.split sum.split_asm dest: yields_resultD [OF m] yields_errorD [OF m]\<close>)
  qed
  then show ?thesis by (simp add: yields_def)
qed

text \<open>What an attempt that raises keeps, and what one that returns establishes.\<close>

lemma retry_steps:
  assumes law: "retry_law rt"
    and step: "\<And>s r s'. P s \<Longrightarrow> m s = (r, s') \<Longrightarrow> (case r of Inl e \<Rightarrow> P s' | Inr x \<Rightarrow> Q x s')"
    and "P s" and "rt p n m s = (r, s')"
  shows "case r of Inl e \<Rightarrow> P s' | Inr x \<Rightarrow> Q x s'"
  using assms(3,4)
proof (induction n arbitrary: s)
  case 0
  then show ?case
    using step [of s] by (subst (asm) retry_unfold [OF law]) (auto split: prod.split_asm sum.split_asm)
next
  case (Suc n)
  then show ?case
    using step [of s]
    by (subst (asm) (2) retry_unfold [OF law])
      (auto split: prod.split_asm sum.split_asm if_split_asm)
qed

section \<open>Dictionaries\<close>

text \<open>
  A Python dictionary iterates in insertion order, and assigning to a present key keeps its
  position: an association list with \<open>AList.update\<close> and \<open>AList.delete\<close>.  \<open>map_of d k\<close> is
  \<^verbatim>\<open>d.get(k)\<close>.
\<close>

type_synonym ('k, 'v) dict = "('k \<times> 'v) list"

definition dict_get :: "('k, 'v) dict \<Rightarrow> 'k \<Rightarrow> 'v \<Rightarrow> 'v" where
  "dict_get d k dflt = (case map_of d k of None \<Rightarrow> dflt | Some v \<Rightarrow> v)"

abbreviation dict_set :: "'k \<Rightarrow> 'v \<Rightarrow> ('k, 'v) dict \<Rightarrow> ('k, 'v) dict" where
  "dict_set \<equiv> AList.update"

abbreviation dict_del :: "'k \<Rightarrow> ('k, 'v) dict \<Rightarrow> ('k, 'v) dict" where
  "dict_del \<equiv> AList.delete"

definition has_key :: "('k, 'v) dict \<Rightarrow> 'k \<Rightarrow> bool" where
  "has_key d k \<longleftrightarrow> map_of d k \<noteq> None"

lemma map_of_dict_set [simp]: "map_of (dict_set k v d) = (map_of d)(k \<mapsto> v)"
  by (rule AList.update_conv')

lemma map_of_dict_del [simp]: "map_of (dict_del k d) = (map_of d)(k := None)"
  by (rule AList.delete_conv')

text \<open>Truthiness of an optional string: \<^verbatim>\<open>None\<close> and the empty string are false.\<close>

definition truthy :: "'a list option \<Rightarrow> bool" where
  "truthy x \<longleftrightarrow> (case x of None \<Rightarrow> False | Some v \<Rightarrow> v \<noteq> [])"

lemma truthy_simps [simp]: "\<not> truthy None" "truthy (Some v) \<longleftrightarrow> v \<noteq> []"
  by (simp_all add: truthy_def)

lemma truthyE: "truthy x \<Longrightarrow> (\<And>v. x = Some v \<Longrightarrow> v \<noteq> [] \<Longrightarrow> P) \<Longrightarrow> P"
  by (cases x) auto

end
