(* ===== verification/PyStr.thy ===== *)
theory PyStr
  imports Prelude
begin

text \<open>
  What the program uses of Python's \<^verbatim>\<open>str\<close>, \<^verbatim>\<open>int\<close> and \<^verbatim>\<open>repr\<close>, over ASCII text: a string is a
  list of characters.  The methods are the standard library's, restricted to what ASCII
  text can hold (\<^verbatim>\<open>lower\<close>, \<^verbatim>\<open>strip\<close> and \<^verbatim>\<open>splitlines\<close> know further characters outside it).
\<close>

section \<open>Joining and splitting\<close>

fun join :: "'a list \<Rightarrow> 'a list list \<Rightarrow> 'a list" where
  "join sep [] = []"
| "join sep [x] = x"
| "join sep (x # y # ys) = x @ sep @ join sep (y # ys)"

text \<open>\<^verbatim>\<open>s.split(c)\<close> for a one-character separator: never empty, and empty parts are kept.\<close>

fun split_on :: "'a \<Rightarrow> 'a list \<Rightarrow> 'a list list" where
  "split_on c [] = [[]]"
| "split_on c (x # xs) =
     (if x = c then [] # split_on c xs
      else (case split_on c xs of [] \<Rightarrow> [[x]] | y # ys \<Rightarrow> (x # y) # ys))"

text \<open>\<^verbatim>\<open>s.partition(c)\<close>: before, whether \<open>c\<close> occurs, after.\<close>

fun partition_at :: "'a \<Rightarrow> 'a list \<Rightarrow> 'a list \<times> bool \<times> 'a list" where
  "partition_at c [] = ([], False, [])"
| "partition_at c (x # xs) =
     (if x = c then ([], True, xs)
      else (case partition_at c xs of (a, b, r) \<Rightarrow> (x # a, b, r)))"

text \<open>\<^verbatim>\<open>pat in s\<close>.\<close>

fun contains :: "'a list \<Rightarrow> 'a list \<Rightarrow> bool" where
  "contains pat [] \<longleftrightarrow> pat = []"
| "contains pat (x # xs) \<longleftrightarrow> take (length pat) (x # xs) = pat \<or> contains pat xs"

lemma split_on_nonempty [simp]: "split_on c s \<noteq> []"
  by (induction s) (auto split: list.split)

lemma split_on_absent: "c \<notin> set s \<Longrightarrow> split_on c s = [s]"
  by (induction s) auto

lemma split_on_append: "c \<notin> set s \<Longrightarrow> split_on c (s @ c # t) = s # split_on c t"
  by (induction s) auto

lemma split_on_parts: "p \<in> set (split_on c s) \<Longrightarrow> c \<notin> set p"
  by (induction s arbitrary: p) (auto split: if_splits list.split_asm)

lemma length_split_on: "length (split_on c s) = Suc (count_list s c)"
  by (induction s) (auto split: list.split)

lemma join_split_on: "join [c] (split_on c s) = s"
proof (induction s)
  case (Cons x xs)
  then show ?case
    by (cases "split_on c xs"; cases "tl (split_on c xs)") auto
qed simp

lemma split_on_join:
  "xs \<noteq> [] \<Longrightarrow> \<forall>x \<in> set xs. c \<notin> set x \<Longrightarrow> split_on c (join [c] xs) = xs"
  by (induction "[c]" xs rule: join.induct) (auto simp: split_on_absent split_on_append)

lemma length_join:
  "xs \<noteq> [] \<Longrightarrow> length (join sep xs) = sum_list (map length xs) + length sep * (length xs - 1)"
  by (induction sep xs rule: join.induct) auto

lemma set_join_subset: "set (join sep xs) \<subseteq> \<Union> (set (map set xs)) \<union> set sep"
  by (induction sep xs rule: join.induct) auto

lemma partition_at_absent: "c \<notin> set s \<Longrightarrow> partition_at c s = (s, False, [])"
  by (induction s) auto

lemma partition_at_append: "c \<notin> set s \<Longrightarrow> partition_at c (s @ c # t) = (s, True, t)"
  by (induction s) auto

lemma split_on_partition:
  "partition_at c s = (a, b, r) \<Longrightarrow> split_on c s = (if b then a # split_on c r else [a])"
  by (induction s arbitrary: a) (auto split: if_splits prod.split_asm)

section \<open>White space and case\<close>

definition py_space :: "char \<Rightarrow> bool" where
  "py_space c \<longleftrightarrow> c \<in> {CHR '' '', CHR 0x09, CHR 0x0A, CHR 0x0B, CHR 0x0C, CHR 0x0D,
     CHR 0x1C, CHR 0x1D, CHR 0x1E, CHR 0x1F}"

definition lstrip :: "string \<Rightarrow> string" where
  "lstrip s = dropWhile py_space s"

definition rstrip :: "string \<Rightarrow> string" where
  "rstrip s = rev (dropWhile py_space (rev s))"

definition strip :: "string \<Rightarrow> string" where
  "strip s = rstrip (lstrip s)"

text \<open>\<^verbatim>\<open>s.split()\<close>: the maximal runs of non-space characters.\<close>

function split_ws :: "string \<Rightarrow> string list" where
  "split_ws [] = []"
| "split_ws (x # xs) =
     (if py_space x then split_ws xs
      else (x # takeWhile (\<lambda>c. \<not> py_space c) xs) #
           split_ws (dropWhile (\<lambda>c. \<not> py_space c) xs))"
  by pat_completeness auto
termination
  by (relation "measure length") (auto simp: le_imp_less_Suc length_dropWhile_le)

text \<open>\<^verbatim>\<open>s.splitlines()\<close>: the line boundaries of ASCII text, \<^verbatim>\<open>\r\n\<close> counted once.\<close>

definition line_break :: "char \<Rightarrow> bool" where
  "line_break c \<longleftrightarrow> c \<in> {CHR 0x0A, CHR 0x0B, CHR 0x0C, CHR 0x0D, CHR 0x1C, CHR 0x1D, CHR 0x1E}"

fun splitlines :: "string \<Rightarrow> string list" where
  "splitlines [] = []"
| "splitlines (x # xs) =
     (if line_break x then
        (case xs of
           y # ys \<Rightarrow> if x = CHR 0x0D \<and> y = CHR 0x0A then [] # splitlines ys else [] # splitlines xs
         | [] \<Rightarrow> [[]])
      else (case splitlines xs of [] \<Rightarrow> [[x]] | l # ls \<Rightarrow> (x # l) # ls))"

definition lower_char :: "char \<Rightarrow> char" where
  "lower_char c = (if 65 \<le> (of_char c :: nat) \<and> (of_char c :: nat) \<le> 90
                   then char_of (of_char c + 32 :: nat) else c)"

definition upper_char :: "char \<Rightarrow> char" where
  "upper_char c = (if 97 \<le> (of_char c :: nat) \<and> (of_char c :: nat) \<le> 122
                   then char_of (of_char c - 32 :: nat) else c)"

definition lower :: "string \<Rightarrow> string" where
  "lower = map lower_char"

definition upper :: "string \<Rightarrow> string" where
  "upper = map upper_char"

lemma length_lower [simp]: "length (lower s) = length s"
  by (simp add: lower_def)

text \<open>A text with no white space at either end is its own \<^verbatim>\<open>strip\<close>.\<close>

definition stripped :: "string \<Rightarrow> bool" where
  "stripped s \<longleftrightarrow> s = [] \<or> \<not> py_space (hd s) \<and> \<not> py_space (last s)"

lemma dropWhile_id: "xs = [] \<or> \<not> P (hd xs) \<Longrightarrow> dropWhile P xs = xs"
  by (cases xs) auto

lemma strip_id: "stripped s \<Longrightarrow> strip s = s"
  unfolding stripped_def strip_def lstrip_def rstrip_def
  by (cases "s = []") (auto simp: dropWhile_id hd_rev)

section \<open>Numbers\<close>

definition digit_char :: "nat \<Rightarrow> char" where
  "digit_char d = (if d < 10 then char_of (48 + d) else char_of (87 + d))"

definition digit_val :: "char \<Rightarrow> nat option" where
  "digit_val c = (let n = of_char c :: nat in
     if 48 \<le> n \<and> n \<le> 57 then Some (n - 48)
     else if 97 \<le> n \<and> n \<le> 102 then Some (n - 87)
     else if 65 \<le> n \<and> n \<le> 70 then Some (n - 55) else None)"

text \<open>\<open>show_base b n\<close>: the digits of \<open>n\<close> in base \<open>b\<close> (2 to 16), lower case.\<close>

function show_base :: "nat \<Rightarrow> nat \<Rightarrow> string" where
  "show_base b n = (if n < b \<or> b < 2 then [digit_char n] else show_base b (n div b) @ [digit_char (n mod b)])"
  by pat_completeness auto
termination
  by (relation "measure snd") auto

declare show_base.simps [simp del]

definition str_nat :: "nat \<Rightarrow> string" where
  "str_nat n = show_base 10 n"

definition str_int :: "int \<Rightarrow> string" where
  "str_int i = (if i < 0 then CHR ''-'' # str_nat (nat (- i)) else str_nat (nat i))"

text \<open>Digits to a number, \<open>None\<close> on a character that is no digit of the base.\<close>

fun read_digits :: "nat \<Rightarrow> nat \<Rightarrow> string \<Rightarrow> nat option" where
  "read_digits b acc [] = Some acc"
| "read_digits b acc (c # cs) =
     (case digit_val c of
        None \<Rightarrow> None
      | Some d \<Rightarrow> if d < b then read_digits b (acc * b + d) cs else None)"

text \<open>
  \<^verbatim>\<open>int(s, base)\<close>: optional white space around, an optional sign, an optional \<^verbatim>\<open>0x\<close> for base 16,
  then digits with single underscores between them; \<open>None\<close> is \<^verbatim>\<open>ValueError\<close>.
\<close>

fun underscores_ok :: "bool \<Rightarrow> string \<Rightarrow> bool" where
  "underscores_ok prev [] \<longleftrightarrow> \<not> prev"
| "underscores_ok prev (c # cs) \<longleftrightarrow>
     (if c = CHR ''_'' then \<not> prev \<and> underscores_ok True cs else underscores_ok False cs)"

definition read_nat :: "nat \<Rightarrow> string \<Rightarrow> nat option" where
  "read_nat b s =
     (if s \<noteq> [] \<and> underscores_ok True s then read_digits b 0 (filter (\<lambda>c. c \<noteq> CHR ''_'') s) else None)"

definition drop_0x :: "nat \<Rightarrow> string \<Rightarrow> string" where
  "drop_0x b s =
     (if b = 16 \<and> 2 < length s \<and> hd s = CHR ''0'' \<and> s ! 1 \<in> {CHR ''x'', CHR ''X''}
      then (if s ! 2 = CHR ''_'' then drop 3 s else drop 2 s) else s)"

definition int_of_base :: "nat \<Rightarrow> string \<Rightarrow> int option" where
  "int_of_base b s =
     (case strip s of
        [] \<Rightarrow> None
      | c # cs \<Rightarrow>
          if c = CHR ''-'' then map_option (\<lambda>n. - int n) (read_nat b (drop_0x b cs))
          else if c = CHR ''+'' then map_option int (read_nat b (drop_0x b cs))
          else map_option int (read_nat b (drop_0x b (c # cs))))"

definition int_of_str :: "string \<Rightarrow> int option" where
  "int_of_str = int_of_base 10"

subsection \<open>Reading a number that was printed\<close>

lemma digit_val_digit_char: "d < 16 \<Longrightarrow> digit_val (digit_char d) = Some d"
  by (auto simp: digit_val_def digit_char_def Let_def of_char_of)

lemma read_digits_append:
  "read_digits b acc (xs @ ys) =
     (case read_digits b acc xs of None \<Rightarrow> None | Some n \<Rightarrow> read_digits b n ys)"
  by (induction xs arbitrary: acc) (auto split: option.split)

lemma read_show_base: "1 < b \<Longrightarrow> b \<le> 16 \<Longrightarrow> read_digits b 0 (show_base b n) = Some n"
proof (induction b n rule: show_base.induct)
  case (1 b n)
  show ?case
  proof (cases "n < b")
    case True
    then show ?thesis
      using 1 by (subst show_base.simps) (simp add: digit_val_digit_char)
  next
    case False
    then have "read_digits b 0 (show_base b (n div b)) = Some (n div b)"
      using 1 by simp
    moreover have "n mod b < b" "n mod b < 16"
      using 1(2,3) by (auto intro: order.strict_trans2 [OF mod_less_divisor])
    ultimately show ?thesis
      using 1(2,3) False
      by (subst show_base.simps) (simp add: read_digits_append digit_val_digit_char)
  qed
qed

text \<open>A digit is neither white space nor a sign nor part of a prefix.\<close>

lemma digit_val_plain:
  "digit_val c \<noteq> None \<Longrightarrow>
   c \<noteq> CHR ''_'' \<and> c \<noteq> CHR ''x'' \<and> c \<noteq> CHR ''X'' \<and> c \<noteq> CHR ''-'' \<and> c \<noteq> CHR ''+'' \<and> \<not> py_space c"
  by (auto simp: py_space_def digit_val_def)

definition all_digits :: "string \<Rightarrow> bool" where
  "all_digits s \<longleftrightarrow> s \<noteq> [] \<and> list_all (\<lambda>c. digit_val c \<noteq> None) s"

lemma show_base_nonempty [simp]: "show_base b n \<noteq> []"
  by (subst show_base.simps) simp

lemma show_base_digits: "1 < b \<Longrightarrow> b \<le> 16 \<Longrightarrow> all_digits (show_base b n)"
proof (induction b n rule: show_base.induct)
  case (1 b n)
  have "n mod b < 16" "n < b \<Longrightarrow> n < 16"
    using 1(2,3) by (auto intro: order.strict_trans2 [OF mod_less_divisor])
  then have "digit_val (digit_char (n mod b)) \<noteq> None" "n < b \<Longrightarrow> digit_val (digit_char n) \<noteq> None"
    by (simp_all add: digit_val_digit_char)
  then show ?case
    using 1 by (subst show_base.simps) (auto simp: all_digits_def)
qed

lemma all_digits_id:
  assumes "all_digits s"
  shows "strip s = s" and "filter (\<lambda>c. c \<noteq> CHR ''_'') s = s" and "drop_0x b s = s"
    and "underscores_ok True s" and "hd s \<noteq> CHR ''-''" and "hd s \<noteq> CHR ''+''"
proof -
  have ne: "s \<noteq> []" and d: "\<forall>c \<in> set s. digit_val c \<noteq> None"
    using assms by (simp_all add: all_digits_def list_all_iff)
  have plain: "c \<noteq> CHR ''_'' \<and> c \<noteq> CHR ''x'' \<and> c \<noteq> CHR ''X'' \<and> c \<noteq> CHR ''-'' \<and> c \<noteq> CHR ''+'' \<and> \<not> py_space c"
    if "c \<in> set s" for c
    using d that by (intro digit_val_plain) simp
  show "strip s = s"
    using ne plain by (intro strip_id) (simp add: stripped_def)
  show "filter (\<lambda>c. c \<noteq> CHR ''_'') s = s"
    using plain by (simp add: filter_id_conv)
  show "drop_0x b s = s"
  proof (cases "2 < length s")
    case True
    then have "s ! 1 \<in> set s" by simp
    then show ?thesis using plain by (auto simp: drop_0x_def)
  qed (simp add: drop_0x_def)
  have under: "\<forall>c \<in> set t. c \<noteq> CHR ''_'' \<Longrightarrow> underscores_ok False t" for t
    by (induction t) auto
  show "underscores_ok True s"
    using ne plain by (cases s) (auto intro: under)
  show "hd s \<noteq> CHR ''-''" "hd s \<noteq> CHR ''+''"
    using ne plain by auto
qed

lemma int_of_base_digits:
  assumes "all_digits s"
  shows "int_of_base b s = map_option int (read_digits b 0 s)"
proof -
  obtain c cs where s: "s = c # cs" using assms by (cases s) (auto simp: all_digits_def)
  have "read_nat b s = read_digits b 0 s"
    using all_digits_id [OF assms] by (simp add: read_nat_def s del: filter.simps underscores_ok.simps)
  then show ?thesis
    using all_digits_id(1,5,6) [OF assms] all_digits_id(3) [OF assms, of b]
    by (simp add: int_of_base_def s)
qed

lemma int_of_base_show: "1 < b \<Longrightarrow> b \<le> 16 \<Longrightarrow> int_of_base b (show_base b n) = Some (int n)"
  by (simp add: int_of_base_digits show_base_digits read_show_base)

text \<open>The sign in front: whatever \<^verbatim>\<open>str\<close> prints of an integer, \<^verbatim>\<open>int\<close> reads back.\<close>

lemma int_of_base_minus:
  assumes "all_digits s"
  shows "int_of_base b (CHR ''-'' # s) = map_option (\<lambda>n. - int n) (read_digits b 0 s)"
proof -
  have "strip (CHR ''-'' # s) = CHR ''-'' # s"
  proof (rule strip_id)
    have "s \<noteq> []" and "last s \<in> set s" using assms by (auto simp: all_digits_def)
    then have "\<not> py_space (last s)"
      using assms digit_val_plain [of "last s"] by (auto simp: all_digits_def list_all_iff)
    then show "stripped (CHR ''-'' # s)" using \<open>s \<noteq> []\<close> by (simp add: stripped_def py_space_def)
  qed
  moreover have "read_nat b s = read_digits b 0 s"
    using all_digits_id [OF assms] assms
    by (simp add: read_nat_def all_digits_def del: filter.simps underscores_ok.simps)
  ultimately show ?thesis
    using all_digits_id(3) [OF assms, of b] by (simp add: int_of_base_def)
qed

lemma int_of_str_int: "int_of_str (str_int i) = Some i"
  by (simp add: str_int_def str_nat_def int_of_str_def int_of_base_show int_of_base_minus
      show_base_digits read_show_base)

section \<open>Representations\<close>

text \<open>
  \<^verbatim>\<open>repr\<close> of a string and \<^verbatim>\<open>str\<close> of a list of strings and of a dictionary, which appear in error
  messages: double quotes only when the text has a single quote and no double quote.
\<close>

definition hex2 :: "nat \<Rightarrow> string" where
  "hex2 n = [digit_char (n div 16), digit_char (n mod 16)]"

definition repr_char :: "char \<Rightarrow> char \<Rightarrow> string" where
  "repr_char q c =
     (if c = q \<or> c = CHR 0x5C then [CHR 0x5C, c]
      else if c = CHR 0x0A then [CHR 0x5C, CHR ''n'']
      else if c = CHR 0x0D then [CHR 0x5C, CHR ''r'']
      else if c = CHR 0x09 then [CHR 0x5C, CHR ''t'']
      else if (of_char c :: nat) < 32 \<or> (of_char c :: nat) = 127
      then [CHR 0x5C, CHR ''x''] @ hex2 (of_char c)
      else [c])"

definition repr_str :: "string \<Rightarrow> string" where
  "repr_str s =
     (let q = (if CHR 0x27 \<in> set s \<and> CHR 0x22 \<notin> set s then CHR 0x22 else CHR 0x27)
      in q # concat (map (repr_char q) s) @ [q])"

definition str_list :: "string list \<Rightarrow> string" where
  "str_list xs = ''['' @ join '', '' (map repr_str xs) @ '']''"

definition str_option :: "string option \<Rightarrow> string" where
  "str_option x = (case x of None \<Rightarrow> ''None'' | Some s \<Rightarrow> s)"

end
