(* ===== verification/Messages.thy ===== *)
theory Messages
  imports PyStr
begin

text \<open>
  The message templates of \<^verbatim>\<open>controller/array_action/messages.py\<close> and
  \<^verbatim>\<open>controller/controller_server/messages.py\<close>.  A template is the function that \<^verbatim>\<open>str.format\<close> makes of
  it: its arguments are the texts that format inserts, in the order of the placeholders.
\<close>

section \<open>Array errors\<close>

definition NoConnectionAvailableException_message :: "string \<Rightarrow> string" where
  "NoConnectionAvailableException_message a0 =
     ''Currently no connection is available to endpoint: '' @ a0"

definition CredentialsError_message :: "string \<Rightarrow> string" where
  "CredentialsError_message a0 =
     ''Credential error has occurred while connecting to endpoint : '' @ a0 @ '' ''"

definition StorageManagementIPsNotSupportError_message :: "string \<Rightarrow> string" where
  "StorageManagementIPsNotSupportError_message a0 =
     ''Invalid Management IP for SVC : '' @ a0 @ '' ''"

definition ObjectNotFoundError_message :: "string \<Rightarrow> string" where
  "ObjectNotFoundError_message a0 =
     ''Object was not found : '' @ a0 @ '' ''"

definition VolumeNameBelongsToSnapshotError_message :: "string \<Rightarrow> string \<Rightarrow> string" where
  "VolumeNameBelongsToSnapshotError_message a0 a1 =
     ''Volume not found. Snapshot with the same id exists.'' @ replicate 58 (CHR '' '') @ ''Name : '' @ a0 @ '' , array : '' @ a1"

definition PoolDoesNotMatchCapabilities_message :: "string \<Rightarrow> string \<Rightarrow> string \<Rightarrow> string" where
  "PoolDoesNotMatchCapabilities_message a0 a1 a2 =
     ''Pool : '' @ a0 @ '' does not match the following capabilities : '' @ a1 @ '' . error : '' @ a2"

definition SpaceEfficiencyNotSupported_message :: "string \<Rightarrow> string" where
  "SpaceEfficiencyNotSupported_message a0 =
     ''space efficiency is not supported : '' @ a0 @ '' ''"

definition VolumeAlreadyExists_message :: "string \<Rightarrow> string \<Rightarrow> string" where
  "VolumeAlreadyExists_message a0 a1 =
     ''Volume already exists : '' @ a0 @ '' , array : '' @ a1"

definition PoolDoesNotExist_message :: "string \<Rightarrow> string \<Rightarrow> string" where
  "PoolDoesNotExist_message a0 a1 =
     ''Pool does not exist: '' @ a0 @ '' , array : '' @ a1"

definition PoolParameterIsMissing_message :: "string \<Rightarrow> string" where
  "PoolParameterIsMissing_message a0 =
     ''Pool parameter is mandatory in '' @ a0"

definition FailedToFindStorageSystemType_message :: "string \<Rightarrow> string" where
  "FailedToFindStorageSystemType_message a0 =
     ''Could not identify the type for endpoint: '' @ a0 @ '' ''"

definition PermissionDeniedError_message :: "string \<Rightarrow> string" where
  "PermissionDeniedError_message a0 =
     ''Permission was denied to operation : '' @ a0"

definition MultipleHostsFoundError_message :: "string \<Rightarrow> string \<Rightarrow> string" where
  "MultipleHostsFoundError_message a0 a1 =
     ''Multiple hosts found for port(s): '' @ a0 @ ''. hosts are : '' @ a1"

definition HostNotFoundError_message :: "string \<Rightarrow> string" where
  "HostNotFoundError_message a0 =
     ''Host for node: '' @ a0 @ '' was not found, ensure all host ports are configured on storage''"

definition NoAvailableLunError_message :: "string \<Rightarrow> string" where
  "NoAvailableLunError_message a0 =
     ''No available lun was found for host : '' @ a0"

definition LunAlreadyInUse_message :: "string \<Rightarrow> string \<Rightarrow> string" where
  "LunAlreadyInUse_message a0 a1 =
     ''Lun : '' @ a0 @ '' is already mapped for host : '' @ a1"

definition MappingError_message :: "string \<Rightarrow> string \<Rightarrow> string \<Rightarrow> string" where
  "MappingError_message a0 a1 a2 =
     ''Mapping error has occurred while mapping volume : '' @ a0 @ '' to host : '' @ a1 @ ''. error : '' @ a2"

definition VolumeAlreadyUnmapped_message :: "string \<Rightarrow> string" where
  "VolumeAlreadyUnmapped_message a0 =
     ''Volume: '' @ a0 @ '' is already unmapped.''"

definition UnMappingError_message :: "string \<Rightarrow> string \<Rightarrow> string \<Rightarrow> string" where
  "UnMappingError_message a0 a1 a2 =
     ''Unmapping error has occurred for volume : '' @ a0 @ '' and host : '' @ a1 @ ''. error : '' @ a2"

definition VolumeMappedToMultipleHostsError_message :: "string \<Rightarrow> string" where
  "VolumeMappedToMultipleHostsError_message a0 =
     ''Volume is already mapped to different hosts '' @ a0"

definition UnsupportedStorageVersionError_message :: "string \<Rightarrow> string \<Rightarrow> string" where
  "UnsupportedStorageVersionError_message a0 a1 =
     ''Unsupported storage system microcode version '' @ a0 @ '', the version should not be lower than '' @ a1"

definition VolumeCreationError_message :: "string \<Rightarrow> string" where
  "VolumeCreationError_message a0 =
     ''Failed to create volume '' @ a0"

definition VolumeDeletionError_message :: "string \<Rightarrow> string" where
  "VolumeDeletionError_message a0 =
     ''Failed to delete volume '' @ a0"

definition NoIscsiTargetsFoundError_message :: "string \<Rightarrow> string" where
  "NoIscsiTargetsFoundError_message a0 =
     ''Could not find iSCSI targets for endpoint: '' @ a0"

definition UnsupportedConnectivityTypeError_message :: "string \<Rightarrow> string" where
  "UnsupportedConnectivityTypeError_message a0 =
     ''Unsupported connectivity type: '' @ a0"

definition SnapshotNotFoundError_message :: "string \<Rightarrow> string" where
  "SnapshotNotFoundError_message a0 =
     ''Snapshot was not found : '' @ a0 @ '' ''"

definition SnapshotAlreadyExistsError_message :: "string \<Rightarrow> string \<Rightarrow> string" where
  "SnapshotAlreadyExistsError_message a0 a1 =
     ''Snapshot already exists : '' @ a0 @ '' , array : '' @ a1"

definition ExpectedSnapshotButFoundVolumeError_message :: "string \<Rightarrow> string \<Rightarrow> string" where
  "ExpectedSnapshotButFoundVolumeError_message a0 a1 =
     ''Could not find info about the source of: '' @ a0 @ '', array: '' @ a1"

definition SnapshotWrongVolumeError_message :: "string \<Rightarrow> string \<Rightarrow> string \<Rightarrow> string" where
  "SnapshotWrongVolumeError_message a0 a1 a2 =
     ''Snapshot '' @ a0 @ '' exists but it is of Volume '' @ a1 @ '' and not '' @ a2"

definition ObjectIsStillInUseError_message :: "string \<Rightarrow> string \<Rightarrow> string" where
  "ObjectIsStillInUseError_message a0 a1 =
     ''Object '' @ a0 @ '' is still in use by '' @ a1"

definition InvalidCliResponseError_message :: "string \<Rightarrow> string" where
  "InvalidCliResponseError_message a0 =
     ''Invalid CLI response. Details : '' @ a0"

definition NotEnoughSpaceInPoolError_message :: "string \<Rightarrow> string" where
  "NotEnoughSpaceInPoolError_message a0 =
     ''Not enough space in pool '' @ a0"

definition SizeOutOfRangeError_message :: "string \<Rightarrow> string \<Rightarrow> string" where
  "SizeOutOfRangeError_message a0 a1 =
     ''requested size is out of limits. requested: '' @ a0 @ '', max_in_byte: '' @ a1"

definition SnapshotSourcePoolMismatchError_message :: "string \<Rightarrow> string \<Rightarrow> string" where
  "SnapshotSourcePoolMismatchError_message a0 a1 =
     ''Snapshot pool : '' @ a0 @ '' does not match the source volume pool : '' @ a1"

section \<open>Controller errors\<close>

definition ValidationException_message :: "string \<Rightarrow> string" where
  "ValidationException_message a0 =
     ''Validation error has occurred : '' @ a0"

definition ObjectIdError_message :: "string \<Rightarrow> string \<Rightarrow> string" where
  "ObjectIdError_message a0 a1 =
     ''Wrong '' @ a0 @ '' id format : '' @ a1"

definition invalid_secret_config_message :: string where
  "invalid_secret_config_message = ''got an invalid secret config''"

definition insufficient_data_to_choose_a_storage_system_message :: string where
  "insufficient_data_to_choose_a_storage_system_message = ''insufficient data to choose a storage system''"

definition no_system_match_requested_topologies :: "string \<Rightarrow> string" where
  "no_system_match_requested_topologies a0 =
     ''no system match requested topologies: '' @ a0"

definition secret_missing_connection_info_message :: string where
  "secret_missing_connection_info_message = ''secret is missing connection info''"

definition secret_missing_topologies_message :: string where
  "secret_missing_topologies_message = ''secret is missing topologies''"

definition invalid_system_id_message :: "string \<Rightarrow> string \<Rightarrow> string" where
  "invalid_system_id_message a0 a1 =
     ''got an invalid system id: '' @ a0 @ '', validation regex: '' @ a1"

definition invalid_json_parameter_message :: "string \<Rightarrow> string \<Rightarrow> string" where
  "invalid_json_parameter_message a0 a1 =
     ''got an invalid json parameter: '' @ a0 @ '', error: '' @ a1 @ ''.''"

definition secret_missing_message :: string where
  "secret_missing_message = ''secret is missing''"

definition capabilities_not_set_message :: string where
  "capabilities_not_set_message = ''capabilities were not set''"

definition unsupported_fs_type_message :: "string \<Rightarrow> string" where
  "unsupported_fs_type_message a0 =
     ''unsupported fs_type : '' @ a0"

definition unsupported_volume_access_type_message :: string where
  "unsupported_volume_access_type_message = ''unsupported volume access type''"

definition unsupported_access_mode_message :: "string \<Rightarrow> string" where
  "unsupported_access_mode_message a0 =
     ''unsupported access mode : '' @ a0"

definition name_should_not_be_empty_message :: string where
  "name_should_not_be_empty_message = ''name should not be empty''"

definition id_should_not_be_empty_message :: string where
  "id_should_not_be_empty_message = ''id should not be empty''"

definition size_should_not_be_negative_message :: string where
  "size_should_not_be_negative_message = ''size should not be negative''"

definition no_capacity_range_message :: string where
  "no_capacity_range_message = ''no capacity range set''"

definition pool_is_missing_message :: string where
  "pool_is_missing_message = ''pool parameter is missing.''"

definition pool_should_not_be_empty_message :: string where
  "pool_should_not_be_empty_message = ''pool should not be empty''"

definition params_are_missing_message :: string where
  "params_are_missing_message = ''parameters are missing''"

definition volume_id_wrong_format_message :: string where
  "volume_id_wrong_format_message = ''volume id has wrong format''"

definition readonly_not_supported_message :: string where
  "readonly_not_supported_message = ''readonly parameter is not supported''"

definition volume_source_id_is_missing :: "string \<Rightarrow> string" where
  "volume_source_id_is_missing a0 =
     ''volume source '' @ a0 @ '' id is missing''"

definition snapshot_src_volume_id_is_missing :: string where
  "snapshot_src_volume_id_is_missing = ''snapshot source volume id is missing''"

definition parameter_length_is_too_long :: "string \<Rightarrow> string \<Rightarrow> string \<Rightarrow> string" where
  "parameter_length_is_too_long a0 a1 a2 =
     a0 @ '' parameter: '' @ a1 @ '' is too long, max length is: '' @ a2"

end
