(* ===== verification/Errors.thy ===== *)
theory Errors
  imports Messages
begin

text \<open>
  The exceptions of \<^verbatim>\<open>controller/array_action/errors.py\<close> and
  \<^verbatim>\<open>controller/controller_server/errors.py\<close>, of the built-in classes the code can raise, and of
  the third-party clients.

  An array or controller error carries the texts that its constructor inserts into its
  message.  A third-party exception is known to the program only through \<^verbatim>\<open>except\<close> clauses
  and a few attributes: it is a record of the classes it is an instance of (so no class
  hierarchy of a package is assumed) and of those attributes.  A client's call can raise
  nothing else, because third-party code cannot know the program's own exceptions.
\<close>

section \<open>Exceptions\<close>

datatype lib_class =
    Svc_CommandExecutionError | Svc_CLIFailureError
  | Svc_StorageArrayClientException | Svc_IncorrectCredentials
  | Xcli_XCLIError | Xcli_CredentialsError | Xcli_IllegalNameForObjectError
  | Xcli_IllegalValueForArgumentError | Xcli_VolumeBadNameError | Xcli_SourceVolumeBadNameError
  | Xcli_TargetVolumeBadNameError | Xcli_VolumeExistsError | Xcli_PoolDoesNotExistError
  | Xcli_HostBadNameError | Xcli_OperationForbiddenForUserCategoryError
  | Xcli_CommandFailedRuntimeError
  | Ds8k_ClientException | Ds8k_ClientError | Ds8k_Unauthorized | Ds8k_NotFound
  | Ds8k_InternalServerError

text \<open>\<open>lx_message\<close> is \<^verbatim>\<open>ex.my_message\<close>, \<^verbatim>\<open>ex.status\<close> or \<^verbatim>\<open>ex.message\<close>; \<open>lx_text\<close> is \<^verbatim>\<open>str(ex)\<close>.\<close>

record lib_exc =
  lx_mro :: "lib_class list"
  lx_message :: string
  lx_details :: string
  lx_text :: string

definition is_a :: "lib_exc \<Rightarrow> lib_class \<Rightarrow> bool" where
  "is_a l c \<longleftrightarrow> c \<in> set (lx_mro l)"

datatype py_class =
    Py_KeyError | Py_TypeError | Py_AttributeError | Py_IndexError | Py_ValueError
  | Py_UnboundLocalError | Py_NotImplementedError | Py_ConnectionError | Py_StopIteration
  | Py_Empty

datatype exc =
    NoConnectionAvailableException string
  | StorageManagementIPsNotSupportError string
  | CredentialsError string
  | UnsupportedStorageVersionError string string
  | ObjectNotFoundError string
  | VolumeNameBelongsToSnapshotError string string
  | VolumeCreationError string
  | VolumeDeletionError string
  | IllegalObjectName string
  | IllegalObjectID string
  | PoolDoesNotMatchCapabilities string string string
  | SpaceEfficiencyNotSupported string
  | VolumeAlreadyExists string string
  | PoolDoesNotExist string string
  | PoolParameterIsMissing string
  | FailedToFindStorageSystemType string
  | PermissionDeniedError string
  | MultipleHostsFoundError string string
  | HostNotFoundError string
  | NoAvailableLunError string
  | LunAlreadyInUseError string string
  | MappingError string string string
  | VolumeAlreadyUnmappedError string
  | UnmappingError string string string
  | VolumeMappedToMultipleHostsError string
  | NoIscsiTargetsFoundError string
  | UnsupportedConnectivityTypeError string
  | ExpectedSnapshotButFoundVolumeError string string
  | SnapshotAlreadyExists string string
  | SnapshotSourcePoolMismatch string string
  | ObjectIsStillInUseError string "string list"
  | InvalidCliResponseError string
  | NotEnoughSpaceInPool string
  | ValidationException string
  | ObjectIdError string string
  | PyError py_class
  | LibExc lib_exc

abbreviation KeyError :: exc where "KeyError \<equiv> PyError Py_KeyError"
abbreviation TypeError :: exc where "TypeError \<equiv> PyError Py_TypeError"
abbreviation AttributeError :: exc where "AttributeError \<equiv> PyError Py_AttributeError"
abbreviation IndexError :: exc where "IndexError \<equiv> PyError Py_IndexError"
abbreviation ValueError :: exc where "ValueError \<equiv> PyError Py_ValueError"
abbreviation UnboundLocalError :: exc where "UnboundLocalError \<equiv> PyError Py_UnboundLocalError"
abbreviation NotImplementedError :: exc where "NotImplementedError \<equiv> PyError Py_NotImplementedError"
abbreviation ConnectionError :: exc where "ConnectionError \<equiv> PyError Py_ConnectionError"
abbreviation Empty :: exc where "Empty \<equiv> PyError Py_Empty"

text \<open>\<^verbatim>\<open>isinstance(ex, InvalidArgumentError)\<close>: the class and its subclasses.\<close>

fun is_InvalidArgumentError :: "exc \<Rightarrow> bool" where
  "is_InvalidArgumentError (IllegalObjectName _) = True"
| "is_InvalidArgumentError (IllegalObjectID _) = True"
| "is_InvalidArgumentError (PoolDoesNotMatchCapabilities _ _ _) = True"
| "is_InvalidArgumentError (SpaceEfficiencyNotSupported _) = True"
| "is_InvalidArgumentError (PoolDoesNotExist _ _) = True"
| "is_InvalidArgumentError (PoolParameterIsMissing _) = True"
| "is_InvalidArgumentError (UnsupportedConnectivityTypeError _) = True"
| "is_InvalidArgumentError (ExpectedSnapshotButFoundVolumeError _ _) = True"
| "is_InvalidArgumentError _ = False"

fun is_lib :: "exc \<Rightarrow> bool" where
  "is_lib (LibExc _) = True"
| "is_lib _ = False"

text \<open>\<^verbatim>\<open>except C1, C2\<close> over third-party classes.\<close>

fun is_lib_a :: "lib_class list \<Rightarrow> exc \<Rightarrow> bool" where
  "is_lib_a cs (LibExc l) = (\<exists>c \<in> set cs. is_a l c)"
| "is_lib_a cs _ = False"

section \<open>Messages\<close>

fun object_in_use_message :: "string \<Rightarrow> string list \<Rightarrow> string" where
  "object_in_use_message id_or_name used_by =
     ObjectIsStillInUseError_message id_or_name (hd used_by) @
     (if 1 < length used_by
      then '' '' @ str_nat (length used_by - 1) @ '' more were truncated.'' else '''')"

text \<open>
  \<^verbatim>\<open>str(ex)\<close>.  The texts of the built-in exceptions are CPython's and are not modelled: \<open>None\<close>.
  (\<^verbatim>\<open>ObjectIsStillInUseError\<close> is only ever raised with a non-empty \<^verbatim>\<open>used_by\<close>.)
\<close>

fun exc_message :: "exc \<Rightarrow> string option" where
  "exc_message (NoConnectionAvailableException e) = Some (NoConnectionAvailableException_message e)"
| "exc_message (StorageManagementIPsNotSupportError e) = Some (StorageManagementIPsNotSupportError_message e)"
| "exc_message (CredentialsError e) = Some (CredentialsError_message e)"
| "exc_message (UnsupportedStorageVersionError v w) = Some (UnsupportedStorageVersionError_message v w)"
| "exc_message (ObjectNotFoundError n) = Some (ObjectNotFoundError_message n)"
| "exc_message (VolumeNameBelongsToSnapshotError v a) = Some (VolumeNameBelongsToSnapshotError_message v a)"
| "exc_message (VolumeCreationError n) = Some (VolumeCreationError_message n)"
| "exc_message (VolumeDeletionError n) = Some (VolumeDeletionError_message n)"
| "exc_message (IllegalObjectName m) = Some m"
| "exc_message (IllegalObjectID m) = Some m"
| "exc_message (PoolDoesNotMatchCapabilities p c e) = Some (PoolDoesNotMatchCapabilities_message p c e)"
| "exc_message (SpaceEfficiencyNotSupported s) = Some (SpaceEfficiencyNotSupported_message s)"
| "exc_message (VolumeAlreadyExists n a) = Some (VolumeAlreadyExists_message n a)"
| "exc_message (PoolDoesNotExist p a) = Some (PoolDoesNotExist_message p a)"
| "exc_message (PoolParameterIsMissing t) = Some (PoolParameterIsMissing_message t)"
| "exc_message (FailedToFindStorageSystemType e) = Some (FailedToFindStorageSystemType_message e)"
| "exc_message (PermissionDeniedError s) = Some (PermissionDeniedError_message s)"
| "exc_message (MultipleHostsFoundError i h) = Some (MultipleHostsFoundError_message i h)"
| "exc_message (HostNotFoundError h) = Some (HostNotFoundError_message h)"
| "exc_message (NoAvailableLunError h) = Some (NoAvailableLunError_message h)"
| "exc_message (LunAlreadyInUseError l h) = Some (LunAlreadyInUse_message l h)"
| "exc_message (MappingError v h e) = Some (MappingError_message v h e)"
| "exc_message (VolumeAlreadyUnmappedError v) = Some (VolumeAlreadyUnmapped_message v)"
| "exc_message (UnmappingError v h e) = Some (UnMappingError_message v h e)"
| "exc_message (VolumeMappedToMultipleHostsError h) = Some (VolumeMappedToMultipleHostsError_message h)"
| "exc_message (NoIscsiTargetsFoundError e) = Some (NoIscsiTargetsFoundError_message e)"
| "exc_message (UnsupportedConnectivityTypeError c) = Some (UnsupportedConnectivityTypeError_message c)"
| "exc_message (ExpectedSnapshotButFoundVolumeError n a) = Some (ExpectedSnapshotButFoundVolumeError_message n a)"
| "exc_message (SnapshotAlreadyExists n a) = Some (SnapshotAlreadyExistsError_message n a)"
| "exc_message (SnapshotSourcePoolMismatch p q) = Some (SnapshotSourcePoolMismatchError_message p q)"
| "exc_message (ObjectIsStillInUseError n us) = Some (object_in_use_message n us)"
| "exc_message (InvalidCliResponseError d) = Some (InvalidCliResponseError_message d)"
| "exc_message (NotEnoughSpaceInPool p) = Some (NotEnoughSpaceInPoolError_message p)"
| "exc_message (ValidationException m) = Some (ValidationException_message m)"
| "exc_message (ObjectIdError t i) = Some (ObjectIdError_message t i)"
| "exc_message (PyError c) = None"
| "exc_message (LibExc l) = Some (lx_text l)"

section \<open>Calls of third-party code\<close>

text \<open>A call of a client method: only \<open>lib_exc\<close> can come out of it.\<close>

type_synonym ('s, 'a) lib_call = "'s \<Rightarrow> (lib_exc + 'a) \<times> 's"

type_synonym ('s, 'a) pyprog = "(exc, 's, 'a) prog"

definition lib :: "('s, 'a) lib_call \<Rightarrow> ('s, 'a) pyprog" where
  "lib c = call LibExc c"

lemma lib_Inr: "c s = (Inr x, s') \<Longrightarrow> lib c s = (Inr x, s')"
  and lib_Inl: "c s = (Inl l, s') \<Longrightarrow> lib c s = (Inl (LibExc l), s')"
  by (simp_all add: lib_def run)

lemma run_lib [run]:
  "lib c s = (case c s of (Inl l, s') \<Rightarrow> (Inl (LibExc l), s') | (Inr x, s') \<Rightarrow> (Inr x, s'))"
  by (simp add: lib_def run)

lemma keeps_lib [keeps_rules]: "keeps P c \<Longrightarrow> keeps P (lib c)"
  unfolding lib_def by (rule keeps_call)

lemma yields_lib [spec_rules]: "(\<And>l. F (LibExc l)) \<Longrightarrow> (\<And>x. Q x) \<Longrightarrow> yields Q F (lib c)"
  unfolding lib_def by (rule yields_call)

text \<open>\<^verbatim>\<open>int(text)\<close>.\<close>

definition py_int :: "string \<Rightarrow> exc + int" where
  "py_int s = (case int_of_str s of None \<Rightarrow> Inl ValueError | Some i \<Rightarrow> Inr i)"

lemma yields_py_int [spec_rules]: "F ValueError \<Longrightarrow> (\<And>i. Q i) \<Longrightarrow> yields Q F (lift (py_int s))"
  by (auto simp: py_int_def intro: spec_rules split: option.split)

end
