(* ===== verification/ArrayTypes.thy ===== *)
theory ArrayTypes
  imports Errors
begin

text \<open>
  The data the components exchange: the constants of \<^verbatim>\<open>array_action/config.py\<close>,
  \<^verbatim>\<open>controller_server/config.py\<close> and \<^verbatim>\<open>common/settings.py\<close>, the classes of
  \<^verbatim>\<open>array_action_types.py\<close> and \<^verbatim>\<open>controller_types.py\<close>, the node's initiators, and the abstract
  class \<^verbatim>\<open>ArrayMediator\<close> as a record of its properties and methods.
\<close>

section \<open>Constants\<close>

definition ISCSI_CONNECTIVITY_TYPE :: string where "ISCSI_CONNECTIVITY_TYPE = ''iscsi''"
definition FC_CONNECTIVITY_TYPE :: string where "FC_CONNECTIVITY_TYPE = ''fc''"
definition SPACE_EFFICIENCY_THIN :: string where "SPACE_EFFICIENCY_THIN = ''thin''"
definition SPACE_EFFICIENCY_COMPRESSED :: string where "SPACE_EFFICIENCY_COMPRESSED = ''compressed''"
definition SPACE_EFFICIENCY_DEDUPLICATED :: string where "SPACE_EFFICIENCY_DEDUPLICATED = ''deduplicated''"
definition SPACE_EFFICIENCY_THICK :: string where "SPACE_EFFICIENCY_THICK = ''thick''"
definition SPACE_EFFICIENCY_NONE :: string where "SPACE_EFFICIENCY_NONE = ''none''"

definition NAME_PREFIX_SEPARATOR :: string where "NAME_PREFIX_SEPARATOR = ''_''"
definition ENDPOINTS_SEPARATOR :: string where "ENDPOINTS_SEPARATOR = '', ''"
definition CSI_CONTROLLER_SERVER_WORKERS :: nat where "CSI_CONTROLLER_SERVER_WORKERS = 10"
definition ARRAY_TYPE_XIV :: string where "ARRAY_TYPE_XIV = ''A9000''"
definition ARRAY_TYPE_SVC :: string where "ARRAY_TYPE_SVC = ''SVC''"
definition ARRAY_TYPE_DS8K :: string where "ARRAY_TYPE_DS8K = ''DS8K''"
definition ALL_ARRAY_TYPES :: "string list" where
  "ALL_ARRAY_TYPES = [ARRAY_TYPE_XIV, ARRAY_TYPE_SVC, ARRAY_TYPE_DS8K]"

definition SUPPORTED_FS_TYPES :: "string list" where "SUPPORTED_FS_TYPES = [''ext4'', ''xfs'']"

text \<open>\<^verbatim>\<open>VolumeCapability.AccessMode.SINGLE_NODE_WRITER\<close> is the enum value 1.\<close>

definition SUPPORTED_ACCESS_MODE :: "int list" where "SUPPORTED_ACCESS_MODE = [1]"

definition MAX_RESPONSE_STRING_LENGTH :: nat where "MAX_RESPONSE_STRING_LENGTH = 128"
definition VOLUME_WWN_LENGTH :: nat where "VOLUME_WWN_LENGTH = 32"
definition MAX_ARRAY_TYPE_LENGTH :: nat where
  "MAX_ARRAY_TYPE_LENGTH = Max (set (map length ALL_ARRAY_TYPES))"
definition NUMBER_OF_DELIMITERS_IN_VOLUME_ID :: nat where "NUMBER_OF_DELIMITERS_IN_VOLUME_ID = 2"
definition SECRET_SYSTEM_ID_MAX_LENGTH :: nat where
  "SECRET_SYSTEM_ID_MAX_LENGTH =
     MAX_RESPONSE_STRING_LENGTH - VOLUME_WWN_LENGTH - MAX_ARRAY_TYPE_LENGTH -
     NUMBER_OF_DELIMITERS_IN_VOLUME_ID"
definition SECRET_VALIDATION_REGEX :: string where
  "SECRET_VALIDATION_REGEX = ''^[a-zA-Z0-9][a-zA-Z0-9-_.]*[a-zA-Z0-9]$''"

definition SECRET_USERNAME_PARAMETER :: string where "SECRET_USERNAME_PARAMETER = ''username''"
definition SECRET_PASSWORD_PARAMETER :: string where "SECRET_PASSWORD_PARAMETER = ''password''"
definition SECRET_ARRAY_PARAMETER :: string where "SECRET_ARRAY_PARAMETER = ''management_address''"
definition SECRET_CONFIG_PARAMETER :: string where "SECRET_CONFIG_PARAMETER = ''config''"
definition SECRET_SUPPORTED_TOPOLOGIES_PARAMETER :: string where
  "SECRET_SUPPORTED_TOPOLOGIES_PARAMETER = ''supported_topologies''"

definition PARAMETERS_POOL :: string where "PARAMETERS_POOL = ''pool''"
definition PARAMETERS_BY_SYSTEM :: string where "PARAMETERS_BY_SYSTEM = ''by_system_id''"
definition PARAMETERS_SPACE_EFFICIENCY :: string where "PARAMETERS_SPACE_EFFICIENCY = ''SpaceEfficiency''"
definition PARAMETERS_VOLUME_NAME_PREFIX :: string where
  "PARAMETERS_VOLUME_NAME_PREFIX = ''volume_name_prefix''"
definition PARAMETERS_SNAPSHOT_NAME_PREFIX :: string where
  "PARAMETERS_SNAPSHOT_NAME_PREFIX = ''snapshot_name_prefix''"
definition PARAMETERS_OBJECT_ID_DELIMITER :: char where "PARAMETERS_OBJECT_ID_DELIMITER = CHR '':''"
definition PARAMETERS_NODE_ID_DELIMITER :: char where "PARAMETERS_NODE_ID_DELIMITER = CHR '';''"
definition PARAMETERS_FC_WWN_DELIMITER :: char where "PARAMETERS_FC_WWN_DELIMITER = CHR '':''"
definition PARAMETERS_ARRAY_ADDRESSES_DELIMITER :: char where
  "PARAMETERS_ARRAY_ADDRESSES_DELIMITER = CHR '',''"
definition SUPPORTED_CONNECTIVITY_TYPES :: nat where "SUPPORTED_CONNECTIVITY_TYPES = 2"
definition MINIMUM_VOLUME_ID_PARTS :: nat where "MINIMUM_VOLUME_ID_PARTS = 2"
definition MAXIMUM_VOLUME_ID_PARTS :: nat where "MAXIMUM_VOLUME_ID_PARTS = 3"

text \<open>\<^verbatim>\<open>SNAPSHOT_TYPE_NAME\<close> and \<^verbatim>\<open>VOLUME_TYPE_NAME\<close>, with the text they stand for.\<close>

datatype object_type = SNAPSHOT_TYPE | VOLUME_TYPE

fun type_name :: "object_type \<Rightarrow> string" where
  "type_name SNAPSHOT_TYPE = ''snapshot''"
| "type_name VOLUME_TYPE = ''volume''"

lemmas array_type_defs =
  ARRAY_TYPE_XIV_def ARRAY_TYPE_SVC_def ARRAY_TYPE_DS8K_def ALL_ARRAY_TYPES_def

lemma SECRET_SYSTEM_ID_MAX_LENGTH_eq: "SECRET_SYSTEM_ID_MAX_LENGTH = 89"
  by (simp add: SECRET_SYSTEM_ID_MAX_LENGTH_def MAX_RESPONSE_STRING_LENGTH_def
      VOLUME_WWN_LENGTH_def MAX_ARRAY_TYPE_LENGTH_def NUMBER_OF_DELIMITERS_IN_VOLUME_ID_def
      array_type_defs)

section \<open>Objects of an array\<close>

text \<open>
  \<^verbatim>\<open>array_address\<close> is a string for SVC and DS8K and the list of endpoints for XIV; a LUN is
  a string for SVC and for fresh XIV mappings and an integer for DS8K.
\<close>

datatype address = Addr string | AddrList "string list"

fun address_str :: "address \<Rightarrow> string" where
  "address_str (Addr a) = a"
| "address_str (AddrList as) = str_list as"

datatype lun = LunStr string | LunInt int

fun lun_str :: "lun \<Rightarrow> string" where
  "lun_str (LunStr s) = s"
| "lun_str (LunInt i) = str_int i"

fun lun_repr :: "lun \<Rightarrow> string" where
  "lun_repr (LunStr s) = repr_str s"
| "lun_repr (LunInt i) = str_int i"

text \<open>\<^verbatim>\<open>str\<close> of a mapping dictionary, as the error message shows it.\<close>

definition mappings_str :: "(string, lun) dict \<Rightarrow> string" where
  "mappings_str d =
     ''{'' @ join '', '' (map (\<lambda>(h, l). repr_str h @ '': '' @ lun_repr l) d) @ ''}''"

record volume =
  vol_capacity_bytes :: int
  vol_id :: string
  vol_name :: string
  vol_array_address :: address
  vol_pool :: string
  vol_copy_source_id :: "string option"
  vol_array_type :: string

record snapshot =
  snap_capacity_bytes :: int
  snap_id :: string
  snap_name :: string
  snap_array_address :: address
  snap_source_volume_id :: "string option"
  snap_is_ready :: bool
  snap_array_type :: string

record host =
  h_id :: "string option"
  h_name :: "string option"
  h_iscsi_names :: "string list"
  h_wwns :: "string list"

datatype array_object = VolumeObject volume | SnapshotObject snapshot

fun object_capacity :: "array_object \<Rightarrow> int" where
  "object_capacity (VolumeObject v) = vol_capacity_bytes v"
| "object_capacity (SnapshotObject s) = snap_capacity_bytes s"

fun object_array_type :: "array_object \<Rightarrow> string" where
  "object_array_type (VolumeObject v) = vol_array_type v"
| "object_array_type (SnapshotObject s) = snap_array_type s"

section \<open>The node's initiators\<close>

record initiators =
  ini_iscsi_iqn :: string
  ini_fc_wwns :: "string list"

definition is_array_wwns_match :: "initiators \<Rightarrow> string list \<Rightarrow> bool" where
  "is_array_wwns_match i wwns \<longleftrightarrow>
     (\<exists>w \<in> set (map lower (ini_fc_wwns i)). w \<in> set (map lower wwns))"

definition is_array_iscsi_iqns_match :: "initiators \<Rightarrow> string list \<Rightarrow> bool" where
  "is_array_iscsi_iqns_match i iqns \<longleftrightarrow> lower (ini_iscsi_iqn i) \<in> set (map lower iqns)"

definition initiators_str :: "initiators \<Rightarrow> string" where
  "initiators_str i = ''iscsi_iqn: '' @ ini_iscsi_iqn i @ '', fc_wwns: '' @ join '','' (ini_fc_wwns i)"

section \<open>The mediator interface\<close>

text \<open>
  \<^verbatim>\<open>ArrayMediator\<close>: the class properties of a storage type and its operations on one
  connection.  \<^verbatim>\<open>create_volume\<close> can return \<^verbatim>\<open>None\<close> (the XIV mediator does).
\<close>

record 's mediator =
  array_type :: string
  port :: int
  max_object_name_length :: nat
  max_object_prefix_length :: nat
  max_connections :: nat
  minimal_volume_size_in_bytes :: int
  maximal_volume_size_in_bytes :: int
  max_lun_retries :: nat
  default_object_prefix :: "string option"
  disconnect :: "('s, unit) pyprog"
  is_active :: "('s, bool) pyprog"
  create_volume :: "string \<Rightarrow> int \<Rightarrow> string option \<Rightarrow> string \<Rightarrow> ('s, volume option) pyprog"
  copy_to_existing_volume_from_source :: "string \<Rightarrow> string \<Rightarrow> int \<Rightarrow> int \<Rightarrow> ('s, unit) pyprog"
  delete_volume :: "string \<Rightarrow> ('s, unit) pyprog"
  get_volume :: "string \<Rightarrow> string option \<Rightarrow> ('s, volume) pyprog"
  expand_volume :: "string \<Rightarrow> int \<Rightarrow> ('s, unit) pyprog"
  get_volume_mappings :: "string \<Rightarrow> ('s, (string, lun) dict) pyprog"
  map_volume :: "string \<Rightarrow> string \<Rightarrow> ('s, lun) pyprog"
  unmap_volume :: "string \<Rightarrow> string \<Rightarrow> ('s, unit) pyprog"
  get_snapshot :: "string \<Rightarrow> string \<Rightarrow> string option \<Rightarrow> ('s, snapshot option) pyprog"
  get_object_by_id :: "string \<Rightarrow> object_type \<Rightarrow> ('s, array_object option) pyprog"
  create_snapshot :: "string \<Rightarrow> string \<Rightarrow> string option \<Rightarrow> ('s, snapshot) pyprog"
  delete_snapshot :: "string \<Rightarrow> ('s, unit) pyprog"
  get_iscsi_targets_by_iqn :: "('s, (string, string list) dict) pyprog"
  get_array_fc_wwns :: "string \<Rightarrow> ('s, string list) pyprog"
  get_host_by_host_identifiers :: "initiators \<Rightarrow> ('s, string \<times> string list) pyprog"
  validate_supported_space_efficiency :: "string option \<Rightarrow> ('s, unit) pyprog"

end
