(* ===== verification/PyJson.thy ===== *)
theory PyJson
  imports ArrayTypes
begin

text \<open>
  The values \<^verbatim>\<open>json.loads\<close> returns and the Python operations the controller applies to them
  without knowing their type, each with the exception it raises on a value of another type.
  Python's \<^verbatim>\<open>None\<close> is \<open>JNull\<close>.  The decoder itself is a parameter of the definitions that use
  it: \<open>Inl\<close> is the text of its \<^verbatim>\<open>JSONDecodeError\<close>, \<open>Inr\<close> the decoded document, and an object is
  a dictionary, so its keys are distinct.
\<close>

datatype json =
    JNull
  | JBool bool
  | JInt int
  | JFloat string
  | JStr string
  | JArr "json list"
  | JObj "(string \<times> json) list"

type_synonym json_decoder = "string \<Rightarrow> string + json"

fun json_truthy :: "json \<Rightarrow> bool" where
  "json_truthy JNull = False"
| "json_truthy (JBool b) = b"
| "json_truthy (JInt i) = (i \<noteq> 0)"
| "json_truthy (JFloat t) = (t \<noteq> ''0.0'' \<and> t \<noteq> ''-0.0'')"
| "json_truthy (JStr s) = (s \<noteq> [])"
| "json_truthy (JArr xs) = (xs \<noteq> [])"
| "json_truthy (JObj d) = (d \<noteq> [])"

text \<open>\<^verbatim>\<open>x.get(k, dflt)\<close>, \<^verbatim>\<open>x[k]\<close>, \<^verbatim>\<open>k in x\<close>, \<^verbatim>\<open>x.items()\<close>, iteration and \<^verbatim>\<open>x.split(c)\<close>.\<close>

fun py_get :: "json \<Rightarrow> string \<Rightarrow> json \<Rightarrow> exc + json" where
  "py_get (JObj d) k dflt = Inr (dict_get d k dflt)"
| "py_get _ k dflt = Inl AttributeError"

fun py_getitem :: "json \<Rightarrow> string \<Rightarrow> exc + json" where
  "py_getitem (JObj d) k = (case map_of d k of None \<Rightarrow> Inl KeyError | Some v \<Rightarrow> Inr v)"
| "py_getitem _ k = Inl TypeError"

fun py_in :: "string \<Rightarrow> json \<Rightarrow> exc + bool" where
  "py_in k (JObj d) = Inr (has_key d k)"
| "py_in k (JArr xs) = Inr (JStr k \<in> set xs)"
| "py_in k (JStr s) = Inr (contains k s)"
| "py_in k _ = Inl TypeError"

fun py_items :: "json \<Rightarrow> exc + (string, json) dict" where
  "py_items (JObj d) = Inr d"
| "py_items _ = Inl AttributeError"

fun py_iter :: "json \<Rightarrow> exc + json list" where
  "py_iter (JArr xs) = Inr xs"
| "py_iter (JObj d) = Inr (map (JStr \<circ> fst) d)"
| "py_iter (JStr s) = Inr (map (\<lambda>c. JStr [c]) s)"
| "py_iter _ = Inl TypeError"

fun py_split :: "json \<Rightarrow> char \<Rightarrow> exc + string list" where
  "py_split (JStr s) c = Inr (split_on c s)"
| "py_split _ c = Inl AttributeError"

text \<open>A dictionary of strings (a protobuf map) seen as such a value.\<close>

definition json_of_dict :: "(string, string) dict \<Rightarrow> json" where
  "json_of_dict d = JObj (map (\<lambda>(k, v). (k, JStr v)) d)"

lemma map_of_map_JStr:
  "map_of (map (\<lambda>(k, v). (k, JStr v)) d) k = map_option JStr (map_of d k)"
  by (induction d) auto

lemma py_getitem_dict:
  "py_getitem (json_of_dict d) k = (case map_of d k of None \<Rightarrow> Inl KeyError | Some v \<Rightarrow> Inr (JStr v))"
  by (simp add: json_of_dict_def map_of_map_JStr split: option.split)

lemma py_in_dict: "py_in k (json_of_dict d) = Inr (has_key d k)"
  by (simp add: json_of_dict_def has_key_def map_of_map_JStr)

text \<open>An optional string, with \<^verbatim>\<open>None\<close> as \<open>JNull\<close>.\<close>

definition json_of_option :: "string option \<Rightarrow> json" where
  "json_of_option x = (case x of None \<Rightarrow> JNull | Some s \<Rightarrow> JStr s)"

fun_cases py_get_InrE: "py_get j k d = Inr v"
fun_cases py_getitem_InrE: "py_getitem j k = Inr v"
fun_cases py_in_InrE: "py_in k j = Inr b"
fun_cases py_items_InrE: "py_items j = Inr d"
fun_cases py_iter_InrE: "py_iter j = Inr xs"

end
