(* ===== verification/Transition.thy ===== *)
theory Transition
  imports Main
begin

text \<open>
  Transition systems for the parts of the controller that several request threads share: the
  connection pool and the connection manager.  A component gives the initial states, the step
  relation of its threads and an invariant; the locale gives the invariant of the reachable
  states, once.
\<close>

inductive reachable :: "('c \<Rightarrow> bool) \<Rightarrow> ('c \<Rightarrow> 'c \<Rightarrow> bool) \<Rightarrow> 'c \<Rightarrow> bool"
  for init :: "'c \<Rightarrow> bool" and step :: "'c \<Rightarrow> 'c \<Rightarrow> bool"
where
  start: "init c \<Longrightarrow> reachable init step c"
| next_state: "reachable init step c \<Longrightarrow> step c c' \<Longrightarrow> reachable init step c'"

locale invariant_system =
  fixes init :: "'c \<Rightarrow> bool"
    and step :: "'c \<Rightarrow> 'c \<Rightarrow> bool"
    and inv :: "'c \<Rightarrow> bool"
  assumes init_inv: "init c \<Longrightarrow> inv c"
    and step_inv: "inv c \<Longrightarrow> step c c' \<Longrightarrow> inv c'"
begin

lemma reachable_inv: "reachable init step c \<Longrightarrow> inv c"
  by (induction rule: reachable.induct) (auto intro: init_inv step_inv)

lemma steps_inv: "step\<^sup>*\<^sup>* c c' \<Longrightarrow> inv c \<Longrightarrow> inv c'"
  by (induction rule: rtranclp_induct) (auto intro: step_inv)

end

text \<open>A system whose invariant bounds a counter from above.\<close>

locale bounded_system = invariant_system +
  fixes count :: "'a \<Rightarrow> int" and limit :: "'a \<Rightarrow> int"
  assumes inv_bound: "inv c \<Longrightarrow> count c \<le> limit c"
begin

lemma reachable_bound: "reachable init step c \<Longrightarrow> count c \<le> limit c"
  by (rule inv_bound) (rule reachable_inv)

end

lemma reachable_steps: "step\<^sup>*\<^sup>* c c' \<Longrightarrow> reachable init step c \<Longrightarrow> reachable init step c'"
  by (induction rule: rtranclp_induct) (auto intro: next_state)

end
