(* ===== verification/Pool.thy ===== *)
theory Pool
  imports PyJson Transition
begin

text \<open>
  \<^verbatim>\<open>array_connection_pool.py\<close>: the pool of connections of a storage agent.

  The atomic actions on the shared state come first: the calls of the queue, which is a
  \<^verbatim>\<open>queue.Queue\<close>, and the blocks under \<^verbatim>\<open>with self.lock\<close>.  \<open>get\<close> and \<open>put\<close> are built from
  them, as the program of one thread; and a step relation interleaves them for any number
  of threads, with the outcomes of the mediator's own operations left open.
\<close>

section \<open>The shared state and its atomic actions\<close>

record 'i pool =
  pl_endpoints :: "string list"
  pl_username :: json
  pl_password :: json
  pl_endpoint_key :: string
  current_size :: int
  max_size :: int
  channel :: "'i list"

text \<open>\<^verbatim>\<open>Queue(max_size)\<close>: a size that is not positive is no bound.\<close>

definition queue_full :: "'i pool \<Rightarrow> bool" where
  "queue_full p \<longleftrightarrow> 0 < max_size p \<and> max_size p \<le> int (length (channel p))"

text \<open>\<^verbatim>\<open>channel.get(block=False)\<close>: \<open>None\<close> is \<^verbatim>\<open>Empty\<close>.\<close>

definition channel_get :: "'i pool \<Rightarrow> ('i \<times> 'i pool) option" where
  "channel_get p = (case channel p of [] \<Rightarrow> None | i # is \<Rightarrow> Some (i, p\<lparr>channel := is\<rparr>))"

text \<open>\<^verbatim>\<open>channel.put(item, block=False)\<close>: \<open>None\<close> is \<^verbatim>\<open>Full\<close>.\<close>

definition channel_put :: "'i \<Rightarrow> 'i pool \<Rightarrow> 'i pool option" where
  "channel_put i p = (if queue_full p then None else Some (p\<lparr>channel := channel p @ [i]\<rparr>))"

definition release_slot :: "'i pool \<Rightarrow> 'i pool" where
  "release_slot p = p\<lparr>current_size := current_size p - 1\<rparr>"

text \<open>The reservation in \<^verbatim>\<open>get\<close>: whether the pool is full, and a slot taken when it is not.\<close>

definition reserve_slot :: "'i pool \<Rightarrow> bool \<times> 'i pool" where
  "reserve_slot p =
     (let is_full = max_size p \<le> current_size p in
      (is_full, if is_full then p else p\<lparr>current_size := current_size p + 1\<rparr>))"

text \<open>The test in \<^verbatim>\<open>put\<close>: whether the item is to be discarded, and its slot given up then.\<close>

definition check_discard :: "'i pool \<Rightarrow> bool \<times> 'i pool" where
  "check_discard p =
     (let discard = max_size p < current_size p in (discard, if discard then release_slot p else p))"

section \<open>The operations, for one thread\<close>

text \<open>
  A program over a pool and the world of its mediators; a mediator's operation leaves the
  pool alone.
\<close>

definition on_world :: "('s, 'a) pyprog \<Rightarrow> ('p \<times> 's, 'a) pyprog" where
  "on_world m = (\<lambda>(p, s). case m s of (r, s') \<Rightarrow> (r, (p, s')))"

definition on_pool :: "('p \<Rightarrow> 'a \<times> 'p) \<Rightarrow> ('p \<times> 's, 'a) pyprog" where
  "on_pool f = (\<lambda>(p, s). case f p of (x, p') \<Rightarrow> (Inr x, (p', s)))"

text \<open>The loop of \<^verbatim>\<open>get\<close>: the first free connection that is active, or \<open>None\<close> at \<^verbatim>\<open>break\<close>.\<close>

function take_active ::
  "('i \<Rightarrow> ('s, bool) pyprog) \<Rightarrow> ('i \<Rightarrow> ('s, unit) pyprog) \<Rightarrow> 'i pool \<times> 's
   \<Rightarrow> (exc + 'i option) \<times> ('i pool \<times> 's)" where
  "take_active active disc (p, s) =
     (case channel_get p of
        None \<Rightarrow> (Inr None, (p, s))
      | Some (item, p1) \<Rightarrow>
          (case active item s of
             (Inl e, s1) \<Rightarrow> if e = Empty then (Inr None, (p1, s1)) else (Inl e, (p1, s1))
           | (Inr True, s1) \<Rightarrow> (Inr (Some item), (p1, s1))
           | (Inr False, s1) \<Rightarrow> take_active active disc (release_slot p1, snd (disc item s1))))"
  by pat_completeness auto
termination
  by (relation "measure (\<lambda>(_, _, p, _). length (channel p))")
    (auto simp: channel_get_def release_slot_def split: list.split_asm)

declare take_active.simps [simp del]

text \<open>
  \<^verbatim>\<open>get(block, timeout)\<close>.  The blocking call of the queue at its end returns when another
  thread puts an item, or raises \<^verbatim>\<open>Empty\<close> at a timeout: the parameter \<open>wait\<close>.
\<close>

definition pool_get ::
  "('i \<Rightarrow> ('s, bool) pyprog) \<Rightarrow> ('i \<Rightarrow> ('s, unit) pyprog)
   \<Rightarrow> (json \<Rightarrow> json \<Rightarrow> string list \<Rightarrow> ('s, 'i) pyprog)
   \<Rightarrow> ('i pool \<times> 's, 'i) pyprog \<Rightarrow> ('i pool \<times> 's, 'i) pyprog" where
  "pool_get active disc med_class wait =
     bnd (take_active active disc) (\<lambda>found.
       case found of
         Some item \<Rightarrow> ret item
       | None \<Rightarrow>
           bnd (on_pool reserve_slot) (\<lambda>is_full.
             if \<not> is_full then
               bnd (on_pool (\<lambda>p. (p, p))) (\<lambda>p.
                 try_except
                   (on_world (med_class (pl_username p) (pl_password p) (pl_endpoints p)))
                   (\<lambda>e. bnd (on_pool (\<lambda>p. ((), release_slot p))) (\<lambda>_. raise e)))
             else wait))"

definition pool_put :: "('i \<Rightarrow> ('s, unit) pyprog) \<Rightarrow> 'i \<Rightarrow> ('i pool \<times> 's, unit) pyprog" where
  "pool_put disc item =
     bnd (on_pool check_discard) (\<lambda>discard.
     bnd (if \<not> discard then
            on_pool (\<lambda>p. case channel_put item p of None \<Rightarrow> (True, p) | Some p' \<Rightarrow> (False, p'))
          else ret True) (\<lambda>discard.
       if discard then try_except (on_world (disc item)) (\<lambda>_. ret ()) else ret ()))"

text \<open>\<^verbatim>\<open>ConnectionPool(...)\<close>: the empty pool, then \<open>min_size\<close> times \<^verbatim>\<open>self.put(self.get())\<close>.\<close>

definition empty_pool :: "string list \<Rightarrow> json \<Rightarrow> json \<Rightarrow> int \<Rightarrow> 'i pool" where
  "empty_pool endpoints username password mx =
     \<lparr>pl_endpoints = endpoints, pl_username = username, pl_password = password,
      pl_endpoint_key = join ENDPOINTS_SEPARATOR endpoints, current_size = 0, max_size = mx,
      channel = []\<rparr>"

definition ConnectionPool ::
  "('i \<Rightarrow> ('s, bool) pyprog) \<Rightarrow> ('i \<Rightarrow> ('s, unit) pyprog)
   \<Rightarrow> (json \<Rightarrow> json \<Rightarrow> string list \<Rightarrow> ('s, 'i) pyprog)
   \<Rightarrow> ('i pool \<times> 's, 'i) pyprog
   \<Rightarrow> string list \<Rightarrow> json \<Rightarrow> json \<Rightarrow> nat \<Rightarrow> int \<Rightarrow> ('s, 'i pool) pyprog" where
  "ConnectionPool active disc med_class wait endpoints username password min_size mx =
     (\<lambda>s. case for_each (\<lambda>_. bnd (pool_get active disc med_class wait) (pool_put disc))
              (replicate min_size ()) (empty_pool endpoints username password mx, s) of
        (Inl e, (p, s')) \<Rightarrow> (Inl e, s')
      | (Inr _, (p, s')) \<Rightarrow> (Inr p, s'))"

end
