(* ===== verification/PoolThreads.thy ===== *)
theory PoolThreads
  imports Pool
begin

text \<open>
  The connection pool under any number of threads.  A call is one thread's
  \<^verbatim>\<open>with agent.get_mediator()\<close>: \<^verbatim>\<open>get\<close>, the use of the connection, \<^verbatim>\<open>put\<close>; its state is the place
  between two atomic actions of \<^verbatim>\<open>array_connection_pool.py\<close> that it has reached.  Connections
  are numbered in the order of their creation, as objects with an identity of their own.  What
  \<^verbatim>\<open>is_active\<close>, \<^verbatim>\<open>disconnect\<close> and the mediator's constructor do is left open.
\<close>

section \<open>Calls and their steps\<close>

datatype call_state =
    Starting          \<comment> \<open>at the head of the loop of \<open>get\<close>\<close>
  | Checking nat      \<comment> \<open>took a connection, \<open>is_active\<close> under way\<close>
  | Stale nat         \<comment> \<open>the connection is not active\<close>
  | Closing nat       \<comment> \<open>gave its slot up, \<open>disconnect\<close> under way\<close>
  | Reserving         \<comment> \<open>found the queue empty\<close>
  | Creating          \<comment> \<open>has a slot, the constructor under way\<close>
  | CreateFailed      \<comment> \<open>the constructor raised\<close>
  | Waiting           \<comment> \<open>in the blocking \<open>channel.get\<close> at the end\<close>
  | Holding nat       \<comment> \<open>\<open>get\<close> returned: the connection is in use\<close>
  | Failed            \<comment> \<open>\<open>get\<close> raised\<close>
  | Leaked nat        \<comment> \<open>\<open>is_active\<close> raised, and with it \<open>get\<close>\<close>
  | Putting nat       \<comment> \<open>at the start of \<open>put\<close>\<close>
  | Enqueuing nat     \<comment> \<open>at \<open>channel.put\<close>\<close>
  | Discarding nat    \<comment> \<open>at the \<open>disconnect\<close> of \<open>put\<close>\<close>
  | Finished

inductive local_step ::
  "bool \<Rightarrow> nat pool \<times> nat \<times> call_state \<Rightarrow> nat pool \<times> nat \<times> call_state \<Rightarrow> bool"
  for timed :: bool
where
  take_item: "channel_get p = Some (i, p') \<Longrightarrow> local_step timed (p, n, Starting) (p', n, Checking i)"
| none_free: "channel_get p = None \<Longrightarrow> local_step timed (p, n, Starting) (p, n, Reserving)"
| active: "local_step timed (p, n, Checking i) (p, n, Holding i)"
| inactive: "local_step timed (p, n, Checking i) (p, n, Stale i)"
| check_raises: "local_step timed (p, n, Checking i) (p, n, Leaked i)"
| drop_slot: "local_step timed (p, n, Stale i) (release_slot p, n, Closing i)"
| closed: "local_step timed (p, n, Closing i) (p, n, Starting)"
| reserved: "reserve_slot p = (False, p') \<Longrightarrow> local_step timed (p, n, Reserving) (p', n, Creating)"
| full: "reserve_slot p = (True, p') \<Longrightarrow> local_step timed (p, n, Reserving) (p', n, Waiting)"
| created: "local_step timed (p, n, Creating) (p, Suc n, Holding n)"
| create_raises: "local_step timed (p, n, Creating) (p, n, CreateFailed)"
| give_up: "local_step timed (p, n, CreateFailed) (release_slot p, n, Failed)"
| wake: "channel_get p = Some (i, p') \<Longrightarrow> local_step timed (p, n, Waiting) (p', n, Holding i)"
| time_out: "timed \<Longrightarrow> channel_get p = None \<Longrightarrow> local_step timed (p, n, Waiting) (p, n, Failed)"
| give_back: "local_step timed (p, n, Holding i) (p, n, Putting i)"
| keep: "check_discard p = (False, p') \<Longrightarrow> local_step timed (p, n, Putting i) (p', n, Enqueuing i)"
| discard: "check_discard p = (True, p') \<Longrightarrow> local_step timed (p, n, Putting i) (p', n, Discarding i)"
| enqueued: "channel_put i p = Some p' \<Longrightarrow> local_step timed (p, n, Enqueuing i) (p', n, Finished)"
| overflow: "channel_put i p = None \<Longrightarrow> local_step timed (p, n, Enqueuing i) (p, n, Discarding i)"
| discarded: "local_step timed (p, n, Discarding i) (p, n, Finished)"

inductive_simps local_step_Waiting: "local_step timed (p, n, Waiting) c"
inductive_simps local_step_Enqueuing: "local_step timed (p, n, Enqueuing i) c"
inductive_simps local_step_Failed: "local_step timed (p, n, Failed) c"
inductive_simps local_step_Finished: "local_step timed (p, n, Finished) c"
inductive_cases local_stepE: "local_step timed (p, n, cs) (p', n', cs')"

record pool_system =
  sys_pool :: "nat pool"
  sys_created :: nat
  sys_calls :: "call_state list"

text \<open>One call takes a step, or a new call begins; \<open>timed k\<close>: call \<open>k\<close> passes a timeout.\<close>

inductive pool_step :: "(nat \<Rightarrow> bool) \<Rightarrow> pool_system \<Rightarrow> pool_system \<Rightarrow> bool"
  for timed :: "nat \<Rightarrow> bool"
where
  run: "k < length (sys_calls c) \<Longrightarrow>
     local_step (timed k) (sys_pool c, sys_created c, sys_calls c ! k) (p', n', cs') \<Longrightarrow>
     pool_step timed c
       \<lparr>sys_pool = p', sys_created = n', sys_calls = (sys_calls c)[k := cs']\<rparr>"
| begin_call: "pool_step timed c (c\<lparr>sys_calls := sys_calls c @ [Starting]\<rparr>)"

definition pool_init :: "int \<Rightarrow> pool_system \<Rightarrow> bool" where
  "pool_init mx c \<longleftrightarrow>
     0 \<le> mx \<and> (\<exists>endpoints username password. sys_pool c = empty_pool endpoints username password mx) \<and>
     sys_created c = 0 \<and> sys_calls c = []"

section \<open>The invariant\<close>

text \<open>
  The slots of \<^verbatim>\<open>current_size\<close> a call accounts for: those of a connection that it has, or is making,
  between taking it or reserving its slot and giving it up (\<open>occupied\<close>), and that of a call which
  has ended with an exception of \<^verbatim>\<open>is_active\<close> and never gives its slot up (\<open>leaked\<close>).
\<close>

fun occupied :: "call_state \<Rightarrow> nat" where
  "occupied (Checking _) = 1" | "occupied (Stale _) = 1" | "occupied Creating = 1"
| "occupied CreateFailed = 1" | "occupied (Holding _) = 1"
| "occupied (Putting _) = 1" | "occupied (Enqueuing _) = 1" | "occupied _ = 0"

fun leaked :: "call_state \<Rightarrow> nat" where
  "leaked (Leaked _) = 1"
| "leaked _ = 0"

definition slots :: "call_state \<Rightarrow> nat" where
  "slots cs = occupied cs + leaked cs"

lemma slots_simps [simp]:
  "slots (Checking i) = 1" "slots (Stale i) = 1" "slots Creating = 1"
  "slots CreateFailed = 1" "slots (Holding i) = 1" "slots (Leaked i) = 1"
  "slots (Putting i) = 1" "slots (Enqueuing i) = 1"
  "slots Starting = 0" "slots (Closing i) = 0" "slots Reserving = 0" "slots Waiting = 0"
  "slots Failed = 0" "slots (Discarding i) = 0" "slots Finished = 0"
  by (simp_all add: slots_def)

lemma leaked_zero: "leaked cs = 0 \<longleftrightarrow> (\<forall>i. cs \<noteq> Leaked i)"
  by (cases cs) simp_all

text \<open>The connection in the hands of a call.\<close>

fun has_item :: "nat \<Rightarrow> call_state \<Rightarrow> nat" where
  "has_item i (Checking j) = (if i = j then 1 else 0)"
| "has_item i (Stale j) = (if i = j then 1 else 0)"
| "has_item i (Closing j) = (if i = j then 1 else 0)"
| "has_item i (Holding j) = (if i = j then 1 else 0)"
| "has_item i (Leaked j) = (if i = j then 1 else 0)"
| "has_item i (Putting j) = (if i = j then 1 else 0)"
| "has_item i (Enqueuing j) = (if i = j then 1 else 0)"
| "has_item i (Discarding j) = (if i = j then 1 else 0)"
| "has_item i _ = 0"

fun is_discarding :: "call_state \<Rightarrow> bool" where
  "is_discarding (Discarding _) = True"
| "is_discarding _ = False"

definition total :: "('c \<Rightarrow> nat) \<Rightarrow> 'c list \<Rightarrow> nat" where
  "total f cs = sum_list (map f cs)"

lemma total_simps [simp]:
  "total f [] = 0"
  "total f (cs @ [c]) = total f cs + f c"
  by (simp_all add: total_def)

lemma total_update: "k < length cs \<Longrightarrow> total f (cs[k := c]) + f (cs ! k) = total f cs + f c"
  unfolding total_def by (induction cs arbitrary: k) (auto split: nat.split)

lemma total_slots: "total slots cs = total occupied cs + total leaked cs"
  by (induction cs) (simp_all add: total_def slots_def)

lemma total_nth: "total f cs = (\<Sum>i<length cs. f (cs ! i))"
  by (simp add: total_def sum_list_sum_nth atLeast0LessThan)

lemma total_two:
  assumes "j < length cs" "k < length cs" "j \<noteq> k"
  shows "f (cs ! j) + f (cs ! k) \<le> total f cs"
proof -
  have "(\<Sum>i\<in>{j, k}. f (cs ! i)) \<le> (\<Sum>i<length cs. f (cs ! i))"
    using assms by (intro sum_mono2) auto
  then show ?thesis using assms(3) by (simp add: total_nth)
qed

lemma total_member: "k < length cs \<Longrightarrow> f (cs ! k) \<le> total f cs"
  unfolding total_nth by (rule member_le_sum [of k "{..<length cs}" "\<lambda>i. f (cs ! i)"]) auto

text \<open>How many times a connection occurs, in the queue or in the hands of a call.\<close>

definition holders :: "pool_system \<Rightarrow> nat \<Rightarrow> nat" where
  "holders c i = count_list (channel (sys_pool c)) i + total (has_item i) (sys_calls c)"

definition accounted :: "int \<Rightarrow> pool_system \<Rightarrow> bool" where
  "accounted mx c \<longleftrightarrow>
     max_size (sys_pool c) = mx \<and>
     current_size (sys_pool c) = int (length (channel (sys_pool c)) + total slots (sys_calls c)) \<and>
     current_size (sys_pool c) \<le> mx"

definition exclusive :: "pool_system \<Rightarrow> bool" where
  "exclusive c \<longleftrightarrow> (\<forall>i. holders c i \<le> (if i < sys_created c then 1 else 0))"

definition pool_inv :: "int \<Rightarrow> pool_system \<Rightarrow> bool" where
  "pool_inv mx c \<longleftrightarrow> accounted mx c \<and> exclusive c \<and> (\<forall>cs \<in> set (sys_calls c). \<not> is_discarding cs)"

lemmas pool_actions =
  channel_get_def channel_put_def queue_full_def release_slot_def reserve_slot_def check_discard_def

lemma local_step_slots:
  "local_step timed (p, n, cs) (p', n', cs') \<Longrightarrow> \<not> is_discarding cs' \<Longrightarrow>
   max_size p' = max_size p \<and>
   current_size p' - int (length (channel p')) - int (slots cs') =
   current_size p - int (length (channel p)) - int (slots cs)"
  by (cases rule: local_step.cases, assumption)
    (auto simp: pool_actions Let_def split: list.split_asm if_splits)

lemma local_step_items:
  "local_step timed (p, n, cs) (p', n', cs') \<Longrightarrow>
   (n' = n \<or> n' = Suc n) \<and>
   count_list (channel p') i + has_item i cs' \<le>
     count_list (channel p) i + has_item i cs + (if n' = Suc n \<and> i = n then 1 else 0)"
  by (cases rule: local_step.cases, assumption)
    (auto simp: pool_actions Let_def count_list_append split: list.split_asm if_splits)

text \<open>Where the sizes are accounted for, \<open>put\<close> keeps the connection and finds room for it.\<close>

lemma no_discard:
  assumes "accounted mx c" and "k < length (sys_calls c)"
    and "\<not> is_discarding (sys_calls c ! k)"
    and "local_step timed (sys_pool c, sys_created c, sys_calls c ! k) (p', n', cs')"
  shows "\<not> is_discarding cs'"
  using assms(4)
proof (cases rule: local_step.cases)
  case (discard i)
  then show ?thesis
    using assms(1) by (auto simp: accounted_def check_discard_def Let_def)
next
  case (overflow i)
  then show ?thesis
    using assms(1) total_member [OF assms(2), of slots]
    by (auto simp: accounted_def channel_put_def queue_full_def split: if_splits)
qed (use assms(3) in auto)

lemma accounted_run:
  assumes inv: "accounted mx c" and k: "k < length (sys_calls c)"
    and step: "local_step timed (sys_pool c, sys_created c, sys_calls c ! k) (p', n', cs')"
    and "\<not> is_discarding cs'"
  shows "accounted mx \<lparr>sys_pool = p', sys_created = n', sys_calls = (sys_calls c)[k := cs']\<rparr>"
proof -
  have "current_size p' \<le> mx"
    using step inv
    by (cases rule: local_step.cases)
      (auto simp: accounted_def pool_actions Let_def split: list.split_asm if_splits)
  then show ?thesis
    using local_step_slots [OF step assms(4)] total_update [OF k, of slots cs'] inv
    unfolding accounted_def by (simp add: algebra_simps)
qed

lemma exclusive_run:
  assumes inv: "exclusive c" and k: "k < length (sys_calls c)"
    and step: "local_step timed (sys_pool c, sys_created c, sys_calls c ! k) (p', n', cs')"
  shows "exclusive \<lparr>sys_pool = p', sys_created = n', sys_calls = (sys_calls c)[k := cs']\<rparr>"
  unfolding exclusive_def
proof
  fix i
  have "holders c i \<le> (if i < sys_created c then 1 else 0)"
    using inv by (simp add: exclusive_def)
  then show "holders \<lparr>sys_pool = p', sys_created = n', sys_calls = (sys_calls c)[k := cs']\<rparr> i \<le>
      (if i < sys_created \<lparr>sys_pool = p', sys_created = n', sys_calls = (sys_calls c)[k := cs']\<rparr>
       then 1 else 0)"
    using local_step_items [OF step, of i] total_update [OF k, of "has_item i" cs']
    by (auto simp: holders_def split: if_splits)
qed

lemma pool_init_inv: "pool_init mx c \<Longrightarrow> pool_inv mx c"
  by (auto simp: pool_init_def pool_inv_def accounted_def exclusive_def holders_def empty_pool_def)

lemma pool_step_inv:
  assumes "pool_inv mx c" and "pool_step timed c c'"
  shows "pool_inv mx c'"
  using assms(2)
proof (cases rule: pool_step.cases)
  case (run k p' n' cs')
  from assms(1) have inv: "accounted mx c" "exclusive c"
    "\<forall>cs \<in> set (sys_calls c). \<not> is_discarding cs" by (simp_all add: pool_inv_def)
  then have "\<not> is_discarding cs'"
    using run no_discard [OF inv(1) run(2) _ run(3)] by simp
  then show ?thesis
    using run accounted_run [OF inv(1) run(2,3)] exclusive_run [OF inv(2) run(2,3)] inv(3)
    by (auto simp: pool_inv_def dest: set_update_subset_insert [THEN subsetD])
next
  case begin_call
  with assms(1) show ?thesis
    by (auto simp: pool_inv_def accounted_def exclusive_def holders_def)
qed

lemma pool_inv_bound: "pool_inv mx c \<Longrightarrow> current_size (sys_pool c) \<le> mx"
  by (simp add: pool_inv_def accounted_def)

interpretation threads: bounded_system
  "pool_init mx" "pool_step timed" "pool_inv mx" "\<lambda>c. current_size (sys_pool c)" "\<lambda>c. mx"
  for mx timed
  by unfold_locales (auto intro: pool_init_inv pool_step_inv pool_inv_bound)

section \<open>Properties of all interleavings\<close>

lemma empty_system:
  "0 \<le> mx \<Longrightarrow> reachable (pool_init mx) step
     \<lparr>sys_pool = empty_pool es u p mx, sys_created = 0, sys_calls = []\<rparr>"
  by (rule reachable.start) (auto simp: pool_init_def)

text \<open>A slot that is lost stays lost.\<close>

lemma leaked_kept:
  assumes "pool_step timed c c'"
  shows "total leaked (sys_calls c) \<le> total leaked (sys_calls c')"
  using assms
proof (cases rule: pool_step.cases)
  case (run k p' n' cs')
  have "leaked (sys_calls c ! k) \<le> leaked cs'"
    using run(3) by (cases rule: local_step.cases) auto
  then show ?thesis
    using run total_update [OF run(2), of leaked cs'] by simp
qed simp

lemma leaked_forever: "(pool_step timed)\<^sup>*\<^sup>* c c' \<Longrightarrow> total leaked (sys_calls c) \<le> total leaked (sys_calls c')"
  by (induction rule: rtranclp_induct) (auto dest: leaked_kept intro: order.trans)

text \<open>
  C8: pool_accounting
  In every state that any number of threads can reach, \<^verbatim>\<open>current_size\<close> is exactly the number of
  connections in the queue, plus those that a call is checking, making, using or putting back, plus
  one for every call that ended because \<^verbatim>\<open>is_active\<close> raised; it does not exceed the pool's maximum.
  So where \<^verbatim>\<open>is_active\<close> has never raised, no slot is lost; and a slot that is lost in this way
  is never given back: its share of \<^verbatim>\<open>current_size\<close> remains in every later state.
\<close>

theorem pool_accounting:
  assumes "reachable (pool_init mx) (pool_step timed) c"
  shows "current_size (sys_pool c) =
      int (length (channel (sys_pool c)) + total occupied (sys_calls c) + total leaked (sys_calls c)) \<and>
    current_size (sys_pool c) \<le> mx \<and>
    ((\<forall>i. Leaked i \<notin> set (sys_calls c)) \<longrightarrow>
      current_size (sys_pool c) = int (length (channel (sys_pool c)) + total occupied (sys_calls c))) \<and>
    (\<forall>c'. (pool_step timed)\<^sup>*\<^sup>* c c' \<longrightarrow>
      int (length (channel (sys_pool c')) + total occupied (sys_calls c')) \<le>
      current_size (sys_pool c') - int (total leaked (sys_calls c)))"
proof -
  have sizes: "current_size (sys_pool d) =
      int (length (channel (sys_pool d)) + total occupied (sys_calls d) + total leaked (sys_calls d))"
    and bound: "current_size (sys_pool d) \<le> mx" if "pool_inv mx d" for d
    using that by (simp_all add: pool_inv_def accounted_def total_slots)
  have inv: "pool_inv mx c" by (rule threads.reachable_inv [OF assms])
  moreover have "total leaked cs = 0" if "\<forall>i. Leaked i \<notin> set cs" for cs
    using that by (auto simp: total_def leaked_zero)
  moreover have "int (length (channel (sys_pool c')) + total occupied (sys_calls c')) \<le>
      current_size (sys_pool c') - int (total leaked (sys_calls c))" if "(pool_step timed)\<^sup>*\<^sup>* c c'" for c'
    using sizes [OF threads.steps_inv [OF that inv]] leaked_forever [OF that] by linarith
  ultimately show ?thesis using sizes [OF inv] bound [OF inv] by simp
qed

text \<open>A run of two calls on a pool of one connection, as far as the first one's \<open>get\<close>.\<close>

definition one_pool :: "int \<Rightarrow> nat list \<Rightarrow> nat pool" where
  "one_pool sz items = (empty_pool [''a''] JNull JNull 1)\<lparr>current_size := sz, channel := items\<rparr>"

lemma one_pool_fields [simp]:
  "channel (one_pool sz is) = is" "current_size (one_pool sz is) = sz" "max_size (one_pool sz is) = 1"
  by (simp_all add: one_pool_def empty_pool_def)

lemma one_pool_simps [simp]:
  "channel_get (one_pool sz []) = None"
  "channel_get (one_pool sz (i # is)) = Some (i, one_pool sz is)"
  "reserve_slot (one_pool 0 is) = (False, one_pool 1 is)"
  "reserve_slot (one_pool 1 is) = (True, one_pool 1 is)"
  "release_slot (one_pool 1 is) = one_pool 0 is"
  "check_discard (one_pool 1 is) = (False, one_pool 1 is)"
  "channel_put i (one_pool 1 []) = Some (one_pool 1 [i])"
  "empty_pool [''a''] JNull JNull 1 = one_pool 0 []"
  by (simp_all add: one_pool_def empty_pool_def pool_actions)

definition one_state :: "int \<Rightarrow> nat list \<Rightarrow> nat \<Rightarrow> call_state list \<Rightarrow> pool_system" where
  "one_state sz items n calls = \<lparr>sys_pool = one_pool sz items, sys_created = n, sys_calls = calls\<rparr>"

lemma one_begin:
  assumes "reachable I (pool_step timed) (one_state sz is n calls)"
  shows "reachable I (pool_step timed) (one_state sz is n (calls @ [Starting]))"
proof -
  have "pool_step timed (one_state sz is n calls) (one_state sz is n (calls @ [Starting]))"
    using begin_call [of timed "one_state sz is n calls"] by (simp add: one_state_def)
  with assms show ?thesis by (rule reachable.next_state)
qed

lemma one_run:
  assumes "reachable I (pool_step timed) (one_state sz is n calls)" and "k < length calls"
    and "local_step (timed k) (one_pool sz is, n, calls ! k) (one_pool sz' is', n', cs')"
  shows "reachable I (pool_step timed) (one_state sz' is' n' (calls[k := cs']))"
proof -
  have "pool_step timed (one_state sz is n calls) (one_state sz' is' n' (calls[k := cs']))"
    using run [of k "one_state sz is n calls" timed "one_pool sz' is'" n' cs'] assms(2,3)
    by (simp add: one_state_def)
  with assms(1) show ?thesis by (rule reachable.next_state)
qed

lemma one_empty: "reachable (pool_init 1) (pool_step timed) (one_state 0 [] 0 [])"
  using empty_system [of 1 _ "[''a'']" JNull JNull] by (simp add: one_state_def)

lemma one_creating: "reachable (pool_init 1) (pool_step timed) (one_state 1 [] 0 [Creating])"
proof -
  have "reachable (pool_init 1) (pool_step timed) (one_state 0 [] 0 [Starting])"
    using one_begin [OF one_empty] by simp
  from one_run [OF this, where k = 0 and cs' = Reserving and sz' = 0 and is' = "[]" and n' = 0]
  have "reachable (pool_init 1) (pool_step timed) (one_state 0 [] 0 [Reserving])"
    by (simp add: local_step.intros)
  from one_run [OF this, where k = 0 and cs' = Creating and sz' = 1 and is' = "[]" and n' = 0]
  show ?thesis by (simp add: local_step.intros)
qed

lemma one_holding: "reachable (pool_init 1) (pool_step timed) (one_state 1 [] 1 [Holding 0])"
  using one_run [OF one_creating, where k = 0 and cs' = "Holding 0" and sz' = 1 and is' = "[]"
      and n' = 1]
    created [of _ "one_pool 1 []" 0]
  by simp

lemma one_creating_waiting:
  "reachable (pool_init 1) (pool_step timed) (one_state 1 [] 0 [Creating, Waiting])"
proof -
  have "reachable (pool_init 1) (pool_step timed) (one_state 1 [] 0 [Creating, Starting])"
    using one_begin [OF one_creating] by simp
  from one_run [OF this, where k = 1 and cs' = Reserving and sz' = 1 and is' = "[]" and n' = 0]
  have "reachable (pool_init 1) (pool_step timed) (one_state 1 [] 0 [Creating, Reserving])"
    by (simp add: local_step.intros)
  from one_run [OF this, where k = 1 and cs' = Waiting and sz' = 1 and is' = "[]" and n' = 0]
  show ?thesis by (simp add: local_step.intros)
qed

lemma pool_accounting_witness:
  "current_size (sys_pool (one_state 1 [] 1 [Holding 0])) = int (0 + total occupied [Holding 0] + 0)
    \<and> current_size (sys_pool (one_state 1 [] 1 [Holding 0])) \<le> 1"
  using pool_accounting [OF one_holding] by (simp add: one_state_def total_def)

text \<open>
  C9: pool_exclusive
  No connection is ever handed to two callers: a connection that a call has in its hands is
  in no other call's hands and not in the queue.
\<close>

theorem pool_exclusive:
  assumes "reachable (pool_init mx) (pool_step timed) c"
    and "j < length (sys_calls c)" and "has_item i (sys_calls c ! j) = 1"
  shows "i \<notin> set (channel (sys_pool c)) \<and>
    (\<forall>k < length (sys_calls c). k \<noteq> j \<longrightarrow> has_item i (sys_calls c ! k) = 0)"
proof -
  have "holders c i \<le> 1"
    using threads.reachable_inv [OF assms(1)]
    by (auto simp: pool_inv_def exclusive_def split: if_splits dest: spec [of _ i])
  then have "count_list (channel (sys_pool c)) i = 0"
    and "total (has_item i) (sys_calls c) \<le> 1"
    using assms(3) total_member [OF assms(2), of "has_item i"] by (auto simp: holders_def)
  then show ?thesis
    using assms(3) total_two [OF assms(2), of _ "has_item i"]
    by (force simp: count_list_0_iff)
qed

lemma pool_exclusive_witness: "(0::nat) \<notin> set (channel (sys_pool (one_state 1 [] 1 [Holding 0])))"
  using pool_exclusive [OF one_holding, of 0 0] by (simp add: one_state_def)

text \<open>
  \<^verbatim>\<open>put\<close> always keeps the connection: its test never asks to discard it, and the queue has room
  for it, so the handling of \<^verbatim>\<open>Full\<close> and of an oversized pool is never used.
\<close>

theorem pool_put_keeps:
  assumes "reachable (pool_init mx) (pool_step timed) c" and "k < length (sys_calls c)"
  shows "(\<forall>i. sys_calls c ! k = Putting i \<longrightarrow> check_discard (sys_pool c) = (False, sys_pool c)) \<and>
    (\<forall>i. sys_calls c ! k = Enqueuing i \<longrightarrow>
      channel_put i (sys_pool c) = Some ((sys_pool c)\<lparr>channel := channel (sys_pool c) @ [i]\<rparr>)) \<and>
    (\<forall>i. sys_calls c ! k \<noteq> Discarding i)"
  using threads.reachable_inv [OF assms(1)] total_member [OF assms(2), of slots] assms(2)
  by (auto simp: pool_inv_def accounted_def check_discard_def channel_put_def queue_full_def Let_def
      dest!: nth_mem)

lemma pool_put_keeps_witness: "\<forall>i. sys_calls (one_state 1 [] 1 [Holding 0]) ! 0 \<noteq> Discarding i"
  using pool_put_keeps [OF one_holding, of 0] by (simp add: one_state_def)

section \<open>Two defects\<close>

text \<open>
  A call that waits because the pool was full is woken only by \<^verbatim>\<open>channel.put\<close>.  When the
  connection it waits for is never made, because the constructor raised in the other thread,
  the slot is free again but nobody tells the waiting call.
\<close>

lemma one_starving: "reachable (pool_init 1) (pool_step timed) (one_state 0 [] 0 [Failed, Waiting])"
proof -
  from one_run [OF one_creating_waiting, where k = 0 and cs' = CreateFailed and sz' = 1
      and is' = "[]" and n' = 0]
  have "reachable (pool_init 1) (pool_step timed) (one_state 1 [] 0 [CreateFailed, Waiting])"
    by (simp add: local_step.intros)
  moreover have "local_step (timed 0) (one_pool 1 [], 0, CreateFailed) (one_pool 0 [], 0, Failed)"
    using give_up [of "timed 0" "one_pool 1 []" 0] by simp
  ultimately show ?thesis
    using one_run [where k = 0 and cs' = Failed and sz' = 0 and is' = "[]" and n' = 0
        and calls = "[CreateFailed, Waiting]"] by simp
qed

text \<open>
  C40: pool_starvation
  With no timeout, as the controller calls it, a state can be reached in which a call waits
  for a connection although the pool has a free slot, no connection exists, and no call can
  take any step: only a new request can ever wake it.
\<close>

theorem pool_starvation:
  "\<exists>c. reachable (pool_init 1) (pool_step (\<lambda>_. False)) c \<and>
     sys_calls c ! 1 = Waiting \<and> current_size (sys_pool c) < max_size (sys_pool c) \<and>
     (\<forall>i. holders c i = 0) \<and>
     (\<forall>c'. pool_step (\<lambda>_. False) c c' \<longleftrightarrow> c' = c\<lparr>sys_calls := sys_calls c @ [Starting]\<rparr>)"
proof (intro exI conjI)
  let ?c = "one_state 0 [] 0 [Failed, Waiting]"
  show "reachable (pool_init 1) (pool_step (\<lambda>_. False)) ?c" by (rule one_starving)
  show "sys_calls ?c ! 1 = Waiting" by (simp add: one_state_def)
  show "current_size (sys_pool ?c) < max_size (sys_pool ?c)"
    by (simp add: one_state_def)
  show "\<forall>i. holders ?c i = 0"
    by (simp add: one_state_def holders_def total_def)
  show "\<forall>c'. pool_step (\<lambda>_. False) ?c c' \<longleftrightarrow> c' = ?c\<lparr>sys_calls := sys_calls ?c @ [Starting]\<rparr>"
  proof (intro allI iffI)
    fix c'
    assume "pool_step (\<lambda>_. False) ?c c'"
    then show "c' = ?c\<lparr>sys_calls := sys_calls ?c @ [Starting]\<rparr>"
    proof (cases rule: pool_step.cases)
      case (run k p' n' cs')
      from run(2) have "k = 0 \<or> k = 1" by (auto simp: one_state_def)
      with run(3) have False
        by (auto simp: one_state_def local_step_Waiting local_step_Failed)
      then show ?thesis ..
    qed
  next
    fix c'
    assume "c' = ?c\<lparr>sys_calls := sys_calls ?c @ [Starting]\<rparr>"
    then show "pool_step (\<lambda>_. False) ?c c'" by (simp only: begin_call)
  qed
qed

text \<open>
  An exception of \<^verbatim>\<open>is_active\<close> leaves \<^verbatim>\<open>get\<close> with the connection lost and its slot still counted.
\<close>

lemma leaked_slots: "leaked cs \<le> slots cs"
  by (simp add: slots_def)

lemma total_diff: "(\<And>c. g c \<le> f c) \<Longrightarrow> total f cs = total g cs + total (\<lambda>c. f c - g c) cs"
  by (simp add: total_def flip: sum_list_addf)

definition drained :: "int \<Rightarrow> pool_system \<Rightarrow> bool" where
  "drained mx c \<longleftrightarrow> pool_inv mx c \<and> int (total leaked (sys_calls c)) = mx"

lemma drained_empty:
  assumes "drained mx c"
  shows "channel (sys_pool c) = []" and "k < length (sys_calls c) \<Longrightarrow> slots (sys_calls c ! k) = leaked (sys_calls c ! k)"
proof -
  have sums: "current_size (sys_pool c) = int (length (channel (sys_pool c)) + total slots (sys_calls c))"
    "current_size (sys_pool c) \<le> mx" "int (total leaked (sys_calls c)) = mx"
    using assms by (simp_all add: drained_def pool_inv_def accounted_def)
  moreover have "total slots (sys_calls c) =
      total leaked (sys_calls c) + total (\<lambda>cs. slots cs - leaked cs) (sys_calls c)"
    by (rule total_diff) (rule leaked_slots)
  ultimately have rest: "total (\<lambda>cs. slots cs - leaked cs) (sys_calls c) = 0"
    and "length (channel (sys_pool c)) = 0" by linarith+
  then show "channel (sys_pool c) = []" by simp
  show "k < length (sys_calls c) \<Longrightarrow> slots (sys_calls c ! k) = leaked (sys_calls c ! k)"
    using rest total_member [of k "sys_calls c" "\<lambda>cs. slots cs - leaked cs"]
      leaked_slots [of "sys_calls c ! k"] by simp
qed

lemma drained_step:
  assumes "drained mx c" and "pool_step timed c c'"
  shows "drained mx c'"
proof -
  have inv: "pool_inv mx c'"
    using assms pool_step_inv by (auto simp: drained_def)
  from assms(2) have "total leaked (sys_calls c') = total leaked (sys_calls c)"
  proof (cases rule: pool_step.cases)
    case (run k p' n' cs')
    have "leaked cs' = leaked (sys_calls c ! k)"
      using run(3) drained_empty(1) [OF assms(1)] drained_empty(2) [OF assms(1) run(2)]
      by (cases rule: local_step.cases) (auto simp: channel_get_def)
    then show ?thesis
      using run total_update [OF run(2), of leaked cs'] by simp
  qed simp
  with inv assms(1) show ?thesis by (simp add: drained_def)
qed

interpretation dead: invariant_system "drained mx" "pool_step timed" "drained mx" for mx timed
  by unfold_locales (auto intro: drained_step)

text \<open>
  Once \<^verbatim>\<open>is_active\<close> has raised as many times as the pool has slots, the pool never serves again:
  whatever the threads do from there, no call ever gets a connection.
\<close>

theorem pool_dead_after_leaks:
  assumes "reachable (pool_init mx) (pool_step timed) c"
    and "int (total leaked (sys_calls c)) = mx"
    and "(pool_step timed)\<^sup>*\<^sup>* c c'"
  shows "\<forall>cs \<in> set (sys_calls c'). \<forall>i. cs \<noteq> Holding i"
proof -
  have "drained mx c"
    using threads.reachable_inv [OF assms(1)] assms(2) by (simp add: drained_def)
  then have d: "drained mx c'" by (rule dead.steps_inv [OF assms(3)])
  show ?thesis
    using drained_empty(2) [OF d] by (fastforce simp: in_set_conv_nth)
qed

lemma one_leaked: "reachable (pool_init 1) (pool_step timed) (one_state 1 [] 1 [Finished, Leaked 0])"
proof -
  from one_run [OF one_holding, where k = 0 and cs' = "Putting 0" and sz' = 1 and is' = "[]" and n' = 1]
  have "reachable (pool_init 1) (pool_step timed) (one_state 1 [] 1 [Putting 0])"
    by (simp add: local_step.intros)
  from one_run [OF this, where k = 0 and cs' = "Enqueuing 0" and sz' = 1 and is' = "[]" and n' = 1]
  have "reachable (pool_init 1) (pool_step timed) (one_state 1 [] 1 [Enqueuing 0])"
    by (simp add: local_step.intros)
  from one_run [OF this, where k = 0 and cs' = Finished and sz' = 1 and is' = "[0]" and n' = 1]
  have "reachable (pool_init 1) (pool_step timed) (one_state 1 [0] 1 [Finished])"
    by (simp add: local_step.intros)
  from one_begin [OF this]
  have "reachable (pool_init 1) (pool_step timed) (one_state 1 [0] 1 [Finished, Starting])" by simp
  from one_run [OF this, where k = 1 and cs' = "Checking 0" and sz' = 1 and is' = "[]" and n' = 1]
  have "reachable (pool_init 1) (pool_step timed) (one_state 1 [] 1 [Finished, Checking 0])"
    by (simp add: local_step.intros)
  from one_run [OF this, where k = 1 and cs' = "Leaked 0" and sz' = 1 and is' = "[]" and n' = 1]
  show ?thesis by (simp add: local_step.intros)
qed

lemma pool_dead_after_leaks_witness:
  "list_all (\<lambda>cs. \<forall>i. cs \<noteq> Holding i) (sys_calls (one_state 1 [] 1 [Finished, Leaked 0]))"
  using pool_dead_after_leaks [OF one_leaked, of "\<lambda>_. False"]
  by (simp add: one_state_def total_def)

end
