(* ===== verification/PoolRefinement.thy ===== *)
theory PoolRefinement
  imports PoolThreads
begin

text \<open>
  An abstract specification of the connection pool, and the proof that the interleaved calls of
  \<open>PoolThreads\<close> implement it.

  The specification is a table of leases: the idle connections in the order in which they were
  given back, the set of the connections that are out, the number of connections under
  construction, and the number of free slots.  Every step of the code is one step of the table
  or leaves it as it is.
\<close>

section \<open>The specification\<close>

record lease_table =
  lt_idle :: "nat list"
  lt_lent :: "nat set"
  lt_pending :: nat
  lt_free :: nat

inductive lease_step :: "lease_table \<Rightarrow> lease_table \<Rightarrow> bool" where
  lend: "lt_idle t = i # is \<Longrightarrow>
     lease_step t (t\<lparr>lt_idle := is, lt_lent := insert i (lt_lent t)\<rparr>)"
| reserve: "lt_free t = Suc n \<Longrightarrow>
     lease_step t (t\<lparr>lt_free := n, lt_pending := Suc (lt_pending t)\<rparr>)"
| make: "lt_pending t = Suc n \<Longrightarrow> i \<notin> lt_lent t \<Longrightarrow> i \<notin> set (lt_idle t) \<Longrightarrow>
     lease_step t (t\<lparr>lt_pending := n, lt_lent := insert i (lt_lent t)\<rparr>)"
| fail: "lt_pending t = Suc n \<Longrightarrow>
     lease_step t (t\<lparr>lt_pending := n, lt_free := Suc (lt_free t)\<rparr>)"
| give: "i \<in> lt_lent t \<Longrightarrow>
     lease_step t (t\<lparr>lt_idle := lt_idle t @ [i], lt_lent := lt_lent t - {i}\<rparr>)"
| retire: "i \<in> lt_lent t \<Longrightarrow>
     lease_step t (t\<lparr>lt_lent := lt_lent t - {i}, lt_free := Suc (lt_free t)\<rparr>)"

definition lease_init :: "nat \<Rightarrow> lease_table \<Rightarrow> bool" where
  "lease_init n t \<longleftrightarrow> t = \<lparr>lt_idle = [], lt_lent = {}, lt_pending = 0, lt_free = n\<rparr>"

text \<open>No connection is in two places, and the slots are conserved.\<close>

definition lease_inv :: "nat \<Rightarrow> lease_table \<Rightarrow> bool" where
  "lease_inv n t \<longleftrightarrow>
     distinct (lt_idle t) \<and> finite (lt_lent t) \<and> set (lt_idle t) \<inter> lt_lent t = {} \<and>
     length (lt_idle t) + card (lt_lent t) + lt_pending t + lt_free t = n"

lemma lease_step_inv: "lease_inv n t \<Longrightarrow> lease_step t t' \<Longrightarrow> lease_inv n t'"
  by (cases rule: lease_step.cases, assumption)
    (auto simp: lease_inv_def dest: card_Suc_Diff1)

lemma lease_init_inv: "lease_init n t \<Longrightarrow> lease_inv n t"
  by (simp add: lease_init_def lease_inv_def)

interpretation lease: invariant_system "lease_init n" lease_step "lease_inv n" for n
  by unfold_locales (auto intro: lease_init_inv lease_step_inv)

section \<open>The table of a state of the code\<close>

fun hands :: "call_state \<Rightarrow> nat set" where
  "hands (Checking i) = {i}" | "hands (Stale i) = {i}" | "hands (Holding i) = {i}"
| "hands (Leaked i) = {i}" | "hands (Putting i) = {i}" | "hands (Enqueuing i) = {i}"
| "hands _ = {}"

fun making :: "call_state \<Rightarrow> nat" where
  "making Creating = 1" | "making CreateFailed = 1" | "making _ = 0"

definition lease_of :: "int \<Rightarrow> pool_system \<Rightarrow> lease_table" where
  "lease_of mx c =
     \<lparr>lt_idle = channel (sys_pool c), lt_lent = \<Union> (hands ` set (sys_calls c)),
      lt_pending = total making (sys_calls c), lt_free = nat (mx - current_size (sys_pool c))\<rparr>"

lemma hands_has_item: "i \<in> hands cs \<Longrightarrow> has_item i cs = 1"
  by (cases cs) auto

lemma exclusive_hands:
  assumes "exclusive c" and "i \<in> hands (sys_calls c ! k)" and "k < length (sys_calls c)"
  shows "i < sys_created c" and "i \<notin> set (channel (sys_pool c))"
    and "j < length (sys_calls c) \<Longrightarrow> j \<noteq> k \<Longrightarrow> i \<notin> hands (sys_calls c ! j)"
proof -
  have one: "holders c i \<le> (if i < sys_created c then 1 else 0)"
    using assms(1) by (simp add: exclusive_def)
  have item: "1 \<le> total (has_item i) (sys_calls c)"
    using total_member [OF assms(3), of "has_item i"] hands_has_item [OF assms(2)] by simp
  show "i < sys_created c"
    using one item by (simp add: holders_def split: if_splits)
  show "i \<notin> set (channel (sys_pool c))"
    using one item by (auto simp: holders_def count_list_0_iff [symmetric] split: if_splits)
  show "i \<notin> hands (sys_calls c ! j)" if j: "j < length (sys_calls c)" "j \<noteq> k"
  proof
    assume "i \<in> hands (sys_calls c ! j)"
    then have "2 \<le> total (has_item i) (sys_calls c)"
      using total_two [OF j(1) assms(3) j(2), of "has_item i"] hands_has_item [OF assms(2)]
        hands_has_item by fastforce
    with one show False by (simp add: holders_def split: if_splits)
  qed
qed

lemma hands_update:
  assumes "exclusive c" and "k < length (sys_calls c)"
  shows "\<Union> (hands ` set ((sys_calls c)[k := cs])) =
    \<Union> (hands ` set (sys_calls c)) - hands (sys_calls c ! k) \<union> hands cs"
proof (rule set_eqI)
  fix i
  have at: "i \<in> \<Union> (hands ` set xs) \<longleftrightarrow> (\<exists>j < length xs. i \<in> hands (xs ! j))" for xs
    by (auto simp: in_set_conv_nth intro: nth_mem)
  have others: "(\<exists>j < length (sys_calls c). j \<noteq> k \<and> i \<in> hands (sys_calls c ! j)) \<longleftrightarrow>
      (\<exists>j < length (sys_calls c). i \<in> hands (sys_calls c ! j)) \<and> i \<notin> hands (sys_calls c ! k)"
    using exclusive_hands(3) [OF assms(1) _ assms(2), of i] by (metis (full_types))
  have "i \<in> \<Union> (hands ` set ((sys_calls c)[k := cs])) \<longleftrightarrow>
      i \<in> hands cs \<or> (\<exists>j < length (sys_calls c). j \<noteq> k \<and> i \<in> hands (sys_calls c ! j))"
    unfolding at using assms(2) by (auto simp: nth_list_update split: if_splits)
  then show "i \<in> \<Union> (hands ` set ((sys_calls c)[k := cs])) \<longleftrightarrow>
      i \<in> \<Union> (hands ` set (sys_calls c)) - hands (sys_calls c ! k) \<union> hands cs"
    by (simp only: others at [of "sys_calls c"] Un_iff Diff_iff) blast
qed

section \<open>The simulation\<close>

text \<open>What a step of one call does to the table, given what the call had in its hands.\<close>

lemma local_step_lease:
  assumes "local_step timed (p, n, cs) (p', n', cs')" and "\<not> is_discarding cs'"
    and "current_size p \<le> mx" and "max_size p = mx"
    and "n \<notin> L" and "n \<notin> set (channel p)" and "hands cs \<subseteq> L"
    and "set (channel p) \<inter> L = {}"
  shows "lease_step\<^sup>=\<^sup>=
    \<lparr>lt_idle = channel p, lt_lent = L, lt_pending = m + making cs, lt_free = nat (mx - current_size p)\<rparr>
    \<lparr>lt_idle = channel p', lt_lent = L - hands cs \<union> hands cs', lt_pending = m + making cs',
      lt_free = nat (mx - current_size p')\<rparr>"
proof -
  let ?t = "\<lparr>lt_idle = channel p, lt_lent = L, lt_pending = m + making cs, lt_free = nat (mx - current_size p)\<rparr>"
  from assms(1) show ?thesis
  proof (cases rule: local_step.cases)
    case (take_item i)
    with assms(8) lease_step.lend [of ?t i "tl (channel p)"] show ?thesis
      by (auto simp: channel_get_def split: list.splits)
  next
    case (wake i)
    with assms(8) lease_step.lend [of ?t i "tl (channel p)"] show ?thesis
      by (auto simp: channel_get_def split: list.splits)
  next
    case reserved
    then have "nat (mx - current_size p) = Suc (nat (mx - (current_size p + 1)))"
      using assms(4) by (auto simp: reserve_slot_def Let_def split: if_splits)
    with reserved lease_step.reserve [of ?t] show ?thesis
      by (auto simp: reserve_slot_def Let_def split: if_splits)
  next
    case created
    with assms(5,6) lease_step.make [of ?t m n] show ?thesis by auto
  next
    case give_up
    then have "nat (mx - (current_size p - 1)) = Suc (nat (mx - current_size p))"
      using assms(3) by auto
    with give_up lease_step.fail [of ?t m] show ?thesis by (auto simp: release_slot_def)
  next
    case (drop_slot i)
    then have "nat (mx - (current_size p - 1)) = Suc (nat (mx - current_size p))"
      using assms(3) by auto
    with drop_slot assms(7) lease_step.retire [of i ?t] show ?thesis by (auto simp: release_slot_def)
  next
    case (enqueued i)
    with assms(7) lease_step.give [of i ?t] show ?thesis
      by (auto simp: channel_put_def split: if_splits)
  qed (use assms(2,7) in \<open>auto simp: check_discard_def reserve_slot_def Let_def insert_absorb split: if_splits\<close>)
qed

lemma pool_step_lease:
  assumes inv: "pool_inv mx c" "pool_inv mx c'" and step: "pool_step timed c c'"
  shows "lease_step\<^sup>=\<^sup>= (lease_of mx c) (lease_of mx c')"
  using step
proof (cases rule: pool_step.cases)
  case (run k p' n' cs')
  let ?cs = "sys_calls c ! k" and ?L = "\<Union> (hands ` set (sys_calls c))"
  have ex: "exclusive c" and acc: "current_size (sys_pool c) \<le> mx" "max_size (sys_pool c) = mx"
    using inv(1) by (simp_all add: pool_inv_def accounted_def)
  have "cs' \<in> set (sys_calls c')"
    using run by (simp add: set_update_memI)
  then have busy: "\<not> is_discarding cs'"
    using inv(2) by (simp add: pool_inv_def)
  have in_hands: "i < sys_created c \<and> i \<notin> set (channel (sys_pool c))" if "i \<in> ?L" for i
  proof -
    from that obtain j where "j < length (sys_calls c)" "i \<in> hands (sys_calls c ! j)"
      by (auto simp: in_set_conv_nth)
    then show ?thesis using exclusive_hands(1,2) [OF ex] by blast
  qed
  have "holders c (sys_created c) = 0"
    using ex by (metis exclusive_def less_irrefl le_zero_eq)
  then have new: "sys_created c \<notin> set (channel (sys_pool c))"
    by (simp add: holders_def count_list_0_iff)
  obtain m where m: "total making (sys_calls c) = m + making ?cs"
    "total making ((sys_calls c)[k := cs']) = m + making cs'"
    using total_member [OF run(2), of making] total_update [OF run(2), of making cs']
    by (metis add.commute add_right_cancel le_Suc_ex add.assoc)
  have "hands ?cs \<subseteq> ?L" "set (channel (sys_pool c)) \<inter> ?L = {}" "sys_created c \<notin> ?L"
    using nth_mem [OF run(2)] in_hands by blast+
  from local_step_lease [OF run(3) busy acc this(3) new this(1,2), of m]
  show ?thesis
    unfolding run(1) lease_of_def m pool_system.simps hands_update [OF ex run(2)] .
next
  case begin_call
  then show ?thesis by (simp add: lease_of_def)
qed

lemma lease_reachable:
  "reachable (pool_init mx) (pool_step timed) c \<Longrightarrow>
   reachable (lease_init (nat mx)) lease_step (lease_of mx c)"
proof (induction rule: reachable.induct)
  case (start c)
  then show ?case
    by (intro reachable.start) (auto simp: pool_init_def lease_init_def lease_of_def empty_pool_def)
next
  case (next_state c c')
  from pool_step_lease [OF threads.reachable_inv [OF next_state.hyps(1)]
      threads.reachable_inv [OF reachable.next_state [OF next_state.hyps]] next_state.hyps(2)]
    next_state.IH
  show ?case by (auto intro: reachable.next_state)
qed

text \<open>
  C10: pool_refines_leases
  The interleaved calls implement the table of leases: from any reachable state, a step of any
  thread is a step of the table, or does not show in it.  So connections are lent in the order
  in which they were given back, a connection that is out is not lent again, a new one takes a
  slot that was free, and every slot is idle, lent, under construction or free.
\<close>

theorem pool_refines_leases:
  assumes "reachable (pool_init mx) (pool_step timed) c" and "pool_step timed c c'"
  shows "reachable (lease_init (nat mx)) lease_step (lease_of mx c) \<and>
    lease_step\<^sup>=\<^sup>= (lease_of mx c) (lease_of mx c') \<and> lease_inv (nat mx) (lease_of mx c')"
proof (intro conjI)
  show abs: "reachable (lease_init (nat mx)) lease_step (lease_of mx c)"
    by (rule lease_reachable [OF assms(1)])
  show "lease_step\<^sup>=\<^sup>= (lease_of mx c) (lease_of mx c')"
    by (rule pool_step_lease [OF threads.reachable_inv [OF assms(1)]
          threads.reachable_inv [OF reachable.next_state [OF assms]] assms(2)])
  show "lease_inv (nat mx) (lease_of mx c')"
    by (rule lease.reachable_inv [OF lease_reachable [OF reachable.next_state [OF assms]]])
qed

lemma pool_refines_leases_witness:
  "lease_of 1 (one_state 1 [] 1 [Holding 0]) =
     \<lparr>lt_idle = [], lt_lent = {0}, lt_pending = 0, lt_free = 0\<rparr> \<and>
   lease_inv 1 (lease_of 1 (one_state 1 [] 1 [Putting 0]))"
proof -
  have "pool_step (\<lambda>_. False) (one_state 1 [] 1 [Holding 0]) (one_state 1 [] 1 [Putting 0])"
    using pool_step.run [of 0 "one_state 1 [] 1 [Holding 0]" "\<lambda>_. False" "one_pool 1 []" 1 "Putting 0"]
    by (simp add: one_state_def local_step.intros)
  from pool_refines_leases [OF one_holding this] show ?thesis
    by (simp add: one_state_def lease_of_def total_def)
qed

end
