(* ===== verification/Utils.thy ===== *)
theory Utils
  imports PyJson
begin

text \<open>
  \<^verbatim>\<open>controller_server/utils.py\<close>, first half: object identifiers, secrets, topologies, storage
  parameters, node identifiers and the choice of a connectivity type.
\<close>

section \<open>Records\<close>

record array_connection_info =
  ci_array_addresses :: "string list"
  ci_user :: json
  ci_password :: json
  ci_system_id :: "string option"

record object_id_info =
  oi_array_type :: string
  oi_system_id :: "string option"
  oi_object_id :: string

record object_parameters =
  op_pool :: json
  op_space_efficiency :: json
  op_prefix :: json

section \<open>Object identifiers\<close>

text \<open>\<^verbatim>\<open>_get_object_id\<close>: \<open>array_type:object_id\<close>, or \<open>array_type:system_id:object_id\<close>.\<close>

definition get_object_id :: "string \<Rightarrow> string \<Rightarrow> string option \<Rightarrow> string" where
  "get_object_id obj_array_type obj_id system_id =
     (case system_id of
        Some sid \<Rightarrow>
          if sid \<noteq> [] then join [PARAMETERS_OBJECT_ID_DELIMITER] [obj_array_type, sid, obj_id]
          else join [PARAMETERS_OBJECT_ID_DELIMITER] [obj_array_type, obj_id]
      | None \<Rightarrow> join [PARAMETERS_OBJECT_ID_DELIMITER] [obj_array_type, obj_id])"

definition get_volume_id :: "volume \<Rightarrow> string option \<Rightarrow> string" where
  "get_volume_id v system_id = get_object_id (vol_array_type v) (vol_id v) system_id"

definition get_snapshot_id :: "snapshot \<Rightarrow> string" where
  "get_snapshot_id sn = get_object_id (snap_array_type sn) (snap_id sn) None"

definition get_object_id_info :: "string \<Rightarrow> object_type \<Rightarrow> exc + object_id_info" where
  "get_object_id_info full_object_id ty =
     (case split_on PARAMETERS_OBJECT_ID_DELIMITER full_object_id of
        [t, i] \<Rightarrow> Inr \<lparr>oi_array_type = t, oi_system_id = None, oi_object_id = i\<rparr>
      | [t, sid, i] \<Rightarrow> Inr \<lparr>oi_array_type = t, oi_system_id = Some sid, oi_object_id = i\<rparr>
      | _ \<Rightarrow> Inl (ObjectIdError (type_name ty) full_object_id))"

definition get_volume_id_info :: "string \<Rightarrow> exc + object_id_info" where
  "get_volume_id_info vid = get_object_id_info vid VOLUME_TYPE"

definition get_snapshot_id_info :: "string \<Rightarrow> exc + object_id_info" where
  "get_snapshot_id_info sid = get_object_id_info sid SNAPSHOT_TYPE"

section \<open>Secrets and topologies\<close>

definition parse_raw_json :: "json_decoder \<Rightarrow> string \<Rightarrow> exc + json" where
  "parse_raw_json loads raw =
     (case loads raw of
        Inl err \<Rightarrow> Inl (ValidationException (invalid_json_parameter_message raw err))
      | Inr j \<Rightarrow> Inr j)"

text \<open>\<^verbatim>\<open>topologies.items() <= node_topologies.items()\<close>.\<close>

definition items_subset :: "(string, json) dict \<Rightarrow> (string, string) dict \<Rightarrow> bool" where
  "items_subset ts node \<longleftrightarrow> (\<forall>(k, v) \<in> set ts. map_option JStr (map_of node k) = Some v)"

fun is_topology_match_list :: "json list \<Rightarrow> (string, string) dict \<Rightarrow> exc + bool" where
  "is_topology_match_list [] node = Inr False"
| "is_topology_match_list (t # ts) node =
     bnd_err (py_items t) (\<lambda>items.
       if items_subset items node then Inr True else is_topology_match_list ts node)"

definition is_topology_match :: "json \<Rightarrow> (string, string) dict \<Rightarrow> exc + bool" where
  "is_topology_match system_topologies node =
     bnd_err (py_iter system_topologies) (\<lambda>ts. is_topology_match_list ts node)"

definition str_dict :: "(string, string) dict \<Rightarrow> string" where
  "str_dict d = ''{'' @ join '', '' (map (\<lambda>(k, v). repr_str k @ '': '' @ repr_str v) d) @ ''}''"

fun system_info_for_topologies ::
  "(string, json) dict \<Rightarrow> (string, string) dict \<Rightarrow> exc + (json \<times> string)" where
  "system_info_for_topologies [] node =
     Inl (ValidationException (no_system_match_requested_topologies (str_dict node)))"
| "system_info_for_topologies ((sid, info) # rest) node =
     bnd_err (py_get info SECRET_SUPPORTED_TOPOLOGIES_PARAMETER JNull) (\<lambda>tops.
     bnd_err (is_topology_match tops node) (\<lambda>ok.
       if ok then Inr (info, sid) else system_info_for_topologies rest node))"

definition get_system_info_for_topologies ::
  "json \<Rightarrow> (string, string) dict \<Rightarrow> exc + (json \<times> string)" where
  "get_system_info_for_topologies secrets_config node =
     bnd_err (py_items secrets_config) (\<lambda>items. system_info_for_topologies items node)"

definition get_system_info_from_secrets ::
  "json_decoder \<Rightarrow> (string, string) dict \<Rightarrow> (string, string) dict option \<Rightarrow> string option
   \<Rightarrow> exc + (json \<times> string option)" where
  "get_system_info_from_secrets loads secrets topologies system_id =
     (let raw = map_of secrets SECRET_CONFIG_PARAMETER in
      if truthy raw then
        bnd_err (parse_raw_json loads (the raw)) (\<lambda>secrets_config.
          if truthy system_id then
            bnd_err (py_get secrets_config (the system_id) JNull) (\<lambda>info. Inr (info, system_id))
          else if truthy topologies then
            bnd_err (get_system_info_for_topologies secrets_config (the topologies))
              (\<lambda>(info, sid). Inr (info, Some sid))
          else Inl (ValidationException insufficient_data_to_choose_a_storage_system_message))
      else Inr (json_of_dict secrets, system_id))"

definition get_array_connection_info_from_system_info ::
  "json \<Rightarrow> string option \<Rightarrow> exc + array_connection_info" where
  "get_array_connection_info_from_system_info secrets system_id =
     bnd_err (py_getitem secrets SECRET_USERNAME_PARAMETER) (\<lambda>user.
     bnd_err (py_getitem secrets SECRET_PASSWORD_PARAMETER) (\<lambda>password.
     bnd_err (py_getitem secrets SECRET_ARRAY_PARAMETER) (\<lambda>addr.
     bnd_err (py_split addr PARAMETERS_ARRAY_ADDRESSES_DELIMITER) (\<lambda>addresses.
       Inr \<lparr>ci_array_addresses = addresses, ci_user = user, ci_password = password,
            ci_system_id = system_id\<rparr>))))"

definition get_array_connection_info_from_secrets ::
  "json_decoder \<Rightarrow> (string, string) dict \<Rightarrow> (string, string) dict option \<Rightarrow> string option
   \<Rightarrow> exc + array_connection_info" where
  "get_array_connection_info_from_secrets loads secrets topologies system_id =
     bnd_err (get_system_info_from_secrets loads secrets topologies system_id)
       (\<lambda>(info, sid). get_array_connection_info_from_system_info info sid)"

section \<open>Storage parameters\<close>

definition get_object_parameters ::
  "json_decoder \<Rightarrow> (string, string) dict \<Rightarrow> string \<Rightarrow> string option \<Rightarrow> exc + object_parameters" where
  "get_object_parameters loads parameters prefix_param_name system_id =
     (let raw = map_of parameters PARAMETERS_BY_SYSTEM in
      bnd_err
        (if truthy raw \<and> truthy system_id then
           bnd_err (parse_raw_json loads (the raw)) (\<lambda>by_system.
             py_get by_system (the system_id) (JObj []))
         else Inr (JObj []))
        (\<lambda>system_parameters.
      bnd_err (py_get system_parameters PARAMETERS_POOL
                 (json_of_option (map_of parameters PARAMETERS_POOL))) (\<lambda>pool.
      bnd_err (py_get system_parameters PARAMETERS_SPACE_EFFICIENCY
                 (json_of_option (map_of parameters PARAMETERS_SPACE_EFFICIENCY))) (\<lambda>se.
      bnd_err (py_get system_parameters prefix_param_name
                 (json_of_option (map_of parameters prefix_param_name))) (\<lambda>prefix.
        Inr \<lparr>op_pool = pool, op_space_efficiency = se, op_prefix = prefix\<rparr>)))))"

definition get_volume_parameters ::
  "json_decoder \<Rightarrow> (string, string) dict \<Rightarrow> string option \<Rightarrow> exc + object_parameters" where
  "get_volume_parameters loads parameters system_id =
     get_object_parameters loads parameters PARAMETERS_VOLUME_NAME_PREFIX system_id"

definition get_snapshot_parameters ::
  "json_decoder \<Rightarrow> (string, string) dict \<Rightarrow> string option \<Rightarrow> exc + object_parameters" where
  "get_snapshot_parameters loads parameters system_id =
     get_object_parameters loads parameters PARAMETERS_SNAPSHOT_NAME_PREFIX system_id"

section \<open>Node identifiers\<close>

definition get_node_id_info :: "string \<Rightarrow> exc + (string \<times> string \<times> string)" where
  "get_node_id_info node_id =
     (let split_node = split_on PARAMETERS_NODE_ID_DELIMITER node_id in
      if length split_node = SUPPORTED_CONNECTIVITY_TYPES + 1 then
        Inr (split_node ! 0, split_node ! 1, split_node ! 2)
      else if length split_node = 2 then Inr (split_node ! 0, split_node ! 1, '''')
      else Inl (HostNotFoundError node_id))"

text \<open>\<^verbatim>\<open>NodeIdInfo(node_id)\<close>: the node's name and its initiators.\<close>

definition NodeIdInfo :: "string \<Rightarrow> exc + (string \<times> initiators)" where
  "NodeIdInfo node_id =
     bnd_err (get_node_id_info node_id) (\<lambda>(node_name, fc_wwns_str, iscsi_iqn).
       Inr (node_name, \<lparr>ini_iscsi_iqn = strip iscsi_iqn,
                        ini_fc_wwns = split_on PARAMETERS_FC_WWN_DELIMITER fc_wwns_str\<rparr>))"

section \<open>Connectivity\<close>

definition choose_connectivity_type :: "string list \<Rightarrow> string option" where
  "choose_connectivity_type connectivity_types =
     (if FC_CONNECTIVITY_TYPE \<in> set connectivity_types then Some FC_CONNECTIVITY_TYPE
      else if ISCSI_CONNECTIVITY_TYPE \<in> set connectivity_types then Some ISCSI_CONNECTIVITY_TYPE
      else None)"

section \<open>Hashing\<close>

text \<open>\<^verbatim>\<open>hash_string\<close>: the SHA-256 digest and its base-58 text are parameters.\<close>

definition hash_string :: "(string \<Rightarrow> string) \<Rightarrow> (string \<Rightarrow> string) \<Rightarrow> string \<Rightarrow> string" where
  "hash_string sha256 b58encode s = b58encode (sha256 s)"

end
