(* ===== verification/Validation.thy ===== *)
theory Validation
  imports Utils
begin

text \<open>
  \<^verbatim>\<open>controller_server/utils.py\<close>, second half: the validation of the requests and the
  responses, with the request messages as records.

  A protobuf message field is a record field; a submessage that is tested with \<^verbatim>\<open>HasField\<close> or
  for truth is an option; a \<^verbatim>\<open>oneof\<close> is a datatype.  The text of an access mode, which only
  appears in an error message, is a field of its own.
\<close>

section \<open>Requests\<close>

record volume_capability =
  cap_mount_fs_type :: "string option"
  cap_has_block :: bool
  cap_access_mode :: int
  cap_access_mode_text :: string

datatype content_source = SnapshotSource string | VolumeSource string | NoSource

text \<open>
  \<^verbatim>\<open>request.accessibility_requirements\<close> as the list of the segments of its \<^verbatim>\<open>preferred\<close>
  topologies, \<open>None\<close> when the field is not set.
\<close>

record create_volume_request =
  cv_name :: string
  cv_required_bytes :: "int option"
  cv_capabilities :: "volume_capability list"
  cv_secrets :: "(string, string) dict"
  cv_parameters :: "(string, string) dict"
  cv_content_source :: "content_source option"
  cv_accessibility :: "(string, string) dict list option"

record delete_volume_request =
  dv_volume_id :: string
  dv_secrets :: "(string, string) dict"

record publish_volume_request =
  pv_volume_id :: string
  pv_node_id :: string
  pv_readonly :: bool
  pv_capability :: volume_capability
  pv_secrets :: "(string, string) dict"

record unpublish_volume_request =
  uv_volume_id :: string
  uv_node_id :: string
  uv_secrets :: "(string, string) dict"

record create_snapshot_request =
  cs_name :: string
  cs_source_volume_id :: string
  cs_secrets :: "(string, string) dict"
  cs_parameters :: "(string, string) dict"

record delete_snapshot_request =
  ds_snapshot_id :: string
  ds_secrets :: "(string, string) dict"

record expand_volume_request =
  ev_volume_id :: string
  ev_required_bytes :: "int option"
  ev_secrets :: "(string, string) dict"

definition get_volume_topologies :: "create_volume_request \<Rightarrow> (string, string) dict option" where
  "get_volume_topologies request =
     (case cv_accessibility request of
        Some (segments # _) \<Rightarrow> Some segments
      | _ \<Rightarrow> None)"

section \<open>System identifiers\<close>

definition alnum :: "char \<Rightarrow> bool" where
  "alnum c \<longleftrightarrow> (let n = of_char c :: nat in
     48 \<le> n \<and> n \<le> 57 \<or> 65 \<le> n \<and> n \<le> 90 \<or> 97 \<le> n \<and> n \<le> 122)"

text \<open>
  The texts \<^verbatim>\<open>SECRET_VALIDATION_REGEX\<close> describes: at least two characters, the first and the
  last alphanumeric, the others alphanumeric or one of \<^verbatim>\<open>-_.\<close>
\<close>

definition system_id_body :: "string \<Rightarrow> bool" where
  "system_id_body s \<longleftrightarrow> 2 \<le> length s \<and> alnum (hd s) \<and> alnum (last s) \<and>
     (\<forall>c \<in> set s. alnum c \<or> c \<in> {CHR ''-'', CHR ''_'', CHR ''.''})"

text \<open>
  \<^verbatim>\<open>re.match\<close> with a final \<^verbatim>\<open>$\<close>, which also matches before a newline that ends the text.
\<close>

definition is_system_id_valid :: "string \<Rightarrow> bool" where
  "is_system_id_valid s \<longleftrightarrow>
     s \<noteq> [] \<and> (system_id_body s \<or> last s = CHR 0x0A \<and> system_id_body (butlast s))"

definition validate_system_id :: "string \<Rightarrow> exc + unit" where
  "validate_system_id system_id =
     (if \<not> is_system_id_valid system_id then
        Inl (ValidationException (invalid_system_id_message system_id SECRET_VALIDATION_REGEX))
      else if SECRET_SYSTEM_ID_MAX_LENGTH < length system_id then
        Inl (ValidationException
          (parameter_length_is_too_long ''system id'' system_id (str_nat SECRET_SYSTEM_ID_MAX_LENGTH)))
      else Inr ())"

section \<open>Secrets\<close>

definition validate_connection_secrets :: "json \<Rightarrow> exc + unit" where
  "validate_connection_secrets secrets =
     bnd_err (py_in SECRET_USERNAME_PARAMETER secrets) (\<lambda>u.
     bnd_err (if u then py_in SECRET_PASSWORD_PARAMETER secrets else Inr False) (\<lambda>p.
     bnd_err (if p then py_in SECRET_ARRAY_PARAMETER secrets else Inr False) (\<lambda>a.
       if a then Inr () else Inl (ValidationException secret_missing_connection_info_message))))"

definition validate_topologies :: "json \<Rightarrow> exc + unit" where
  "validate_topologies topologies =
     (if json_truthy topologies then
        bnd_err (py_iter topologies) (\<lambda>ts.
          if list_all json_truthy ts then Inr ()
          else Inl (ValidationException secret_missing_topologies_message))
      else Inl (ValidationException secret_missing_topologies_message))"

definition validate_system_info :: "string \<times> json \<Rightarrow> exc + unit" where
  "validate_system_info entry =
     (case entry of (system_id, system_info) \<Rightarrow>
        if system_id \<noteq> [] \<and> json_truthy system_info then
          bnd_err (validate_system_id system_id) (\<lambda>_.
          bnd_err (validate_connection_secrets system_info) (\<lambda>_.
          bnd_err (py_get system_info SECRET_SUPPORTED_TOPOLOGIES_PARAMETER JNull)
            validate_topologies))
        else Inl (ValidationException invalid_secret_config_message))"

definition validate_secrets_config :: "json \<Rightarrow> exc + unit" where
  "validate_secrets_config secrets_config =
     bnd_err (py_items secrets_config) (\<lambda>items.
       fold_err (\<lambda>entry _. validate_system_info entry) items ())"

definition validate_secrets :: "json_decoder \<Rightarrow> (string, string) dict \<Rightarrow> exc + unit" where
  "validate_secrets loads secrets =
     (if secrets = [] then Inl (ValidationException secret_missing_message)
      else
        let raw = map_of secrets SECRET_CONFIG_PARAMETER in
        if truthy raw then bnd_err (parse_raw_json loads (the raw)) validate_secrets_config
        else validate_connection_secrets (json_of_dict secrets))"

section \<open>Capabilities and sources\<close>

definition validate_csi_volume_capability :: "volume_capability \<Rightarrow> exc + unit" where
  "validate_csi_volume_capability cap =
     bnd_err
       (case cap_mount_fs_type cap of
          Some fs_type \<Rightarrow>
            if fs_type \<noteq> [] \<and> fs_type \<notin> set SUPPORTED_FS_TYPES
            then Inl (ValidationException (unsupported_fs_type_message fs_type)) else Inr ()
        | None \<Rightarrow>
            if \<not> cap_has_block cap
            then Inl (ValidationException unsupported_volume_access_type_message) else Inr ())
       (\<lambda>_. if cap_access_mode cap \<notin> set SUPPORTED_ACCESS_MODE
            then Inl (ValidationException (unsupported_access_mode_message (cap_access_mode_text cap)))
            else Inr ())"

definition validate_csi_volume_capabilties :: "volume_capability list \<Rightarrow> exc + unit" where
  "validate_csi_volume_capabilties capabilities =
     (if length capabilities = 0 then Inl (ValidationException capabilities_not_set_message)
      else fold_err (\<lambda>cap _. validate_csi_volume_capability cap) capabilities ())"

definition validate_source_info :: "string \<Rightarrow> object_type \<Rightarrow> exc + unit" where
  "validate_source_info source_object_id source_type =
     (if source_object_id = [] then
        Inl (ValidationException (volume_source_id_is_missing (type_name source_type)))
      else if PARAMETERS_OBJECT_ID_DELIMITER \<notin> set source_object_id then
        Inl (ObjectIdError (type_name source_type) source_object_id)
      else Inr ())"

definition validate_create_volume_source :: "create_volume_request \<Rightarrow> exc + unit" where
  "validate_create_volume_source request =
     (case cv_content_source request of
        Some (SnapshotSource sid) \<Rightarrow> validate_source_info sid SNAPSHOT_TYPE
      | Some (VolumeSource vid) \<Rightarrow> validate_source_info vid VOLUME_TYPE
      | _ \<Rightarrow> Inr ())"

section \<open>Requests\<close>

definition validate_capacity :: "int option \<Rightarrow> exc + unit" where
  "validate_capacity capacity_range =
     (case capacity_range of
        Some required_bytes \<Rightarrow>
          if required_bytes < 0 then Inl (ValidationException size_should_not_be_negative_message)
          else Inr ()
      | None \<Rightarrow> Inl (ValidationException no_capacity_range_message))"

definition validate_pool_parameter :: "(string, string) dict \<Rightarrow> exc + unit" where
  "validate_pool_parameter parameters =
     (if parameters \<noteq> [] then
        (case map_of parameters PARAMETERS_POOL of
           Some pool \<Rightarrow>
             if pool = [] then Inl (ValidationException pool_should_not_be_empty_message) else Inr ()
         | None \<Rightarrow>
             if \<not> truthy (map_of parameters PARAMETERS_BY_SYSTEM)
             then Inl (ValidationException pool_is_missing_message) else Inr ())
      else Inl (ValidationException params_are_missing_message))"

definition validate_create_volume_request :: "json_decoder \<Rightarrow> create_volume_request \<Rightarrow> exc + unit" where
  "validate_create_volume_request loads request =
     (if cv_name request = [] then Inl (ValidationException name_should_not_be_empty_message)
      else
        bnd_err (validate_capacity (cv_required_bytes request)) (\<lambda>_.
        bnd_err (validate_csi_volume_capabilties (cv_capabilities request)) (\<lambda>_.
        bnd_err (validate_secrets loads (cv_secrets request)) (\<lambda>_.
        bnd_err (validate_pool_parameter (cv_parameters request)) (\<lambda>_.
          validate_create_volume_source request)))))"

definition validate_create_snapshot_request :: "json_decoder \<Rightarrow> create_snapshot_request \<Rightarrow> exc + unit" where
  "validate_create_snapshot_request loads request =
     (if cs_name request = [] then Inl (ValidationException name_should_not_be_empty_message)
      else
        bnd_err (validate_secrets loads (cs_secrets request)) (\<lambda>_.
          if cs_source_volume_id request = []
          then Inl (ValidationException snapshot_src_volume_id_is_missing) else Inr ()))"

definition validate_delete_snapshot_request :: "json_decoder \<Rightarrow> delete_snapshot_request \<Rightarrow> exc + unit" where
  "validate_delete_snapshot_request loads request =
     (if ds_snapshot_id request = [] then Inl (ValidationException name_should_not_be_empty_message)
      else validate_secrets loads (ds_secrets request))"

definition validate_expand_volume_request :: "json_decoder \<Rightarrow> expand_volume_request \<Rightarrow> exc + unit" where
  "validate_expand_volume_request loads request =
     (if ev_volume_id request = [] then Inl (ValidationException id_should_not_be_empty_message)
      else
        bnd_err (validate_capacity (ev_required_bytes request)) (\<lambda>_.
          validate_secrets loads (ev_secrets request)))"

definition validate_delete_volume_request :: "json_decoder \<Rightarrow> delete_volume_request \<Rightarrow> exc + unit" where
  "validate_delete_volume_request loads request =
     (if dv_volume_id request = '''' then Inl (ValidationException ''Volume id cannot be empty'')
      else validate_secrets loads (dv_secrets request))"

definition validate_publish_volume_request :: "json_decoder \<Rightarrow> publish_volume_request \<Rightarrow> exc + unit" where
  "validate_publish_volume_request loads request =
     (if pv_readonly request then Inl (ValidationException readonly_not_supported_message)
      else
        bnd_err (validate_csi_volume_capability (pv_capability request)) (\<lambda>_.
          validate_secrets loads (pv_secrets request)))"

definition validate_unpublish_volume_request :: "json_decoder \<Rightarrow> unpublish_volume_request \<Rightarrow> exc + unit" where
  "validate_unpublish_volume_request loads request =
     (if length (split_on PARAMETERS_OBJECT_ID_DELIMITER (uv_volume_id request))
           \<notin> {MINIMUM_VOLUME_ID_PARTS, MAXIMUM_VOLUME_ID_PARTS}
      then Inl (ValidationException volume_id_wrong_format_message)
      else validate_secrets loads (uv_secrets request))"

section \<open>Responses\<close>

record create_volume_response =
  cvr_capacity_bytes :: int
  cvr_volume_id :: string
  cvr_content_source :: "content_source option"
  cvr_volume_context :: "(string, string) dict"

record create_snapshot_response =
  csr_size_bytes :: int
  csr_snapshot_id :: string
  csr_source_volume_id :: string
  csr_creation_time :: int
  csr_ready_to_use :: bool

record expand_volume_response =
  evr_capacity_bytes :: int
  evr_node_expansion_required :: bool

fun address_list :: "address \<Rightarrow> string list" where
  "address_list (AddrList as) = as"
| "address_list (Addr a) = [a]"

definition generate_csi_create_volume_response ::
  "volume \<Rightarrow> string option \<Rightarrow> object_type option \<Rightarrow> create_volume_response" where
  "generate_csi_create_volume_response new_volume system_id source_type =
     \<lparr>cvr_capacity_bytes = vol_capacity_bytes new_volume,
      cvr_volume_id = get_volume_id new_volume system_id,
      cvr_content_source =
        (if truthy (vol_copy_source_id new_volume) then
           (if source_type = Some SNAPSHOT_TYPE
            then Some (SnapshotSource (the (vol_copy_source_id new_volume)))
            else Some (VolumeSource (the (vol_copy_source_id new_volume))))
         else None),
      cvr_volume_context =
        [(''volume_name'', vol_name new_volume),
         (''array_address'', join '','' (address_list (vol_array_address new_volume))),
         (''pool_name'', vol_pool new_volume),
         (''storage_type'', vol_array_type new_volume)]\<rparr>"

text \<open>The current time is read from the clock: the parameter \<open>now\<close>.\<close>

definition generate_csi_create_snapshot_response ::
  "int \<Rightarrow> snapshot \<Rightarrow> string \<Rightarrow> create_snapshot_response" where
  "generate_csi_create_snapshot_response now new_snapshot source_volume_id =
     \<lparr>csr_size_bytes = snap_capacity_bytes new_snapshot,
      csr_snapshot_id = get_snapshot_id new_snapshot,
      csr_source_volume_id = source_volume_id,
      csr_creation_time = now,
      csr_ready_to_use = snap_is_ready new_snapshot\<rparr>"

definition generate_csi_expand_volume_response :: "int \<Rightarrow> bool \<Rightarrow> expand_volume_response" where
  "generate_csi_expand_volume_response capacity_bytes node_expansion_required =
     \<lparr>evr_capacity_bytes = capacity_bytes, evr_node_expansion_required = node_expansion_required\<rparr>"

text \<open>The section \<^verbatim>\<open>controller\<close> of \<^verbatim>\<open>common/config.yaml\<close>.\<close>

record publish_config =
  publish_context_lun_parameter :: string
  publish_context_connectivity_parameter :: string
  publish_context_separator :: string
  publish_context_array_iqn :: string
  publish_context_fc_initiators :: string

text \<open>The iSCSI targets are a dictionary from an IQN to its addresses, the FC ports a list.\<close>

datatype array_initiators = IscsiTargets "(string, string list) dict" | FcWwns "string list"

fun initiator_keys :: "array_initiators \<Rightarrow> string list" where
  "initiator_keys (IscsiTargets d) = map fst d"
| "initiator_keys (FcWwns ws) = ws"

definition generate_csi_publish_volume_response ::
  "publish_config \<Rightarrow> lun \<Rightarrow> string \<Rightarrow> array_initiators \<Rightarrow> exc + (string, string) dict" where
  "generate_csi_publish_volume_response config lun connectivity_type array_initiators =
     (let separator = publish_context_separator config;
          publish_context =
            dict_set (publish_context_connectivity_parameter config) connectivity_type
              [(publish_context_lun_parameter config, lun_str lun)]
      in if connectivity_type = ISCSI_CONNECTIVITY_TYPE then
           (case array_initiators of
              FcWwns _ \<Rightarrow> Inl AttributeError
            | IscsiTargets d \<Rightarrow>
                Inr (dict_set (publish_context_array_iqn config) (join separator (map fst d))
                  (fold (\<lambda>(iqn, ips). dict_set iqn (join separator ips)) d publish_context)))
         else
           Inr (dict_set (publish_context_fc_initiators config)
             (join separator (initiator_keys array_initiators)) publish_context))"

section \<open>System identifiers: what validation gives\<close>

lemma alnum_not_colon: "alnum c \<Longrightarrow> c \<noteq> CHR '':''"
  by (auto simp: alnum_def)

lemma system_id_body_no_colon: "system_id_body s \<Longrightarrow> CHR '':'' \<notin> set s"
  by (auto simp: system_id_body_def dest: alnum_not_colon)

lemma valid_system_id_no_colon: "is_system_id_valid s \<Longrightarrow> CHR '':'' \<notin> set s"
  unfolding is_system_id_valid_def
  by (cases s rule: rev_cases) (auto dest: system_id_body_no_colon)

lemma validate_system_id_Inr:
  "validate_system_id s = Inr () \<longleftrightarrow> is_system_id_valid s \<and> length s \<le> 89"
  by (auto simp: validate_system_id_def SECRET_SYSTEM_ID_MAX_LENGTH_eq)

lemma valid_system_id_nonempty: "is_system_id_valid s \<Longrightarrow> s \<noteq> []"
  by (simp add: is_system_id_valid_def)

text \<open>The identifiers of an object, with and without a system.\<close>

lemma object_id_info_without_system:
  "CHR '':'' \<notin> set t \<Longrightarrow> CHR '':'' \<notin> set i \<Longrightarrow>
   get_object_id_info (get_object_id t i None) ty =
     Inr \<lparr>oi_array_type = t, oi_system_id = None, oi_object_id = i\<rparr>"
  by (simp add: get_object_id_info_def get_object_id_def PARAMETERS_OBJECT_ID_DELIMITER_def
      split_on_append split_on_absent)

lemma object_id_info_with_system:
  "CHR '':'' \<notin> set t \<Longrightarrow> CHR '':'' \<notin> set i \<Longrightarrow> CHR '':'' \<notin> set sid \<Longrightarrow> sid \<noteq> [] \<Longrightarrow>
   get_object_id_info (get_object_id t i (Some sid)) ty =
     Inr \<lparr>oi_array_type = t, oi_system_id = Some sid, oi_object_id = i\<rparr>"
  by (simp add: get_object_id_info_def get_object_id_def PARAMETERS_OBJECT_ID_DELIMITER_def
      split_on_append split_on_absent)

lemma array_types_no_colon: "t \<in> set ALL_ARRAY_TYPES \<Longrightarrow> CHR '':'' \<notin> set t"
  by (auto simp: array_type_defs)

lemma array_types_short: "t \<in> set ALL_ARRAY_TYPES \<Longrightarrow> length t \<le> 5"
  by (auto simp: array_type_defs)

lemma length_get_object_id:
  "length (get_object_id t i sys) =
     length t + length i + 1 +
     (case sys of Some sid \<Rightarrow> if sid = [] then 0 else length sid + 1 | None \<Rightarrow> 0)"
  by (simp add: get_object_id_def split: option.split)

text \<open>Only the two shapes are read, and reading is injective on them.\<close>

lemma get_object_id_info_parts:
  "get_object_id_info full ty = Inr r \<Longrightarrow>
   full = (case oi_system_id r of
             None \<Rightarrow> join [CHR '':''] [oi_array_type r, oi_object_id r]
           | Some sid \<Rightarrow> join [CHR '':''] [oi_array_type r, sid, oi_object_id r])"
  using join_split_on [of "CHR '':''" full]
  by (auto simp: get_object_id_info_def PARAMETERS_OBJECT_ID_DELIMITER_def
      split: list.split_asm)

lemma get_object_id_info_Inr_iff:
  "(\<exists>r. get_object_id_info full ty = Inr r) \<longleftrightarrow>
     length (split_on PARAMETERS_OBJECT_ID_DELIMITER full) \<in> {2, 3}"
  by (auto simp: get_object_id_info_def split: list.split)

text \<open>
  C30: volume_id_roundtrip
  A volume id made with a system id that validation accepts is at most 128 bytes long, and
  reading it back gives the array type, that system id and the object id: the \<open>:\<close> of the
  system id cannot be confused with the delimiter.
\<close>

theorem volume_id_roundtrip:
  assumes "vol_array_type v \<in> set ALL_ARRAY_TYPES"
    and "CHR '':'' \<notin> set (vol_id v)" and "length (vol_id v) \<le> VOLUME_WWN_LENGTH"
    and "sys \<noteq> None \<Longrightarrow> validate_system_id (the sys) = Inr ()"
  shows "get_volume_id_info (get_volume_id v sys) =
      Inr \<lparr>oi_array_type = vol_array_type v, oi_system_id = sys, oi_object_id = vol_id v\<rparr>
    \<and> length (get_volume_id v sys) \<le> MAX_RESPONSE_STRING_LENGTH"
proof (cases sys)
  case None
  then show ?thesis
    using assms(2,3) array_types_no_colon [OF assms(1)] array_types_short [OF assms(1)]
    by (simp add: get_volume_id_info_def get_volume_id_def object_id_info_without_system
        length_get_object_id VOLUME_WWN_LENGTH_def MAX_RESPONSE_STRING_LENGTH_def)
next
  case (Some sid)
  then have "is_system_id_valid sid" "length sid \<le> 89"
    using assms(4) by (simp_all add: validate_system_id_Inr)
  then show ?thesis
    using Some assms(2,3) array_types_no_colon [OF assms(1)] array_types_short [OF assms(1)]
    by (simp add: get_volume_id_info_def get_volume_id_def object_id_info_with_system
        length_get_object_id VOLUME_WWN_LENGTH_def MAX_RESPONSE_STRING_LENGTH_def
        valid_system_id_no_colon valid_system_id_nonempty)
qed

definition sample_volume :: volume where
  "sample_volume =
     \<lparr>vol_capacity_bytes = 1024, vol_id = ''6005'', vol_name = ''v1'', vol_array_address = Addr ''a'',
      vol_pool = ''p'', vol_copy_source_id = None, vol_array_type = ''SVC''\<rparr>"

lemma sample_system_id: "validate_system_id ''s.1'' = Inr ()"
  by (simp add: validate_system_id_Inr is_system_id_valid_def system_id_body_def alnum_def Let_def)

lemma volume_id_roundtrip_witness:
  "get_volume_id_info (get_volume_id sample_volume (Some ''s.1'')) =
      Inr \<lparr>oi_array_type = ''SVC'', oi_system_id = Some ''s.1'', oi_object_id = ''6005''\<rparr>
    \<and> length (get_volume_id sample_volume (Some ''s.1'')) \<le> MAX_RESPONSE_STRING_LENGTH"
  using volume_id_roundtrip [of sample_volume "Some ''s.1''"]
  by (simp add: sample_volume_def array_type_defs VOLUME_WWN_LENGTH_def sample_system_id)

section \<open>Secrets: what validation gives\<close>

lemma fold_err_unit_Inr:
  "fold_err (\<lambda>x _. f x) xs () = Inr () \<longleftrightarrow> (\<forall>x \<in> set xs. f x = Inr ())"
  by (induction xs) (auto split: sum.split)

lemma validate_connection_secrets_obj:
  "validate_connection_secrets (JObj d) = Inr () \<longleftrightarrow>
     has_key d SECRET_USERNAME_PARAMETER \<and> has_key d SECRET_PASSWORD_PARAMETER \<and>
     has_key d SECRET_ARRAY_PARAMETER"
  by (auto simp: validate_connection_secrets_def)

lemma json_of_dict_obj: "json_of_dict d = JObj (map (\<lambda>(k, v). (k, JStr v)) d)"
  by (simp add: json_of_dict_def)

lemma has_key_json_dict: "has_key (map (\<lambda>(k, v). (k, JStr v)) d) k = has_key d k"
  by (simp add: has_key_def map_of_map_JStr)

lemma has_keyE: "has_key d k \<Longrightarrow> (\<And>v. map_of d k = Some v \<Longrightarrow> P) \<Longrightarrow> P"
  by (auto simp: has_key_def)

lemma connection_info_of_object:
  assumes "map_of d SECRET_USERNAME_PARAMETER = Some u"
    and "map_of d SECRET_PASSWORD_PARAMETER = Some p"
    and "map_of d SECRET_ARRAY_PARAMETER = Some (JStr a)"
  shows "get_array_connection_info_from_system_info (JObj d) sid =
    Inr \<lparr>ci_array_addresses = split_on (CHR '','') a, ci_user = u, ci_password = p, ci_system_id = sid\<rparr>"
  using assms
  by (simp add: get_array_connection_info_from_system_info_def
      PARAMETERS_ARRAY_ADDRESSES_DELIMITER_def)

text \<open>
  Secrets without a configuration document that validation accepts always give connection
  information: their own user and password, and the management address split at the commas.
\<close>

theorem validated_plain_secrets:
  assumes "validate_secrets loads secrets = Inr ()"
    and "\<not> truthy (map_of secrets SECRET_CONFIG_PARAMETER)"
  shows "\<exists>u p a.
      map_of secrets SECRET_USERNAME_PARAMETER = Some u \<and>
      map_of secrets SECRET_PASSWORD_PARAMETER = Some p \<and>
      map_of secrets SECRET_ARRAY_PARAMETER = Some a \<and>
      get_array_connection_info_from_secrets loads secrets topologies system_id =
        Inr \<lparr>ci_array_addresses = split_on (CHR '','') a, ci_user = JStr u, ci_password = JStr p,
             ci_system_id = system_id\<rparr>"
proof -
  from assms have "validate_connection_secrets (json_of_dict secrets) = Inr ()"
    by (auto simp: validate_secrets_def Let_def split: if_splits)
  then obtain u p a where keys: "map_of secrets SECRET_USERNAME_PARAMETER = Some u"
    "map_of secrets SECRET_PASSWORD_PARAMETER = Some p"
    "map_of secrets SECRET_ARRAY_PARAMETER = Some a"
    by (auto simp: json_of_dict_obj validate_connection_secrets_obj has_key_json_dict
        elim!: has_keyE)
  then have "get_array_connection_info_from_system_info (json_of_dict secrets) system_id =
      Inr \<lparr>ci_array_addresses = split_on (CHR '','') a, ci_user = JStr u, ci_password = JStr p,
           ci_system_id = system_id\<rparr>"
    unfolding json_of_dict_obj by (intro connection_info_of_object) (simp_all add: map_of_map_JStr)
  with keys assms(2) show ?thesis
    by (simp add: get_array_connection_info_from_secrets_def get_system_info_from_secrets_def Let_def)
qed

definition sample_secrets :: "(string, string) dict" where
  "sample_secrets = [(''username'', ''u''), (''password'', ''p''), (''management_address'', ''a,b'')]"

lemmas secret_parameter_defs =
  SECRET_CONFIG_PARAMETER_def SECRET_USERNAME_PARAMETER_def SECRET_PASSWORD_PARAMETER_def
  SECRET_ARRAY_PARAMETER_def SECRET_SUPPORTED_TOPOLOGIES_PARAMETER_def

lemma sample_secrets_valid: "validate_secrets loads sample_secrets = Inr ()"
  and sample_secrets_plain: "\<not> truthy (map_of sample_secrets SECRET_CONFIG_PARAMETER)"
  by (simp_all add: validate_secrets_def sample_secrets_def secret_parameter_defs json_of_dict_obj
      validate_connection_secrets_def has_key_def)

lemma validated_plain_secrets_witness:
  "\<exists>u p a.
      map_of sample_secrets SECRET_USERNAME_PARAMETER = Some u \<and>
      map_of sample_secrets SECRET_PASSWORD_PARAMETER = Some p \<and>
      map_of sample_secrets SECRET_ARRAY_PARAMETER = Some a \<and>
      get_array_connection_info_from_secrets Inl sample_secrets None None =
        Inr \<lparr>ci_array_addresses = split_on (CHR '','') a, ci_user = JStr u, ci_password = JStr p,
             ci_system_id = None\<rparr>"
  using validated_plain_secrets [OF sample_secrets_valid [of Inl] sample_secrets_plain] .

text \<open>The entries of a configuration document that validation accepts.\<close>

lemma validate_secrets_config_obj:
  "validate_secrets_config (JObj systems) = Inr () \<longleftrightarrow>
     (\<forall>e \<in> set systems. validate_system_info e = Inr ())"
  by (simp add: validate_secrets_config_def fold_err_unit_Inr)

lemma validate_system_info_obj:
  "validate_system_info (sid, JObj info) = Inr () \<Longrightarrow>
     validate_system_id sid = Inr () \<and>
     has_key info SECRET_USERNAME_PARAMETER \<and> has_key info SECRET_PASSWORD_PARAMETER \<and>
     has_key info SECRET_ARRAY_PARAMETER"
  by (auto simp: validate_system_info_def validate_connection_secrets_obj bnd_err_Inr_iff
      split: if_splits)

lemma validated_config_systems:
  assumes "validate_secrets loads secrets = Inr ()"
    and "map_of secrets SECRET_CONFIG_PARAMETER = Some raw" and "raw \<noteq> []"
    and "loads raw = Inr (JObj systems)"
  shows "\<forall>e \<in> set systems. validate_system_info e = Inr ()"
  using assms
  by (auto simp: validate_secrets_def parse_raw_json_def validate_secrets_config_obj
      split: if_splits)

text \<open>
  C34: validated_config_secrets
  Validated secrets with a configuration document: a system of the document, given as an
  object whose management address is a string, is found under its id, with its own user,
  password and addresses, and its id is one that \<open>volume_id_roundtrip\<close> covers.  A system id
  that is not in the document is not rejected with a message: \<^verbatim>\<open>secrets_config.get\<close> gives
  \<^verbatim>\<open>None\<close>, and subscripting it raises \<^verbatim>\<open>TypeError\<close>.
\<close>

theorem validated_config_secrets:
  assumes valid: "validate_secrets loads secrets = Inr ()"
    and raw: "map_of secrets SECRET_CONFIG_PARAMETER = Some raw" "raw \<noteq> []"
    and doc: "loads raw = Inr (JObj systems)"
    and sid: "sid \<noteq> []"
  shows "case map_of systems sid of
      None \<Rightarrow> get_array_connection_info_from_secrets loads secrets topologies (Some sid) = Inl TypeError
    | Some info \<Rightarrow>
        validate_system_id sid = Inr () \<and>
        (\<forall>d a. info = JObj d \<longrightarrow> map_of d SECRET_ARRAY_PARAMETER = Some (JStr a) \<longrightarrow>
          (\<exists>u p. map_of d SECRET_USERNAME_PARAMETER = Some u \<and>
            map_of d SECRET_PASSWORD_PARAMETER = Some p \<and>
            get_array_connection_info_from_secrets loads secrets topologies (Some sid) =
              Inr \<lparr>ci_array_addresses = split_on (CHR '','') a, ci_user = u, ci_password = p,
                   ci_system_id = Some sid\<rparr>))"
proof (cases "map_of systems sid")
  case None
  then show ?thesis
    using raw doc sid
    by (simp add: get_array_connection_info_from_secrets_def get_system_info_from_secrets_def
        parse_raw_json_def dict_get_def get_array_connection_info_from_system_info_def)
next
  case (Some info)
  then have entry: "validate_system_info (sid, info) = Inr ()"
    using validated_config_systems [OF valid raw doc] map_of_SomeD by fast
  then have id_ok: "validate_system_id sid = Inr ()"
    by (auto simp: validate_system_info_def bnd_err_Inr_iff split: if_splits)
  have "get_array_connection_info_from_secrets loads secrets topologies (Some sid) =
      get_array_connection_info_from_system_info info (Some sid)"
    using raw doc sid Some
    by (simp add: get_array_connection_info_from_secrets_def get_system_info_from_secrets_def
        parse_raw_json_def dict_get_def)
  then show ?thesis
    using Some id_ok entry
    by (auto dest!: validate_system_info_obj elim!: has_keyE simp: connection_info_of_object)
qed

definition sample_systems :: "(string, json) dict" where
  "sample_systems =
     [(''s.1'', JObj
        [(''username'', JStr ''u''), (''password'', JStr ''p''), (''management_address'', JStr ''a''),
         (''supported_topologies'', JArr [JObj [(''zone'', JStr ''z1'')]])])]"

definition sample_config_secrets :: "(string, string) dict" where
  "sample_config_secrets = [(''config'', ''doc'')]"

lemma sample_config_secrets_valid:
  "validate_secrets (\<lambda>_. Inr (JObj sample_systems)) sample_config_secrets = Inr ()"
  by (simp add: validate_secrets_def parse_raw_json_def sample_config_secrets_def
      sample_systems_def secret_parameter_defs validate_secrets_config_def
      validate_system_info_def sample_system_id validate_connection_secrets_def has_key_def
      validate_topologies_def dict_get_def)

lemma sample_config_raw: "map_of sample_config_secrets SECRET_CONFIG_PARAMETER = Some ''doc''"
  by (simp add: sample_config_secrets_def secret_parameter_defs)

lemma validated_config_secrets_witness:
  "get_array_connection_info_from_secrets (\<lambda>_. Inr (JObj sample_systems)) sample_config_secrets
       None (Some ''x'') = Inl TypeError
   \<and> validate_system_id ''s.1'' = Inr ()"
  using validated_config_secrets [OF sample_config_secrets_valid, where raw = "''doc''" and systems = sample_systems and sid = "''x''"
      and topologies = None]
    validated_config_secrets [OF sample_config_secrets_valid, where raw = "''doc''" and systems = sample_systems
      and sid = "''s.1''" and topologies = None]
  by (simp add: sample_config_raw) (simp add: sample_systems_def)

section \<open>Topologies\<close>

text \<open>A system that supports a topology all of whose segments the node has.\<close>

definition system_matches :: "json \<Rightarrow> (string, string) dict \<Rightarrow> bool" where
  "system_matches info node \<longleftrightarrow>
     (case info of
        JObj d \<Rightarrow>
          (case map_of d SECRET_SUPPORTED_TOPOLOGIES_PARAMETER of
             Some (JArr ts) \<Rightarrow> \<exists>t \<in> set ts. case t of JObj items \<Rightarrow> items_subset items node | _ \<Rightarrow> False
           | _ \<Rightarrow> False)
      | _ \<Rightarrow> False)"

fun json_is_object :: "json \<Rightarrow> bool" where
  "json_is_object (JObj _) = True"
| "json_is_object _ = False"

text \<open>An entry of the documented shape: a list of topology objects.\<close>

definition topologies_well_formed :: "json \<Rightarrow> bool" where
  "topologies_well_formed info \<longleftrightarrow>
     (\<exists>d ts. info = JObj d \<and> map_of d SECRET_SUPPORTED_TOPOLOGIES_PARAMETER = Some (JArr ts) \<and>
       list_all json_is_object ts)"

lemma is_topology_match_list_objects:
  "list_all json_is_object ts \<Longrightarrow>
   is_topology_match_list ts node =
     Inr (\<exists>t \<in> set ts. case t of JObj items \<Rightarrow> items_subset items node | _ \<Rightarrow> False)"
proof (induction ts)
  case (Cons t ts)
  then show ?case by (cases t) auto
qed simp

lemma system_matches_step:
  "topologies_well_formed info \<Longrightarrow>
   bnd_err (py_get info SECRET_SUPPORTED_TOPOLOGIES_PARAMETER JNull)
     (\<lambda>tops. is_topology_match tops node) = Inr (system_matches info node)"
  by (auto simp: topologies_well_formed_def dict_get_def is_topology_match_def system_matches_def
      is_topology_match_list_objects)

lemma system_info_for_topologies_Cons:
  "topologies_well_formed info \<Longrightarrow>
   system_info_for_topologies ((sid, info) # rest) node =
     (if system_matches info node then Inr (info, sid) else system_info_for_topologies rest node)"
  using system_matches_step [of info node]
  by (cases "py_get info SECRET_SUPPORTED_TOPOLOGIES_PARAMETER JNull") auto

text \<open>
  C36: topologies_choose_first
  For a configuration document of the documented shape, the system chosen for the requested
  topologies is the first one of the document, in its order, that supports them; when none
  does, the request is refused as invalid.
\<close>

theorem topologies_choose_first:
  assumes "\<forall>(sid, info) \<in> set systems. topologies_well_formed info"
  shows "get_system_info_for_topologies (JObj systems) node =
    (case find (\<lambda>(sid, info). system_matches info node) systems of
       Some (sid, info) \<Rightarrow> Inr (info, sid)
     | None \<Rightarrow> Inl (ValidationException (no_system_match_requested_topologies (str_dict node))))"
proof -
  have "system_info_for_topologies systems node =
    (case find (\<lambda>(sid, info). system_matches info node) systems of
       Some (sid, info) \<Rightarrow> Inr (info, sid)
     | None \<Rightarrow> Inl (ValidationException (no_system_match_requested_topologies (str_dict node))))"
    using assms
    by (induction systems) (auto simp: system_info_for_topologies_Cons simp del: system_info_for_topologies.simps(2))
  then show ?thesis by (simp add: get_system_info_for_topologies_def)
qed

lemma topologies_choose_first_witness:
  "get_system_info_for_topologies (JObj sample_systems) [(''zone'', ''z1''), (''r'', ''1'')] =
     Inr (snd (hd sample_systems), ''s.1'')"
  by (subst topologies_choose_first)
    (simp_all add: sample_systems_def topologies_well_formed_def secret_parameter_defs
      system_matches_def items_subset_def)

section \<open>Node identifiers\<close>

lemma set_join_wwns: "\<forall>w \<in> set ws. c \<notin> set w \<Longrightarrow> c \<noteq> d \<Longrightarrow> c \<notin> set (join [d] ws)"
  using set_join_subset [of "[d]" ws] by auto

text \<open>
  The node plugin's identifier \<open>name;wwn:...:wwn;iqn\<close> is read back into its parts, with the
  white space around the IQN removed; the two-part form, for a node without an IQN, gives an
  empty one; and an identifier with no or more than two semicolons is refused as a host that
  was not found.
\<close>

theorem node_id_parsed:
  assumes "CHR '';'' \<notin> set name" and "CHR '';'' \<notin> set iqn"
    and "wwns \<noteq> []" and "\<forall>w \<in> set wwns. CHR '';'' \<notin> set w \<and> CHR '':'' \<notin> set w"
  shows "NodeIdInfo (join '';'' [name, join '':'' wwns, iqn]) =
      Inr (name, \<lparr>ini_iscsi_iqn = strip iqn, ini_fc_wwns = wwns\<rparr>)
    \<and> NodeIdInfo (join '';'' [name, join '':'' wwns]) =
      Inr (name, \<lparr>ini_iscsi_iqn = '''', ini_fc_wwns = wwns\<rparr>)
    \<and> (count_list node_id (CHR '';'') \<notin> {1, 2} \<longrightarrow>
         NodeIdInfo node_id = Inl (HostNotFoundError node_id))"
proof -
  have "CHR '';'' \<notin> set (join '':'' wwns)"
    using assms(4) by (intro set_join_wwns) auto
  moreover have "split_on (CHR '':'') (join '':'' wwns) = wwns"
    using assms(3,4) by (intro split_on_join) auto
  moreover have "strip [] = []"
    by (simp add: strip_id stripped_def)
  ultimately show ?thesis
    using assms(1,2)
    by (auto simp: NodeIdInfo_def get_node_id_info_def PARAMETERS_NODE_ID_DELIMITER_def
        PARAMETERS_FC_WWN_DELIMITER_def SUPPORTED_CONNECTIVITY_TYPES_def split_on_append
        split_on_absent length_split_on Let_def)
qed

lemma node_id_parsed_witness:
  "NodeIdInfo (join '';'' [''n1'', join '':'' [''10'', ''20''], '' iqn.1'']) =
     Inr (''n1'', \<lparr>ini_iscsi_iqn = ''iqn.1'', ini_fc_wwns = [''10'', ''20'']\<rparr>)
   \<and> NodeIdInfo ''n1'' = Inl (HostNotFoundError ''n1'')"
proof -
  have s: "strip '' iqn.1'' = ''iqn.1''"
    by (simp add: strip_def lstrip_def rstrip_def py_space_def)
  show ?thesis
    using node_id_parsed [of "''n1''" "'' iqn.1''" "[''10'', ''20'']" "''n1''"]
    by (simp del: join.simps add: s)
qed

section \<open>The publish context\<close>

lemma fold_dict_set_map_of:
  "distinct (map fst d) \<Longrightarrow>
   map_of (fold (\<lambda>(k, v). dict_set k (f v)) d c) x =
     (case map_of d x of Some v \<Rightarrow> Some (f v) | None \<Rightarrow> map_of c x)"
proof (induction d arbitrary: c)
  case (Cons kv d)
  then have "map_of d (fst kv) = None"
    by (simp add: map_of_eq_None_iff)
  with Cons show ?case
    by (cases kv) (auto split: option.split)
qed simp

text \<open>The parameter names are distinct from each other and from the targets' names.\<close>

definition publish_config_ok :: "publish_config \<Rightarrow> string list \<Rightarrow> bool" where
  "publish_config_ok c keys \<longleftrightarrow>
     distinct ([publish_context_lun_parameter c, publish_context_connectivity_parameter c,
       publish_context_array_iqn c] @ keys)"

definition default_publish_config :: publish_config where
  "default_publish_config =
     \<lparr>publish_context_lun_parameter = ''PUBLISH_CONTEXT_LUN'',
      publish_context_connectivity_parameter = ''PUBLISH_CONTEXT_CONNECTIVITY'',
      publish_context_separator = '','',
      publish_context_array_iqn = ''PUBLISH_CONTEXT_ARRAY_IQN'',
      publish_context_fc_initiators = ''PUBLISH_CONTEXT_ARRAY_FC_INITIATORS''\<rparr>"

text \<open>
  The publish context of an iSCSI attachment tells the node everything it needs: the LUN, the
  connectivity, the list of target IQNs, and for every target its addresses; split at the
  separator, the lists are the ones the mediator returned.  Nothing else is in it.
\<close>

theorem publish_context_iscsi:
  assumes "publish_config_ok config (map fst targets)"
    and "publish_context_separator config = [c]"
    and "targets \<noteq> []"
    and "\<forall>(iqn, ips) \<in> set targets. c \<notin> set iqn \<and> ips \<noteq> [] \<and> (\<forall>ip \<in> set ips. c \<notin> set ip)"
  shows "\<exists>ctx. generate_csi_publish_volume_response config lun ISCSI_CONNECTIVITY_TYPE
        (IscsiTargets targets) = Inr ctx \<and>
      map_of ctx (publish_context_lun_parameter config) = Some (lun_str lun) \<and>
      map_of ctx (publish_context_connectivity_parameter config) = Some ISCSI_CONNECTIVITY_TYPE \<and>
      map_option (split_on c) (map_of ctx (publish_context_array_iqn config)) = Some (map fst targets) \<and>
      (\<forall>(iqn, ips) \<in> set targets. map_option (split_on c) (map_of ctx iqn) = Some ips) \<and>
      dom (map_of ctx) = set (map fst targets) \<union> {publish_context_lun_parameter config,
        publish_context_connectivity_parameter config, publish_context_array_iqn config}"
proof -
  let ?l = "publish_context_lun_parameter config"
  let ?k = "publish_context_connectivity_parameter config"
  let ?a = "publish_context_array_iqn config"
  let ?base = "dict_set ?k ISCSI_CONNECTIVITY_TYPE [(?l, lun_str lun)]"
  let ?ctx = "dict_set ?a (join [c] (map fst targets))
    (fold (\<lambda>(iqn, ips). dict_set iqn (join [c] ips)) targets ?base)"
  have dist: "distinct (map fst targets)"
    and keys: "?l \<notin> fst ` set targets" "?k \<notin> fst ` set targets" "?a \<notin> fst ` set targets"
    and names: "?l \<noteq> ?k" "?l \<noteq> ?a" "?k \<noteq> ?a"
    using assms(1) by (auto simp: publish_config_ok_def)
  obtain ctx where ctx: "ctx = ?ctx" by simp
  have at: "map_of ctx x =
      (if x = ?a then Some (join [c] (map fst targets))
       else case map_of targets x of
           Some ips \<Rightarrow> Some (join [c] ips)
         | None \<Rightarrow> if x = ?k then Some ISCSI_CONNECTIVITY_TYPE
                   else if x = ?l then Some (lun_str lun) else None)" for x
    using fold_dict_set_map_of [OF dist, of "join [c]" ?base x] names unfolding ctx by (simp split: option.split)
  have none: "map_of targets ?l = None" "map_of targets ?k = None"
    using keys by (simp_all add: map_of_eq_None_iff)
  have "split_on c (join [c] (map fst targets)) = map fst targets"
    using assms(3,4) by (intro split_on_join) auto
  moreover have "map_option (split_on c) (map_of ctx iqn) = Some ips"
    if "(iqn, ips) \<in> set targets" for iqn ips
  proof -
    have "iqn \<noteq> ?a" using keys(3) that by force
    moreover have "split_on c (join [c] ips) = ips"
      using assms(4) that by (intro split_on_join) auto
    ultimately show ?thesis
      using that dist unfolding at by simp
  qed
  moreover have "dom (map_of ctx) = dom (map_of targets) \<union> {?l, ?k, ?a}"
    by (auto simp: dom_def at split: option.splits if_splits)
  moreover have "generate_csi_publish_volume_response config lun ISCSI_CONNECTIVITY_TYPE
      (IscsiTargets targets) = Inr ctx"
    unfolding ctx by (simp only: generate_csi_publish_volume_response_def Let_def assms(2)) simp
  ultimately show ?thesis
    using names none by (intro exI [of _ ctx]) (auto simp: at dom_map_of_conv_image_fst)
qed

lemma publish_context_iscsi_witness:
  "\<exists>ctx. generate_csi_publish_volume_response default_publish_config (LunStr ''3'')
      ISCSI_CONNECTIVITY_TYPE (IscsiTargets [(''iqn.a'', [''1.1.1.1'', ''::1''])]) = Inr ctx \<and>
    map_option (split_on (CHR '','')) (map_of ctx ''iqn.a'') = Some [''1.1.1.1'', ''::1'']"
proof -
  have "publish_config_ok default_publish_config (map fst [(''iqn.a'', [''1.1.1.1'', ''::1''])])"
    by (simp add: publish_config_ok_def default_publish_config_def)
  moreover have "publish_context_separator default_publish_config = '',''"
    by (simp add: default_publish_config_def)
  ultimately show ?thesis
    using publish_context_iscsi [of default_publish_config "[(''iqn.a'', [''1.1.1.1'', ''::1''])]"
      "CHR '',''" "LunStr ''3''"] by auto
qed

end
