(* ===== verification/Mediator.thy ===== *)
theory Mediator
  imports Validation
begin

text \<open>
  \<^verbatim>\<open>array_mediator_abstract.py\<close>: mapping a volume to the host of a node's initiators and
  unmapping it, over any mediator; and the contract of a mediator that the controller relies
  on, as a locale.  The theories of the three storage types interpret it.
\<close>

section \<open>The mapping to the initiators' host\<close>

fun is_LunAlreadyInUse :: "exc \<Rightarrow> bool" where
  "is_LunAlreadyInUse (LunAlreadyInUseError _ _) = True"
| "is_LunAlreadyInUse _ = False"

fun is_NoConnectionAvailable :: "exc \<Rightarrow> bool" where
  "is_NoConnectionAvailable (NoConnectionAvailableException _) = True"
| "is_NoConnectionAvailable _ = False"

text \<open>\<^verbatim>\<open>for i in range(n): try: map_volume; break ... else: raise ex\<close>.\<close>

fun map_volume_retries :: "'s mediator \<Rightarrow> string \<Rightarrow> string \<Rightarrow> exc \<Rightarrow> nat \<Rightarrow> ('s, lun) pyprog" where
  "map_volume_retries med volume_id host_name ex 0 = raise ex"
| "map_volume_retries med volume_id host_name ex (Suc n) =
     try_except (map_volume med volume_id host_name)
       (\<lambda>inner_ex. if is_LunAlreadyInUse inner_ex then map_volume_retries med volume_id host_name ex n
                   else raise inner_ex)"

definition map_volume_with_retries :: "'s mediator \<Rightarrow> string \<Rightarrow> string \<Rightarrow> ('s, lun) pyprog" where
  "map_volume_with_retries med volume_id host_name =
     try_except (map_volume med volume_id host_name)
       (\<lambda>ex. if is_LunAlreadyInUse ex
             then map_volume_retries med volume_id host_name ex (max_lun_retries med - 1)
             else raise ex)"

definition get_array_initiators ::
  "'s mediator \<Rightarrow> string \<Rightarrow> string option \<Rightarrow> ('s, array_initiators) pyprog" where
  "get_array_initiators med host_name connectivity_type =
     (if Some FC_CONNECTIVITY_TYPE = connectivity_type then
        bnd (get_array_fc_wwns med host_name) (\<lambda>wwns. ret (FcWwns wwns))
      else if Some ISCSI_CONNECTIVITY_TYPE = connectivity_type then
        bnd (get_iscsi_targets_by_iqn med) (\<lambda>targets. ret (IscsiTargets targets))
      else raise (UnsupportedConnectivityTypeError (str_option connectivity_type)))"

text \<open>The existing mappings decide: none, one to this very host, or anything else.\<close>

definition map_to_host ::
  "'s mediator \<Rightarrow> string \<Rightarrow> string \<Rightarrow> string \<Rightarrow> array_initiators
   \<Rightarrow> ('s, lun \<times> string \<times> array_initiators) pyprog" where
  "map_to_host med volume_id host_name connectivity_type array_initiators =
     bnd (get_volume_mappings med volume_id) (\<lambda>mappings.
       if 1 \<le> length mappings then
         if length mappings = 1 \<and> fst (hd mappings) = host_name
         then ret (snd (hd mappings), connectivity_type, array_initiators)
         else raise (VolumeMappedToMultipleHostsError (mappings_str mappings))
       else
         bnd (map_volume_with_retries med volume_id host_name) (\<lambda>lun.
           ret (lun, connectivity_type, array_initiators)))"

definition map_volume_once ::
  "'s mediator \<Rightarrow> string \<Rightarrow> initiators \<Rightarrow> ('s, lun \<times> string \<times> array_initiators) pyprog" where
  "map_volume_once med volume_id initiators =
     bnd (get_host_by_host_identifiers med initiators) (\<lambda>(host_name, connectivity_types).
       let connectivity_type = choose_connectivity_type connectivity_types in
       bnd (get_array_initiators med host_name connectivity_type) (\<lambda>array_initiators.
         map_to_host med volume_id host_name (the connectivity_type) array_initiators))"

text \<open>\<^verbatim>\<open>@retry(NoConnectionAvailableException, tries=11)\<close>; \<open>retry\<close> is the third-party decorator.\<close>

definition map_volume_by_initiators ::
  "(exc, 's, lun \<times> string \<times> array_initiators) retrier \<Rightarrow> 's mediator \<Rightarrow> string \<Rightarrow> initiators
   \<Rightarrow> ('s, lun \<times> string \<times> array_initiators) pyprog" where
  "map_volume_by_initiators retry med volume_id initiators =
     retry is_NoConnectionAvailable 11 (map_volume_once med volume_id initiators)"

definition unmap_volume_once :: "'s mediator \<Rightarrow> string \<Rightarrow> initiators \<Rightarrow> ('s, unit) pyprog" where
  "unmap_volume_once med volume_id initiators =
     bnd (get_host_by_host_identifiers med initiators) (\<lambda>(host_name, _).
       unmap_volume med volume_id host_name)"

definition unmap_volume_by_initiators ::
  "(exc, 's, unit) retrier \<Rightarrow> 's mediator \<Rightarrow> string \<Rightarrow> initiators \<Rightarrow> ('s, unit) pyprog" where
  "unmap_volume_by_initiators retry med volume_id initiators =
     retry is_NoConnectionAvailable 11 (unmap_volume_once med volume_id initiators)"

section \<open>The contract of a mediator\<close>

text \<open>
  What the controller relies on, whatever the storage: the constants leave room for a
  prefixed name and a non-empty range of sizes; a host that is found is reachable by a
  supported connectivity; the objects returned carry the mediator's own storage type; and
  no operation reports an unsupported connectivity by itself.
\<close>

definition not_connectivity_error :: "exc \<Rightarrow> bool" where
  "not_connectivity_error e \<longleftrightarrow> (\<forall>c. e \<noteq> UnsupportedConnectivityTypeError c)"

text \<open>What goes with a connectivity: the ports' WWNs, or the iSCSI targets.\<close>

definition initiators_of_type :: "string \<Rightarrow> array_initiators \<Rightarrow> bool" where
  "initiators_of_type connectivity_type initiators \<longleftrightarrow>
     (case initiators of
        FcWwns _ \<Rightarrow> connectivity_type = FC_CONNECTIVITY_TYPE
      | IscsiTargets _ \<Rightarrow> connectivity_type = ISCSI_CONNECTIVITY_TYPE)"

lemma initiators_of_type_simps [simp]:
  "initiators_of_type FC_CONNECTIVITY_TYPE (FcWwns ws)"
  "initiators_of_type ISCSI_CONNECTIVITY_TYPE (IscsiTargets ts)"
  by (simp_all add: initiators_of_type_def)

lemma connectivity_types_differ [simp]:
  "FC_CONNECTIVITY_TYPE \<noteq> ISCSI_CONNECTIVITY_TYPE" "ISCSI_CONNECTIVITY_TYPE \<noteq> FC_CONNECTIVITY_TYPE"
  by (simp_all add: FC_CONNECTIVITY_TYPE_def ISCSI_CONNECTIVITY_TYPE_def)

lemma own_errors [simp]:
  "not_connectivity_error (LibExc l)" "not_connectivity_error (PyError pc)"
  "not_connectivity_error (ObjectNotFoundError a)" "not_connectivity_error (HostNotFoundError a)"
  "not_connectivity_error (IllegalObjectName a)" "not_connectivity_error (IllegalObjectID a)"
  "not_connectivity_error (MultipleHostsFoundError a b)" "not_connectivity_error (NoAvailableLunError a)"
  "not_connectivity_error (LunAlreadyInUseError a b)" "not_connectivity_error (MappingError a b c)"
  "not_connectivity_error (NoIscsiTargetsFoundError a)" "not_connectivity_error (PermissionDeniedError a)"
  "not_connectivity_error (InvalidCliResponseError a)"
  by (simp_all add: not_connectivity_error_def)

locale array_mediator =
  fixes med :: "'s mediator"
  assumes type_known: "array_type med \<in> set ALL_ARRAY_TYPES"
    and size_range: "0 < minimal_volume_size_in_bytes med"
      "minimal_volume_size_in_bytes med \<le> maximal_volume_size_in_bytes med"
    and name_room: "max_object_prefix_length med + 1 < max_object_name_length med"
    and default_prefix_fits: "default_object_prefix med = Some p \<Longrightarrow>
      p \<noteq> [] \<and> length p \<le> max_object_prefix_length med"
    and connections: "0 < max_connections med"
    and lun_retries: "0 < max_lun_retries med"
    and host_connectivity:
      "yields (\<lambda>(h, cts). cts \<noteq> [] \<and> set cts \<subseteq> {FC_CONNECTIVITY_TYPE, ISCSI_CONNECTIVITY_TYPE})
         not_connectivity_error (get_host_by_host_identifiers med i)"
    and volume_type:
      "yields (\<lambda>v. vol_array_type v = array_type med) (\<lambda>_. True) (get_volume med n pool)"
    and created_type:
      "yields (\<lambda>v. \<forall>w. v = Some w \<longrightarrow> vol_array_type w = array_type med) (\<lambda>_. True)
         (create_volume med n sz se p)"
    and mapping_errors:
      "yields (\<lambda>_. True) not_connectivity_error (get_array_fc_wwns med h)"
      "yields (\<lambda>_. True) not_connectivity_error (get_iscsi_targets_by_iqn med)"
      "yields (\<lambda>_. True) not_connectivity_error (get_volume_mappings med vol)"
      "yields (\<lambda>_. True) not_connectivity_error (map_volume med vol h)"
begin

lemma chosen_connectivity:
  "cts \<noteq> [] \<Longrightarrow> set cts \<subseteq> {FC_CONNECTIVITY_TYPE, ISCSI_CONNECTIVITY_TYPE} \<Longrightarrow>
   choose_connectivity_type cts = Some FC_CONNECTIVITY_TYPE \<or>
   choose_connectivity_type cts = Some ISCSI_CONNECTIVITY_TYPE"
  by (cases cts) (auto simp: choose_connectivity_type_def)

lemma retries_yields:
  "not_connectivity_error ex \<Longrightarrow>
   yields (\<lambda>_. True) not_connectivity_error (map_volume_retries med vol h ex n)"
  by (induction n)
    (auto intro!: spec_rules yields_try_except [where G = not_connectivity_error] mapping_errors)

lemma with_retries_yields:
  "yields (\<lambda>_. True) not_connectivity_error (map_volume_with_retries med vol h)"
  unfolding map_volume_with_retries_def
  by (rule yields_try_except [OF mapping_errors(4)]) (auto intro: spec_rules retries_yields)

lemma map_to_host_yields:
  "Q ct ai \<Longrightarrow> yields (\<lambda>(_, c, a). Q c a) not_connectivity_error (map_to_host med vol h ct ai)"
  unfolding map_to_host_def
  by (intro spec_rules mapping_errors with_retries_yields) (auto simp: not_connectivity_error_def)

lemma map_once_yields:
  "yields (\<lambda>(_, ct, ai). initiators_of_type ct ai) not_connectivity_error (map_volume_once med vol i)"
  unfolding map_volume_once_def
proof (rule yields_bnd [OF host_connectivity])
  fix r :: "string \<times> string list"
  assume "case r of (h, cts) \<Rightarrow> cts \<noteq> [] \<and> set cts \<subseteq> {FC_CONNECTIVITY_TYPE, ISCSI_CONNECTIVITY_TYPE}"
  then obtain h cts where "r = (h, cts)"
    and "choose_connectivity_type cts \<in> {Some FC_CONNECTIVITY_TYPE, Some ISCSI_CONNECTIVITY_TYPE}"
    using chosen_connectivity by (cases r) auto
  then show "yields (\<lambda>(_, ct, ai). initiators_of_type ct ai) not_connectivity_error
      (case r of (host_name, connectivity_types) \<Rightarrow>
        let connectivity_type = choose_connectivity_type connectivity_types in
        bnd (get_array_initiators med host_name connectivity_type) (\<lambda>array_initiators.
          map_to_host med vol host_name (the connectivity_type) array_initiators))"
    by (auto simp: get_array_initiators_def bnd_assoc connectivity_types_differ
        intro!: yields_bnd_any mapping_errors map_to_host_yields)
qed

end

section \<open>What mapping does\<close>

text \<open>
  A mediator for the witnesses, whose world is the list of the changes sent to it: mapping
  finds the first two LUNs taken.
\<close>

definition stub_mediator :: "string list mediator" where
  "stub_mediator =
     \<lparr>array_type = ARRAY_TYPE_SVC, port = 22, max_object_name_length = 63, max_object_prefix_length = 20,
      max_connections = 2, minimal_volume_size_in_bytes = 512, maximal_volume_size_in_bytes = 4096,
      max_lun_retries = 10, default_object_prefix = Some ''CSI'',
      disconnect = (\<lambda>s. (Inr (), s)), is_active = (\<lambda>s. (Inr True, s)),
      create_volume = (\<lambda>n sz se p s.
        (Inr (Some \<lparr>vol_capacity_bytes = sz, vol_id = ''6005'', vol_name = n, vol_array_address = Addr ''a'',
          vol_pool = p, vol_copy_source_id = None, vol_array_type = ARRAY_TYPE_SVC\<rparr>), s @ [''create''])),
      copy_to_existing_volume_from_source = (\<lambda>_ _ _ _ s. (Inr (), s @ [''copy''])),
      delete_volume = (\<lambda>_ s. (Inr (), s @ [''delete''])),
      get_volume = (\<lambda>n p s. (Inl (ObjectNotFoundError n), s)),
      expand_volume = (\<lambda>_ _ s. (Inr (), s @ [''expand''])),
      get_volume_mappings = (\<lambda>v s.
        (Inr (if v = ''free'' then [] else if v = ''shared'' then [(''h1'', LunInt 1), (''h2'', LunInt 2)]
              else [(''h1'', LunInt 1)]), s)),
      map_volume = (\<lambda>v h s.
        (if length s < 2 then Inl (LunAlreadyInUseError ''1'' h) else Inr (LunInt 5), s @ [''map''])),
      unmap_volume = (\<lambda>_ _ s. (Inr (), s @ [''unmap''])),
      get_snapshot = (\<lambda>_ _ _ s. (Inr None, s)),
      get_object_by_id = (\<lambda>_ _ s. (Inr None, s)),
      create_snapshot = (\<lambda>v n p s.
        (Inr \<lparr>snap_capacity_bytes = 512, snap_id = ''6006'', snap_name = n, snap_array_address = Addr ''a'',
          snap_source_volume_id = Some v, snap_is_ready = True, snap_array_type = ARRAY_TYPE_SVC\<rparr>,
         s @ [''snapshot''])),
      delete_snapshot = (\<lambda>_ s. (Inr (), s @ [''delete''])),
      get_iscsi_targets_by_iqn = (\<lambda>s. (Inr [(''iqn'', [''1.2.3.4''])], s)),
      get_array_fc_wwns = (\<lambda>_ s. (Inr [''5005''], s)),
      get_host_by_host_identifiers = (\<lambda>_ s. (Inr (''h1'', [ISCSI_CONNECTIVITY_TYPE]), s)),
      validate_supported_space_efficiency = (\<lambda>_ s. (Inr (), s))\<rparr>"

text \<open>
  A volume that is already mapped is never mapped again: when its only mapping is to the
  host of the initiators, that LUN is returned; with any other mappings the request is
  refused with them.  The world is the one after the reads in both cases.
\<close>

theorem map_existing_mapping:
  assumes "retry_law retry"
    and "get_host_by_host_identifiers med i s = (Inr (h, cts), s1)"
    and "choose_connectivity_type cts = Some ct"
    and "get_array_initiators med h (Some ct) s1 = (Inr ai, s2)"
    and "get_volume_mappings med v s2 = (Inr ms, s3)" and "ms \<noteq> []"
  shows "map_volume_by_initiators retry med v i s =
    (case ms of
       [(h', l)] \<Rightarrow> if h' = h then (Inr (l, ct, ai), s3)
                    else (Inl (VolumeMappedToMultipleHostsError (mappings_str ms)), s3)
     | _ \<Rightarrow> (Inl (VolumeMappedToMultipleHostsError (mappings_str ms)), s3))"
proof -
  have once: "map_volume_once med v i s = map_to_host med v h ct ai s2"
    using assms(2-4) by (simp add: map_volume_once_def bnd_Inr)
  have "map_to_host med v h ct ai s2 =
    (case ms of
       [(h', l)] \<Rightarrow> if h' = h then (Inr (l, ct, ai), s3)
                    else (Inl (VolumeMappedToMultipleHostsError (mappings_str ms)), s3)
     | _ \<Rightarrow> (Inl (VolumeMappedToMultipleHostsError (mappings_str ms)), s3))" (is "_ = ?r")
    using assms(5,6) by (auto simp: map_to_host_def bnd_Inr split: list.split)
  then show ?thesis
    using once assms(1) unfolding map_volume_by_initiators_def
    by (auto simp: retry_success retry_other_error split: list.split)
qed

definition sample_initiators :: initiators where
  "sample_initiators = \<lparr>ini_iscsi_iqn = ''iqn'', ini_fc_wwns = []\<rparr>"

lemma map_existing_mapping_witness:
  "map_volume_by_initiators retry_loop stub_mediator ''one'' sample_initiators [] =
     (Inr (LunInt 1, ''iscsi'', IscsiTargets [(''iqn'', [''1.2.3.4''])]), [])
   \<and> map_volume_by_initiators retry_loop stub_mediator ''shared'' sample_initiators [] =
     (Inl (VolumeMappedToMultipleHostsError (mappings_str [(''h1'', LunInt 1), (''h2'', LunInt 2)])), [])"
proof -
  have host: "get_host_by_host_identifiers stub_mediator sample_initiators [] = (Inr (''h1'', [''iscsi'']), [])"
    by (simp add: stub_mediator_def ISCSI_CONNECTIVITY_TYPE_def)
  have ct: "choose_connectivity_type [''iscsi''] = Some ''iscsi''"
    by (simp add: choose_connectivity_type_def FC_CONNECTIVITY_TYPE_def ISCSI_CONNECTIVITY_TYPE_def)
  have ai: "get_array_initiators stub_mediator ''h1'' (Some ''iscsi'') [] =
      (Inr (IscsiTargets [(''iqn'', [''1.2.3.4''])]), [])"
    by (simp add: get_array_initiators_def stub_mediator_def FC_CONNECTIVITY_TYPE_def
        ISCSI_CONNECTIVITY_TYPE_def run)
  show ?thesis
    using map_existing_mapping [OF retry_loop_law host ct ai, where v = "''one''" and ms = "[(''h1'', LunInt 1)]" and ?s3.0 = "[]"]
      map_existing_mapping [OF retry_loop_law host ct ai, where v = "''shared''"
        and ms = "[(''h1'', LunInt 1), (''h2'', LunInt 2)]" and ?s3.0 = "[]"]
    by (simp add: stub_mediator_def)
qed

lemma map_retries_run:
  assumes "\<And>i. i < k \<Longrightarrow> map_volume med v h (w i) = (Inl (LunAlreadyInUseError (l i) (g i)), w (Suc i))"
    and "k < n \<Longrightarrow> map_volume med v h (w k) = (Inr lun, w (Suc k))" and "k \<le> n"
  shows "map_volume_retries med v h ex n (w 0) =
    (if k < n then (Inr lun, w (Suc k)) else (Inl ex, w k))"
  using assms
proof (induction n arbitrary: w k l g)
  case (Suc n)
  show ?case
  proof (cases k)
    case (Suc j)
    have "map_volume_retries med v h ex n (w (Suc 0)) =
        (if j < n then (Inr lun, w (Suc (Suc j))) else (Inl ex, w (Suc j)))"
      using Suc.prems Suc by (intro Suc.IH [where l = "\<lambda>i. l (Suc i)" and g = "\<lambda>i. g (Suc i)"]) auto
    then show ?thesis
      using Suc.prems(1) [of 0] Suc by (simp add: try_Inl)
  qed (use Suc.prems in \<open>simp add: try_Inr\<close>)
qed simp

text \<open>
  C33: map_lun_retries
  When the array keeps answering that the LUN has just been taken, mapping is attempted at
  most \<open>max_lun_retries\<close> times: it returns the LUN of the first attempt that succeeds, and
  after the last failed attempt it raises the error of the first one.
\<close>

theorem map_lun_retries:
  assumes "\<And>i. i < k \<Longrightarrow> map_volume med v h (w i) = (Inl (LunAlreadyInUseError (l i) (g i)), w (Suc i))"
    and "k < max_lun_retries med \<Longrightarrow> map_volume med v h (w k) = (Inr lun, w (Suc k))"
    and "k \<le> max_lun_retries med" and "0 < max_lun_retries med"
  shows "map_volume_with_retries med v h (w 0) =
    (if k < max_lun_retries med then (Inr lun, w (Suc k))
     else (Inl (LunAlreadyInUseError (l 0) (g 0)), w k))"
proof (cases k)
  case (Suc j)
  have "map_volume_retries med v h (LunAlreadyInUseError (l 0) (g 0)) (max_lun_retries med - 1) (w (Suc 0)) =
      (if j < max_lun_retries med - 1 then (Inr lun, w (Suc (Suc j)))
       else (Inl (LunAlreadyInUseError (l 0) (g 0)), w (Suc j)))"
    using assms Suc
    by (intro map_retries_run [where w = "\<lambda>i. w (Suc i)" and l = "\<lambda>i. l (Suc i)" and g = "\<lambda>i. g (Suc i)"]) auto
  then show ?thesis
    using assms(1) [of 0] assms(4) Suc by (auto simp: map_volume_with_retries_def try_Inl)
qed (use assms in \<open>simp add: map_volume_with_retries_def try_Inr\<close>)

lemma map_lun_retries_witness:
  "map_volume_with_retries stub_mediator ''free'' ''h1'' [] = (Inr (LunInt 5), [''map'', ''map'', ''map''])"
  using map_lun_retries [of 2 stub_mediator "''free''" "''h1''" "\<lambda>i. replicate i ''map''" "\<lambda>_. ''1''" "\<lambda>_. ''h1''" "LunInt 5"]
  by (simp add: stub_mediator_def replicate_append_same numeral_2_eq_2)

end
