(* ===== verification/CliReader.thy ===== *)
theory CliReader
  imports ArrayTypes
begin

text \<open>
  \<^verbatim>\<open>svc_cli_result_reader.py\<close>: the reader of the text that a list command of the SVC returns.
  The iterator's position in the list of lines is the list of the lines that are left.
\<close>

section \<open>Elements\<close>

text \<open>A value of the element's dictionary is a string, or a list once the name was repeated.\<close>

datatype cli_value = One string | Many "string list"

type_synonym cli_element = "(string, cli_value) dict"

definition element_get :: "cli_element \<Rightarrow> string \<Rightarrow> cli_value \<Rightarrow> cli_value" where
  "element_get e name default_value = dict_get e name default_value"

definition get_as_list :: "cli_element \<Rightarrow> string \<Rightarrow> string list" where
  "get_as_list e name =
     (case map_of e name of
        Some (Many vs) \<Rightarrow> vs
      | Some (One v) \<Rightarrow> [v]
      | None \<Rightarrow> [])"

definition element_add :: "string \<Rightarrow> string \<Rightarrow> cli_element \<Rightarrow> cli_element" where
  "element_add name value e =
     (case map_of e name of
        Some (Many vs) \<Rightarrow> dict_set name (Many (vs @ [value])) e
      | Some (One v) \<Rightarrow> dict_set name (Many [v, value]) e
      | None \<Rightarrow> dict_set name (One value) e)"

section \<open>The reader\<close>

definition ID_PARAM_NAME :: string where "ID_PARAM_NAME = ''id''"

record svc_reader =
  rd_next_object_id :: "string option"
  rd_lines :: "string list"

text \<open>A line's parameter name and value, the value without the white space around it.\<close>

definition split_param :: "string \<Rightarrow> string \<times> string" where
  "split_param line = (case partition_at (CHR '' '') line of (name, _, v) \<Rightarrow> (name, strip v))"

fun init_first_object_id :: "string option \<Rightarrow> string list \<Rightarrow> exc + svc_reader" where
  "init_first_object_id nid [] = Inr \<lparr>rd_next_object_id = nid, rd_lines = []\<rparr>"
| "init_first_object_id nid (l # ls) =
     (if truthy nid then Inr \<lparr>rd_next_object_id = nid, rd_lines = l # ls\<rparr>
      else
        let line = strip l in
        if line \<noteq> [] then
          (case split_param line of (param_name, param_value) \<Rightarrow>
             if param_name = ID_PARAM_NAME then init_first_object_id (Some param_value) ls
             else Inl (InvalidCliResponseError
               (''First param is '' @ [CHR 0x27] @ line @ [CHR 0x27] @ ''. Expected param name '' @
                [CHR 0x27] @ ID_PARAM_NAME @ [CHR 0x27])))
        else init_first_object_id nid ls)"

definition SVCListResultsReader :: "string \<Rightarrow> exc + svc_reader" where
  "SVCListResultsReader raw = init_first_object_id None (splitlines raw)"

text \<open>The loop of \<^verbatim>\<open>__next__\<close>: the element read so far and the lines left.\<close>

fun read_element :: "cli_element \<Rightarrow> string list \<Rightarrow> cli_element \<times> svc_reader" where
  "read_element res [] = (res, \<lparr>rd_next_object_id = None, rd_lines = []\<rparr>)"
| "read_element res (l # ls) =
     (let line = strip l in
      if line = [] then read_element res ls
      else
        (case split_param line of (param_name, param_value) \<Rightarrow>
           if param_name = ID_PARAM_NAME
           then (res, \<lparr>rd_next_object_id = Some param_value, rd_lines = ls\<rparr>)
           else read_element (element_add param_name param_value res) ls))"

text \<open>\<^verbatim>\<open>__next__\<close>; \<open>None\<close> is \<^verbatim>\<open>StopIteration\<close>.\<close>

definition reader_next :: "svc_reader \<Rightarrow> (cli_element \<times> svc_reader) option" where
  "reader_next r =
     (if truthy (rd_next_object_id r)
      then Some (read_element (element_add ID_PARAM_NAME (the (rd_next_object_id r)) []) (rd_lines r))
      else None)"

lemma read_element_shorter:
  "read_element res ls = (e, r) \<Longrightarrow>
     length (rd_lines r) \<le> length ls \<and>
     (rd_next_object_id r \<noteq> None \<longrightarrow> length (rd_lines r) < length ls)"
proof (induction ls arbitrary: res)
  case (Cons l ls)
  then show ?case
    by (fastforce simp: Let_def split: if_splits prod.splits)
qed auto

text \<open>\<^verbatim>\<open>list(reader)\<close>, what \<^verbatim>\<open>for element in reader\<close> runs over.\<close>

function read_all :: "svc_reader \<Rightarrow> cli_element list" where
  "read_all r = (case reader_next r of None \<Rightarrow> [] | Some (e, r') \<Rightarrow> e # read_all r')"
  by pat_completeness auto
termination
  by (relation "measure (\<lambda>r. 2 * length (rd_lines r) + (if truthy (rd_next_object_id r) then 1 else 0))")
    (auto simp: reader_next_def dest!: read_element_shorter split: if_splits elim!: truthyE)

declare read_all.simps [simp del]

definition parse_cli :: "string \<Rightarrow> exc + cli_element list" where
  "parse_cli raw = bnd_err (SVCListResultsReader raw) (\<lambda>r. Inr (read_all r))"

section \<open>What is read back\<close>

lemma get_as_list_add:
  "get_as_list (element_add n v e) m = get_as_list e m @ (if n = m then [v] else [])"
  by (auto simp: get_as_list_def element_add_def split: option.split cli_value.split)

lemma get_as_list_Nil [simp]: "get_as_list [] m = []"
  by (simp add: get_as_list_def)

definition element_of :: "string \<Rightarrow> (string \<times> string) list \<Rightarrow> cli_element" where
  "element_of i ps = fold (\<lambda>(n, v). element_add n v) ps (element_add ID_PARAM_NAME i [])"

lemma get_as_list_fold:
  "get_as_list (fold (\<lambda>(n, v). element_add n v) ps e) m =
     get_as_list e m @ map snd (filter (\<lambda>p. fst p = m) ps)"
  by (induction ps arbitrary: e) (auto simp: get_as_list_add)

lemma get_as_list_element_of:
  "m \<noteq> ID_PARAM_NAME \<Longrightarrow> get_as_list (element_of i ps) m = map snd (filter (\<lambda>p. fst p = m) ps)"
  by (simp add: element_of_def get_as_list_fold get_as_list_add)

text \<open>A text of lines without line breaks is split back into the lines.\<close>

lemma splitlines_line:
  "\<forall>c \<in> set l. \<not> line_break c \<Longrightarrow> splitlines (l @ CHR 0x0A # rest) = l # splitlines rest"
  by (induction l) (auto simp: line_break_def split: list.split)

lemma splitlines_lines:
  "\<forall>l \<in> set ls. \<forall>c \<in> set l. \<not> line_break c \<Longrightarrow>
   splitlines (concat (map (\<lambda>l. l @ [CHR 0x0A]) ls)) = ls"
  by (induction ls) (simp_all add: splitlines_line)

text \<open>A parameter that the array can print: the name a word, the value on one line.\<close>

definition cli_word :: "string \<Rightarrow> bool" where
  "cli_word s \<longleftrightarrow> s \<noteq> [] \<and> (\<forall>c \<in> set s. \<not> py_space c)"

definition cli_text :: "string \<Rightarrow> bool" where
  "cli_text s \<longleftrightarrow> stripped s \<and> (\<forall>c \<in> set s. \<not> line_break c)"

definition param_line :: "string \<times> string \<Rightarrow> string" where
  "param_line p = fst p @ CHR '' '' # snd p"

lemma line_break_is_space: "line_break c \<Longrightarrow> py_space c"
  by (auto simp: line_break_def py_space_def)

lemma space_is_space: "py_space (CHR '' '')"
  by (simp add: py_space_def)

lemma cli_word_no_blank: "cli_word s \<Longrightarrow> CHR '' '' \<notin> set s"
  using space_is_space by (auto simp: cli_word_def)

lemma dropWhile_space_word: "cli_word n \<Longrightarrow> dropWhile py_space (n @ t) = n @ t"
  by (cases n) (auto simp: cli_word_def)

lemma rstrip_word: "cli_word n \<Longrightarrow> rstrip n = n"
  unfolding rstrip_def cli_word_def by (cases "rev n") (auto simp: rev_eq_Cons_iff)

lemma rstrip_snoc_space: "py_space c \<Longrightarrow> rstrip (s @ [c]) = rstrip s"
  by (simp add: rstrip_def)

lemma strip_param_line:
  assumes "cli_word n" "stripped v"
  shows "strip (param_line (n, v)) = (if v = [] then n else param_line (n, v))"
proof (cases "v = []")
  case True
  then show ?thesis
    using assms(1) rstrip_snoc_space [of "CHR '' ''" n] space_is_space
    by (simp add: strip_def lstrip_def param_line_def dropWhile_space_word rstrip_word)
next
  case False
  then have "\<not> py_space (last (n @ CHR '' '' # v))"
    using assms(2) by (simp add: stripped_def)
  then have "rstrip (n @ CHR '' '' # v) = n @ CHR '' '' # v"
    unfolding rstrip_def using dropWhile_id [of "rev (n @ CHR '' '' # v)" py_space]
    by (metis hd_rev rev_rev_ident)
  with False show ?thesis
    using assms(1) by (simp add: strip_def lstrip_def param_line_def dropWhile_space_word)
qed

lemma split_param_stripped_line:
  assumes "cli_word n" "stripped v"
  shows "split_param (strip (param_line (n, v))) = (n, v)"
proof -
  have "strip [] = []" by (simp add: strip_id stripped_def)
  then show ?thesis
    using assms cli_word_no_blank [OF assms(1)]
    by (simp add: strip_param_line split_param_def partition_at_absent)
      (simp add: param_line_def partition_at_append strip_id)
qed

lemma strip_param_line_nonempty:
  "cli_word n \<Longrightarrow> stripped v \<Longrightarrow> strip (param_line (n, v)) \<noteq> []"
  by (simp add: strip_param_line) (auto simp: cli_word_def param_line_def)

lemma read_element_param:
  "cli_word n \<Longrightarrow> n \<noteq> ID_PARAM_NAME \<Longrightarrow> stripped v \<Longrightarrow>
   read_element res (param_line (n, v) # ls) = read_element (element_add n v res) ls"
  by (simp add: split_param_stripped_line strip_param_line_nonempty)

lemma id_is_word: "cli_word ID_PARAM_NAME"
  by (simp add: cli_word_def ID_PARAM_NAME_def py_space_def)

lemma read_element_id:
  "stripped v \<Longrightarrow>
   read_element res (param_line (ID_PARAM_NAME, v) # ls) =
     (res, \<lparr>rd_next_object_id = Some v, rd_lines = ls\<rparr>)"
  by (simp add: split_param_stripped_line strip_param_line_nonempty id_is_word)

definition param_ok :: "string \<times> string \<Rightarrow> bool" where
  "param_ok p \<longleftrightarrow> cli_word (fst p) \<and> fst p \<noteq> ID_PARAM_NAME \<and> cli_text (snd p)"

lemma read_element_params:
  "\<forall>p \<in> set ps. param_ok p \<Longrightarrow>
   read_element res (map param_line ps @ ls) =
     read_element (fold (\<lambda>(n, v). element_add n v) ps res) ls"
proof (induction ps arbitrary: res)
  case (Cons p ps)
  then show ?case
    by (cases p) (simp add: read_element_param param_ok_def cli_text_def del: read_element.simps)
qed simp

text \<open>The lines of an object with its id and its further parameters.\<close>

definition object_lines :: "string \<times> (string \<times> string) list \<Rightarrow> string list" where
  "object_lines obj = param_line (ID_PARAM_NAME, fst obj) # map param_line (snd obj)"

definition print_objects :: "(string \<times> (string \<times> string) list) list \<Rightarrow> string" where
  "print_objects objs = concat (map (\<lambda>l. l @ [CHR 0x0A]) (concat (map object_lines objs)))"

definition object_ok :: "string \<times> (string \<times> string) list \<Rightarrow> bool" where
  "object_ok obj \<longleftrightarrow> fst obj \<noteq> [] \<and> cli_text (fst obj) \<and> (\<forall>p \<in> set (snd obj). param_ok p)"

lemma read_all_objects:
  "object_ok (i, ps) \<Longrightarrow> \<forall>obj \<in> set objs. object_ok obj \<Longrightarrow>
   read_all \<lparr>rd_next_object_id = Some i, rd_lines = map param_line ps @ concat (map object_lines objs)\<rparr> =
     element_of i ps # map (\<lambda>(i, ps). element_of i ps) objs"
proof (induction objs arbitrary: i ps)
  case Nil
  then show ?case
    using read_element_params [of ps "element_add ID_PARAM_NAME i []" "[]"]
    by (subst read_all.simps)
      (simp add: reader_next_def object_ok_def element_of_def,
       subst read_all.simps, simp add: reader_next_def)
next
  case (Cons obj objs)
  obtain j qs where obj: "obj = (j, qs)" by (cases obj)
  from Cons.prems obj have j: "object_ok (j, qs)" by simp
  then have "stripped j" by (simp add: object_ok_def cli_text_def)
  with Cons.prems(1) have "read_element (element_add ID_PARAM_NAME i [])
      (map param_line ps @ concat (map object_lines (obj # objs))) =
    (element_of i ps, \<lparr>rd_next_object_id = Some j,
       rd_lines = map param_line qs @ concat (map object_lines objs)\<rparr>)"
    by (simp add: obj object_ok_def object_lines_def read_element_params element_of_def
        read_element_id del: read_element.simps)
  then show ?case
    using Cons.IH [OF j] Cons.prems
    by (subst read_all.simps) (simp add: reader_next_def object_ok_def obj)
qed

lemma param_line_no_break:
  assumes "cli_word n" "cli_text v" "c \<in> set (param_line (n, v))"
  shows "\<not> line_break c"
proof -
  consider "c \<in> set n" | "c = CHR '' ''" | "c \<in> set v"
    using assms(3) by (auto simp: param_line_def)
  then show ?thesis
    using assms(1,2) line_break_is_space
    by cases (auto simp: cli_word_def cli_text_def, simp add: line_break_def)
qed

lemma object_lines_no_break:
  assumes "object_ok obj" "l \<in> set (object_lines obj)" "c \<in> set l"
  shows "\<not> line_break c"
proof -
  from assms(1,2) obtain n v where "l = param_line (n, v)" "cli_word n" "cli_text v"
    using id_is_word by (force simp: object_ok_def object_lines_def param_ok_def)
  then show ?thesis
    using assms(3) param_line_no_break by blast
qed

text \<open>
  C32: cli_reader_roundtrip
  Reading the text of any list of objects, as the array prints them, gives back those objects in
  order, whatever their number, with repeated parameters collected in the order they were
  printed.
\<close>

theorem cli_reader_roundtrip:
  assumes "\<forall>obj \<in> set objs. object_ok obj"
  shows "\<exists>elements. parse_cli (print_objects objs) = Inr elements \<and>
    map (\<lambda>e. get_as_list e ID_PARAM_NAME) elements = map (\<lambda>obj. [fst obj]) objs \<and>
    (\<forall>m. m \<noteq> ID_PARAM_NAME \<longrightarrow>
      map (\<lambda>e. get_as_list e m) elements =
      map (\<lambda>obj. map snd (filter (\<lambda>p. fst p = m) (snd obj))) objs)"
proof -
  have lines: "splitlines (print_objects objs) = concat (map object_lines objs)"
    unfolding print_objects_def using assms object_lines_no_break
    by (intro splitlines_lines) fastforce
  have parsed: "parse_cli (print_objects objs) = Inr (map (\<lambda>(i, ps). element_of i ps) objs)"
  proof (cases objs)
    case Nil
    then show ?thesis
      by (simp add: parse_cli_def SVCListResultsReader_def print_objects_def read_all.simps
          reader_next_def)
  next
    case (Cons obj rest)
    obtain i ps where obj: "obj = (i, ps)" by (cases obj)
    with assms Cons have ok: "object_ok (i, ps)" "\<forall>obj \<in> set rest. object_ok obj" by auto
    have stop: "init_first_object_id (Some i) ls = Inr \<lparr>rd_next_object_id = Some i, rd_lines = ls\<rparr>" for ls
      using ok(1) by (cases ls) (auto simp: object_ok_def)
    have "stripped i" using ok(1) by (simp add: object_ok_def cli_text_def)
    then have "SVCListResultsReader (print_objects objs) =
        Inr \<lparr>rd_next_object_id = Some i, rd_lines = map param_line ps @ concat (map object_lines rest)\<rparr>"
      unfolding SVCListResultsReader_def lines
      by (simp add: Cons obj object_lines_def stop split_param_stripped_line strip_param_line_nonempty
          id_is_word)
    then show ?thesis
      using Cons obj read_all_objects [OF ok] by (simp add: parse_cli_def)
  qed
  have ids: "get_as_list (element_of i ps) ID_PARAM_NAME = [i]" if "object_ok (i, ps)" for i ps
    using that
    by (auto simp: element_of_def get_as_list_fold get_as_list_add filter_empty_conv object_ok_def
        param_ok_def)
  have "map (\<lambda>e. get_as_list e ID_PARAM_NAME) (map (\<lambda>(i, ps). element_of i ps) objs) =
      map (\<lambda>obj. [fst obj]) objs"
    using assms ids by auto
  moreover have "map (\<lambda>e. get_as_list e m) (map (\<lambda>(i, ps). element_of i ps) objs) =
      map (\<lambda>obj. map snd (filter (\<lambda>p. fst p = m) (snd obj))) objs" if "m \<noteq> ID_PARAM_NAME" for m
    using that by (auto simp: get_as_list_element_of)
  ultimately show ?thesis
    using parsed by blast
qed

lemma cli_reader_roundtrip_witness:
  "\<exists>elements. parse_cli (print_objects [(''0'', [(''WWPN'', ''A1''), (''WWPN'', ''B2'')]), (''1'', [])]) =
      Inr elements \<and> map (\<lambda>e. get_as_list e ''WWPN'') elements = [[''A1'', ''B2''], []]"
  using cli_reader_roundtrip [of "[(''0'', [(''WWPN'', ''A1''), (''WWPN'', ''B2'')]), (''1'', [])]"]
  by (force simp: object_ok_def param_ok_def cli_word_def cli_text_def stripped_def py_space_def
      line_break_def ID_PARAM_NAME_def)

end
