(* ===== verification/SvcClient.thy ===== *)
theory SvcClient
  imports CliReader Utils
begin

text \<open>
  The client of the third-party package \<^verbatim>\<open>pysvc\<close> as \<^verbatim>\<open>array_mediator_svc.py\<close> uses it: a record
  with one field for every command the mediator sends, each a call that may raise a
  \<open>lib_exc\<close>.  Nothing is assumed of a client; it is a parameter of the mediator.  The
  attributes of a response element are texts; a response is the list of its elements.
\<close>

record svc_vdisk =
  vd_name :: string
  vd_uid :: string
  vd_capacity :: string
  vd_mdisk_grp_name :: string
  vd_FC_id :: string
  vd_se_copy :: string
  vd_compressed_copy :: string
  vd_deduplicated_copy :: "string option"

text \<open>\<open>fc_text\<close> is \<^verbatim>\<open>str(fcmap)\<close>.\<close>

record svc_fcmap =
  fc_id :: string
  fc_source_vdisk_name :: string
  fc_status :: string
  fc_copy_rate :: string
  fc_text :: string

record svc_node =
  nd_id :: string
  nd_iscsi_name :: string
  nd_status :: string

record svc_ip_port =
  ip_node_id :: string
  ip_address :: string
  ip_address_6 :: string

text \<open>The keyword arguments of \<^verbatim>\<open>mkvolume\<close>; a flag that is not passed is false.\<close>

record mkvolume_args =
  mv_name :: string
  mv_size :: int
  mv_pool :: string
  mv_thin :: bool
  mv_compressed :: bool
  mv_deduplicated :: bool

record 's svc_client =
  sc_close :: "('s, unit) lib_call"
  sc_is_active :: "('s, bool) lib_call"
  sc_lssystem :: "('s, (string, string) dict list) lib_call"
  sc_lsvdisk_by_id :: "string \<Rightarrow> ('s, svc_vdisk option) lib_call"
  sc_lsvdisk_filter :: "string \<Rightarrow> ('s, svc_vdisk option) lib_call"
  sc_lsfcmap :: "string \<Rightarrow> ('s, svc_fcmap list) lib_call"
  sc_expandvdisksize :: "string \<Rightarrow> int \<Rightarrow> ('s, unit) lib_call"
  sc_mkvolume :: "mkvolume_args \<Rightarrow> ('s, unit) lib_call"
  sc_rmvolume :: "string \<Rightarrow> ('s, unit) lib_call"
  sc_mkfcmap :: "string \<Rightarrow> string \<Rightarrow> int option \<Rightarrow> ('s, unit) lib_call"
  sc_startfcmap :: "string \<Rightarrow> ('s, unit) lib_call"
  sc_stopfcmap :: "string \<Rightarrow> ('s, unit) lib_call"
  sc_rmfcmap :: "string \<Rightarrow> bool \<Rightarrow> ('s, unit) lib_call"
  sc_lshost :: "('s, (string, string) dict list) lib_call"
  sc_send_raw_command :: "string \<Rightarrow> ('s, string option \<times> string option) lib_call"
  sc_lsvdiskhostmap :: "string \<Rightarrow> ('s, (string, string) dict list) lib_call"
  sc_lshostvdiskmap :: "string \<Rightarrow> ('s, (string, string) dict list) lib_call"
  sc_mkvdiskhostmap :: "string \<Rightarrow> string \<Rightarrow> string \<Rightarrow> ('s, unit) lib_call"
  sc_rmvdiskhostmap :: "string \<Rightarrow> string \<Rightarrow> ('s, unit) lib_call"
  sc_lsnode :: "('s, svc_node list) lib_call"
  sc_lsportip :: "string \<Rightarrow> ('s, svc_ip_port list) lib_call"
  sc_lsfabric :: "string \<Rightarrow> ('s, (string, string) dict list) lib_call"

text \<open>\<^verbatim>\<open>pysvc.unified.client.connect(endpoint, username, password)\<close>.\<close>

type_synonym 's svc_connect = "string \<Rightarrow> json \<Rightarrow> json \<Rightarrow> ('s, 's svc_client) lib_call"

end
