(* ===== verification/Svc.thy ===== *)
theory Svc
  imports SvcClient
begin

text \<open>
  \<^verbatim>\<open>array_mediator_svc.py\<close>: the mediator of the Spectrum Virtualize family.  A method is a
  program over the world behind the client; \<open>cl\<close> is \<^verbatim>\<open>self.client\<close> and \<open>ep\<close> is \<^verbatim>\<open>self.endpoint\<close>.
\<close>

section \<open>Constants\<close>

definition OBJ_NOT_FOUND :: string where "OBJ_NOT_FOUND = ''CMMVC5753E''"
definition NAME_NOT_EXIST_OR_MEET_RULES :: string where "NAME_NOT_EXIST_OR_MEET_RULES = ''CMMVC5754E''"
definition NON_ASCII_CHARS :: string where "NON_ASCII_CHARS = ''CMMVC6017E''"
definition INVALID_NAME :: string where "INVALID_NAME = ''CMMVC6527E''"
definition TOO_MANY_CHARS :: string where "TOO_MANY_CHARS = ''CMMVC5738E''"
definition VALUE_TOO_LONG :: string where "VALUE_TOO_LONG = ''CMMVC5703E''"
definition INVALID_FILTER_VALUE :: string where "INVALID_FILTER_VALUE = ''CMMVC5741E''"
definition SPECIFIED_OBJ_NOT_EXIST :: string where "SPECIFIED_OBJ_NOT_EXIST = ''CMMVC5804E''"
definition LUN_ALREADY_IN_USE :: string where "LUN_ALREADY_IN_USE = ''CMMVC5879E''"
definition VOL_ALREADY_UNMAPPED :: string where "VOL_ALREADY_UNMAPPED = ''CMMVC5842E''"
definition OBJ_ALREADY_EXIST :: string where "OBJ_ALREADY_EXIST = ''CMMVC6035E''"
definition FCMAP_ALREADY_EXIST :: string where "FCMAP_ALREADY_EXIST = ''CMMVC6466E''"
definition FCMAP_ALREADY_COPYING :: string where "FCMAP_ALREADY_COPYING = ''CMMVC5907E''"
definition VOL_NOT_FOUND :: string where "VOL_NOT_FOUND = ''CMMVC8957E''"
definition POOL_NOT_MATCH_VOL_CAPABILITIES :: string where "POOL_NOT_MATCH_VOL_CAPABILITIES = ''CMMVC9292E''"
definition NOT_REDUCTION_POOL :: string where "NOT_REDUCTION_POOL = ''CMMVC9301E''"
definition NOT_ENOUGH_EXTENTS_IN_POOL_EXPAND :: string where "NOT_ENOUGH_EXTENTS_IN_POOL_EXPAND = ''CMMVC5860E''"
definition NOT_ENOUGH_EXTENTS_IN_POOL_CREATE :: string where "NOT_ENOUGH_EXTENTS_IN_POOL_CREATE = ''CMMVC8710E''"

definition HOST_ID_PARAM :: string where "HOST_ID_PARAM = ''id''"
definition HOST_NAME_PARAM :: string where "HOST_NAME_PARAM = ''name''"
definition HOST_ISCSI_NAMES_PARAM :: string where "HOST_ISCSI_NAMES_PARAM = ''iscsi_name''"
definition HOST_WWPNS_PARAM :: string where "HOST_WWPNS_PARAM = ''WWPN''"
definition HOSTS_LIST_ERR_MSG_MAX_LENGTH :: nat where "HOSTS_LIST_ERR_MSG_MAX_LENGTH = 300"
definition FCMAP_STATUS_DONE :: string where "FCMAP_STATUS_DONE = ''idle_or_copied''"
definition YES :: string where "YES = ''yes''"
definition ENDPOINT_TYPE_SOURCE :: string where "ENDPOINT_TYPE_SOURCE = ''source''"
definition ENDPOINT_TYPE_TARGET :: string where "ENDPOINT_TYPE_TARGET = ''target''"

definition SVC_BLOCK_SIZE_IN_BYTES :: int where "SVC_BLOCK_SIZE_IN_BYTES = 512"
definition SVC_MAX_LUN_NUMBER :: nat where "SVC_MAX_LUN_NUMBER = 511"
definition SVC_MIN_LUN_NUMBER :: nat where "SVC_MIN_LUN_NUMBER = 0"

section \<open>Messages and arguments\<close>

text \<open>The tag of the message between the first two quotation marks ends with \<^verbatim>\<open>W\<close>.\<close>

definition is_warning_message :: "string \<Rightarrow> exc + bool" where
  "is_warning_message ex =
     (case split_on (CHR 0x22) ex of
        _ # message # _ \<Rightarrow>
          (case split_ws message of
             message_tag # _ \<Rightarrow> Inr (last message_tag = CHR ''W'')
           | [] \<Rightarrow> Inl IndexError)
      | _ \<Rightarrow> Inl IndexError)"

text \<open>\<^verbatim>\<open>except (svc_errors.CommandExecutionError, CLIFailureError) as ex\<close>.\<close>

definition except_cli ::
  "('s, 'a) pyprog \<Rightarrow> (lib_exc \<Rightarrow> ('s, 'a) pyprog) \<Rightarrow> ('s, 'a) pyprog" where
  "except_cli m h =
     try_except m (\<lambda>e. case e of
         LibExc l \<Rightarrow>
           if is_a l Svc_CommandExecutionError \<or> is_a l Svc_CLIFailureError then h l else raise e
       | _ \<Rightarrow> raise e)"

text \<open>\<^verbatim>\<open>if not is_warning_message(ex.my_message): m\<close>, and \<open>after\<close> when nothing was raised.\<close>

definition unless_warning ::
  "lib_exc \<Rightarrow> ('s, unit) pyprog \<Rightarrow> ('s, 'a) pyprog \<Rightarrow> ('s, 'a) pyprog" where
  "unless_warning l m after =
     bnd (lift (is_warning_message (lx_message l))) (\<lambda>w.
     bnd (if w then ret () else m) (\<lambda>_. after))"

definition any_in :: "string list \<Rightarrow> string \<Rightarrow> bool" where
  "any_in ids msg \<longleftrightarrow> (\<exists>i \<in> set ids. contains i msg)"

definition build_kwargs_from_parameters ::
  "string option \<Rightarrow> string \<Rightarrow> string \<Rightarrow> int \<Rightarrow> mkvolume_args" where
  "build_kwargs_from_parameters space_efficiency pool_name volume_name volume_size =
     (let cli_kwargs =
        \<lparr>mv_name = volume_name, mv_size = volume_size, mv_pool = pool_name,
         mv_thin = False, mv_compressed = False, mv_deduplicated = False\<rparr>
      in if truthy space_efficiency then
           let se = lower (the space_efficiency) in
           if se = SPACE_EFFICIENCY_THIN then cli_kwargs\<lparr>mv_thin := True\<rparr>
           else if se = SPACE_EFFICIENCY_COMPRESSED then cli_kwargs\<lparr>mv_compressed := True\<rparr>
           else if se = SPACE_EFFICIENCY_DEDUPLICATED
           then cli_kwargs\<lparr>mv_compressed := True, mv_deduplicated := True\<rparr>
           else cli_kwargs
         else cli_kwargs)"

definition get_cli_volume_space_efficiency :: "svc_vdisk \<Rightarrow> string" where
  "get_cli_volume_space_efficiency v =
     (if vd_deduplicated_copy v = Some YES then SPACE_EFFICIENCY_DEDUPLICATED
      else if vd_compressed_copy v = YES then SPACE_EFFICIENCY_COMPRESSED
      else if vd_se_copy v = YES then SPACE_EFFICIENCY_THIN
      else SPACE_EFFICIENCY_THICK)"

definition svc_convert_size_bytes :: "int \<Rightarrow> int" where
  "svc_convert_size_bytes size_in_bytes =
     (let r = size_in_bytes mod SVC_BLOCK_SIZE_IN_BYTES in
      if r > 0 then size_in_bytes - r + 512 else size_in_bytes)"

section \<open>Connection\<close>

definition svc_disconnect :: "'s svc_client \<Rightarrow> ('s, unit) pyprog" where
  "svc_disconnect cl = lib (sc_close cl)"

definition svc_is_active :: "'s svc_client \<Rightarrow> ('s, bool) pyprog" where
  "svc_is_active cl = lib (sc_is_active cl)"

fun local_cluster :: "(string, string) dict list \<Rightarrow> exc + (string, string) dict option" where
  "local_cluster [] = Inr None"
| "local_cluster (c # cs) =
     (case map_of c ''location'' of
        None \<Rightarrow> Inl KeyError
      | Some loc \<Rightarrow> if loc = ''local'' then Inr (Some c) else local_cluster cs)"

definition svc_get_system_info :: "'s svc_client \<Rightarrow> ('s, (string, string) dict option) pyprog" where
  "svc_get_system_info cl = bnd (lib (sc_lssystem cl)) (\<lambda>cs. lift (local_cluster cs))"

text \<open>\<^verbatim>\<open>identifier\<close>, with the cached \<^verbatim>\<open>_identifier\<close> before and after.\<close>

definition svc_identifier ::
  "'s svc_client \<Rightarrow> string option \<Rightarrow> ('s, string \<times> string option) pyprog" where
  "svc_identifier cl cached =
     (case cached of
        Some i \<Rightarrow> ret (i, cached)
      | None \<Rightarrow>
          bnd (svc_get_system_info cl) (\<lambda>cluster.
            case cluster of
              None \<Rightarrow> raise TypeError
            | Some c \<Rightarrow>
                (case map_of c ''id_alias'' of
                   None \<Rightarrow> raise KeyError
                 | Some i \<Rightarrow> ret (i, Some i))))"

section \<open>Volumes and FlashCopy mappings\<close>

definition svc_get_cli_volume :: "'s svc_client \<Rightarrow> string \<Rightarrow> bool \<Rightarrow> ('s, svc_vdisk option) pyprog" where
  "svc_get_cli_volume cl volume_name not_exist_err =
     except_cli
       (bnd (lib (sc_lsvdisk_by_id cl volume_name)) (\<lambda>cli_volume.
          if cli_volume = None \<and> not_exist_err then raise (ObjectNotFoundError volume_name)
          else ret cli_volume))
       (\<lambda>ex. unless_warning ex
          (bnd (if (contains OBJ_NOT_FOUND (lx_message ex) \<or>
                    contains NAME_NOT_EXIST_OR_MEET_RULES (lx_message ex)) \<and> not_exist_err
                then raise (ObjectNotFoundError volume_name) else ret ()) (\<lambda>_.
             if any_in [NON_ASCII_CHARS, VALUE_TOO_LONG] (lx_message ex)
             then raise (IllegalObjectName (lx_message ex)) else ret ()))
          (ret None))"

definition svc_get_cli_volume_if_exists :: "'s svc_client \<Rightarrow> string \<Rightarrow> ('s, svc_vdisk option) pyprog" where
  "svc_get_cli_volume_if_exists cl volume_name = svc_get_cli_volume cl volume_name False"

definition svc_get_fcmaps :: "'s svc_client \<Rightarrow> string \<Rightarrow> string \<Rightarrow> ('s, svc_fcmap list) pyprog" where
  "svc_get_fcmaps cl volume_name endpoint_type =
     lib (sc_lsfcmap cl (endpoint_type @ ''_vdisk_name='' @ volume_name))"

definition svc_get_fcmap_as_target_if_exists ::
  "'s svc_client \<Rightarrow> string \<Rightarrow> ('s, svc_fcmap option) pyprog" where
  "svc_get_fcmap_as_target_if_exists cl volume_name =
     bnd (svc_get_fcmaps cl volume_name ENDPOINT_TYPE_TARGET) (\<lambda>fcmaps_as_target.
       ret (if length fcmaps_as_target \<noteq> 1 then None else Some (hd fcmaps_as_target)))"

definition svc_get_fcmaps_as_source_if_exist ::
  "'s svc_client \<Rightarrow> string \<Rightarrow> ('s, svc_fcmap list) pyprog" where
  "svc_get_fcmaps_as_source_if_exist cl volume_name = svc_get_fcmaps cl volume_name ENDPOINT_TYPE_SOURCE"

definition svc_get_wwn_by_volume_name_if_exists ::
  "'s svc_client \<Rightarrow> string \<Rightarrow> ('s, string option) pyprog" where
  "svc_get_wwn_by_volume_name_if_exists cl volume_name =
     bnd (svc_get_cli_volume_if_exists cl volume_name) (\<lambda>cli_volume.
       ret (map_option vd_uid cli_volume))"

definition svc_get_source_volume_wwn_if_exists ::
  "'s svc_client \<Rightarrow> svc_vdisk \<Rightarrow> ('s, string option) pyprog" where
  "svc_get_source_volume_wwn_if_exists cl target_cli_object =
     bnd (svc_get_fcmap_as_target_if_exists cl (vd_name target_cli_object)) (\<lambda>fcmap.
       case fcmap of
         None \<Rightarrow> ret None
       | Some f \<Rightarrow> svc_get_wwn_by_volume_name_if_exists cl (fc_source_vdisk_name f))"

text \<open>The responses; \<open>None\<close> has none of the attributes.\<close>

definition svc_generate_volume_response ::
  "'s svc_client \<Rightarrow> string \<Rightarrow> svc_vdisk option \<Rightarrow> ('s, volume) pyprog" where
  "svc_generate_volume_response cl ep cli_volume =
     (case cli_volume of
        None \<Rightarrow> raise AttributeError
      | Some v \<Rightarrow>
          bnd (svc_get_source_volume_wwn_if_exists cl v) (\<lambda>source_volume_wwn.
          bnd (lift (py_int (vd_capacity v))) (\<lambda>capacity.
            ret \<lparr>vol_capacity_bytes = capacity, vol_id = vd_uid v, vol_name = vd_name v,
                 vol_array_address = Addr ep, vol_pool = vd_mdisk_grp_name v,
                 vol_copy_source_id = source_volume_wwn, vol_array_type = ARRAY_TYPE_SVC\<rparr>)))"

definition svc_generate_snapshot_response ::
  "string \<Rightarrow> svc_vdisk option \<Rightarrow> string option \<Rightarrow> ('s, snapshot) pyprog" where
  "svc_generate_snapshot_response ep cli_snapshot source_volume_id =
     (case cli_snapshot of
        None \<Rightarrow> raise AttributeError
      | Some v \<Rightarrow>
          bnd (lift (py_int (vd_capacity v))) (\<lambda>capacity.
            ret \<lparr>snap_capacity_bytes = capacity, snap_id = vd_uid v, snap_name = vd_name v,
                 snap_array_address = Addr ep, snap_source_volume_id = source_volume_id,
                 snap_is_ready = True, snap_array_type = ARRAY_TYPE_SVC\<rparr>))"

definition svc_generate_snapshot_response_with_verification ::
  "'s svc_client \<Rightarrow> string \<Rightarrow> svc_vdisk \<Rightarrow> ('s, snapshot) pyprog" where
  "svc_generate_snapshot_response_with_verification cl ep cli_object =
     (if vd_FC_id cli_object = [] then
        raise (ExpectedSnapshotButFoundVolumeError (vd_name cli_object) ep)
      else
        bnd (svc_get_fcmap_as_target_if_exists cl (vd_name cli_object)) (\<lambda>fcmap.
          case fcmap of
            None \<Rightarrow> raise (ExpectedSnapshotButFoundVolumeError (vd_name cli_object) ep)
          | Some f \<Rightarrow>
              if fc_copy_rate f \<noteq> ''0''
              then raise (ExpectedSnapshotButFoundVolumeError (vd_name cli_object) ep)
              else
                bnd (svc_get_wwn_by_volume_name_if_exists cl (fc_source_vdisk_name f))
                  (svc_generate_snapshot_response ep (Some cli_object))))"

definition svc_get_volume :: "'s svc_client \<Rightarrow> string \<Rightarrow> string \<Rightarrow> string option \<Rightarrow> ('s, volume) pyprog" where
  "svc_get_volume cl ep volume_name pool =
     bnd (svc_get_cli_volume cl volume_name True) (svc_generate_volume_response cl ep)"

definition svc_get_object_fcmaps :: "'s svc_client \<Rightarrow> string \<Rightarrow> ('s, svc_fcmap list) pyprog" where
  "svc_get_object_fcmaps cl object_name =
     bnd (svc_get_fcmap_as_target_if_exists cl object_name) (\<lambda>fcmap_as_target.
     bnd (svc_get_fcmaps_as_source_if_exist cl object_name) (\<lambda>fcmaps_as_source.
       ret ((case fcmap_as_target of None \<Rightarrow> [] | Some f \<Rightarrow> [f]) @ fcmaps_as_source)))"

definition svc_get_cli_volume_by_wwn ::
  "'s svc_client \<Rightarrow> string \<Rightarrow> bool \<Rightarrow> ('s, svc_vdisk option) pyprog" where
  "svc_get_cli_volume_by_wwn cl volume_id not_exist_err =
     bnd (except_cli (lib (sc_lsvdisk_filter cl (''vdisk_UID='' @ volume_id)))
            (\<lambda>ex. unless_warning ex
               (if any_in [NON_ASCII_CHARS, INVALID_FILTER_VALUE] (lx_message ex)
                then raise (IllegalObjectID (lx_message ex)) else raise (LibExc ex))
               (raise UnboundLocalError)))
       (\<lambda>cli_volume.
          if cli_volume = None \<and> not_exist_err then raise (ObjectNotFoundError volume_id)
          else ret cli_volume)"

definition svc_get_volume_name_by_wwn_if_exists ::
  "'s svc_client \<Rightarrow> string \<Rightarrow> ('s, string option) pyprog" where
  "svc_get_volume_name_by_wwn_if_exists cl volume_id =
     bnd (svc_get_cli_volume_by_wwn cl volume_id False) (\<lambda>cli_volume.
       ret (map_option vd_name cli_volume))"

definition svc_get_volume_name_by_wwn :: "'s svc_client \<Rightarrow> string \<Rightarrow> ('s, string) pyprog" where
  "svc_get_volume_name_by_wwn cl volume_id =
     bnd (svc_get_volume_name_by_wwn_if_exists cl volume_id) (\<lambda>vol_name.
       if truthy vol_name then ret (the vol_name) else raise (ObjectNotFoundError volume_id))"

section \<open>Creating, expanding and deleting\<close>

definition svc_delete_fcmap :: "'s svc_client \<Rightarrow> string \<Rightarrow> bool \<Rightarrow> ('s, unit) pyprog" where
  "svc_delete_fcmap cl fcmap_id force =
     except_cli (lib (sc_rmfcmap cl fcmap_id force))
       (\<lambda>ex. unless_warning ex (ret ()) (ret ()))"

definition svc_stop_fcmap :: "'s svc_client \<Rightarrow> string \<Rightarrow> ('s, unit) pyprog" where
  "svc_stop_fcmap cl fcmap_id =
     except_cli (lib (sc_stopfcmap cl fcmap_id))
       (\<lambda>ex. unless_warning ex (ret ()) (ret ()))"

definition svc_stop_and_delete_fcmap :: "'s svc_client \<Rightarrow> string \<Rightarrow> ('s, unit) pyprog" where
  "svc_stop_and_delete_fcmap cl fcmap_id =
     bnd (svc_stop_fcmap cl fcmap_id) (\<lambda>_. svc_delete_fcmap cl fcmap_id True)"

definition fcmap_unfinished :: "svc_fcmap \<Rightarrow> bool" where
  "fcmap_unfinished f \<longleftrightarrow> fc_status f \<noteq> FCMAP_STATUS_DONE \<or> fc_copy_rate f = ''0''"

definition svc_safe_delete_fcmaps :: "'s svc_client \<Rightarrow> string \<Rightarrow> svc_fcmap list \<Rightarrow> ('s, unit) pyprog" where
  "svc_safe_delete_fcmaps cl object_name fcmaps =
     (let unfinished_fcmaps = filter fcmap_unfinished fcmaps in
      if unfinished_fcmaps \<noteq> []
      then raise (ObjectIsStillInUseError object_name (map fc_text unfinished_fcmaps))
      else for_each (\<lambda>fcmap. svc_delete_fcmap cl (fc_id fcmap) False) fcmaps)"

definition svc_expand_cli_volume :: "'s svc_client \<Rightarrow> svc_vdisk \<Rightarrow> int \<Rightarrow> ('s, unit) pyprog" where
  "svc_expand_cli_volume cl cli_volume increase_in_bytes =
     except_cli (lib (sc_expandvdisksize cl (vd_name cli_volume) increase_in_bytes))
       (\<lambda>ex. unless_warning ex
          (if contains OBJ_NOT_FOUND (lx_message ex) \<or> contains VOL_NOT_FOUND (lx_message ex)
           then raise (ObjectNotFoundError (vd_name cli_volume))
           else if contains NOT_ENOUGH_EXTENTS_IN_POOL_EXPAND (lx_message ex)
           then raise (NotEnoughSpaceInPool (vd_mdisk_grp_name cli_volume))
           else raise (LibExc ex))
          (ret ()))"

definition svc_expand_volume :: "'s svc_client \<Rightarrow> string \<Rightarrow> int \<Rightarrow> ('s, unit) pyprog" where
  "svc_expand_volume cl volume_id required_bytes =
     bnd (svc_get_cli_volume_by_wwn cl volume_id True) (\<lambda>cli_volume.
       case cli_volume of
         None \<Rightarrow> raise AttributeError
       | Some v \<Rightarrow>
           bnd (svc_get_object_fcmaps cl (vd_name v)) (\<lambda>fcmaps.
           bnd (svc_safe_delete_fcmaps cl (vd_name v) fcmaps) (\<lambda>_.
           bnd (lift (py_int (vd_capacity v))) (\<lambda>current.
             svc_expand_cli_volume cl v (svc_convert_size_bytes required_bytes - current)))))"

definition svc_validate_supported_space_efficiency :: "string option \<Rightarrow> ('s, unit) pyprog" where
  "svc_validate_supported_space_efficiency space_efficiency =
     (if truthy space_efficiency \<and>
         lower (the space_efficiency) \<notin>
           set [SPACE_EFFICIENCY_THIN, SPACE_EFFICIENCY_THICK, SPACE_EFFICIENCY_COMPRESSED,
                SPACE_EFFICIENCY_DEDUPLICATED]
      then raise (SpaceEfficiencyNotSupported (the space_efficiency)) else ret ())"

definition svc_create_cli_volume ::
  "'s svc_client \<Rightarrow> string \<Rightarrow> string \<Rightarrow> int \<Rightarrow> string option \<Rightarrow> string
   \<Rightarrow> ('s, svc_vdisk option) pyprog" where
  "svc_create_cli_volume cl ep name size_in_bytes space_efficiency pool =
     except_cli
       (bnd (lib (sc_mkvolume cl (build_kwargs_from_parameters space_efficiency pool name
                (svc_convert_size_bytes size_in_bytes)))) (\<lambda>_.
        bnd (svc_get_cli_volume cl name True) (\<lambda>cli_volume.
          case cli_volume of None \<Rightarrow> raise AttributeError | Some v \<Rightarrow> ret (Some v))))
       (\<lambda>ex. unless_warning ex
          (if contains OBJ_ALREADY_EXIST (lx_message ex) then raise (VolumeAlreadyExists name ep)
           else if contains NAME_NOT_EXIST_OR_MEET_RULES (lx_message ex)
           then raise (PoolDoesNotExist pool ep)
           else if contains POOL_NOT_MATCH_VOL_CAPABILITIES (lx_message ex) \<or>
                   contains NOT_REDUCTION_POOL (lx_message ex)
           then raise (PoolDoesNotMatchCapabilities pool (str_option space_efficiency) (lx_text ex))
           else if contains NOT_ENOUGH_EXTENTS_IN_POOL_CREATE (lx_message ex)
           then raise (NotEnoughSpaceInPool pool)
           else if any_in [NON_ASCII_CHARS, INVALID_NAME, TOO_MANY_CHARS] (lx_message ex)
           then raise (IllegalObjectName (lx_message ex))
           else raise (LibExc ex))
          (ret None))"

definition svc_create_volume ::
  "'s svc_client \<Rightarrow> string \<Rightarrow> string \<Rightarrow> int \<Rightarrow> string option \<Rightarrow> string
   \<Rightarrow> ('s, volume option) pyprog" where
  "svc_create_volume cl ep name size_in_bytes space_efficiency pool =
     bnd (svc_create_cli_volume cl ep name size_in_bytes space_efficiency pool) (\<lambda>cli_volume.
     bnd (svc_generate_volume_response cl ep cli_volume) (\<lambda>v. ret (Some v)))"

definition svc_delete_volume_by_name :: "'s svc_client \<Rightarrow> string \<Rightarrow> bool \<Rightarrow> ('s, unit) pyprog" where
  "svc_delete_volume_by_name cl volume_name not_exist_err =
     except_cli (lib (sc_rmvolume cl volume_name))
       (\<lambda>ex. unless_warning ex
          (if (contains OBJ_NOT_FOUND (lx_message ex) \<or> contains VOL_NOT_FOUND (lx_message ex)) \<and>
              not_exist_err
           then raise (ObjectNotFoundError volume_name) else raise (LibExc ex))
          (ret ()))"

definition svc_delete_object :: "'s svc_client \<Rightarrow> svc_vdisk \<Rightarrow> bool \<Rightarrow> ('s, unit) pyprog" where
  "svc_delete_object cl cli_object is_snapshot =
     bnd (svc_get_fcmap_as_target_if_exists cl (vd_name cli_object)) (\<lambda>fcmap_as_target.
       if is_snapshot \<and> fcmap_as_target = None then raise (ObjectNotFoundError (vd_name cli_object))
       else
         bnd (svc_get_fcmaps_as_source_if_exist cl (vd_name cli_object)) (\<lambda>fcmaps_as_source.
         bnd (if fcmaps_as_source \<noteq> []
              then svc_safe_delete_fcmaps cl (vd_name cli_object) fcmaps_as_source else ret ()) (\<lambda>_.
         bnd (case fcmap_as_target of
                None \<Rightarrow> ret ()
              | Some f \<Rightarrow> svc_stop_and_delete_fcmap cl (fc_id f)) (\<lambda>_.
           svc_delete_volume_by_name cl (vd_name cli_object) True))))"

definition svc_delete_volume :: "'s svc_client \<Rightarrow> string \<Rightarrow> ('s, unit) pyprog" where
  "svc_delete_volume cl volume_id =
     bnd (svc_get_cli_volume_by_wwn cl volume_id True) (\<lambda>cli_volume.
       case cli_volume of None \<Rightarrow> raise AttributeError | Some v \<Rightarrow> svc_delete_object cl v False)"

section \<open>Copies and snapshots\<close>

text \<open>\<^verbatim>\<open>@retry(svc_errors.StorageArrayClientException, tries=5, delay=1)\<close>.\<close>

definition svc_rollback_retried :: "exc \<Rightarrow> bool" where
  "svc_rollback_retried e \<longleftrightarrow> is_lib_a [Svc_StorageArrayClientException] e"

definition svc_delete_unstarted_fcmap_if_exists ::
  "'s svc_client \<Rightarrow> string \<Rightarrow> ('s, svc_vdisk option) pyprog" where
  "svc_delete_unstarted_fcmap_if_exists cl target_volume_name =
     bnd (svc_get_cli_volume_if_exists cl target_volume_name) (\<lambda>target_cli_volume.
     bnd (case target_cli_volume of
            Some v \<Rightarrow> if vd_FC_id v \<noteq> [] then svc_delete_fcmap cl (vd_FC_id v) False else ret ()
          | None \<Rightarrow> ret ()) (\<lambda>_.
       ret target_cli_volume))"

definition svc_delete_target_volume_if_exists ::
  "'s svc_client \<Rightarrow> svc_vdisk option \<Rightarrow> ('s, unit) pyprog" where
  "svc_delete_target_volume_if_exists cl target_cli_volume =
     (case target_cli_volume of
        Some v \<Rightarrow> svc_delete_volume_by_name cl (vd_name v) False
      | None \<Rightarrow> ret ())"

definition svc_rollback_copy_to_target_volume ::
  "(exc, 's, unit) retrier \<Rightarrow> 's svc_client \<Rightarrow> string \<Rightarrow> ('s, unit) pyprog" where
  "svc_rollback_copy_to_target_volume retry cl target_volume_name =
     retry svc_rollback_retried 5
       (bnd (svc_delete_unstarted_fcmap_if_exists cl target_volume_name) (\<lambda>_. ret ()))"

definition svc_rollback_create_snapshot ::
  "(exc, 's, unit) retrier \<Rightarrow> 's svc_client \<Rightarrow> string \<Rightarrow> ('s, unit) pyprog" where
  "svc_rollback_create_snapshot retry cl target_volume_name =
     retry svc_rollback_retried 5
       (bnd (svc_delete_unstarted_fcmap_if_exists cl target_volume_name)
         (svc_delete_target_volume_if_exists cl))"

definition svc_create_fcmap :: "'s svc_client \<Rightarrow> string \<Rightarrow> string \<Rightarrow> bool \<Rightarrow> ('s, unit) pyprog" where
  "svc_create_fcmap cl source_volume_name target_volume_name is_copy =
     except_cli
       (lib (sc_mkfcmap cl source_volume_name target_volume_name (if is_copy then None else Some 0)))
       (\<lambda>ex. unless_warning ex
          (if contains FCMAP_ALREADY_EXIST (lx_message ex) then ret () else raise (LibExc ex))
          (ret ()))"

definition svc_start_fcmap :: "'s svc_client \<Rightarrow> string \<Rightarrow> ('s, unit) pyprog" where
  "svc_start_fcmap cl fcmap_id =
     except_cli (lib (sc_startfcmap cl fcmap_id))
       (\<lambda>ex. unless_warning ex
          (if contains FCMAP_ALREADY_COPYING (lx_message ex) then ret () else raise (LibExc ex))
          (ret ()))"

definition svc_create_and_start_fcmap ::
  "'s svc_client \<Rightarrow> string \<Rightarrow> string \<Rightarrow> bool \<Rightarrow> ('s, svc_vdisk option) pyprog" where
  "svc_create_and_start_fcmap cl source_volume_name target_volume_name is_copy =
     bnd (svc_create_fcmap cl source_volume_name target_volume_name is_copy) (\<lambda>_.
     bnd (svc_get_cli_volume cl target_volume_name True) (\<lambda>target_cli_volume.
       case target_cli_volume of
         None \<Rightarrow> raise AttributeError
       | Some v \<Rightarrow> bnd (svc_start_fcmap cl (vd_FC_id v)) (\<lambda>_. ret (Some v))))"

definition svc_copy_to_target_volume ::
  "(exc, 's, unit) retrier \<Rightarrow> 's svc_client \<Rightarrow> string \<Rightarrow> string \<Rightarrow> ('s, svc_vdisk option) pyprog" where
  "svc_copy_to_target_volume retry cl target_volume_name source_volume_name =
     except_cli (svc_create_and_start_fcmap cl source_volume_name target_volume_name True)
       (\<lambda>ex. bnd (svc_rollback_copy_to_target_volume retry cl target_volume_name) (\<lambda>_.
               raise (LibExc ex)))"

definition svc_copy_to_existing_volume_from_source ::
  "(exc, 's, unit) retrier \<Rightarrow> 's svc_client \<Rightarrow> string \<Rightarrow> string \<Rightarrow> int \<Rightarrow> int \<Rightarrow> ('s, unit) pyprog" where
  "svc_copy_to_existing_volume_from_source retry cl volume_id source_id
       source_capacity_in_bytes minimum_volume_size_in_bytes =
     bnd (svc_get_volume_name_by_wwn cl source_id) (\<lambda>source_name.
     bnd (svc_get_volume_name_by_wwn cl volume_id) (\<lambda>target_volume_name.
     bnd (svc_copy_to_target_volume retry cl target_volume_name source_name) (\<lambda>_. ret ())))"

definition svc_get_snapshot ::
  "'s svc_client \<Rightarrow> string \<Rightarrow> string \<Rightarrow> string \<Rightarrow> string option \<Rightarrow> ('s, snapshot option) pyprog" where
  "svc_get_snapshot cl ep volume_id snapshot_name pool =
     bnd (svc_get_cli_volume_if_exists cl snapshot_name) (\<lambda>target_cli_volume.
       case target_cli_volume of
         None \<Rightarrow> ret None
       | Some v \<Rightarrow>
           bnd (svc_generate_snapshot_response_with_verification cl ep v) (\<lambda>sn. ret (Some sn)))"

definition svc_get_object_by_id ::
  "'s svc_client \<Rightarrow> string \<Rightarrow> string \<Rightarrow> object_type \<Rightarrow> ('s, array_object option) pyprog" where
  "svc_get_object_by_id cl ep object_id object_type =
     bnd (svc_get_cli_volume_by_wwn cl object_id False) (\<lambda>cli_object.
       case cli_object of
         None \<Rightarrow> ret None
       | Some v \<Rightarrow>
           if object_type = SNAPSHOT_TYPE then
             bnd (svc_generate_snapshot_response_with_verification cl ep v)
               (\<lambda>sn. ret (Some (SnapshotObject sn)))
           else
             bnd (svc_generate_volume_response cl ep (Some v)) (\<lambda>vol. ret (Some (VolumeObject vol))))"

definition svc_create_similar_volume ::
  "'s svc_client \<Rightarrow> string \<Rightarrow> svc_vdisk \<Rightarrow> string \<Rightarrow> string option \<Rightarrow> ('s, unit) pyprog" where
  "svc_create_similar_volume cl ep source_cli_volume target_volume_name pool =
     bnd (lift (py_int (vd_capacity source_cli_volume))) (\<lambda>size_in_bytes.
     bnd (svc_create_cli_volume cl ep target_volume_name size_in_bytes
            (Some (get_cli_volume_space_efficiency source_cli_volume))
            (if truthy pool then the pool else vd_mdisk_grp_name source_cli_volume)) (\<lambda>_.
       ret ()))"

definition svc_create_snapshot_volume ::
  "(exc, 's, unit) retrier \<Rightarrow> 's svc_client \<Rightarrow> string \<Rightarrow> string \<Rightarrow> svc_vdisk \<Rightarrow> string option
   \<Rightarrow> ('s, svc_vdisk option) pyprog" where
  "svc_create_snapshot_volume retry cl ep target_volume_name source_cli_volume pool =
     except_cli
       (bnd (svc_create_similar_volume cl ep source_cli_volume target_volume_name pool) (\<lambda>_.
          svc_create_and_start_fcmap cl (vd_name source_cli_volume) target_volume_name False))
       (\<lambda>ex. bnd (svc_rollback_create_snapshot retry cl target_volume_name) (\<lambda>_.
               raise (LibExc ex)))"

definition svc_create_snapshot ::
  "(exc, 's, unit) retrier \<Rightarrow> 's svc_client \<Rightarrow> string \<Rightarrow> string \<Rightarrow> string \<Rightarrow> string option
   \<Rightarrow> ('s, snapshot) pyprog" where
  "svc_create_snapshot retry cl ep volume_id snapshot_name pool =
     bnd (svc_get_volume_name_by_wwn cl volume_id) (\<lambda>source_volume_name.
     bnd (svc_get_cli_volume cl source_volume_name True) (\<lambda>source_cli_volume.
       case source_cli_volume of
         None \<Rightarrow> raise AttributeError
       | Some src \<Rightarrow>
           bnd (svc_create_snapshot_volume retry cl ep snapshot_name src pool) (\<lambda>target_cli_volume.
             svc_generate_snapshot_response ep target_cli_volume (Some (vd_uid src)))))"

definition svc_delete_snapshot :: "'s svc_client \<Rightarrow> string \<Rightarrow> ('s, unit) pyprog" where
  "svc_delete_snapshot cl snapshot_id =
     bnd (svc_get_cli_volume_by_wwn cl snapshot_id False) (\<lambda>cli_volume.
       case cli_volume of
         None \<Rightarrow> raise (ObjectNotFoundError snapshot_id)
       | Some v \<Rightarrow>
           if vd_FC_id v = [] then raise (ObjectNotFoundError snapshot_id)
           else svc_delete_object cl v True)"

section \<open>Hosts\<close>

definition svc_get_detailed_hosts_list_cmd :: "(string, string) dict list \<Rightarrow> string" where
  "svc_get_detailed_hosts_list_cmd host_list =
     concat (map (\<lambda>h. ''lshost '' @ str_option (map_of h HOST_ID_PARAM) @ '';'') host_list)"

text \<open>
  \<^verbatim>\<open>"{0} ...".format(errors[HOSTS_LIST_ERR_MSG_MAX_LENGTH])\<close>: the index is one character,
  not the text up to it.
\<close>

definition svc_truncate_error_msg :: "string \<Rightarrow> string" where
  "svc_truncate_error_msg errors =
     (if length errors \<le> HOSTS_LIST_ERR_MSG_MAX_LENGTH then errors
      else [errors ! HOSTS_LIST_ERR_MSG_MAX_LENGTH] @ '' ...'')"

definition bytes_to_string :: "string option \<Rightarrow> string" where
  "bytes_to_string b = (if truthy b then the b else '''')"

definition svc_send_raw_cli_command :: "'s svc_client \<Rightarrow> string \<Rightarrow> ('s, string \<times> string) pyprog" where
  "svc_send_raw_cli_command cl cmd =
     bnd (lib (sc_send_raw_command cl cmd)) (\<lambda>(output_as_bytes, errors_as_bytes).
       ret (bytes_to_string output_as_bytes, svc_truncate_error_msg (bytes_to_string errors_as_bytes)))"

text \<open>A value as text; a repeated parameter is a Python list.\<close>

fun cli_text_of :: "cli_value \<Rightarrow> string" where
  "cli_text_of (One v) = v"
| "cli_text_of (Many vs) = str_list vs"

definition svc_host_of :: "cli_element \<Rightarrow> host" where
  "svc_host_of host_details =
     \<lparr>h_id = map_option cli_text_of (map_of host_details HOST_ID_PARAM),
      h_name = map_option cli_text_of (map_of host_details HOST_NAME_PARAM),
      h_iscsi_names = get_as_list host_details HOST_ISCSI_NAMES_PARAM,
      h_wwns = get_as_list host_details HOST_WWPNS_PARAM\<rparr>"

definition svc_get_detailed_hosts_by_raw_output :: "string \<Rightarrow> exc + host list" where
  "svc_get_detailed_hosts_by_raw_output raw =
     bnd_err (parse_cli raw) (\<lambda>elements. Inr (map svc_host_of elements))"

definition svc_get_detailed_hosts_list :: "'s svc_client \<Rightarrow> ('s, host list) pyprog" where
  "svc_get_detailed_hosts_list cl =
     bnd (lib (sc_lshost cl)) (\<lambda>hosts_list.
       if hosts_list = [] then ret []
       else
         bnd (svc_send_raw_cli_command cl (svc_get_detailed_hosts_list_cmd hosts_list))
           (\<lambda>(output, errors). lift (svc_get_detailed_hosts_by_raw_output output)))"

text \<open>The loop over the hosts: the last match of either kind stands.\<close>

definition svc_match_hosts ::
  "initiators \<Rightarrow> host list \<Rightarrow> string option \<times> string option" where
  "svc_match_hosts initiators hosts =
     fold (\<lambda>host (iscsi_host, fc_host).
       ((if is_array_iscsi_iqns_match initiators (h_iscsi_names host) then h_name host else iscsi_host),
        (if is_array_wwns_match initiators (h_wwns host) then h_name host else fc_host)))
     hosts (None, None)"

definition svc_choose_host ::
  "initiators \<Rightarrow> string option \<times> string option \<Rightarrow> exc + (string \<times> string list)" where
  "svc_choose_host initiators found =
     (case found of (iscsi_host, fc_host) \<Rightarrow>
        if truthy iscsi_host \<and> truthy fc_host then
          (if iscsi_host = fc_host
           then Inr (the fc_host, [ISCSI_CONNECTIVITY_TYPE, FC_CONNECTIVITY_TYPE])
           else Inl (MultipleHostsFoundError (initiators_str initiators) (the fc_host)))
        else if truthy iscsi_host then Inr (the iscsi_host, [ISCSI_CONNECTIVITY_TYPE])
        else if truthy fc_host then Inr (the fc_host, [FC_CONNECTIVITY_TYPE])
        else Inl (HostNotFoundError (initiators_str initiators)))"

definition svc_get_host_by_host_identifiers ::
  "'s svc_client \<Rightarrow> initiators \<Rightarrow> ('s, string \<times> string list) pyprog" where
  "svc_get_host_by_host_identifiers cl initiators =
     bnd (svc_get_detailed_hosts_list cl) (\<lambda>hosts.
       lift (svc_choose_host initiators (svc_match_hosts initiators hosts)))"

section \<open>Mappings\<close>

definition svc_get_volume_mappings :: "'s svc_client \<Rightarrow> string \<Rightarrow> ('s, (string, lun) dict) pyprog" where
  "svc_get_volume_mappings cl volume_id =
     bnd (svc_get_volume_name_by_wwn cl volume_id) (\<lambda>vol_name.
       except_cli
         (bnd (lib (sc_lsvdiskhostmap cl vol_name)) (\<lambda>mapping_list.
            ret (fold (\<lambda>mapping. dict_set (dict_get mapping ''host_name'' '''')
                                  (LunStr (dict_get mapping ''SCSI_id'' '''')))
                   mapping_list [])))
         (\<lambda>_. raise (ObjectNotFoundError volume_id)))"

definition svc_get_used_lun_ids_from_host :: "'s svc_client \<Rightarrow> string \<Rightarrow> ('s, string list) pyprog" where
  "svc_get_used_lun_ids_from_host cl host_name =
     except_cli
       (bnd (lib (sc_lshostvdiskmap cl host_name)) (\<lambda>mappings.
          ret (map (\<lambda>mapping. dict_get mapping ''SCSI_id'' '''') mappings)))
       (\<lambda>_. raise (HostNotFoundError host_name))"

text \<open>The search of \<^verbatim>\<open>get_first_free_lun\<close> over \<^verbatim>\<open>range(MIN_LUN_NUMBER, MAX_LUN_NUMBER + 1)\<close>.\<close>

definition svc_free_lun :: "string list \<Rightarrow> string option" where
  "svc_free_lun luns_in_use =
     find (\<lambda>lun. lun \<notin> set luns_in_use) (map str_nat [SVC_MIN_LUN_NUMBER ..< SVC_MAX_LUN_NUMBER + 1])"

definition svc_get_first_free_lun :: "'s svc_client \<Rightarrow> string \<Rightarrow> ('s, string) pyprog" where
  "svc_get_first_free_lun cl host_name =
     bnd (svc_get_used_lun_ids_from_host cl host_name) (\<lambda>luns_in_use.
       let lun = svc_free_lun luns_in_use in
       if truthy lun then ret (the lun) else raise (NoAvailableLunError host_name))"

definition svc_map_volume :: "'s svc_client \<Rightarrow> string \<Rightarrow> string \<Rightarrow> ('s, lun) pyprog" where
  "svc_map_volume cl volume_id host_name =
     bnd (svc_get_volume_name_by_wwn cl volume_id) (\<lambda>vol_name.
     bnd (svc_get_first_free_lun cl host_name) (\<lambda>lun.
     bnd (except_cli (lib (sc_mkvdiskhostmap cl host_name vol_name lun))
            (\<lambda>ex. unless_warning ex
               (if contains NAME_NOT_EXIST_OR_MEET_RULES (lx_message ex)
                then raise (HostNotFoundError host_name)
                else if contains SPECIFIED_OBJ_NOT_EXIST (lx_message ex)
                then raise (ObjectNotFoundError vol_name)
                else if contains LUN_ALREADY_IN_USE (lx_message ex)
                then raise (LunAlreadyInUseError lun host_name)
                else raise (MappingError vol_name host_name (lx_text ex)))
               (ret ()))) (\<lambda>_.
       ret (LunStr lun))))"

definition svc_unmap_volume :: "'s svc_client \<Rightarrow> string \<Rightarrow> string \<Rightarrow> ('s, unit) pyprog" where
  "svc_unmap_volume cl volume_id host_name =
     bnd (svc_get_volume_name_by_wwn cl volume_id) (\<lambda>volume_name.
       except_cli (lib (sc_rmvdiskhostmap cl host_name volume_name))
         (\<lambda>ex. unless_warning ex
            (if contains NAME_NOT_EXIST_OR_MEET_RULES (lx_message ex)
             then raise (HostNotFoundError host_name)
             else if contains OBJ_NOT_FOUND (lx_message ex)
             then raise (ObjectNotFoundError volume_name)
             else if contains VOL_ALREADY_UNMAPPED (lx_message ex)
             then raise (VolumeAlreadyUnmappedError volume_name)
             else raise (UnmappingError volume_name host_name (lx_text ex)))
            (ret ())))"

section \<open>Targets and ports\<close>

definition svc_get_array_iqns_by_node_id :: "'s svc_client \<Rightarrow> ('s, (string, string) dict) pyprog" where
  "svc_get_array_iqns_by_node_id cl =
     bnd (lib (sc_lsnode cl)) (\<lambda>nodes_list.
       ret (fold (\<lambda>node. dict_set (nd_id node) (nd_iscsi_name node))
              (filter (\<lambda>node. lower (nd_status node) = ''online'') nodes_list) []))"

definition svc_list_ip_ports :: "'s svc_client \<Rightarrow> string \<Rightarrow> ('s, svc_ip_port list) pyprog" where
  "svc_list_ip_ports cl ep =
     except_cli (lib (sc_lsportip cl ''state=configured:failover=no''))
       (\<lambda>_. raise (NoIscsiTargetsFoundError ep))"

text \<open>\<^verbatim>\<open>d[k].append(x)\<close> and \<^verbatim>\<open>d[k].extend(xs)\<close> on a \<^verbatim>\<open>defaultdict(list)\<close>.\<close>

definition default_extend :: "string \<Rightarrow> string list \<Rightarrow> (string, string list) dict \<Rightarrow> (string, string list) dict" where
  "default_extend k xs d = dict_set k (dict_get d k [] @ xs) d"

definition svc_create_ips_by_node_id_map :: "svc_ip_port list \<Rightarrow> (string, string list) dict" where
  "svc_create_ips_by_node_id_map ports =
     fold (\<lambda>port ips_by_node_id.
       let d = (if ip_address port \<noteq> [] then default_extend (ip_node_id port) [ip_address port] ips_by_node_id
                else ips_by_node_id)
       in if ip_address_6 port \<noteq> []
          then default_extend (ip_node_id port) [''['' @ ip_address_6 port @ '']''] d
          else d) ports []"

definition svc_unify_ips_by_iqn ::
  "(string, string) dict \<Rightarrow> (string, string list) dict \<Rightarrow> (string, string list) dict" where
  "svc_unify_ips_by_iqn iqns_by_node_id ips_by_node_id =
     fold (\<lambda>(node_id, iqn). default_extend iqn (dict_get ips_by_node_id node_id [])) iqns_by_node_id []"

definition svc_get_iscsi_targets_by_node_id ::
  "'s svc_client \<Rightarrow> string \<Rightarrow> ('s, (string, string list) dict) pyprog" where
  "svc_get_iscsi_targets_by_node_id cl ep =
     bnd (svc_list_ip_ports cl ep) (\<lambda>ports. ret (svc_create_ips_by_node_id_map ports))"

definition svc_get_iscsi_targets_by_iqn ::
  "'s svc_client \<Rightarrow> string \<Rightarrow> ('s, (string, string list) dict) pyprog" where
  "svc_get_iscsi_targets_by_iqn cl ep =
     bnd (svc_get_array_iqns_by_node_id cl) (\<lambda>iqns_by_node_id.
     bnd (svc_get_iscsi_targets_by_node_id cl ep) (\<lambda>ips_by_node_id.
       let ips_by_iqn = svc_unify_ips_by_iqn iqns_by_node_id ips_by_node_id in
       if ips_by_iqn \<noteq> [] \<and> list_ex (\<lambda>(_, ips). ips \<noteq> []) ips_by_iqn then ret ips_by_iqn
       else raise (NoIscsiTargetsFoundError ep)))"

definition svc_get_array_fc_wwns :: "'s svc_client \<Rightarrow> string \<Rightarrow> ('s, string list) pyprog" where
  "svc_get_array_fc_wwns cl host_name =
     bnd (lib (sc_lsfabric cl host_name)) (\<lambda>fc_wwns.
       ret (map (\<lambda>wwn. dict_get wwn ''local_wwpn'' '''')
         (filter (\<lambda>wwn. dict_get wwn ''state'' '''' \<in> {''active'', ''inactive''}) fc_wwns)))"

section \<open>The mediator\<close>

definition svc_mediator :: "(exc, 's, unit) retrier \<Rightarrow> 's svc_client \<Rightarrow> string \<Rightarrow> 's mediator" where
  "svc_mediator retry cl ep =
     \<lparr>array_type = ARRAY_TYPE_SVC,
      port = 22,
      max_object_name_length = 63,
      max_object_prefix_length = 20,
      max_connections = 2,
      minimal_volume_size_in_bytes = 512,
      maximal_volume_size_in_bytes = 256 * 1024 * 1024 * 1024 * 1024,
      max_lun_retries = 10,
      default_object_prefix = Some ''CSI'',
      disconnect = svc_disconnect cl,
      is_active = svc_is_active cl,
      create_volume = svc_create_volume cl ep,
      copy_to_existing_volume_from_source = svc_copy_to_existing_volume_from_source retry cl,
      delete_volume = svc_delete_volume cl,
      get_volume = svc_get_volume cl ep,
      expand_volume = svc_expand_volume cl,
      get_volume_mappings = svc_get_volume_mappings cl,
      map_volume = svc_map_volume cl,
      unmap_volume = svc_unmap_volume cl,
      get_snapshot = svc_get_snapshot cl ep,
      get_object_by_id = svc_get_object_by_id cl ep,
      create_snapshot = svc_create_snapshot retry cl ep,
      delete_snapshot = svc_delete_snapshot cl,
      get_iscsi_targets_by_iqn = svc_get_iscsi_targets_by_iqn cl ep,
      get_array_fc_wwns = svc_get_array_fc_wwns cl,
      get_host_by_host_identifiers = svc_get_host_by_host_identifiers cl,
      validate_supported_space_efficiency = svc_validate_supported_space_efficiency\<rparr>"

definition svc_connect_client ::
  "'s svc_connect \<Rightarrow> json \<Rightarrow> json \<Rightarrow> string \<Rightarrow> ('s, 's svc_client) pyprog" where
  "svc_connect_client connect user password ep =
     try_except (lib (connect ep user password))
       (\<lambda>e. if is_lib_a [Svc_IncorrectCredentials, Svc_StorageArrayClientException] e
            then raise (CredentialsError ep) else raise e)"

definition SVCArrayMediator ::
  "(exc, 's, unit) retrier \<Rightarrow> 's svc_connect \<Rightarrow> json \<Rightarrow> json \<Rightarrow> string list \<Rightarrow> ('s, 's mediator) pyprog" where
  "SVCArrayMediator retry connect user password endpoint =
     (case endpoint of
        [ep] \<Rightarrow> bnd (svc_connect_client connect user password ep) (\<lambda>cl. ret (svc_mediator retry cl ep))
      | _ \<Rightarrow> raise (StorageManagementIPsNotSupportError (str_list endpoint)))"

end
