(* ===== verification/XivClient.thy ===== *)
theory XivClient
  imports Utils "HOL-Library.Log_Nat" "HOL-Library.List_Lexorder" "HOL-Library.Char_ord"
begin

text \<open>
  The client of the third-party package \<^verbatim>\<open>pyxcli\<close> as \<^verbatim>\<open>array_mediator_xiv.py\<close> uses it, a record
  with one field for every command, and the handling of its exceptions by class.
\<close>

text \<open>
  \<open>xv_copy_master_wwn\<close> is \<open>None\<close> on a system whose elements do not have the attribute, which
  \<^verbatim>\<open>_is_gen3\<close> tests; \<open>xv_text\<close> is \<^verbatim>\<open>str(element)\<close>.
\<close>

record xiv_volume =
  xv_id :: string
  xv_name :: string
  xv_wwn :: string
  xv_capacity :: string
  xv_pool_name :: string
  xv_master_name :: string
  xv_copy_master_wwn :: "string option"
  xv_text :: string

record xiv_host =
  xh_name :: string
  xh_iscsi_ports :: string
  xh_fc_ports :: string

record xiv_mapping =
  xm_host :: string
  xm_lun :: string

record xiv_interface =
  xi_type :: string
  xi_address :: string
  xi_address6 :: string

record xiv_fc_port =
  xp_wwpn :: string
  xp_port_state :: string
  xp_role :: string

record 's xiv_client =
  xc_is_connected :: "('s, bool) lib_call"
  xc_close :: "('s, unit) lib_call"
  xc_config_get :: "('s, (string \<times> string) list) lib_call"
  xc_vol_list_name :: "string \<Rightarrow> ('s, xiv_volume option) lib_call"
  xc_vol_list_wwn :: "string \<Rightarrow> ('s, xiv_volume option) lib_call"
  xc_vol_create :: "string \<Rightarrow> int \<Rightarrow> string \<Rightarrow> ('s, xiv_volume option) lib_call"
  xc_vol_resize :: "string \<Rightarrow> int \<Rightarrow> ('s, unit) lib_call"
  xc_vol_format :: "string \<Rightarrow> ('s, unit) lib_call"
  xc_vol_copy :: "string \<Rightarrow> string \<Rightarrow> ('s, unit) lib_call"
  xc_vol_delete :: "string \<Rightarrow> ('s, unit) lib_call"
  xc_snapshot_list :: "string \<Rightarrow> ('s, xiv_volume list) lib_call"
  xc_snapshot_create :: "string \<Rightarrow> string \<Rightarrow> ('s, xiv_volume option) lib_call"
  xc_snapshot_delete :: "string \<Rightarrow> ('s, unit) lib_call"
  xc_host_list :: "('s, xiv_host list) lib_call"
  xc_vol_mapping_list :: "string \<Rightarrow> ('s, xiv_mapping list) lib_call"
  xc_mapping_list :: "string \<Rightarrow> ('s, xiv_mapping list) lib_call"
  xc_map_vol :: "string \<Rightarrow> string \<Rightarrow> int \<Rightarrow> ('s, unit) lib_call"
  xc_unmap_vol :: "string \<Rightarrow> string \<Rightarrow> ('s, unit) lib_call"
  xc_ipinterface_list :: "('s, xiv_interface list) lib_call"
  xc_fc_port_list :: "('s, xiv_fc_port list) lib_call"

text \<open>\<^verbatim>\<open>XCLIClient.connect_multiendpoint_ssl(user, password, endpoints)\<close>.\<close>

type_synonym 's xiv_connect = "json \<Rightarrow> json \<Rightarrow> string list \<Rightarrow> ('s, 's xiv_client) lib_call"

text \<open>
  A \<^verbatim>\<open>try\<close> with several \<^verbatim>\<open>except\<close> clauses over third-party classes: the first that matches runs.
\<close>

definition except_lib ::
  "('s, 'a) pyprog \<Rightarrow> (lib_class list \<times> (lib_exc \<Rightarrow> ('s, 'a) pyprog)) list \<Rightarrow> ('s, 'a) pyprog" where
  "except_lib m clauses =
     try_except m (\<lambda>e. case e of
         LibExc l \<Rightarrow>
           (case find (\<lambda>(cs, _). \<exists>c \<in> set cs. is_a l c) clauses of
              Some (_, h) \<Rightarrow> h l
            | None \<Rightarrow> raise e)
       | _ \<Rightarrow> raise e)"

lemma except_lib_Inr: "m s = (Inr x, s') \<Longrightarrow> except_lib m clauses s = (Inr x, s')"
  by (simp add: except_lib_def run)

lemma except_lib_own: "m s = (Inl e, s') \<Longrightarrow> \<not> is_lib e \<Longrightarrow> except_lib m clauses s = (Inl e, s')"
  by (cases e) (simp_all add: except_lib_def run)

lemma except_lib_handled:
  "m s = (Inl (LibExc l), s') \<Longrightarrow>
   except_lib m clauses s =
     (case find (\<lambda>(cs, _). \<exists>c \<in> set cs. is_a l c) clauses of
        Some (_, h) \<Rightarrow> h l s'
      | None \<Rightarrow> (Inl (LibExc l), s'))"
  by (simp add: except_lib_def run split: option.split)

text \<open>
  \<^verbatim>\<open>random.randint(a, b)\<close>: the generator's state is part of the world.  Its documented result
  lies between its bounds.
\<close>

type_synonym 's randint = "int \<Rightarrow> int \<Rightarrow> 's \<Rightarrow> int \<times> 's"

definition randint_law :: "'s randint \<Rightarrow> bool" where
  "randint_law r \<longleftrightarrow> (\<forall>a b s. a \<le> b \<longrightarrow> a \<le> fst (r a b s) \<and> fst (r a b s) \<le> b)"

definition random_int :: "'s randint \<Rightarrow> int \<Rightarrow> int \<Rightarrow> ('s, int) pyprog" where
  "random_int r a b = (\<lambda>s. case r a b s of (i, s') \<Rightarrow> (Inr i, s'))"

lemma yields_except_lib [spec_rules]:
  "yields Q F m \<Longrightarrow> (\<And>cs h l. (cs, h) \<in> set clauses \<Longrightarrow> yields Q F (h l)) \<Longrightarrow>
   yields Q F (except_lib m clauses)"
  unfolding except_lib_def
  by (erule yields_try_except)
    (auto simp: find_Some_iff intro: spec_rules split: exc.split option.split
      dest: nth_mem)

lemma yields_random_int [spec_rules]: "(\<And>i. Q i) \<Longrightarrow> yields Q F (random_int r a b)"
  by (rule yieldsI) (auto simp: random_int_def split: prod.splits)

end
