(* ===== verification/Xiv.thy ===== *)
theory Xiv
  imports XivClient
begin

text \<open>
  \<^verbatim>\<open>array_mediator_xiv.py\<close>: the mediator of the XIV / A9000 family.  A method is a program over
  the world behind the client; \<open>cl\<close> is \<^verbatim>\<open>self.client\<close> and \<open>eps\<close> is \<^verbatim>\<open>self.endpoint\<close>, here the list
  of the endpoints.
\<close>

section \<open>Constants\<close>

definition LUN_IS_ALREADY_IN_USE_ERROR :: string where
  "LUN_IS_ALREADY_IN_USE_ERROR = ''LUN is already in use''"
definition UNDEFINED_MAPPING_ERROR :: string where
  "UNDEFINED_MAPPING_ERROR = ''The requested mapping is not defined''"
definition NO_ALLOCATION_SPACE_ERROR :: string where
  "NO_ALLOCATION_SPACE_ERROR = ''No space to allocate to the volume''"
definition XIV_BLOCK_SIZE_IN_BYTES :: int where "XIV_BLOCK_SIZE_IN_BYTES = 512"
definition XIV_MAX_LUN_NUMBER :: int where "XIV_MAX_LUN_NUMBER = 250"
definition XIV_MIN_LUN_NUMBER :: int where "XIV_MIN_LUN_NUMBER = 1"

section \<open>Sizes\<close>

text \<open>
  \<^verbatim>\<open>int(size_in_bytes / 512)\<close>: the division of two integers with \<^verbatim>\<open>/\<close> is the nearest double to the
  quotient, ties to even, and \<^verbatim>\<open>int\<close> truncates it.  As 512 is a power of two, rounding the
  dividend to 53 bits and dividing exactly gives the same double.
\<close>

definition round_double :: "nat \<Rightarrow> nat" where
  "round_double n =
     (let k = floorlog 2 n - 53; p = 2 ^ k; q = n div p; r = n mod p in
      if 2 * r < p \<or> 2 * r = p \<and> even q then q * p else (q + 1) * p)"

definition xiv_convert_size_bytes_to_blocks :: "int \<Rightarrow> int" where
  "xiv_convert_size_bytes_to_blocks size_in_bytes =
     sgn size_in_bytes * int (round_double (nat \<bar>size_in_bytes\<bar>) div 512)"

definition xiv_convert_size_blocks_to_bytes :: "string \<Rightarrow> exc + int" where
  "xiv_convert_size_blocks_to_bytes size_in_blocks =
     bnd_err (py_int size_in_blocks) (\<lambda>blocks. Inr (blocks * XIV_BLOCK_SIZE_IN_BYTES))"

section \<open>Connection\<close>

definition xiv_disconnect :: "'s xiv_client \<Rightarrow> ('s, unit) pyprog" where
  "xiv_disconnect cl =
     bnd (lib (xc_is_connected cl)) (\<lambda>connected. if connected then lib (xc_close cl) else ret ())"

definition xiv_get_fully_qualified_serial :: "'s xiv_client \<Rightarrow> ('s, string) pyprog" where
  "xiv_get_fully_qualified_serial cl =
     bnd (lib (xc_config_get cl)) (\<lambda>config.
       case map_of config ''machine_type'' of
         None \<Rightarrow> raise KeyError
       | Some machine_type \<Rightarrow>
           (case map_of config ''machine_model'' of
              None \<Rightarrow> raise KeyError
            | Some machine_model \<Rightarrow>
                (case map_of config ''machine_serial_number'' of
                   None \<Rightarrow> raise KeyError
                 | Some machine_serial \<Rightarrow>
                     ret (machine_type @ ''-'' @ machine_model @ ''-'' @ machine_serial))))"

definition xiv_identifier ::
  "'s xiv_client \<Rightarrow> string option \<Rightarrow> ('s, string \<times> string option) pyprog" where
  "xiv_identifier cl cached =
     (case cached of
        Some i \<Rightarrow> ret (i, cached)
      | None \<Rightarrow> bnd (xiv_get_fully_qualified_serial cl) (\<lambda>i. ret (i, Some i)))"

definition xiv_is_active :: "('s, bool) pyprog" where
  "xiv_is_active = ret True"

section \<open>Volumes\<close>

definition xiv_get_cli_object_by_name :: "'s xiv_client \<Rightarrow> string \<Rightarrow> ('s, xiv_volume option) pyprog" where
  "xiv_get_cli_object_by_name cl volume_name =
     except_lib (lib (xc_vol_list_name cl volume_name))
       [([Xcli_IllegalNameForObjectError], \<lambda>ex. raise (IllegalObjectName (lx_message ex)))]"

definition xiv_get_source_object_wwn :: "'s xiv_client \<Rightarrow> xiv_volume \<Rightarrow> ('s, string) pyprog" where
  "xiv_get_source_object_wwn cl cli_object =
     (case xv_copy_master_wwn cli_object of
        None \<Rightarrow>
          bnd (xiv_get_cli_object_by_name cl (xv_master_name cli_object)) (\<lambda>cli_source.
            case cli_source of None \<Rightarrow> raise AttributeError | Some src \<Rightarrow> ret (xv_wwn src))
      | Some wwn \<Rightarrow> ret wwn)"

definition xiv_generate_volume_response ::
  "string list \<Rightarrow> xiv_volume option \<Rightarrow> ('s, volume) pyprog" where
  "xiv_generate_volume_response eps cli_volume =
     (case cli_volume of
        None \<Rightarrow> raise AttributeError
      | Some v \<Rightarrow>
          bnd (lift (xiv_convert_size_blocks_to_bytes (xv_capacity v))) (\<lambda>capacity.
            ret \<lparr>vol_capacity_bytes = capacity, vol_id = xv_wwn v, vol_name = xv_name v,
                 vol_array_address = AddrList eps, vol_pool = xv_pool_name v,
                 vol_copy_source_id = xv_copy_master_wwn v, vol_array_type = ARRAY_TYPE_XIV\<rparr>))"

definition xiv_generate_snapshot_response ::
  "'s xiv_client \<Rightarrow> string list \<Rightarrow> xiv_volume option \<Rightarrow> ('s, snapshot) pyprog" where
  "xiv_generate_snapshot_response cl eps cli_snapshot =
     (case cli_snapshot of
        None \<Rightarrow> raise AttributeError
      | Some v \<Rightarrow>
          bnd (lift (xiv_convert_size_blocks_to_bytes (xv_capacity v))) (\<lambda>capacity.
          bnd (xiv_get_source_object_wwn cl v) (\<lambda>source_wwn.
            ret \<lparr>snap_capacity_bytes = capacity, snap_id = xv_wwn v, snap_name = xv_name v,
                 snap_array_address = AddrList eps, snap_source_volume_id = Some source_wwn,
                 snap_is_ready = True, snap_array_type = ARRAY_TYPE_XIV\<rparr>)))"

definition xiv_get_volume ::
  "'s xiv_client \<Rightarrow> string list \<Rightarrow> string \<Rightarrow> string option \<Rightarrow> ('s, volume) pyprog" where
  "xiv_get_volume cl eps volume_name pool =
     bnd (xiv_get_cli_object_by_name cl volume_name) (\<lambda>cli_volume.
       case cli_volume of
         None \<Rightarrow> raise (ObjectNotFoundError volume_name)
       | Some v \<Rightarrow>
           if xv_master_name v \<noteq> []
           then raise (VolumeNameBelongsToSnapshotError volume_name (str_list eps))
           else xiv_generate_volume_response eps (Some v))"

definition xiv_get_cli_object_by_wwn ::
  "'s xiv_client \<Rightarrow> string \<Rightarrow> bool \<Rightarrow> ('s, xiv_volume option) pyprog" where
  "xiv_get_cli_object_by_wwn cl volume_id not_exist_err =
     bnd (except_lib (lib (xc_vol_list_wwn cl volume_id))
            [([Xcli_IllegalValueForArgumentError], \<lambda>ex. raise (IllegalObjectID (lx_message ex)))])
       (\<lambda>cli_object.
          if cli_object = None \<and> not_exist_err then raise (ObjectNotFoundError volume_id)
          else ret cli_object)"

definition xiv_get_object_name_by_wwn :: "'s xiv_client \<Rightarrow> string \<Rightarrow> ('s, string) pyprog" where
  "xiv_get_object_name_by_wwn cl volume_id =
     bnd (xiv_get_cli_object_by_wwn cl volume_id True) (\<lambda>cli_object.
       case cli_object of None \<Rightarrow> raise AttributeError | Some v \<Rightarrow> ret (xv_name v))"

definition xiv_expand_cli_volume :: "'s xiv_client \<Rightarrow> xiv_volume \<Rightarrow> int \<Rightarrow> ('s, unit) pyprog" where
  "xiv_expand_cli_volume cl cli_volume increase_in_blocks =
     except_lib (lib (xc_vol_resize cl (xv_name cli_volume) increase_in_blocks))
       [([Xcli_VolumeBadNameError], \<lambda>ex. raise (ObjectNotFoundError (xv_id cli_volume))),
        ([Xcli_CommandFailedRuntimeError], \<lambda>ex.
           if contains NO_ALLOCATION_SPACE_ERROR (lx_message ex)
           then raise (NotEnoughSpaceInPool (xv_pool_name cli_volume)) else raise (LibExc ex))]"

definition xiv_expand_volume :: "'s xiv_client \<Rightarrow> string \<Rightarrow> int \<Rightarrow> ('s, unit) pyprog" where
  "xiv_expand_volume cl volume_id required_bytes =
     bnd (xiv_get_cli_object_by_wwn cl volume_id True) (\<lambda>cli_volume.
       case cli_volume of
         None \<Rightarrow> raise AttributeError
       | Some v \<Rightarrow>
           xiv_expand_cli_volume cl v (xiv_convert_size_bytes_to_blocks required_bytes))"

definition xiv_validate_supported_space_efficiency :: "string option \<Rightarrow> ('s, unit) pyprog" where
  "xiv_validate_supported_space_efficiency space_efficiency =
     (if truthy space_efficiency then raise (SpaceEfficiencyNotSupported (the space_efficiency))
      else ret ())"

definition xiv_create_volume ::
  "'s xiv_client \<Rightarrow> string list \<Rightarrow> string \<Rightarrow> int \<Rightarrow> string option \<Rightarrow> string
   \<Rightarrow> ('s, volume option) pyprog" where
  "xiv_create_volume cl eps name size_in_bytes space_efficiency pool =
     except_lib
       (bnd (lib (xc_vol_create cl name (xiv_convert_size_bytes_to_blocks size_in_bytes) pool))
          (\<lambda>cli_volume. bnd (xiv_generate_volume_response eps cli_volume) (\<lambda>v. ret (Some v))))
       [([Xcli_IllegalNameForObjectError], \<lambda>ex. raise (IllegalObjectName (lx_message ex))),
        ([Xcli_VolumeExistsError], \<lambda>ex. raise (VolumeAlreadyExists name (str_list eps))),
        ([Xcli_PoolDoesNotExistError], \<lambda>ex. raise (PoolDoesNotExist pool (str_list eps))),
        ([Xcli_OperationForbiddenForUserCategoryError], \<lambda>ex.
           raise (PermissionDeniedError (''create volume : '' @ name))),
        ([Xcli_CommandFailedRuntimeError], \<lambda>ex.
           if contains NO_ALLOCATION_SPACE_ERROR (lx_message ex)
           then raise (NotEnoughSpaceInPool pool) else ret None)]"

definition xiv_copy_to_existing_volume_from_source ::
  "'s xiv_client \<Rightarrow> string \<Rightarrow> string \<Rightarrow> int \<Rightarrow> int \<Rightarrow> ('s, unit) pyprog" where
  "xiv_copy_to_existing_volume_from_source cl volume_id source_id source_capacity_in_bytes
       minimum_volume_size_in_bytes =
     except_lib
       (bnd (xiv_get_object_name_by_wwn cl volume_id) (\<lambda>name.
        bnd (xiv_get_object_name_by_wwn cl source_id) (\<lambda>source_name.
        bnd (lib (xc_vol_format cl name)) (\<lambda>_.
        bnd (lib (xc_vol_copy cl source_name name)) (\<lambda>_.
          if minimum_volume_size_in_bytes > source_capacity_in_bytes
          then lib (xc_vol_resize cl name (xiv_convert_size_bytes_to_blocks minimum_volume_size_in_bytes))
          else ret ())))))
       [([Xcli_IllegalNameForObjectError], \<lambda>ex. raise (IllegalObjectName (lx_message ex))),
        ([Xcli_SourceVolumeBadNameError], \<lambda>ex. raise (ObjectNotFoundError source_id)),
        ([Xcli_VolumeBadNameError, Xcli_TargetVolumeBadNameError], \<lambda>ex.
           raise (ObjectNotFoundError volume_id)),
        ([Xcli_OperationForbiddenForUserCategoryError], \<lambda>ex.
           raise (PermissionDeniedError
             (''copy to '' @ volume_id @ '' from source: '' @ source_id)))]"

definition xiv_delete_volume :: "'s xiv_client \<Rightarrow> string \<Rightarrow> ('s, unit) pyprog" where
  "xiv_delete_volume cl volume_id =
     bnd (xiv_get_object_name_by_wwn cl volume_id) (\<lambda>volume_name.
     bnd (lib (xc_snapshot_list cl volume_name)) (\<lambda>cli_snapshots.
       if cli_snapshots \<noteq> []
       then raise (ObjectIsStillInUseError volume_id (map xv_text cli_snapshots))
       else
         except_lib (lib (xc_vol_delete cl volume_name))
           [([Xcli_VolumeBadNameError], \<lambda>ex. raise (ObjectNotFoundError volume_name)),
            ([Xcli_OperationForbiddenForUserCategoryError], \<lambda>ex.
               raise (PermissionDeniedError (''delete volume : '' @ volume_name)))]))"

section \<open>Snapshots\<close>

definition xiv_get_snapshot ::
  "'s xiv_client \<Rightarrow> string list \<Rightarrow> string \<Rightarrow> string \<Rightarrow> string option \<Rightarrow> ('s, snapshot option) pyprog" where
  "xiv_get_snapshot cl eps volume_id snapshot_name pool =
     bnd (except_lib (lib (xc_vol_list_name cl snapshot_name))
            [([Xcli_IllegalNameForObjectError], \<lambda>ex. raise (IllegalObjectName (lx_message ex)))])
       (\<lambda>cli_snapshot.
          case cli_snapshot of
            None \<Rightarrow> ret None
          | Some v \<Rightarrow>
              if xv_master_name v = []
              then raise (ExpectedSnapshotButFoundVolumeError (xv_name v) (str_list eps))
              else bnd (xiv_generate_snapshot_response cl eps (Some v)) (\<lambda>sn. ret (Some sn)))"

definition xiv_get_object_by_id ::
  "'s xiv_client \<Rightarrow> string list \<Rightarrow> string \<Rightarrow> object_type \<Rightarrow> ('s, array_object option) pyprog" where
  "xiv_get_object_by_id cl eps object_id object_type =
     bnd (xiv_get_cli_object_by_wwn cl object_id False) (\<lambda>cli_object.
       case cli_object of
         None \<Rightarrow> ret None
       | Some v \<Rightarrow>
           if object_type = SNAPSHOT_TYPE then
             (if xv_master_name v = []
              then raise (ExpectedSnapshotButFoundVolumeError object_id (str_list eps))
              else bnd (xiv_generate_snapshot_response cl eps (Some v))
                     (\<lambda>sn. ret (Some (SnapshotObject sn))))
           else
             bnd (xiv_generate_volume_response eps (Some v)) (\<lambda>vol. ret (Some (VolumeObject vol))))"

definition xiv_create_snapshot ::
  "'s xiv_client \<Rightarrow> string list \<Rightarrow> string \<Rightarrow> string \<Rightarrow> string option \<Rightarrow> ('s, snapshot) pyprog" where
  "xiv_create_snapshot cl eps volume_id snapshot_name pool =
     bnd (xiv_get_cli_object_by_wwn cl volume_id False) (\<lambda>source_cli_volume.
       case source_cli_volume of
         None \<Rightarrow> raise AttributeError
       | Some src \<Rightarrow>
           if truthy pool \<and> the pool \<noteq> xv_pool_name src
           then raise (SnapshotSourcePoolMismatch (the pool) (xv_pool_name src))
           else
             except_lib
               (bnd (lib (xc_snapshot_create cl snapshot_name (xv_name src)))
                  (xiv_generate_snapshot_response cl eps))
               [([Xcli_IllegalNameForObjectError], \<lambda>ex. raise (IllegalObjectName (lx_message ex))),
                ([Xcli_VolumeExistsError], \<lambda>ex. raise (SnapshotAlreadyExists snapshot_name (str_list eps))),
                ([Xcli_VolumeBadNameError], \<lambda>ex. raise (ObjectNotFoundError volume_id)),
                ([Xcli_OperationForbiddenForUserCategoryError], \<lambda>ex.
                   raise (PermissionDeniedError
                     (''create snapshot '' @ snapshot_name @ '' from volume '' @ volume_id)))])"

definition xiv_delete_snapshot :: "'s xiv_client \<Rightarrow> string \<Rightarrow> ('s, unit) pyprog" where
  "xiv_delete_snapshot cl snapshot_id =
     bnd (xiv_get_object_name_by_wwn cl snapshot_id) (\<lambda>snapshot_name.
       except_lib (lib (xc_snapshot_delete cl snapshot_name))
         [([Xcli_VolumeBadNameError], \<lambda>ex. raise (ObjectNotFoundError snapshot_name)),
          ([Xcli_OperationForbiddenForUserCategoryError], \<lambda>ex.
             raise (PermissionDeniedError (''delete snapshot : '' @ snapshot_name)))])"

section \<open>Hosts and mappings\<close>

definition string_to_array :: "string \<Rightarrow> char \<Rightarrow> string list" where
  "string_to_array str_val separator =
     (if str_val = [] then [] else map strip (split_on separator (strip str_val)))"

text \<open>The names and the port types the loop collects over the host list.\<close>

definition xiv_host_step :: "initiators \<Rightarrow> xiv_host \<Rightarrow> string list \<times> string list \<Rightarrow> string list \<times> string list" where
  "xiv_host_step initiators host acc =
     (let fc = is_array_wwns_match initiators (string_to_array (xh_fc_ports host) (CHR '',''));
          iscsi = is_array_iscsi_iqns_match initiators (string_to_array (xh_iscsi_ports host) (CHR '',''))
      in (fst acc @ (if fc \<or> iscsi then [xh_name host] else []),
          snd acc @ (if fc then [FC_CONNECTIVITY_TYPE] else []) @
            (if iscsi then [ISCSI_CONNECTIVITY_TYPE] else [])))"

text \<open>\<^verbatim>\<open>sorted(set(names))\<close>, in the order of the code points.\<close>

definition sorted_set :: "string list \<Rightarrow> string list" where
  "sorted_set names = sort (remdups names)"

definition xiv_choose_host :: "initiators \<Rightarrow> xiv_host list \<Rightarrow> exc + (string \<times> string list)" where
  "xiv_choose_host initiators host_list =
     (case fold (xiv_host_step initiators) host_list ([], []) of
        (names, port_types) \<Rightarrow>
          (case sorted_set names of
             [] \<Rightarrow> Inl (HostNotFoundError (initiators_str initiators))
           | [h] \<Rightarrow> Inr (h, port_types)
           | hs \<Rightarrow> Inl (MultipleHostsFoundError (initiators_str initiators) (str_list hs))))"

definition xiv_get_host_by_host_identifiers ::
  "'s xiv_client \<Rightarrow> initiators \<Rightarrow> ('s, string \<times> string list) pyprog" where
  "xiv_get_host_by_host_identifiers cl initiators =
     bnd (lib (xc_host_list cl)) (\<lambda>host_list. lift (xiv_choose_host initiators host_list))"

definition xiv_get_volume_mappings :: "'s xiv_client \<Rightarrow> string \<Rightarrow> ('s, (string, lun) dict) pyprog" where
  "xiv_get_volume_mappings cl volume_id =
     bnd (xiv_get_object_name_by_wwn cl volume_id) (\<lambda>vol_name.
     bnd (lib (xc_vol_mapping_list cl vol_name)) (\<lambda>mapping_list.
       ret (fold (\<lambda>mapping. dict_set (xm_host mapping) (LunStr (xm_lun mapping))) mapping_list [])))"

text \<open>\<^verbatim>\<open>set(int(host_mapping.lun) for host_mapping in host_mapping_list)\<close>.\<close>

fun luns_of :: "xiv_mapping list \<Rightarrow> exc + int list" where
  "luns_of [] = Inr []"
| "luns_of (m # ms) =
     bnd_err (py_int (xm_lun m)) (\<lambda>l. bnd_err (luns_of ms) (\<lambda>ls. Inr (l # ls)))"

definition available_luns :: "int list \<Rightarrow> int list" where
  "available_luns luns_in_use =
     filter (\<lambda>i. i \<notin> set luns_in_use) [XIV_MIN_LUN_NUMBER .. XIV_MAX_LUN_NUMBER]"

definition xiv_get_next_available_lun ::
  "'s randint \<Rightarrow> 's xiv_client \<Rightarrow> string \<Rightarrow> ('s, int) pyprog" where
  "xiv_get_next_available_lun randint cl host_name =
     bnd (except_lib (lib (xc_mapping_list cl host_name))
            [([Xcli_HostBadNameError], \<lambda>ex. raise (HostNotFoundError host_name))]) (\<lambda>host_mapping_list.
     bnd (lift (luns_of host_mapping_list)) (\<lambda>luns_in_use.
       let all_available_luns = available_luns luns_in_use in
       if length all_available_luns = 0 then raise (NoAvailableLunError host_name)
       else
         bnd (random_int randint 0 (int (length all_available_luns) - 1)) (\<lambda>index.
           ret (all_available_luns ! nat index))))"

definition xiv_map_volume ::
  "'s randint \<Rightarrow> 's xiv_client \<Rightarrow> string \<Rightarrow> string \<Rightarrow> ('s, lun) pyprog" where
  "xiv_map_volume randint cl volume_id host_name =
     bnd (xiv_get_object_name_by_wwn cl volume_id) (\<lambda>vol_name.
     bnd (xiv_get_next_available_lun randint cl host_name) (\<lambda>lun.
     bnd (except_lib (lib (xc_map_vol cl host_name vol_name lun))
            [([Xcli_OperationForbiddenForUserCategoryError], \<lambda>ex.
                raise (PermissionDeniedError
                  (''map volume : '' @ volume_id @ '' to host : '' @ host_name))),
             ([Xcli_VolumeBadNameError], \<lambda>ex. raise (ObjectNotFoundError vol_name)),
             ([Xcli_HostBadNameError], \<lambda>ex. raise (HostNotFoundError host_name)),
             ([Xcli_CommandFailedRuntimeError], \<lambda>ex.
                if contains LUN_IS_ALREADY_IN_USE_ERROR (lx_message ex)
                then raise (LunAlreadyInUseError (str_int lun) host_name)
                else raise (MappingError vol_name host_name (lx_text ex)))]) (\<lambda>_.
       ret (LunStr (str_int lun)))))"

definition xiv_unmap_volume :: "'s xiv_client \<Rightarrow> string \<Rightarrow> string \<Rightarrow> ('s, unit) pyprog" where
  "xiv_unmap_volume cl volume_id host_name =
     bnd (xiv_get_object_name_by_wwn cl volume_id) (\<lambda>volume_name.
       except_lib (lib (xc_unmap_vol cl host_name volume_name))
         [([Xcli_VolumeBadNameError], \<lambda>ex. raise (ObjectNotFoundError volume_name)),
          ([Xcli_HostBadNameError], \<lambda>ex. raise (HostNotFoundError host_name)),
          ([Xcli_OperationForbiddenForUserCategoryError], \<lambda>ex.
             raise (PermissionDeniedError
               (''unmap volume : '' @ volume_id @ '' from host : '' @ host_name))),
          ([Xcli_CommandFailedRuntimeError], \<lambda>ex.
             if contains UNDEFINED_MAPPING_ERROR (lx_message ex)
             then raise (VolumeAlreadyUnmappedError volume_name)
             else raise (UnmappingError volume_name host_name (lx_text ex)))])"

section \<open>Targets and ports\<close>

definition xiv_iscsi_ips :: "xiv_interface list \<Rightarrow> string list" where
  "xiv_iscsi_ips ip_interfaces =
     concat (map (\<lambda>i. (if xi_address i \<noteq> [] then [xi_address i] else []) @
                      (if xi_address6 i \<noteq> [] then [''['' @ xi_address6 i @ '']''] else []))
       (filter (\<lambda>i. xi_type i = ''iSCSI'') ip_interfaces))"

definition xiv_get_iscsi_targets :: "'s xiv_client \<Rightarrow> ('s, string list) pyprog" where
  "xiv_get_iscsi_targets cl = bnd (lib (xc_ipinterface_list cl)) (\<lambda>is. ret (xiv_iscsi_ips is))"

text \<open>\<^verbatim>\<open>next(...)\<close> raises \<^verbatim>\<open>StopIteration\<close> when no entry has the name.\<close>

definition xiv_get_array_iqn :: "'s xiv_client \<Rightarrow> ('s, string) pyprog" where
  "xiv_get_array_iqn cl =
     bnd (lib (xc_config_get cl)) (\<lambda>config_get_list.
       case find (\<lambda>c. fst c = ''iscsi_name'') config_get_list of
         None \<Rightarrow> raise (PyError Py_StopIteration)
       | Some c \<Rightarrow> ret (snd c))"

definition xiv_get_iscsi_targets_by_iqn :: "'s xiv_client \<Rightarrow> ('s, (string, string list) dict) pyprog" where
  "xiv_get_iscsi_targets_by_iqn cl =
     bnd (xiv_get_array_iqn cl) (\<lambda>array_iqn.
     bnd (xiv_get_iscsi_targets cl) (\<lambda>iscsi_targets. ret [(array_iqn, iscsi_targets)]))"

definition xiv_get_array_fc_wwns :: "'s xiv_client \<Rightarrow> string \<Rightarrow> ('s, string list) pyprog" where
  "xiv_get_array_fc_wwns cl host_name =
     bnd (lib (xc_fc_port_list cl)) (\<lambda>ports.
       ret (map xp_wwpn (filter (\<lambda>p. xp_port_state p = ''Online'' \<and> xp_role p = ''Target'') ports)))"

section \<open>The mediator\<close>

definition xiv_mediator :: "'s randint \<Rightarrow> 's xiv_client \<Rightarrow> string list \<Rightarrow> 's mediator" where
  "xiv_mediator randint cl eps =
     \<lparr>array_type = ARRAY_TYPE_XIV,
      port = 7778,
      max_object_name_length = 63,
      max_object_prefix_length = 20,
      max_connections = 2,
      minimal_volume_size_in_bytes = 1 * 1024 * 1024 * 1024,
      maximal_volume_size_in_bytes = 1 * 1024 * 1024 * 1024 * 1024 * 1024,
      max_lun_retries = 10,
      default_object_prefix = None,
      disconnect = xiv_disconnect cl,
      is_active = xiv_is_active,
      create_volume = xiv_create_volume cl eps,
      copy_to_existing_volume_from_source = xiv_copy_to_existing_volume_from_source cl,
      delete_volume = xiv_delete_volume cl,
      get_volume = xiv_get_volume cl eps,
      expand_volume = xiv_expand_volume cl,
      get_volume_mappings = xiv_get_volume_mappings cl,
      map_volume = xiv_map_volume randint cl,
      unmap_volume = xiv_unmap_volume cl,
      get_snapshot = xiv_get_snapshot cl eps,
      get_object_by_id = xiv_get_object_by_id cl eps,
      create_snapshot = xiv_create_snapshot cl eps,
      delete_snapshot = xiv_delete_snapshot cl,
      get_iscsi_targets_by_iqn = xiv_get_iscsi_targets_by_iqn cl,
      get_array_fc_wwns = xiv_get_array_fc_wwns cl,
      get_host_by_host_identifiers = xiv_get_host_by_host_identifiers cl,
      validate_supported_space_efficiency = xiv_validate_supported_space_efficiency\<rparr>"

definition xiv_connect_client ::
  "'s xiv_connect \<Rightarrow> json \<Rightarrow> json \<Rightarrow> string list \<Rightarrow> ('s, 's xiv_client) pyprog" where
  "xiv_connect_client connect user password eps =
     except_lib (lib (connect user password eps))
       [([Xcli_CredentialsError], \<lambda>ex. raise (CredentialsError (str_list eps))),
        ([Xcli_XCLIError], \<lambda>ex. raise (CredentialsError (str_list eps)))]"

definition XIVArrayMediator ::
  "'s randint \<Rightarrow> 's xiv_connect \<Rightarrow> json \<Rightarrow> json \<Rightarrow> string list \<Rightarrow> ('s, 's mediator) pyprog" where
  "XIVArrayMediator randint connect user password eps =
     bnd (xiv_connect_client connect user password eps) (\<lambda>cl. ret (xiv_mediator randint cl eps))"

end
