(* ===== verification/Ds8kRest.thy ===== *)
theory Ds8kRest
  imports XivClient
begin

unbundle bit_operations_syntax

text \<open>
  \<^verbatim>\<open>ds8k_rest_client.py\<close>: the adaptor around the client of the third-party package \<^verbatim>\<open>pyds8k\<close>, and
  its conversion of LUN numbers.  The record \<open>ds8k_api\<close> is that client, with one field for every
  method the mediator reaches and the package's constants it uses.
\<close>

section \<open>LUN numbers\<close>

definition hex_int :: "int \<Rightarrow> string" where
  "hex_int i = (if i < 0 then CHR ''-'' # show_base 16 (nat (- i)) else show_base 16 (nat i))"

text \<open>\<^verbatim>\<open>'{0:0{1}x}'.format(lunid, 2)\<close>: two digits at least.\<close>

definition int_lunid_to_hex :: "int \<Rightarrow> string" where
  "int_lunid_to_hex lunid =
     (let h = hex_int lunid in if length h < 2 then CHR ''0'' # h else h)"

definition swap_halves :: "int \<Rightarrow> int" where
  "swap_halves lun = (drop_bit 16 lun AND 0xFFFF) OR push_bit 16 (lun AND 0xFFFF)"

definition int_to_scsilun :: "int \<Rightarrow> string" where
  "int_to_scsilun lun = (if lun < 256 then int_lunid_to_hex lun else hex_int (swap_halves lun))"

definition scsilun_to_int :: "string \<Rightarrow> exc + int" where
  "scsilun_to_int lun =
     (case int_of_base 16 lun of
        None \<Rightarrow> Inl ValueError
      | Some pretreated_scsilun \<Rightarrow>
          Inr (if pretreated_scsilun < 256 then pretreated_scsilun else swap_halves pretreated_scsilun))"

section \<open>The package's client\<close>

record ds8k_flashcopy =
  dc_id :: string
  dc_sourcevolume :: string
  dc_targetvolume :: string
  dc_backgroundcopy :: string
  dc_state :: string
  dc_out_of_sync_tracks :: string
  dc_representation :: string

record ds8k_volume =
  dv_id :: string
  dv_name :: string
  dv_cap :: string
  dv_pool :: string
  dv_tp :: string
  dv_flashcopy :: "ds8k_flashcopy list"

record ds8k_host =
  dh_name :: string
  dh_host_ports_briefs :: "(string, string) dict list"
  dh_mappings_briefs :: "(string, string) dict list"
  dh_login_ports :: "(string, string) dict list"

record ds8k_mapping =
  dm_id :: string
  dm_volume :: string
  dm_lunid :: string

record ds8k_system =
  sy_id :: string
  sy_name :: string
  sy_bundle :: string
  sy_wwnn :: string

record ds8k_create_args =
  ca_name :: string
  ca_cap :: int
  ca_pool :: string
  ca_tp :: string

record 's ds8k_api =
  da_tp_ese :: string
  da_tp_none :: string
  da_option_per :: string
  da_option_nbc :: string
  da_option_pset :: string
  da_ioport_wwpn :: string
  da_ioport_status :: string
  da_get_io_enclosures :: "('s, unit) lib_call"
  da_get_systems :: "('s, ds8k_system list) lib_call"
  da_get_volumes :: "string \<Rightarrow> ('s, ds8k_volume) lib_call"
  da_get_volumes_by_pool :: "string \<Rightarrow> ('s, ds8k_volume list) lib_call"
  da_get_host :: "string \<Rightarrow> ('s, ds8k_host) lib_call"
  da_get_hosts :: "('s, ds8k_host list) lib_call"
  da_get_flashcopies_by_volume :: "string \<Rightarrow> ('s, ds8k_flashcopy list) lib_call"
  da_get_mappings_by_host :: "string \<Rightarrow> ('s, ds8k_mapping list) lib_call"
  da_create_volume_fb :: "ds8k_create_args \<Rightarrow> ('s, ds8k_volume list) lib_call"
  da_update_volume_extend :: "string \<Rightarrow> int \<Rightarrow> ('s, unit) lib_call"
  da_delete_volume :: "string \<Rightarrow> ('s, unit) lib_call"
  da_map_volume_to_host :: "string \<Rightarrow> string \<Rightarrow> string \<Rightarrow> ('s, ds8k_mapping list) lib_call"
  da_unmap_volume_from_host :: "string \<Rightarrow> string \<Rightarrow> ('s, unit) lib_call"
  da_create_cs_flashcopy :: "string \<Rightarrow> string \<Rightarrow> string list \<Rightarrow> ('s, ds8k_flashcopy list) lib_call"
  da_delete_cs_flashcopy :: "string \<Rightarrow> ('s, unit) lib_call"
  da_get_cs_flashcopies :: "string \<Rightarrow> ('s, ds8k_flashcopy) lib_call"

type_synonym 's ds8k_connect = "string \<Rightarrow> json \<Rightarrow> json \<Rightarrow> ('s, 's ds8k_api) lib_call"

section \<open>The adaptor\<close>

text \<open>\<^verbatim>\<open>xs[0]\<close>.\<close>

definition first_item :: "'a list \<Rightarrow> exc + 'a" where
  "first_item xs = (case xs of [] \<Rightarrow> Inl IndexError | x # _ \<Rightarrow> Inr x)"

definition rest_is_valid :: "'s ds8k_api \<Rightarrow> ('s, bool) pyprog" where
  "rest_is_valid api =
     try_except (bnd (lib (da_get_io_enclosures api)) (\<lambda>_. ret True)) (\<lambda>_. ret False)"

definition rest_get_system :: "'s ds8k_api \<Rightarrow> ('s, ds8k_system) pyprog" where
  "rest_get_system api = bnd (lib (da_get_systems api)) (\<lambda>ss. lift (first_item ss))"

definition rest_get_volume :: "'s ds8k_api \<Rightarrow> string \<Rightarrow> ('s, ds8k_volume) pyprog" where
  "rest_get_volume api volume_id = lib (da_get_volumes api volume_id)"

definition rest_get_host :: "'s ds8k_api \<Rightarrow> string \<Rightarrow> ('s, ds8k_host) pyprog" where
  "rest_get_host api host_name = lib (da_get_host api host_name)"

definition rest_get_hosts :: "'s ds8k_api \<Rightarrow> ('s, ds8k_host list) pyprog" where
  "rest_get_hosts api = lib (da_get_hosts api)"

definition rest_get_volumes_by_pool :: "'s ds8k_api \<Rightarrow> string \<Rightarrow> ('s, ds8k_volume list) pyprog" where
  "rest_get_volumes_by_pool api pool_id = lib (da_get_volumes_by_pool api pool_id)"

definition rest_get_flashcopies_by_volume ::
  "'s ds8k_api \<Rightarrow> string \<Rightarrow> ('s, ds8k_flashcopy list) pyprog" where
  "rest_get_flashcopies_by_volume api volume_id = lib (da_get_flashcopies_by_volume api volume_id)"

definition rest_get_host_mappings :: "'s ds8k_api \<Rightarrow> string \<Rightarrow> ('s, ds8k_mapping list) pyprog" where
  "rest_get_host_mappings api host_name = lib (da_get_mappings_by_host api host_name)"

definition rest_create_volume ::
  "'s ds8k_api \<Rightarrow> string \<Rightarrow> int \<Rightarrow> string \<Rightarrow> string \<Rightarrow> ('s, ds8k_volume) pyprog" where
  "rest_create_volume api name capacity_in_bytes pool_id tp =
     bnd (lib (da_create_volume_fb api
            \<lparr>ca_name = name, ca_cap = capacity_in_bytes, ca_pool = pool_id, ca_tp = tp\<rparr>))
       (\<lambda>vs. lift (first_item vs))"

definition rest_extend_volume :: "'s ds8k_api \<Rightarrow> string \<Rightarrow> int \<Rightarrow> ('s, unit) pyprog" where
  "rest_extend_volume api volume_id new_size_in_bytes =
     lib (da_update_volume_extend api volume_id new_size_in_bytes)"

definition rest_delete_volume :: "'s ds8k_api \<Rightarrow> string \<Rightarrow> ('s, unit) pyprog" where
  "rest_delete_volume api volume_id = lib (da_delete_volume api volume_id)"

text \<open>\<^verbatim>\<open>map_volume_to_host(host_name, volume_id, lunid='')\<close>.\<close>

definition rest_map_volume_to_host ::
  "'s ds8k_api \<Rightarrow> string \<Rightarrow> string \<Rightarrow> int option \<Rightarrow> ('s, ds8k_mapping) pyprog" where
  "rest_map_volume_to_host api host_name volume_id lunid =
     bnd (lib (da_map_volume_to_host api host_name volume_id
            (case lunid of Some l \<Rightarrow> if l = 0 then '''' else int_to_scsilun l | None \<Rightarrow> '''')))
       (\<lambda>ms. lift (first_item ms))"

definition rest_unmap_volume_from_host :: "'s ds8k_api \<Rightarrow> string \<Rightarrow> string \<Rightarrow> ('s, unit) pyprog" where
  "rest_unmap_volume_from_host api host_name lunid =
     lib (da_unmap_volume_from_host api host_name lunid)"

definition rest_create_flashcopy ::
  "'s ds8k_api \<Rightarrow> string \<Rightarrow> string \<Rightarrow> string list \<Rightarrow> ('s, ds8k_flashcopy) pyprog" where
  "rest_create_flashcopy api source_volume_id target_volume_id options =
     bnd (lib (da_create_cs_flashcopy api source_volume_id target_volume_id options))
       (\<lambda>fs. lift (first_item fs))"

definition rest_delete_flashcopy :: "'s ds8k_api \<Rightarrow> string \<Rightarrow> ('s, unit) pyprog" where
  "rest_delete_flashcopy api flashcopy_id = lib (da_delete_cs_flashcopy api flashcopy_id)"

definition rest_get_flashcopies :: "'s ds8k_api \<Rightarrow> string \<Rightarrow> ('s, ds8k_flashcopy) pyprog" where
  "rest_get_flashcopies api fcid = lib (da_get_cs_flashcopies api fcid)"

section \<open>Round trips of LUN numbers\<close>

lemma int_of_hex: "0 \<le> i \<Longrightarrow> int_of_base 16 (hex_int i) = Some i"
  by (simp add: hex_int_def int_of_base_show)

lemma all_digits_zero: "all_digits s \<Longrightarrow> all_digits (CHR ''0'' # s)"
  by (simp add: all_digits_def digit_val_def)

lemma int_of_lunid_hex: "0 \<le> i \<Longrightarrow> int_of_base 16 (int_lunid_to_hex i) = Some i"
proof -
  assume "0 \<le> i"
  then have h: "hex_int i = show_base 16 (nat i)" by (simp add: hex_int_def)
  have "read_digits 16 0 (CHR ''0'' # show_base 16 (nat i)) = Some (nat i)"
    using read_show_base [of 16 "nat i"] by (simp add: digit_val_def)
  then show ?thesis
    using \<open>0 \<le> i\<close> show_base_digits [of 16 "nat i"]
    by (simp add: int_lunid_to_hex_def h Let_def int_of_base_digits all_digits_zero read_show_base)
qed

lemma swap_halves_arith:
  "0 \<le> n \<Longrightarrow> n < 2 ^ 32 \<Longrightarrow> swap_halves n = n div 2 ^ 16 + (n mod 2 ^ 16) * 2 ^ 16"
proof -
  assume n: "0 \<le> n" "n < 2 ^ 32"
  have mask: "k AND 0xFFFF = k mod 2 ^ 16" for k :: int
    using take_bit_eq_mask [of 16 k] by (simp add: take_bit_eq_mod mask_eq_exp_minus_1)
  have hi: "drop_bit 16 n AND 0xFFFF = n div 2 ^ 16"
    using n unfolding mask drop_bit_eq_div by simp
  have "(n div 2 ^ 16) AND push_bit 16 (n mod 2 ^ 16) = 0"
  proof (rule bit_eqI)
    fix k
    have "\<not> bit (n div 2 ^ 16) k" if "16 \<le> k"
      using n bit_take_bit_iff [of 16 "n div 2 ^ 16" k] that
      by (simp add: take_bit_int_eq_self)
    then show "bit ((n div 2 ^ 16) AND push_bit 16 (n mod 2 ^ 16)) k \<longleftrightarrow> bit 0 k"
      by (auto simp: bit_and_iff bit_push_bit_iff)
  qed
  then have "(n div 2 ^ 16) OR push_bit 16 (n mod 2 ^ 16) = n div 2 ^ 16 + push_bit 16 (n mod 2 ^ 16)"
    by (simp add: disjunctive_add_eq_or)
  then show ?thesis
    unfolding swap_halves_def hi unfolding mask by (simp add: push_bit_eq_mult)
qed

lemma swap_halves_twice: "0 \<le> n \<Longrightarrow> n < 2 ^ 32 \<Longrightarrow> swap_halves (swap_halves n) = n"
proof -
  assume n: "0 \<le> n" "n < 2 ^ 32"
  let ?s = "n div 2 ^ 16 + (n mod 2 ^ 16) * 2 ^ 16"
  have hi: "0 \<le> n div 2 ^ 16" "n div 2 ^ 16 < 2 ^ 16" and lo: "0 \<le> n mod 2 ^ 16" "n mod 2 ^ 16 < 2 ^ 16"
    using n by auto
  then have "0 \<le> ?s" and "?s < 2 ^ 32" by auto
  moreover have "?s div 2 ^ 16 = n mod 2 ^ 16" and "?s mod 2 ^ 16 = n div 2 ^ 16"
    using hi lo by simp_all
  ultimately show ?thesis
    using n div_mult_mod_eq [of n "2 ^ 16"]
    by (simp add: swap_halves_arith swap_halves_arith [of ?s])
qed

text \<open>
  C39: scsilun_roundtrip
  Converting a 32-bit LUN number to its SCSI form and back gives the number again exactly when
  it is below 256 or its swapped form is not: a number such as 65536, whose swapped form is
  below 256, is read back as that form.
\<close>

theorem scsilun_roundtrip:
  assumes "0 \<le> n" and "n < 2 ^ 32"
  shows "scsilun_to_int (int_to_scsilun n) =
    Inr (if n < 256 \<or> 256 \<le> swap_halves n then n else swap_halves n)"
proof -
  have "0 \<le> swap_halves n" using assms by (simp add: swap_halves_arith)
  then show ?thesis
    using assms
    by (simp add: scsilun_to_int_def int_to_scsilun_def int_of_lunid_hex int_of_hex swap_halves_twice)
qed

lemma scsilun_roundtrip_witness:
  "scsilun_to_int (int_to_scsilun 1075331113) = Inr 1075331113 \<and>
   scsilun_to_int (int_to_scsilun 65536) = Inr 1"
  using scsilun_roundtrip [of 1075331113] scsilun_roundtrip [of 65536]
  by (simp add: swap_halves_arith)

end
