(* ===== verification/Ds8k.thy ===== *)
theory Ds8k
  imports Ds8kRest
begin

text \<open>
  \<^verbatim>\<open>array_mediator_ds8k.py\<close>: the mediator of the DS8000 family.  A method is a program over the
  world behind the client \<open>api\<close>; \<open>sa\<close> is \<^verbatim>\<open>self.service_address\<close> and \<open>sys\<close> is \<^verbatim>\<open>self.system_info\<close>.
  The methods that \<^verbatim>\<open>@convert_scsi_ids_to_array_ids\<close> decorates are defined on the volume numbers
  of the array, and the mediator's record converts the identifiers as the decorator does.
\<close>

section \<open>Constants and conversions\<close>

definition ERROR_CODE_INVALID_CREDENTIALS :: string where "ERROR_CODE_INVALID_CREDENTIALS = ''BE7A002D''"
definition KNOWN_ERROR_CODE_INVALID_CREDENTIALS :: string where
  "KNOWN_ERROR_CODE_INVALID_CREDENTIALS = ''BE7A0029''"
definition ERROR_CODE_RESOURCE_NOT_EXISTS :: string where "ERROR_CODE_RESOURCE_NOT_EXISTS = ''BE7A0001''"
definition INCORRECT_ID :: string where "INCORRECT_ID = ''BE7A0005''"
definition HOST_DOES_NOT_EXIST :: string where "HOST_DOES_NOT_EXIST = ''BE7A0016''"
definition MAPPING_DOES_NOT_EXIST :: string where "MAPPING_DOES_NOT_EXIST = ''BE7A001F''"
definition ERROR_CODE_MAP_VOLUME_NOT_ENOUGH_EXTENTS :: string where
  "ERROR_CODE_MAP_VOLUME_NOT_ENOUGH_EXTENTS = ''BE74121B''"
definition ERROR_CODE_VOLUME_NOT_FOUND_FOR_MAPPING :: string where
  "ERROR_CODE_VOLUME_NOT_FOUND_FOR_MAPPING = ''BE586015''"
definition ERROR_CODE_ALREADY_FLASHCOPY :: string where "ERROR_CODE_ALREADY_FLASHCOPY = ''000000AE''"
definition ERROR_CODE_VOLUME_NOT_FOUND_OR_ALREADY_PART_OF_CS_RELATIONSHIP :: string where
  "ERROR_CODE_VOLUME_NOT_FOUND_OR_ALREADY_PART_OF_CS_RELATIONSHIP = ''00000013''"
definition ERROR_CODE_EXPAND_VOLUME_NOT_ENOUGH_EXTENTS :: string where
  "ERROR_CODE_EXPAND_VOLUME_NOT_ENOUGH_EXTENTS = ''BE531465''"
definition ERROR_CODE_CREATE_VOLUME_NOT_ENOUGH_EXTENTS :: string where
  "ERROR_CODE_CREATE_VOLUME_NOT_ENOUGH_EXTENTS = ''BE534459''"
definition FLASHCOPY_STATE_VALID :: string where "FLASHCOPY_STATE_VALID = ''valid''"
definition LOGIN_PORT_STATE_ONLINE :: string where "LOGIN_PORT_STATE_ONLINE = ''online''"
definition SUPPORTED_FROM_VERSION :: string where "SUPPORTED_FROM_VERSION = ''7.5.1''"

text \<open>\<^verbatim>\<open>code in str(ex.message).upper()\<close>.\<close>

definition has_code :: "string \<Rightarrow> lib_exc \<Rightarrow> bool" where
  "has_code code ex \<longleftrightarrow> contains code (upper (lx_message ex))"

text \<open>\<^verbatim>\<open>bundle.split('.', 2)\<close> must give three parts; a two-digit release and modification level.\<close>

definition parse_version :: "string \<Rightarrow> exc + string" where
  "parse_version bundle =
     (case split_on (CHR ''.'') bundle of
        v1 # v2 # _ # _ \<Rightarrow>
          bnd_err (py_int v2) (\<lambda>n.
            let v2' = (let t = str_int n in if length t < 2 then CHR ''0'' # t else t) in
            if v1 = [] then Inl IndexError
            else Inr (join ''.'' [[last v1], [v2' ! 0], [v2' ! 1]]))
      | _ \<Rightarrow> Inl ValueError)"

definition scsi_id_to_volume_id :: "string \<Rightarrow> string" where
  "scsi_id_to_volume_id scsi_id = drop (length scsi_id - 4) scsi_id"

definition try_convert_first_args :: "('a \<Rightarrow> 'a) \<Rightarrow> 'a list \<Rightarrow> nat \<Rightarrow> 'a list" where
  "try_convert_first_args converter args args_amount =
     map converter (take args_amount args) @ drop args_amount args"

definition is_snapshot :: "ds8k_volume \<Rightarrow> bool" where
  "is_snapshot api_volume \<longleftrightarrow>
     list_ex (\<lambda>f. dc_targetvolume f = dv_id api_volume \<and> dc_backgroundcopy f = ''disabled'')
       (dv_flashcopy api_volume)"

definition get_flashcopy_as_target_if_exists :: "ds8k_volume \<Rightarrow> ds8k_flashcopy option" where
  "get_flashcopy_as_target_if_exists api_volume =
     (case filter (\<lambda>f. dc_targetvolume f = dv_id api_volume) (dv_flashcopy api_volume) of
        [f] \<Rightarrow> Some f
      | _ \<Rightarrow> None)"

definition get_array_space_efficiency :: "'s ds8k_api \<Rightarrow> string option \<Rightarrow> string" where
  "get_array_space_efficiency api space_efficiency =
     (if truthy space_efficiency \<and> lower (the space_efficiency) = SPACE_EFFICIENCY_THIN
      then da_tp_ese api else da_tp_none api)"

definition ds8k_scsi_identifier :: "ds8k_system \<Rightarrow> string \<Rightarrow> string" where
  "ds8k_scsi_identifier sys volume_id = ''6'' @ tl (sy_wwnn sys) @ ''000000000000'' @ volume_id"

definition ds8k_identifier :: "ds8k_system \<Rightarrow> string" where
  "ds8k_identifier sys = sy_id sys"

definition ds8k_name :: "ds8k_system \<Rightarrow> string" where
  "ds8k_name sys = (if sy_name sys \<noteq> [] then sy_name sys else ds8k_identifier sys)"

definition ds8k_version :: "ds8k_system \<Rightarrow> exc + string" where
  "ds8k_version sys = parse_version (sy_bundle sys)"

section \<open>Responses\<close>

definition ds8k_get_copy_source_id :: "ds8k_system \<Rightarrow> ds8k_volume \<Rightarrow> string option" where
  "ds8k_get_copy_source_id sys api_volume =
     map_option (\<lambda>f. ds8k_scsi_identifier sys (dc_sourcevolume f))
       (get_flashcopy_as_target_if_exists api_volume)"

definition ds8k_generate_volume_response ::
  "string \<Rightarrow> ds8k_system \<Rightarrow> ds8k_volume \<Rightarrow> exc + volume" where
  "ds8k_generate_volume_response sa sys v =
     bnd_err (py_int (dv_cap v)) (\<lambda>capacity.
       Inr \<lparr>vol_capacity_bytes = capacity, vol_id = ds8k_scsi_identifier sys (dv_id v),
            vol_name = dv_name v, vol_array_address = Addr sa, vol_pool = dv_pool v,
            vol_copy_source_id = ds8k_get_copy_source_id sys v, vol_array_type = ARRAY_TYPE_DS8K\<rparr>)"

definition ds8k_generate_snapshot_response ::
  "string \<Rightarrow> ds8k_system \<Rightarrow> ds8k_volume option \<Rightarrow> string \<Rightarrow> exc + snapshot" where
  "ds8k_generate_snapshot_response sa sys api_snapshot source_volume_id =
     (case api_snapshot of
        None \<Rightarrow> Inl AttributeError
      | Some v \<Rightarrow>
          bnd_err (py_int (dv_cap v)) (\<lambda>capacity.
            Inr \<lparr>snap_capacity_bytes = capacity, snap_id = ds8k_scsi_identifier sys (dv_id v),
                 snap_name = dv_name v, snap_array_address = Addr sa,
                 snap_source_volume_id = Some (ds8k_scsi_identifier sys source_volume_id),
                 snap_is_ready = True, snap_array_type = ARRAY_TYPE_DS8K\<rparr>))"

definition ds8k_generate_snapshot_response_with_verification ::
  "string \<Rightarrow> ds8k_system \<Rightarrow> ds8k_volume \<Rightarrow> exc + snapshot" where
  "ds8k_generate_snapshot_response_with_verification sa sys api_object =
     (case get_flashcopy_as_target_if_exists api_object of
        None \<Rightarrow> Inl (ExpectedSnapshotButFoundVolumeError (dv_name api_object) sa)
      | Some f \<Rightarrow>
          if dc_backgroundcopy f \<noteq> ''disabled''
          then Inl (ExpectedSnapshotButFoundVolumeError (dv_name api_object) sa)
          else ds8k_generate_snapshot_response sa sys (Some api_object) (dc_sourcevolume f))"

section \<open>Finding volumes\<close>

fun ds8k_get_api_volume_from_volumes ::
  "'s ds8k_api \<Rightarrow> ds8k_volume list \<Rightarrow> string \<Rightarrow> ('s, ds8k_volume option) pyprog" where
  "ds8k_get_api_volume_from_volumes api [] volume_name = ret None"
| "ds8k_get_api_volume_from_volumes api (v # vs) volume_name =
     (if dv_name v = volume_name then
        bnd (rest_get_flashcopies_by_volume api (dv_id v)) (\<lambda>fs. ret (Some (v\<lparr>dv_flashcopy := fs\<rparr>)))
      else ds8k_get_api_volume_from_volumes api vs volume_name)"

definition ds8k_get_api_volume_by_name ::
  "'s ds8k_api \<Rightarrow> ds8k_system \<Rightarrow> string \<Rightarrow> string option \<Rightarrow> ('s, ds8k_volume option) pyprog" where
  "ds8k_get_api_volume_by_name api sys volume_name pool_id =
     (case pool_id of
        None \<Rightarrow> raise (PoolParameterIsMissing ARRAY_TYPE_DS8K)
      | Some pool \<Rightarrow>
          bnd (except_lib (rest_get_volumes_by_pool api pool)
                 [([Ds8k_NotFound, Ds8k_InternalServerError], \<lambda>ex.
                     if has_code ERROR_CODE_RESOURCE_NOT_EXISTS ex \<or> has_code INCORRECT_ID ex
                     then raise (PoolDoesNotExist pool (ds8k_identifier sys)) else raise (LibExc ex))])
            (\<lambda>volume_candidates. ds8k_get_api_volume_from_volumes api volume_candidates volume_name))"

definition ds8k_get_api_volume_by_id ::
  "'s ds8k_api \<Rightarrow> string \<Rightarrow> bool \<Rightarrow> ('s, ds8k_volume option) pyprog" where
  "ds8k_get_api_volume_by_id api volume_id not_exist_err =
     except_lib
       (bnd (rest_get_volume api volume_id) (\<lambda>v.
        bnd (rest_get_flashcopies_by_volume api (dv_id v)) (\<lambda>fs.
          ret (Some (v\<lparr>dv_flashcopy := fs\<rparr>)))))
       [([Ds8k_NotFound], \<lambda>ex.
           if not_exist_err then raise (ObjectNotFoundError volume_id) else ret None),
        ([Ds8k_ClientError, Ds8k_InternalServerError], \<lambda>ex.
           if has_code INCORRECT_ID ex then raise (IllegalObjectID volume_id) else ret None)]"

definition ds8k_get_flashcopy_process ::
  "'s ds8k_api \<Rightarrow> string \<Rightarrow> bool \<Rightarrow> ('s, ds8k_flashcopy option) pyprog" where
  "ds8k_get_flashcopy_process api flashcopy_id not_exist_err =
     except_lib (bnd (rest_get_flashcopies api flashcopy_id) (\<lambda>f. ret (Some f)))
       [([Ds8k_NotFound], \<lambda>ex.
           if has_code ERROR_CODE_RESOURCE_NOT_EXISTS ex \<and> not_exist_err
           then raise (LibExc ex) else ret None)]"

definition ds8k_get_flashcopy_state :: "'s ds8k_api \<Rightarrow> string \<Rightarrow> ('s, string) pyprog" where
  "ds8k_get_flashcopy_state api flashcopy_id =
     bnd (ds8k_get_flashcopy_process api flashcopy_id True) (\<lambda>f.
       case f of None \<Rightarrow> raise AttributeError | Some f \<Rightarrow> ret (dc_state f))"

section \<open>Creating, extending and deleting\<close>

definition ds8k_create_api_volume ::
  "'s ds8k_api \<Rightarrow> ds8k_system \<Rightarrow> string \<Rightarrow> int \<Rightarrow> string option \<Rightarrow> string
   \<Rightarrow> ('s, ds8k_volume) pyprog" where
  "ds8k_create_api_volume api sys name size_in_bytes space_efficiency pool_id =
     except_lib
       (bnd (ds8k_get_api_volume_by_name api sys name (Some pool_id)) (\<lambda>api_volume.
          if api_volume \<noteq> None then raise (VolumeAlreadyExists name (ds8k_identifier sys))
          else
            bnd (rest_create_volume api name size_in_bytes pool_id
                   (get_array_space_efficiency api space_efficiency)) (\<lambda>created.
              rest_get_volume api (dv_id created))))
       [([Ds8k_NotFound, Ds8k_InternalServerError], \<lambda>ex.
           if has_code ERROR_CODE_RESOURCE_NOT_EXISTS ex \<or> has_code INCORRECT_ID ex
           then raise (PoolDoesNotExist pool_id (ds8k_identifier sys))
           else if has_code ERROR_CODE_CREATE_VOLUME_NOT_ENOUGH_EXTENTS ex
           then raise (NotEnoughSpaceInPool pool_id)
           else raise (VolumeCreationError name)),
        ([Ds8k_ClientError, Ds8k_ClientException], \<lambda>ex. raise (VolumeCreationError name))]"

definition ds8k_create_volume ::
  "'s ds8k_api \<Rightarrow> string \<Rightarrow> ds8k_system \<Rightarrow> string \<Rightarrow> int \<Rightarrow> string option \<Rightarrow> string
   \<Rightarrow> ('s, volume option) pyprog" where
  "ds8k_create_volume api sa sys volume_name size_in_bytes space_efficiency pool =
     bnd (ds8k_create_api_volume api sys volume_name size_in_bytes space_efficiency pool) (\<lambda>v.
     bnd (lift (ds8k_generate_volume_response sa sys v)) (\<lambda>vol. ret (Some vol)))"

text \<open>A client error with another code is dropped: the handler ends without raising.\<close>

definition ds8k_extend_volume :: "'s ds8k_api \<Rightarrow> ds8k_volume \<Rightarrow> int \<Rightarrow> ('s, unit) pyprog" where
  "ds8k_extend_volume api api_volume new_size_in_bytes =
     except_lib (rest_extend_volume api (dv_id api_volume) new_size_in_bytes)
       [([Ds8k_NotFound], \<lambda>ex. raise (ObjectNotFoundError (dv_id api_volume))),
        ([Ds8k_ClientError, Ds8k_ClientException], \<lambda>ex.
           if has_code ERROR_CODE_EXPAND_VOLUME_NOT_ENOUGH_EXTENTS ex
           then raise (NotEnoughSpaceInPool (dv_pool api_volume)) else ret ())]"

definition ds8k_delete_volume_by_id :: "'s ds8k_api \<Rightarrow> string \<Rightarrow> bool \<Rightarrow> ('s, unit) pyprog" where
  "ds8k_delete_volume_by_id api volume_id not_exist_err =
     except_lib (rest_delete_volume api volume_id)
       [([Ds8k_NotFound], \<lambda>ex.
           if not_exist_err then raise (ObjectNotFoundError volume_id) else ret ()),
        ([Ds8k_ClientException], \<lambda>ex. raise (VolumeDeletionError volume_id))]"

definition ds8k_delete_flashcopy :: "'s ds8k_api \<Rightarrow> string \<Rightarrow> ('s, unit) pyprog" where
  "ds8k_delete_flashcopy api flashcopy_id = rest_delete_flashcopy api flashcopy_id"

definition ds8k_ensure_flashcopy_safe_to_delete ::
  "'s ds8k_api \<Rightarrow> ds8k_flashcopy \<Rightarrow> string \<Rightarrow> ('s, unit) pyprog" where
  "ds8k_ensure_flashcopy_safe_to_delete api flashcopy volume_name =
     bnd (ds8k_get_flashcopy_process api (dc_id flashcopy) True) (\<lambda>flashcopy_process.
       if dc_backgroundcopy flashcopy = ''disabled''
       then raise (ObjectIsStillInUseError volume_name [dc_representation flashcopy])
       else
         (case flashcopy_process of
            None \<Rightarrow> raise AttributeError
          | Some f \<Rightarrow>
              if dc_out_of_sync_tracks f \<noteq> ''0''
              then raise (ObjectIsStillInUseError volume_name [dc_representation f]) else ret ()))"

definition ds8k_safe_delete_flashcopies ::
  "'s ds8k_api \<Rightarrow> ds8k_flashcopy list \<Rightarrow> string \<Rightarrow> ('s, unit) pyprog" where
  "ds8k_safe_delete_flashcopies api flashcopies volume_name =
     bnd (for_each (\<lambda>f. ds8k_ensure_flashcopy_safe_to_delete api f volume_name) flashcopies) (\<lambda>_.
       for_each (\<lambda>f. ds8k_delete_flashcopy api (dc_id f)) flashcopies)"

definition ds8k_delete_object :: "'s ds8k_api \<Rightarrow> string \<Rightarrow> bool \<Rightarrow> ('s, unit) pyprog" where
  "ds8k_delete_object api object_id object_is_snapshot =
     bnd (ds8k_get_api_volume_by_id api object_id True) (\<lambda>api_volume.
       case api_volume of
         None \<Rightarrow> raise AttributeError
       | Some v \<Rightarrow>
           if object_is_snapshot \<and> \<not> is_snapshot v then raise (ObjectNotFoundError object_id)
           else
             bnd (ds8k_safe_delete_flashcopies api
                    (filter (\<lambda>f. dc_sourcevolume f = dv_id v) (dv_flashcopy v)) (dv_name v)) (\<lambda>_.
             bnd (case get_flashcopy_as_target_if_exists v of
                    None \<Rightarrow> ret ()
                  | Some f \<Rightarrow> ds8k_delete_flashcopy api (dc_id f)) (\<lambda>_.
               ds8k_delete_volume_by_id api object_id True)))"

definition ds8k_delete_volume :: "'s ds8k_api \<Rightarrow> string \<Rightarrow> ('s, unit) pyprog" where
  "ds8k_delete_volume api volume_id = ds8k_delete_object api volume_id False"

definition ds8k_get_volume ::
  "'s ds8k_api \<Rightarrow> string \<Rightarrow> ds8k_system \<Rightarrow> string \<Rightarrow> string option \<Rightarrow> ('s, volume) pyprog" where
  "ds8k_get_volume api sa sys name pool =
     bnd (ds8k_get_api_volume_by_name api sys name pool) (\<lambda>api_volume.
       case api_volume of
         Some v \<Rightarrow> lift (ds8k_generate_volume_response sa sys v)
       | None \<Rightarrow> raise (ObjectNotFoundError name))"

definition ds8k_expand_volume :: "'s ds8k_api \<Rightarrow> string \<Rightarrow> int \<Rightarrow> ('s, unit) pyprog" where
  "ds8k_expand_volume api volume_id required_bytes =
     bnd (ds8k_get_api_volume_by_id api volume_id True) (\<lambda>api_volume.
       case api_volume of
         None \<Rightarrow> raise AttributeError
       | Some v \<Rightarrow>
           bnd (ds8k_safe_delete_flashcopies api (dv_flashcopy v) (dv_name v)) (\<lambda>_.
             ds8k_extend_volume api v required_bytes))"

section \<open>Copies and snapshots\<close>

definition ds8k_create_flashcopy ::
  "'s ds8k_api \<Rightarrow> string \<Rightarrow> string \<Rightarrow> string \<Rightarrow> string list \<Rightarrow> ('s, ds8k_volume option) pyprog" where
  "ds8k_create_flashcopy api sa source_volume_id target_volume_id options =
     bnd (except_lib
            (rest_create_flashcopy api source_volume_id target_volume_id (options @ [da_option_pset api]))
            [([Ds8k_ClientError, Ds8k_ClientException], \<lambda>ex.
                if has_code ERROR_CODE_ALREADY_FLASHCOPY ex
                then raise (SnapshotAlreadyExists target_volume_id sa)
                else if has_code ERROR_CODE_VOLUME_NOT_FOUND_OR_ALREADY_PART_OF_CS_RELATIONSHIP ex
                then raise (ObjectNotFoundError (source_volume_id @ '' or '' @ target_volume_id))
                else raise (LibExc ex))]) (\<lambda>api_flashcopy.
     bnd (ds8k_get_flashcopy_state api (dc_id api_flashcopy)) (\<lambda>flashcopy_state.
       if flashcopy_state \<noteq> FLASHCOPY_STATE_VALID then
         bnd (ds8k_delete_flashcopy api (dc_id api_flashcopy)) (\<lambda>_. raise ValueError)
       else ds8k_get_api_volume_by_id api target_volume_id True))"

definition ds8k_copy_to_existing_volume_from_source ::
  "'s ds8k_api \<Rightarrow> string \<Rightarrow> string \<Rightarrow> string \<Rightarrow> int \<Rightarrow> int \<Rightarrow> ('s, unit) pyprog" where
  "ds8k_copy_to_existing_volume_from_source api sa volume_id source_id source_capacity_in_bytes
       minimum_volume_size_in_bytes =
     bnd (if minimum_volume_size_in_bytes < source_capacity_in_bytes then
            bnd (ds8k_get_api_volume_by_id api volume_id True) (\<lambda>new_api_volume.
              case new_api_volume of
                None \<Rightarrow> raise AttributeError
              | Some v \<Rightarrow> ds8k_extend_volume api v source_capacity_in_bytes)
          else ret ()) (\<lambda>_.
     bnd (ds8k_create_flashcopy api sa source_id volume_id [da_option_per api]) (\<lambda>_. ret ()))"

definition ds8k_get_api_snapshot ::
  "'s ds8k_api \<Rightarrow> string \<Rightarrow> ds8k_system \<Rightarrow> string \<Rightarrow> string option \<Rightarrow> ('s, ds8k_volume option) pyprog" where
  "ds8k_get_api_snapshot api sa sys snapshot_name pool_id =
     bnd (ds8k_get_api_volume_by_name api sys snapshot_name pool_id) (\<lambda>api_snapshot.
       case api_snapshot of
         None \<Rightarrow> ret None
       | Some v \<Rightarrow>
           if \<not> is_snapshot v then raise (ExpectedSnapshotButFoundVolumeError (dv_name v) sa)
           else ret (Some v))"

definition ds8k_get_snapshot ::
  "'s ds8k_api \<Rightarrow> string \<Rightarrow> ds8k_system \<Rightarrow> string \<Rightarrow> string \<Rightarrow> string option
   \<Rightarrow> ('s, snapshot option) pyprog" where
  "ds8k_get_snapshot api sa sys volume_id snapshot_name pool =
     bnd (if truthy pool then ret (the pool)
          else
            bnd (ds8k_get_api_volume_by_id api volume_id True) (\<lambda>src.
              case src of None \<Rightarrow> raise AttributeError | Some v \<Rightarrow> ret (dv_pool v))) (\<lambda>pool_id.
     bnd (ds8k_get_api_snapshot api sa sys snapshot_name (Some pool_id)) (\<lambda>api_snapshot.
       case api_snapshot of
         None \<Rightarrow> ret None
       | Some v \<Rightarrow>
           bnd (lift (ds8k_generate_snapshot_response_with_verification sa sys v)) (\<lambda>sn. ret (Some sn))))"

definition ds8k_create_similar_volume ::
  "'s ds8k_api \<Rightarrow> ds8k_system \<Rightarrow> string \<Rightarrow> ds8k_volume \<Rightarrow> string option \<Rightarrow> ('s, ds8k_volume) pyprog" where
  "ds8k_create_similar_volume api sys target_volume_name source_api_volume pool_id =
     bnd (lift (py_int (dv_cap source_api_volume))) (\<lambda>size_in_bytes.
       ds8k_create_api_volume api sys target_volume_name size_in_bytes
         (Some (dv_tp source_api_volume))
         (if truthy pool_id then the pool_id else dv_pool source_api_volume))"

text \<open>\<^verbatim>\<open>@retry(Exception, tries=11, delay=1)\<close>.\<close>

definition ds8k_delete_target_volume_if_exist ::
  "(exc, 's, unit) retrier \<Rightarrow> 's ds8k_api \<Rightarrow> string \<Rightarrow> ('s, unit) pyprog" where
  "ds8k_delete_target_volume_if_exist retry api target_volume_id =
     retry (\<lambda>_. True) 11 (ds8k_delete_volume_by_id api target_volume_id False)"

fun snapshot_error_rolled_back :: "exc \<Rightarrow> bool" where
  "snapshot_error_rolled_back (ObjectNotFoundError _) = True"
| "snapshot_error_rolled_back (SnapshotAlreadyExists _ _) = True"
| "snapshot_error_rolled_back _ = False"

definition ds8k_create_snapshot_volume ::
  "(exc, 's, unit) retrier \<Rightarrow> 's ds8k_api \<Rightarrow> string \<Rightarrow> ds8k_system \<Rightarrow> string \<Rightarrow> ds8k_volume
   \<Rightarrow> string option \<Rightarrow> ('s, ds8k_volume option) pyprog" where
  "ds8k_create_snapshot_volume retry api sa sys target_volume_name source_api_volume pool_id =
     bnd (ds8k_create_similar_volume api sys target_volume_name source_api_volume pool_id)
       (\<lambda>target_api_volume.
         try_except
           (ds8k_create_flashcopy api sa (dv_id source_api_volume) (dv_id target_api_volume)
              [da_option_nbc api, da_option_per api])
           (\<lambda>e. if snapshot_error_rolled_back e then
                  bnd (ds8k_delete_target_volume_if_exist retry api (dv_id target_api_volume)) (\<lambda>_.
                    raise e)
                else raise e))"

definition ds8k_get_object_by_id ::
  "'s ds8k_api \<Rightarrow> string \<Rightarrow> ds8k_system \<Rightarrow> string \<Rightarrow> object_type \<Rightarrow> ('s, array_object option) pyprog" where
  "ds8k_get_object_by_id api sa sys object_id object_type =
     bnd (ds8k_get_api_volume_by_id api object_id False) (\<lambda>api_object.
       case api_object of
         None \<Rightarrow> ret None
       | Some v \<Rightarrow>
           if object_type = SNAPSHOT_TYPE then
             bnd (lift (ds8k_generate_snapshot_response_with_verification sa sys v))
               (\<lambda>sn. ret (Some (SnapshotObject sn)))
           else
             bnd (lift (ds8k_generate_volume_response sa sys v)) (\<lambda>vol. ret (Some (VolumeObject vol))))"

definition ds8k_create_snapshot ::
  "(exc, 's, unit) retrier \<Rightarrow> 's ds8k_api \<Rightarrow> string \<Rightarrow> ds8k_system \<Rightarrow> string \<Rightarrow> string
   \<Rightarrow> string option \<Rightarrow> ('s, snapshot) pyprog" where
  "ds8k_create_snapshot retry api sa sys volume_id snapshot_name pool =
     bnd (ds8k_get_api_volume_by_id api volume_id True) (\<lambda>source_api_volume.
       case source_api_volume of
         None \<Rightarrow> raise (ObjectNotFoundError volume_id)
       | Some src \<Rightarrow>
           bnd (ds8k_create_snapshot_volume retry api sa sys snapshot_name src pool)
             (\<lambda>target_api_volume.
               lift (ds8k_generate_snapshot_response sa sys target_api_volume volume_id)))"

definition ds8k_delete_snapshot :: "'s ds8k_api \<Rightarrow> string \<Rightarrow> ('s, unit) pyprog" where
  "ds8k_delete_snapshot api snapshot_id = ds8k_delete_object api snapshot_id True"

section \<open>Hosts and mappings\<close>

text \<open>\<^verbatim>\<open>d[k]\<close> of a dictionary of strings.\<close>

definition dict_item :: "(string, string) dict \<Rightarrow> string \<Rightarrow> exc + string" where
  "dict_item d k = (case map_of d k of None \<Rightarrow> Inl KeyError | Some v \<Rightarrow> Inr v)"

text \<open>The first mapping of the volume in a host's list, as the inner loop finds it.\<close>

fun ds8k_find_lun :: "string \<Rightarrow> (string, string) dict list \<Rightarrow> exc + int option" where
  "ds8k_find_lun volume_id [] = Inr None"
| "ds8k_find_lun volume_id (m # ms) =
     bnd_err (dict_item m ''volume_id'') (\<lambda>v.
       if volume_id = v then
         bnd_err (dict_item m ''lunid'') (\<lambda>l. bnd_err (scsilun_to_int l) (\<lambda>i. Inr (Some i)))
       else ds8k_find_lun volume_id ms)"

definition ds8k_mappings_of_hosts :: "string \<Rightarrow> ds8k_host list \<Rightarrow> exc + (string, lun) dict" where
  "ds8k_mappings_of_hosts volume_id hosts =
     fold_err (\<lambda>host d.
       bnd_err (ds8k_find_lun volume_id (dh_mappings_briefs host)) (\<lambda>found.
         Inr (case found of None \<Rightarrow> d | Some i \<Rightarrow> dict_set (dh_name host) (LunInt i) d)))
     hosts []"

definition ds8k_get_volume_mappings :: "'s ds8k_api \<Rightarrow> string \<Rightarrow> ('s, (string, lun) dict) pyprog" where
  "ds8k_get_volume_mappings api volume_id =
     bnd (rest_get_hosts api) (\<lambda>hosts. lift (ds8k_mappings_of_hosts volume_id hosts))"

definition ds8k_map_volume :: "'s ds8k_api \<Rightarrow> string \<Rightarrow> string \<Rightarrow> ('s, lun) pyprog" where
  "ds8k_map_volume api volume_id host_name =
     except_lib
       (bnd (rest_map_volume_to_host api host_name volume_id None) (\<lambda>mapping.
        bnd (lift (scsilun_to_int (dm_lunid mapping))) (\<lambda>lun. ret (LunInt lun))))
       [([Ds8k_NotFound], \<lambda>ex. raise (HostNotFoundError host_name)),
        ([Ds8k_InternalServerError], \<lambda>ex.
           if has_code ERROR_CODE_MAP_VOLUME_NOT_ENOUGH_EXTENTS ex
           then raise (NoAvailableLunError volume_id)
           else raise (MappingError volume_id host_name (lx_details ex))),
        ([Ds8k_ClientException], \<lambda>ex.
           if has_code ERROR_CODE_VOLUME_NOT_FOUND_FOR_MAPPING ex
           then raise (ObjectNotFoundError volume_id)
           else raise (MappingError volume_id host_name (lx_details ex)))]"

definition ds8k_unmap_volume :: "'s ds8k_api \<Rightarrow> string \<Rightarrow> string \<Rightarrow> ('s, unit) pyprog" where
  "ds8k_unmap_volume api volume_id host_name =
     except_lib
       (bnd (rest_get_host_mappings api host_name) (\<lambda>mappings.
          case find (\<lambda>m. dm_volume m = volume_id) mappings of
            Some m \<Rightarrow> rest_unmap_volume_from_host api host_name (dm_id m)
          | None \<Rightarrow> raise (ObjectNotFoundError volume_id)))
       [([Ds8k_NotFound], \<lambda>ex.
           if has_code HOST_DOES_NOT_EXIST ex then raise (HostNotFoundError host_name)
           else if has_code MAPPING_DOES_NOT_EXIST ex then raise (VolumeAlreadyUnmappedError volume_id)
           else ret ()),
        ([Ds8k_ClientException], \<lambda>ex. raise (UnmappingError volume_id host_name (lx_details ex)))]"

definition ds8k_get_iscsi_targets_by_iqn :: "('s, (string, string list) dict) pyprog" where
  "ds8k_get_iscsi_targets_by_iqn = ret []"

fun online_wwpns :: "'s ds8k_api \<Rightarrow> (string, string) dict list \<Rightarrow> exc + string list" where
  "online_wwpns api [] = Inr []"
| "online_wwpns api (p # ps) =
     bnd_err (dict_item p (da_ioport_status api)) (\<lambda>state.
     bnd_err (if state = LOGIN_PORT_STATE_ONLINE
              then bnd_err (dict_item p (da_ioport_wwpn api)) (\<lambda>w. Inr [w]) else Inr []) (\<lambda>w.
     bnd_err (online_wwpns api ps) (\<lambda>ws. Inr (w @ ws))))"

definition ds8k_get_array_fc_wwns :: "'s ds8k_api \<Rightarrow> string \<Rightarrow> ('s, string list) pyprog" where
  "ds8k_get_array_fc_wwns api host_name =
     except_lib
       (bnd (rest_get_host api host_name) (\<lambda>host. lift (online_wwpns api (dh_login_ports host))))
       [([Ds8k_NotFound], \<lambda>ex. raise (HostNotFoundError host_name))]"

fun brief_wwpns :: "(string, string) dict list \<Rightarrow> exc + string list" where
  "brief_wwpns [] = Inr []"
| "brief_wwpns (p # ps) =
     bnd_err (dict_item p ''wwpn'') (\<lambda>w. bnd_err (brief_wwpns ps) (\<lambda>ws. Inr (w # ws)))"

text \<open>The name of the first host with a port of the node; the empty string when there is none.\<close>

fun ds8k_find_host :: "initiators \<Rightarrow> ds8k_host list \<Rightarrow> exc + string" where
  "ds8k_find_host initiators [] = Inr ''''"
| "ds8k_find_host initiators (h # hs) =
     bnd_err (brief_wwpns (dh_host_ports_briefs h)) (\<lambda>wwpns.
       if is_array_wwns_match initiators wwpns then Inr (dh_name h) else ds8k_find_host initiators hs)"

definition ds8k_get_host_by_host_identifiers ::
  "'s ds8k_api \<Rightarrow> initiators \<Rightarrow> ('s, string \<times> string list) pyprog" where
  "ds8k_get_host_by_host_identifiers api initiators =
     bnd (rest_get_hosts api) (\<lambda>hosts.
     bnd (lift (ds8k_find_host initiators hosts)) (\<lambda>found.
       if found \<noteq> [] then ret (found, [FC_CONNECTIVITY_TYPE])
       else raise (HostNotFoundError (initiators_str initiators))))"

definition ds8k_validate_supported_space_efficiency :: "string option \<Rightarrow> ('s, unit) pyprog" where
  "ds8k_validate_supported_space_efficiency space_efficiency =
     (if truthy space_efficiency \<and>
         lower (the space_efficiency) \<notin> set [SPACE_EFFICIENCY_THIN, SPACE_EFFICIENCY_NONE]
      then raise (SpaceEfficiencyNotSupported (the space_efficiency)) else ret ())"

section \<open>The mediator\<close>

definition ds8k_disconnect :: "('s, unit) pyprog" where
  "ds8k_disconnect = ret ()"

definition ds8k_is_active :: "'s ds8k_api \<Rightarrow> ('s, bool) pyprog" where
  "ds8k_is_active api = rest_is_valid api"

definition ds8k_mediator ::
  "(exc, 's, unit) retrier \<Rightarrow> 's ds8k_api \<Rightarrow> string \<Rightarrow> ds8k_system \<Rightarrow> 's mediator" where
  "ds8k_mediator retry api sa sys =
     \<lparr>array_type = ARRAY_TYPE_DS8K,
      port = 8452,
      max_object_name_length = 16,
      max_object_prefix_length = 5,
      max_connections = 50,
      minimal_volume_size_in_bytes = 512,
      maximal_volume_size_in_bytes = 16 * 1024 * 1024 * 1024 * 1024,
      max_lun_retries = 10,
      default_object_prefix = None,
      disconnect = ds8k_disconnect,
      is_active = ds8k_is_active api,
      create_volume = ds8k_create_volume api sa sys,
      copy_to_existing_volume_from_source = (\<lambda>volume_id source_id.
        ds8k_copy_to_existing_volume_from_source api sa (scsi_id_to_volume_id volume_id)
          (scsi_id_to_volume_id source_id)),
      delete_volume = (\<lambda>volume_id. ds8k_delete_volume api (scsi_id_to_volume_id volume_id)),
      get_volume = ds8k_get_volume api sa sys,
      expand_volume = (\<lambda>volume_id. ds8k_expand_volume api (scsi_id_to_volume_id volume_id)),
      get_volume_mappings =
        (\<lambda>volume_id. ds8k_get_volume_mappings api (scsi_id_to_volume_id volume_id)),
      map_volume = (\<lambda>volume_id. ds8k_map_volume api (scsi_id_to_volume_id volume_id)),
      unmap_volume = (\<lambda>volume_id. ds8k_unmap_volume api (scsi_id_to_volume_id volume_id)),
      get_snapshot = (\<lambda>volume_id. ds8k_get_snapshot api sa sys (scsi_id_to_volume_id volume_id)),
      get_object_by_id = (\<lambda>object_id. ds8k_get_object_by_id api sa sys (scsi_id_to_volume_id object_id)),
      create_snapshot =
        (\<lambda>volume_id. ds8k_create_snapshot retry api sa sys (scsi_id_to_volume_id volume_id)),
      delete_snapshot = (\<lambda>snapshot_id. ds8k_delete_snapshot api (scsi_id_to_volume_id snapshot_id)),
      get_iscsi_targets_by_iqn = ds8k_get_iscsi_targets_by_iqn,
      get_array_fc_wwns = ds8k_get_array_fc_wwns api,
      get_host_by_host_identifiers = ds8k_get_host_by_host_identifiers api,
      validate_supported_space_efficiency = ds8k_validate_supported_space_efficiency\<rparr>"

text \<open>
  \<^verbatim>\<open>_connect\<close>; the comparison of versions is \<^verbatim>\<open>packaging.version.parse\<close>'s order, the parameter
  \<open>version_less\<close>.
\<close>

definition ds8k_connect_client ::
  "(string \<Rightarrow> string \<Rightarrow> bool) \<Rightarrow> 's ds8k_connect \<Rightarrow> json \<Rightarrow> json \<Rightarrow> string
   \<Rightarrow> ('s, 's ds8k_api \<times> ds8k_system) pyprog" where
  "ds8k_connect_client version_less connect user password sa =
     except_lib
       (bnd (lib (connect sa user password)) (\<lambda>api.
        bnd (rest_get_system api) (\<lambda>sys.
        bnd (lift (ds8k_version sys)) (\<lambda>version.
          if version_less version SUPPORTED_FROM_VERSION
          then raise (UnsupportedStorageVersionError version SUPPORTED_FROM_VERSION)
          else ret (api, sys)))))
       [([Ds8k_ClientError, Ds8k_Unauthorized], \<lambda>ex.
           if has_code ERROR_CODE_INVALID_CREDENTIALS ex \<or> has_code KNOWN_ERROR_CODE_INVALID_CREDENTIALS ex
           then raise (CredentialsError sa) else raise ConnectionError),
        ([Ds8k_ClientException], \<lambda>ex. raise ConnectionError)]"

definition DS8KArrayMediator ::
  "(exc, 's, unit) retrier \<Rightarrow> (string \<Rightarrow> string \<Rightarrow> bool) \<Rightarrow> 's ds8k_connect \<Rightarrow> json \<Rightarrow> json
   \<Rightarrow> string list \<Rightarrow> ('s, 's mediator) pyprog" where
  "DS8KArrayMediator retry version_less connect user password endpoint =
     bnd (lift (first_item endpoint)) (\<lambda>sa.
     bnd (ds8k_connect_client version_less connect user password sa) (\<lambda>(api, sys).
       ret (ds8k_mediator retry api sa sys)))"

end
