(* ===== verification/Agent.thy ===== *)
theory Agent
  imports Mediator Svc Xiv Ds8k Pool
begin

text \<open>
  \<^verbatim>\<open>storage_agent.py\<close>: which storage type answers at an address, the agents cached per user and
  addresses, and the connection an agent lends to a request.

  Everything third-party is collected in one record, the environment: the three clients'
  connection functions, sockets, the JSON decoder, the hash functions, \<^verbatim>\<open>retry\<close>, \<^verbatim>\<open>random\<close>, the
  version order, the clock, and the blocking wait of a pool's queue.
\<close>

record 's env =
  en_loads :: json_decoder
  en_sha256 :: "string \<Rightarrow> string"
  en_b58encode :: "string \<Rightarrow> string"
  en_retry :: "(exc, 's, unit) retrier"
  en_retry_map :: "(exc, 's, lun \<times> string \<times> array_initiators) retrier"
  en_svc_connect :: "'s svc_connect"
  en_xiv_connect :: "'s xiv_connect"
  en_ds8k_connect :: "'s ds8k_connect"
  en_randint :: "'s randint"
  en_version_less :: "string \<Rightarrow> string \<Rightarrow> bool"
  en_connect_ex :: "string \<Rightarrow> int \<Rightarrow> ('s, int) lib_call"
  en_wait :: "('s mediator pool \<times> 's, 's mediator) pyprog"
  en_now :: "'s \<Rightarrow> int"

section \<open>Storage types\<close>

text \<open>
  The three mediator classes, in the order in which the ports are tried: a DS8K also listens
  on the SVC's port, so the order matters.
\<close>

datatype array_kind = XIV | DS8K | SVC

fun kind_rank :: "array_kind \<Rightarrow> nat" where
  "kind_rank XIV = 0"
| "kind_rank DS8K = 1"
| "kind_rank SVC = 2"

lemma kind_rank_inj: "kind_rank a = kind_rank b \<longleftrightarrow> a = b"
  by (cases a; cases b) simp_all

instantiation array_kind :: linorder
begin

definition less_eq_array_kind :: "array_kind \<Rightarrow> array_kind \<Rightarrow> bool" where
  "less_eq_array_kind a b \<longleftrightarrow> kind_rank a \<le> kind_rank b"

definition less_array_kind :: "array_kind \<Rightarrow> array_kind \<Rightarrow> bool" where
  "less_array_kind a b \<longleftrightarrow> kind_rank a < kind_rank b"

instance
  by standard (auto simp: less_eq_array_kind_def less_array_kind_def kind_rank_inj)

end

fun kind_array_type :: "array_kind \<Rightarrow> string" where
  "kind_array_type XIV = ARRAY_TYPE_XIV"
| "kind_array_type DS8K = ARRAY_TYPE_DS8K"
| "kind_array_type SVC = ARRAY_TYPE_SVC"

fun kind_port :: "array_kind \<Rightarrow> int" where
  "kind_port XIV = 7778"
| "kind_port DS8K = 8452"
| "kind_port SVC = 22"

fun kind_max_connections :: "array_kind \<Rightarrow> nat" where
  "kind_max_connections XIV = 2"
| "kind_max_connections DS8K = 50"
| "kind_max_connections SVC = 2"

definition array_type_to_port :: "(array_kind \<times> int) list" where
  "array_type_to_port = map (\<lambda>k. (k, kind_port k)) [XIV, DS8K, SVC]"

definition array_type_to_mediator :: "string \<Rightarrow> array_kind option" where
  "array_type_to_mediator t = find (\<lambda>k. kind_array_type k = t) [XIV, SVC, DS8K]"

fun med_class :: "'s env \<Rightarrow> array_kind \<Rightarrow> json \<Rightarrow> json \<Rightarrow> string list \<Rightarrow> ('s, 's mediator) pyprog" where
  "med_class env XIV = XIVArrayMediator (en_randint env) (en_xiv_connect env)"
| "med_class env DS8K = DS8KArrayMediator (en_retry env) (en_version_less env) (en_ds8k_connect env)"
| "med_class env SVC = SVCArrayMediator (en_retry env) (en_svc_connect env)"

section \<open>Detection\<close>

text \<open>\<^verbatim>\<open>_socket_connect_test\<close>: every exception is the result \<open>-1\<close>.\<close>

definition socket_connect_test :: "'s env \<Rightarrow> string \<Rightarrow> int \<Rightarrow> ('s, int) pyprog" where
  "socket_connect_test env hostname port_number =
     try_except (lib (en_connect_ex env hostname port_number)) (\<lambda>_. ret (- 1))"

fun any_endpoint_answers :: "'s env \<Rightarrow> int \<Rightarrow> string list \<Rightarrow> ('s, bool) pyprog" where
  "any_endpoint_answers env p [] = ret False"
| "any_endpoint_answers env p (e # es) =
     bnd (socket_connect_test env e p) (\<lambda>r. if r = 0 then ret True else any_endpoint_answers env p es)"

fun detect_among ::
  "'s env \<Rightarrow> (array_kind \<times> int) list \<Rightarrow> string list \<Rightarrow> ('s, array_kind option) pyprog" where
  "detect_among env [] endpoints = ret None"
| "detect_among env ((k, p) # rest) endpoints =
     bnd (any_endpoint_answers env p endpoints) (\<lambda>found.
       if found then ret (Some k) else detect_among env rest endpoints)"

definition detect_array_type :: "'s env \<Rightarrow> string list \<Rightarrow> ('s, string) pyprog" where
  "detect_array_type env endpoints =
     bnd (detect_among env array_type_to_port endpoints) (\<lambda>k.
       case k of
         Some kind \<Rightarrow> ret (kind_array_type kind)
       | None \<Rightarrow> raise (FailedToFindStorageSystemType (str_list endpoints)))"

section \<open>Agents\<close>

text \<open>\<open>ag_med_class\<close> is the pool's \<^verbatim>\<open>med_class\<close>.\<close>

record 's agent =
  ag_username :: json
  ag_password :: json
  ag_endpoints :: "string list"
  ag_endpoint_key :: string
  ag_med_class :: array_kind
  ag_pool :: "'s mediator pool"

type_synonym agent_key = "json \<times> string"

text \<open>
  The state of the controller: \<^verbatim>\<open>_array_agents\<close> and the world behind the connections.  An agent
  is an object that the cache and the requests share; a request refers to it by its key.
\<close>

record 's ctl =
  ctl_agents :: "(agent_key, 's agent) dict"
  ctl_array :: 's

definition on_array :: "('s, 'a) pyprog \<Rightarrow> ('s ctl, 'a) pyprog" where
  "on_array m c = (case m (ctl_array c) of (r, s) \<Rightarrow> (r, c\<lparr>ctl_array := s\<rparr>))"

text \<open>A method of the agent's pool; a key always comes from \<open>get_agent\<close>, so it is present.\<close>

definition on_agent ::
  "agent_key \<Rightarrow> ('s agent \<Rightarrow> ('s mediator pool \<times> 's, 'a) pyprog) \<Rightarrow> ('s ctl, 'a) pyprog" where
  "on_agent key m c =
     (case map_of (ctl_agents c) key of
        None \<Rightarrow> (Inl KeyError, c)
      | Some a \<Rightarrow>
          (case m a (ag_pool a, ctl_array c) of
             (r, (p, s)) \<Rightarrow>
               (r, c\<lparr>ctl_agents := dict_set key (a\<lparr>ag_pool := p\<rparr>) (ctl_agents c), ctl_array := s\<rparr>)))"

definition StorageAgent ::
  "'s env \<Rightarrow> string list \<Rightarrow> json \<Rightarrow> json \<Rightarrow> string option \<Rightarrow> ('s, 's agent) pyprog" where
  "StorageAgent env endpoints username password storage_type =
     bnd (if truthy storage_type then ret (the storage_type) else detect_array_type env endpoints) (\<lambda>t.
       case array_type_to_mediator t of
         None \<Rightarrow> raise KeyError
       | Some k \<Rightarrow>
           bnd (ConnectionPool is_active disconnect (med_class env k) (en_wait env)
                  endpoints username password 1
                  (int (min (kind_max_connections k) CSI_CONTROLLER_SERVER_WORKERS))) (\<lambda>pool.
             ret \<lparr>ag_username = username, ag_password = password, ag_endpoints = endpoints,
                  ag_endpoint_key = join ENDPOINTS_SEPARATOR endpoints, ag_med_class = k, ag_pool = pool\<rparr>))"

text \<open>A dictionary's key must be hashable: a list or an object of JSON is not.\<close>

fun hashable :: "json \<Rightarrow> bool" where
  "hashable (JArr _) = False"
| "hashable (JObj _) = False"
| "hashable _ = True"

definition agent_key_of :: "array_connection_info \<Rightarrow> agent_key" where
  "agent_key_of info = (ci_user info, join ENDPOINTS_SEPARATOR (ci_array_addresses info))"

definition create_agent :: "'s env \<Rightarrow> array_connection_info \<Rightarrow> string option \<Rightarrow> ('s ctl, agent_key) pyprog" where
  "create_agent env info storage_type =
     bnd (on_array (StorageAgent env (ci_array_addresses info) (ci_user info) (ci_password info) storage_type))
       (\<lambda>agent c. (Inr (agent_key_of info),
          c\<lparr>ctl_agents := dict_set (agent_key_of info) agent (ctl_agents c)\<rparr>))"

text \<open>
  \<^verbatim>\<open>get_agent\<close>.  An agent whose password has changed is dropped first: what its finalizer does
  to the world, when no other request holds it any more, is the parameter \<open>finalize\<close>
  (\<open>pool_del\<close> below is that finalizer).
\<close>

definition get_agent ::
  "'s env \<Rightarrow> ('s agent \<Rightarrow> 's \<Rightarrow> 's) \<Rightarrow> array_connection_info \<Rightarrow> string option
   \<Rightarrow> ('s ctl, agent_key) pyprog" where
  "get_agent env finalize info storage_type c =
     (if \<not> hashable (ci_user info) then (Inl TypeError, c)
      else
        (case map_of (ctl_agents c) (agent_key_of info) of
           Some found \<Rightarrow>
             if ag_password found \<noteq> ci_password info then
               create_agent env info storage_type
                 (c\<lparr>ctl_agents := dict_del (agent_key_of info) (ctl_agents c),
                    ctl_array := finalize found (ctl_array c)\<rparr>)
             else (Inr (agent_key_of info), c)
         | None \<Rightarrow> create_agent env info storage_type c))"

definition get_agents :: "'s ctl \<Rightarrow> (agent_key, 's agent) dict" where
  "get_agents c = ctl_agents c"

text \<open>\<^verbatim>\<open>clear_agents\<close>: the agents are popped from the end of the list of values.\<close>

definition clear_agents :: "('s agent \<Rightarrow> 's \<Rightarrow> 's) \<Rightarrow> 's ctl \<Rightarrow> 's ctl" where
  "clear_agents finalize c =
     c\<lparr>ctl_agents := [], ctl_array := fold finalize (rev (map snd (ctl_agents c))) (ctl_array c)\<rparr>"

section \<open>Lending a connection\<close>

text \<open>
  \<^verbatim>\<open>get_mediator\<close>, before the \<^verbatim>\<open>yield\<close>.  The message joins the characters of the endpoint key,
  which is a string, with commas.
\<close>

definition lend_mediator :: "'s env \<Rightarrow> agent_key \<Rightarrow> ('s ctl, 's mediator) pyprog" where
  "lend_mediator env key =
     on_agent key (\<lambda>a. try_except
       (pool_get is_active disconnect (med_class env (ag_med_class a)) (en_wait env))
       (\<lambda>e. if e = Empty
            then raise (NoConnectionAvailableException (join '', '' (map (\<lambda>ch. [ch]) (ag_endpoint_key a))))
            else raise e))"

definition return_mediator :: "agent_key \<Rightarrow> 's mediator \<Rightarrow> ('s ctl, unit) pyprog" where
  "return_mediator key med = on_agent key (\<lambda>_. pool_put disconnect med)"

text \<open>\<^verbatim>\<open>with get_agent(info, array_type).get_mediator() as array_mediator: body\<close>.\<close>

definition with_mediator ::
  "'s env \<Rightarrow> ('s agent \<Rightarrow> 's \<Rightarrow> 's) \<Rightarrow> array_connection_info \<Rightarrow> string option
   \<Rightarrow> ('s mediator \<Rightarrow> ('s, 'a) pyprog) \<Rightarrow> ('s ctl, 'a) pyprog" where
  "with_mediator env finalize info storage_type body =
     bnd (get_agent env finalize info storage_type) (\<lambda>key.
     bnd (lend_mediator env key) (\<lambda>array_mediator.
       finally_do (on_array (body array_mediator)) (return_mediator key array_mediator)))"

section \<open>The finalizer of a pool\<close>

text \<open>
  \<^verbatim>\<open>ConnectionPool.__del__\<close> loops while \<^verbatim>\<open>current_size\<close> is not zero; \<open>None\<close> is running out of
  fuel.  An exception inside it ends it (the interpreter reports and drops it).
\<close>

fun pool_del ::
  "nat \<Rightarrow> ('i \<Rightarrow> ('s, bool) pyprog) \<Rightarrow> ('i \<Rightarrow> ('s, unit) pyprog)
   \<Rightarrow> (json \<Rightarrow> json \<Rightarrow> string list \<Rightarrow> ('s, 'i) pyprog)
   \<Rightarrow> ('i pool \<times> 's, 'i) pyprog \<Rightarrow> 'i pool \<times> 's \<Rightarrow> ((exc + unit) \<times> ('i pool \<times> 's)) option" where
  "pool_del 0 active disc cls wait ps = None"
| "pool_del (Suc n) active disc cls wait ps =
     (if current_size (fst ps) = 0 then Some (Inr (), ps)
      else
        (case bnd (pool_get active disc cls wait) (\<lambda>item. on_world (disc item)) ps of
           (Inl e, ps1) \<Rightarrow> Some (Inl e, ps1)
         | (Inr _, ps1) \<Rightarrow> pool_del n active disc cls wait (release_slot (fst ps1), snd ps1)))"

end
