(* ===== verification/ExceptionHandler.thy ===== *)
theory ExceptionHandler
  imports Errors
begin

text \<open>
  \<^verbatim>\<open>exception_handler.py\<close>: what a handler answers, and the status of an exception that none of
  its own \<^verbatim>\<open>except\<close> clauses has caught.

  A reply is the message a handler returns together with the code and the details it has set
  on the gRPC context.  No body is the empty message \<^verbatim>\<open>response_type()\<close>; a code that was never
  set is sent as \<^verbatim>\<open>OK\<close>.
\<close>

datatype status_code =
    OK | INVALID_ARGUMENT | NOT_FOUND | ALREADY_EXISTS | PERMISSION_DENIED | FAILED_PRECONDITION
  | OUT_OF_RANGE | RESOURCE_EXHAUSTED | UNIMPLEMENTED | INTERNAL

text \<open>The details may be the text of a built-in exception, which is not modelled.\<close>

datatype details = NoDetails | Details string | BuiltinText py_class

record 'b reply =
  rp_code :: "status_code option"
  rp_details :: details
  rp_body :: "'b option"

fun status_codes_by_exception :: "exc \<Rightarrow> status_code" where
  "status_codes_by_exception (PyError Py_NotImplementedError) = UNIMPLEMENTED"
| "status_codes_by_exception (ValidationException _) = INVALID_ARGUMENT"
| "status_codes_by_exception (IllegalObjectID _) = INVALID_ARGUMENT"
| "status_codes_by_exception (IllegalObjectName _) = INVALID_ARGUMENT"
| "status_codes_by_exception (PoolParameterIsMissing _) = INVALID_ARGUMENT"
| "status_codes_by_exception (ObjectNotFoundError _) = NOT_FOUND"
| "status_codes_by_exception (HostNotFoundError _) = NOT_FOUND"
| "status_codes_by_exception (PermissionDeniedError _) = PERMISSION_DENIED"
| "status_codes_by_exception (ObjectIsStillInUseError _ _) = FAILED_PRECONDITION"
| "status_codes_by_exception _ = INTERNAL"

definition build_non_ok_response :: "details \<Rightarrow> status_code \<Rightarrow> 'b reply" where
  "build_non_ok_response message status = \<lparr>rp_code = Some status, rp_details = message, rp_body = None\<rparr>"

definition build_error_response :: "string \<Rightarrow> status_code \<Rightarrow> 'b reply" where
  "build_error_response message status = build_non_ok_response (Details message) status"

fun exc_details :: "exc \<Rightarrow> details" where
  "exc_details (PyError c) = BuiltinText c"
| "exc_details e = Details (the (exc_message e))"

definition handle_exception :: "exc \<Rightarrow> status_code \<Rightarrow> 'b reply" where
  "handle_exception ex status = build_non_ok_response (exc_details ex) status"

text \<open>The decorator around a handler.\<close>

definition handle_common_exceptions :: "('w, 'b reply) pyprog \<Rightarrow> ('w, 'b reply) pyprog" where
  "handle_common_exceptions controller_method =
     try_except controller_method (\<lambda>ex. ret (handle_exception ex (status_codes_by_exception ex)))"

lemma reply_fields [simp]:
  "rp_code (handle_exception e st) = Some st" "rp_code (build_error_response m st) = Some st"
  "rp_body (handle_exception e st) = None" "rp_body (build_error_response m st) = None"
  by (simp_all add: handle_exception_def build_error_response_def build_non_ok_response_def)

lemma handled_Inr: "m w = (Inr r, w') \<Longrightarrow> handle_common_exceptions m w = (Inr r, w')"
  by (simp add: handle_common_exceptions_def run)

lemma handled_Inl:
  "m w = (Inl e, w') \<Longrightarrow>
   handle_common_exceptions m w = (Inr (handle_exception e (status_codes_by_exception e)), w')"
  by (simp add: handle_common_exceptions_def run)

lemma handled_yields: "yields (\<lambda>_. True) (\<lambda>_. False) (handle_common_exceptions m)"
  unfolding handle_common_exceptions_def
  by (rule yields_try_except [OF yields_any]) (auto intro: spec_rules)

end
