(* ===== verification/Servicer.thy ===== *)
theory Servicer
  imports Agent ExceptionHandler
begin

text \<open>
  \<^verbatim>\<open>csi_controller_server.py\<close>: the handlers of the CSI controller and identity services.

  A handler is a program over the controller's state; the part between \<^verbatim>\<open>with ... as
  array_mediator\<close> and the end of the block is a program over the array alone, defined on its
  own with the suffix \<open>_on\<close>.  Starting the server, and logging, are left out.
\<close>

section \<open>Exceptions the handlers name\<close>

fun is_ObjectNotFound :: "exc \<Rightarrow> bool" where
  "is_ObjectNotFound (ObjectNotFoundError _) = True" | "is_ObjectNotFound _ = False"

fun is_ObjectIdError :: "exc \<Rightarrow> bool" where
  "is_ObjectIdError (ObjectIdError _ _) = True" | "is_ObjectIdError _ = False"

fun is_PermissionDenied :: "exc \<Rightarrow> bool" where
  "is_PermissionDenied (PermissionDeniedError _) = True" | "is_PermissionDenied _ = False"

fun is_VolumeAlreadyExists :: "exc \<Rightarrow> bool" where
  "is_VolumeAlreadyExists (VolumeAlreadyExists _ _) = True" | "is_VolumeAlreadyExists _ = False"

fun is_NotEnoughSpace :: "exc \<Rightarrow> bool" where
  "is_NotEnoughSpace (NotEnoughSpaceInPool _) = True" | "is_NotEnoughSpace _ = False"

section \<open>Names\<close>

text \<open>
  A storage parameter that comes from a JSON document need not be a string.  Only strings and
  \<^verbatim>\<open>None\<close> are followed further; for any other value the model stops with \<^verbatim>\<open>TypeError\<close>.
\<close>

fun parameter_text :: "json \<Rightarrow> exc + string option" where
  "parameter_text (JStr s) = Inr (Some s)"
| "parameter_text JNull = Inr None"
| "parameter_text _ = Inl TypeError"

definition join_object_prefix_with_name :: "string option \<Rightarrow> string \<Rightarrow> string" where
  "join_object_prefix_with_name prefix name =
     (if truthy prefix then join NAME_PREFIX_SEPARATOR [the prefix, name] else name)"

definition get_object_final_name ::
  "'s env \<Rightarrow> string option \<Rightarrow> string \<Rightarrow> 's mediator \<Rightarrow> object_type \<Rightarrow> exc + string" where
  "get_object_final_name env prefix name med ty =
     (if truthy prefix \<and> max_object_prefix_length med < length (the prefix) then
        Inl (IllegalObjectName
          (''The '' @ type_name ty @ '' name prefix '' @ [CHR 0x27] @ the prefix @ [CHR 0x27] @
           '' is too long, max allowed length is '' @ str_nat (max_object_prefix_length med)))
      else
        let prefix = (if truthy prefix then prefix else default_object_prefix med);
            full_name = join_object_prefix_with_name prefix name;
            full_name =
              (if max_object_name_length med < length full_name
               then join_object_prefix_with_name prefix
                      (hash_string (en_sha256 env) (en_b58encode env) name)
               else full_name)
        in Inr (take (max_object_name_length med) full_name))"

definition get_volume_final_name ::
  "'s env \<Rightarrow> string option \<Rightarrow> string \<Rightarrow> 's mediator \<Rightarrow> exc + string" where
  "get_volume_final_name env prefix name med = get_object_final_name env prefix name med VOLUME_TYPE"

definition get_snapshot_final_name ::
  "'s env \<Rightarrow> string option \<Rightarrow> string \<Rightarrow> 's mediator \<Rightarrow> exc + string" where
  "get_snapshot_final_name env prefix name med = get_object_final_name env prefix name med SNAPSHOT_TYPE"

section \<open>Creating a volume\<close>

definition get_source_type_and_id ::
  "create_volume_request \<Rightarrow> exc + (object_type option \<times> string option)" where
  "get_source_type_and_id request =
     (case cv_content_source request of
        Some (SnapshotSource sid) \<Rightarrow>
          bnd_err (get_object_id_info sid SNAPSHOT_TYPE) (\<lambda>i. Inr (Some SNAPSHOT_TYPE, Some (oi_object_id i)))
      | Some (VolumeSource vid) \<Rightarrow>
          bnd_err (get_object_id_info vid VOLUME_TYPE) (\<lambda>i. Inr (Some VOLUME_TYPE, Some (oi_object_id i)))
      | _ \<Rightarrow> Inr (None, None))"

text \<open>\<^verbatim>\<open>@retry(Exception, tries=5)\<close>.\<close>

definition rollback_create_volume_from_source ::
  "'s env \<Rightarrow> 's mediator \<Rightarrow> string \<Rightarrow> ('s, unit) pyprog" where
  "rollback_create_volume_from_source env med volume_id =
     en_retry env (\<lambda>_. True) 5 (delete_volume med volume_id)"

text \<open>
  Both \<^verbatim>\<open>except\<close> clauses roll back and raise again; a missing source has been rolled back
  once before, inside the \<^verbatim>\<open>try\<close>.
\<close>

definition copy_volume_from_source ::
  "'s env \<Rightarrow> volume \<Rightarrow> string \<Rightarrow> object_type \<Rightarrow> int \<Rightarrow> 's mediator \<Rightarrow> ('s, unit) pyprog" where
  "copy_volume_from_source env v source_id source_type minimum_volume_size med =
     try_except
       (bnd (get_object_by_id med source_id source_type) (\<lambda>source_object.
          case source_object of
            None \<Rightarrow>
              bnd (rollback_create_volume_from_source env med (vol_id v)) (\<lambda>_.
                raise (ObjectNotFoundError source_id))
          | Some src \<Rightarrow>
              copy_to_existing_volume_from_source med (vol_id v) source_id (object_capacity src)
                minimum_volume_size))
       (\<lambda>ex. bnd (rollback_create_volume_from_source env med (vol_id v)) (\<lambda>_. raise ex))"

definition handle_volume_exists_with_same_source ::
  "object_type option \<Rightarrow> volume \<Rightarrow> string option \<Rightarrow> create_volume_response reply" where
  "handle_volume_exists_with_same_source source_type v system_id =
     \<lparr>rp_code = Some OK, rp_details = NoDetails,
      rp_body = Some (generate_csi_create_volume_response v system_id source_type)\<rparr>"

definition handle_volume_exists_with_different_source :: "create_volume_response reply" where
  "handle_volume_exists_with_different_source =
     build_error_response ''Volume already exists but it was created from a different source.''
       ALREADY_EXISTS"

definition handle_existing_volume_source ::
  "volume \<Rightarrow> string option \<Rightarrow> object_type option \<Rightarrow> string option
   \<Rightarrow> create_volume_response reply option" where
  "handle_existing_volume_source v source_id source_type system_id =
     (if \<not> truthy source_id \<and> \<not> truthy (vol_copy_source_id v) then None
      else if vol_copy_source_id v = source_id
      then Some (handle_volume_exists_with_same_source source_type v system_id)
      else Some handle_volume_exists_with_different_source)"

text \<open>
  The volume to answer with: the existing one, or a new one; \<open>Inl\<close> is an early answer.
\<close>

definition find_or_create_volume ::
  "'s mediator \<Rightarrow> string \<Rightarrow> int \<Rightarrow> int \<Rightarrow> string option \<Rightarrow> string
   \<Rightarrow> object_type option \<times> string option \<Rightarrow> string option
   \<Rightarrow> ('s, create_volume_response reply + volume option) pyprog" where
  "find_or_create_volume med name requested_bytes required_bytes space_efficiency pool source system_id =
     (case source of (source_type, source_id) \<Rightarrow>
        try_else (get_volume med name (Some pool))
          (\<lambda>ex.
             if is_ObjectNotFound ex then
               bnd (validate_supported_space_efficiency med space_efficiency) (\<lambda>_.
               bnd (create_volume med name required_bytes space_efficiency pool) (\<lambda>v. ret (Inr v)))
             else raise ex)
          (\<lambda>v.
             if \<not> truthy source_id \<and> vol_capacity_bytes v \<noteq> requested_bytes then
               ret (Inl (build_error_response ''Volume was already created with different size.''
                           ALREADY_EXISTS))
             else
               (case handle_existing_volume_source v source_id source_type system_id of
                  Some copy_source_res \<Rightarrow> ret (Inl copy_source_res)
                | None \<Rightarrow> ret (Inr (Some v)))))"

definition requested_bytes :: "int option \<Rightarrow> int" where
  "requested_bytes capacity_range = (case capacity_range of None \<Rightarrow> 0 | Some n \<Rightarrow> n)"

text \<open>Copying the source, if there is one, and the answer.\<close>

definition create_volume_answer ::
  "'s env \<Rightarrow> object_type option \<times> string option \<Rightarrow> string option \<Rightarrow> 's mediator \<Rightarrow> int \<Rightarrow> volume
   \<Rightarrow> ('s, create_volume_response reply) pyprog" where
  "create_volume_answer env source system_id med required_bytes v =
     bnd (if truthy (snd source) then
            bnd (copy_volume_from_source env v (the (snd source)) (the (fst source)) required_bytes med)
              (\<lambda>_. ret (v\<lparr>vol_copy_source_id := snd source\<rparr>))
          else ret v) (\<lambda>v.
       ret \<lparr>rp_code = None, rp_details = NoDetails,
            rp_body = Some (generate_csi_create_volume_response v system_id (fst source))\<rparr>)"

text \<open>A volume that is \<^verbatim>\<open>None\<close> has no attribute.\<close>

definition create_volume_on ::
  "'s env \<Rightarrow> create_volume_request \<Rightarrow> string option \<Rightarrow> string option \<Rightarrow> string
   \<Rightarrow> object_type option \<times> string option \<Rightarrow> string option \<Rightarrow> 's mediator
   \<Rightarrow> ('s, create_volume_response reply) pyprog" where
  "create_volume_on env request prefix space_efficiency pool source system_id med =
     bnd (lift (get_volume_final_name env prefix (cv_name request) med)) (\<lambda>volume_final_name.
       let requested = requested_bytes (cv_required_bytes request) in
       if maximal_volume_size_in_bytes med < requested then
         ret (build_error_response
           (SizeOutOfRangeError_message (str_int requested) (str_int (maximal_volume_size_in_bytes med)))
           OUT_OF_RANGE)
       else
         let required = (if requested = 0 then minimal_volume_size_in_bytes med else requested) in
         bnd (find_or_create_volume med volume_final_name requested required space_efficiency pool
                source system_id) (\<lambda>found.
           case found of
             Inl early \<Rightarrow> ret early
           | Inr None \<Rightarrow> raise AttributeError
           | Inr (Some v) \<Rightarrow> create_volume_answer env source system_id med required v))"

definition create_volume_from ::
  "'s env \<Rightarrow> ('s agent \<Rightarrow> 's \<Rightarrow> 's) \<Rightarrow> create_volume_request \<Rightarrow> object_type option \<times> string option
   \<Rightarrow> ('s ctl, create_volume_response reply) pyprog" where
  "create_volume_from env finalize request source =
     bnd (lift (get_array_connection_info_from_secrets (en_loads env) (cv_secrets request)
            (get_volume_topologies request) None)) (\<lambda>info.
     bnd (lift (get_volume_parameters (en_loads env) (cv_parameters request) (ci_system_id info)))
       (\<lambda>volume_parameters.
       if \<not> json_truthy (op_pool volume_parameters) then
         raise (ValidationException pool_should_not_be_empty_message)
       else
         bnd (lift (parameter_text (op_pool volume_parameters))) (\<lambda>pool.
         bnd (lift (parameter_text (op_space_efficiency volume_parameters))) (\<lambda>space_efficiency.
         bnd (lift (parameter_text (op_prefix volume_parameters))) (\<lambda>prefix.
         bnd (on_array (detect_array_type env (ci_array_addresses info))) (\<lambda>detected.
           with_mediator env finalize info (Some detected)
             (create_volume_on env request prefix space_efficiency (the pool) source
                (ci_system_id info))))))))"

definition CreateVolume ::
  "'s env \<Rightarrow> ('s agent \<Rightarrow> 's \<Rightarrow> 's) \<Rightarrow> create_volume_request
   \<Rightarrow> ('s ctl, create_volume_response reply) pyprog" where
  "CreateVolume env finalize request =
     handle_common_exceptions
       (case validate_create_volume_request (en_loads env) request of
          Inl ex \<Rightarrow>
            if is_ObjectIdError ex then ret (handle_exception ex NOT_FOUND) else raise ex
        | Inr _ \<Rightarrow>
            bnd (lift (get_source_type_and_id request)) (\<lambda>source.
              try_except (create_volume_from env finalize request source)
                (\<lambda>ex. if is_InvalidArgumentError ex then ret (handle_exception ex INVALID_ARGUMENT)
                      else if is_VolumeAlreadyExists ex then ret (handle_exception ex ALREADY_EXISTS)
                      else raise ex)))"

section \<open>Deleting a volume\<close>

definition empty_reply :: "'b reply" where
  "empty_reply = \<lparr>rp_code = None, rp_details = NoDetails, rp_body = None\<rparr>"

definition delete_volume_on :: "string \<Rightarrow> 's mediator \<Rightarrow> ('s, unit reply) pyprog" where
  "delete_volume_on volume_id med =
     try_except (bnd (delete_volume med volume_id) (\<lambda>_. ret empty_reply))
       (\<lambda>ex. if is_ObjectNotFound ex then ret empty_reply
             else if is_PermissionDenied ex then ret (handle_exception ex PERMISSION_DENIED)
             else raise ex)"

definition DeleteVolume ::
  "'s env \<Rightarrow> ('s agent \<Rightarrow> 's \<Rightarrow> 's) \<Rightarrow> delete_volume_request \<Rightarrow> ('s ctl, unit reply) pyprog" where
  "DeleteVolume env finalize request =
     handle_common_exceptions
       (bnd (lift (validate_delete_volume_request (en_loads env) request)) (\<lambda>_.
          case get_volume_id_info (dv_volume_id request) of
            Inl ex \<Rightarrow> if is_ObjectIdError ex then ret empty_reply else raise ex
          | Inr i \<Rightarrow>
              bnd (lift (get_array_connection_info_from_secrets (en_loads env) (dv_secrets request)
                     None (oi_system_id i))) (\<lambda>info.
                with_mediator env finalize info (Some (oi_array_type i))
                  (delete_volume_on (oi_object_id i)))))"

section \<open>Publishing and unpublishing\<close>

fun publish_status :: "exc \<Rightarrow> status_code option" where
  "publish_status (VolumeMappedToMultipleHostsError _) = Some FAILED_PRECONDITION"
| "publish_status (LunAlreadyInUseError _ _) = Some RESOURCE_EXHAUSTED"
| "publish_status (NoAvailableLunError _) = Some RESOURCE_EXHAUSTED"
| "publish_status (NoIscsiTargetsFoundError _) = Some NOT_FOUND"
| "publish_status (ObjectIdError _ _) = Some NOT_FOUND"
| "publish_status (UnsupportedConnectivityTypeError _) = Some INVALID_ARGUMENT"
| "publish_status _ = None"

definition ControllerPublishVolume ::
  "'s env \<Rightarrow> ('s agent \<Rightarrow> 's \<Rightarrow> 's) \<Rightarrow> publish_config \<Rightarrow> publish_volume_request
   \<Rightarrow> ('s ctl, (string, string) dict reply) pyprog" where
  "ControllerPublishVolume env finalize cfg request =
     handle_common_exceptions
       (bnd (lift (validate_publish_volume_request (en_loads env) request)) (\<lambda>_.
          try_except
            (bnd (lift (get_volume_id_info (pv_volume_id request))) (\<lambda>i.
             bnd (lift (NodeIdInfo (pv_node_id request))) (\<lambda>(node_name, initiators).
             bnd (lift (get_array_connection_info_from_secrets (en_loads env) (pv_secrets request)
                    None (oi_system_id i))) (\<lambda>info.
             bnd (with_mediator env finalize info (Some (oi_array_type i)) (\<lambda>array_mediator.
                    map_volume_by_initiators (en_retry_map env) array_mediator (oi_object_id i) initiators))
               (\<lambda>(lun, connectivity_type, array_initiators).
             bnd (lift (generate_csi_publish_volume_response cfg lun connectivity_type array_initiators))
               (\<lambda>publish_context.
               ret \<lparr>rp_code = None, rp_details = NoDetails, rp_body = Some publish_context\<rparr>))))))
            (\<lambda>ex. case publish_status ex of
                    Some status \<Rightarrow> ret (handle_exception ex status)
                  | None \<Rightarrow> raise ex)))"

fun is_VolumeAlreadyUnmapped :: "exc \<Rightarrow> bool" where
  "is_VolumeAlreadyUnmapped (VolumeAlreadyUnmappedError _) = True" | "is_VolumeAlreadyUnmapped _ = False"

text \<open>
  For an invalid object id the handler passes an exception class as the response type;
  calling it without its argument raises \<^verbatim>\<open>TypeError\<close>.
\<close>

definition ControllerUnpublishVolume ::
  "'s env \<Rightarrow> ('s agent \<Rightarrow> 's \<Rightarrow> 's) \<Rightarrow> unpublish_volume_request \<Rightarrow> ('s ctl, unit reply) pyprog" where
  "ControllerUnpublishVolume env finalize request =
     handle_common_exceptions
       (bnd (lift (validate_unpublish_volume_request (en_loads env) request)) (\<lambda>_.
          try_except
            (bnd (lift (get_volume_id_info (uv_volume_id request))) (\<lambda>i.
             bnd (lift (NodeIdInfo (uv_node_id request))) (\<lambda>(node_name, initiators).
             bnd (lift (get_array_connection_info_from_secrets (en_loads env) (uv_secrets request)
                    None (oi_system_id i))) (\<lambda>info.
             bnd (with_mediator env finalize info (Some (oi_array_type i)) (\<lambda>array_mediator.
                    unmap_volume_by_initiators (en_retry env) array_mediator (oi_object_id i) initiators))
               (\<lambda>_. ret empty_reply)))))
            (\<lambda>ex. if is_ObjectIdError ex then raise TypeError
                  else if is_VolumeAlreadyUnmapped ex \<or> is_ObjectNotFound ex then ret empty_reply
                  else raise ex)))"

section \<open>Snapshots\<close>

definition create_snapshot_on ::
  "'s env \<Rightarrow> create_snapshot_request \<Rightarrow> string option \<Rightarrow> string option \<Rightarrow> string \<Rightarrow> 's mediator
   \<Rightarrow> ('s, create_snapshot_response reply) pyprog" where
  "create_snapshot_on env request prefix pool volume_id med =
     bnd (lift (get_snapshot_final_name env prefix (cs_name request) med)) (\<lambda>snapshot_final_name.
     bnd (get_snapshot med volume_id snapshot_final_name pool) (\<lambda>existing.
     bnd (case existing of
            Some sn \<Rightarrow>
              if snap_source_volume_id sn \<noteq> Some volume_id then
                ret (Inl (build_error_response
                  (SnapshotWrongVolumeError_message snapshot_final_name
                     (str_option (snap_source_volume_id sn)) volume_id) ALREADY_EXISTS))
              else ret (Inr sn)
          | None \<Rightarrow> bnd (create_snapshot med volume_id snapshot_final_name pool) (\<lambda>sn. ret (Inr sn))) (\<lambda>r.
       case r of
         Inl early \<Rightarrow> ret early
       | Inr sn \<Rightarrow>
           (\<lambda>s. (Inr \<lparr>rp_code = None, rp_details = NoDetails,
                  rp_body = Some (generate_csi_create_snapshot_response (en_now env s) sn
                    (cs_source_volume_id request))\<rparr>, s)))))"

fun create_snapshot_status :: "exc \<Rightarrow> status_code option" where
  "create_snapshot_status (ObjectIdError _ _) = Some INVALID_ARGUMENT"
| "create_snapshot_status (SnapshotSourcePoolMismatch _ _) = Some INVALID_ARGUMENT"
| "create_snapshot_status (SnapshotAlreadyExists _ _) = Some ALREADY_EXISTS"
| "create_snapshot_status (NotEnoughSpaceInPool _) = Some RESOURCE_EXHAUSTED"
| "create_snapshot_status _ = None"

definition CreateSnapshot ::
  "'s env \<Rightarrow> ('s agent \<Rightarrow> 's \<Rightarrow> 's) \<Rightarrow> create_snapshot_request
   \<Rightarrow> ('s ctl, create_snapshot_response reply) pyprog" where
  "CreateSnapshot env finalize request =
     handle_common_exceptions
       (bnd (lift (validate_create_snapshot_request (en_loads env) request)) (\<lambda>_.
          try_except
            (bnd (lift (get_volume_id_info (cs_source_volume_id request))) (\<lambda>i.
             bnd (lift (get_array_connection_info_from_secrets (en_loads env) (cs_secrets request)
                    None (oi_system_id i))) (\<lambda>info.
             bnd (lift (get_snapshot_parameters (en_loads env) (cs_parameters request) (ci_system_id info)))
               (\<lambda>snapshot_parameters.
             bnd (lift (parameter_text (op_pool snapshot_parameters))) (\<lambda>pool.
             bnd (lift (parameter_text (op_prefix snapshot_parameters))) (\<lambda>prefix.
               with_mediator env finalize info (Some (oi_array_type i))
                 (create_snapshot_on env request prefix pool (oi_object_id i))))))))
            (\<lambda>ex. case create_snapshot_status ex of
                    Some status \<Rightarrow> ret (handle_exception ex status)
                  | None \<Rightarrow> raise ex)))"

definition delete_snapshot_on :: "string \<Rightarrow> 's mediator \<Rightarrow> ('s, unit reply) pyprog" where
  "delete_snapshot_on snapshot_id med =
     try_except (bnd (delete_snapshot med snapshot_id) (\<lambda>_. ret empty_reply))
       (\<lambda>ex. if is_ObjectNotFound ex then ret empty_reply else raise ex)"

definition DeleteSnapshot ::
  "'s env \<Rightarrow> ('s agent \<Rightarrow> 's \<Rightarrow> 's) \<Rightarrow> delete_snapshot_request \<Rightarrow> ('s ctl, unit reply) pyprog" where
  "DeleteSnapshot env finalize request =
     handle_common_exceptions
       (bnd (lift (validate_delete_snapshot_request (en_loads env) request)) (\<lambda>_.
          try_except
            (case get_snapshot_id_info (ds_snapshot_id request) of
               Inl ex \<Rightarrow> if is_ObjectIdError ex then ret empty_reply else raise ex
             | Inr i \<Rightarrow>
                 bnd (lift (get_array_connection_info_from_secrets (en_loads env) (ds_secrets request)
                        None (oi_system_id i))) (\<lambda>info.
                   with_mediator env finalize info (Some (oi_array_type i))
                     (delete_snapshot_on (oi_object_id i))))
            (\<lambda>ex. if is_ObjectNotFound ex
                  then ret \<lparr>rp_code = Some OK, rp_details = NoDetails, rp_body = None\<rparr>
                  else raise ex)))"

section \<open>Expanding a volume\<close>

definition expand_volume_on ::
  "expand_volume_request \<Rightarrow> string \<Rightarrow> 's mediator \<Rightarrow> ('s, expand_volume_response reply) pyprog" where
  "expand_volume_on request volume_id med =
     (let required_bytes = requested_bytes (ev_required_bytes request) in
      bnd (get_object_by_id med volume_id VOLUME_TYPE) (\<lambda>volume_before_expand.
        case volume_before_expand of
          None \<Rightarrow> raise (ObjectNotFoundError volume_id)
        | Some before \<Rightarrow>
            if required_bytes \<le> object_capacity before then
              ret \<lparr>rp_code = Some OK, rp_details = NoDetails,
                   rp_body = Some (generate_csi_expand_volume_response (object_capacity before) False)\<rparr>
            else if maximal_volume_size_in_bytes med < required_bytes then
              ret (build_error_response
                (SizeOutOfRangeError_message (str_int required_bytes)
                   (str_int (maximal_volume_size_in_bytes med))) OUT_OF_RANGE)
            else
              bnd (expand_volume med volume_id required_bytes) (\<lambda>_.
              bnd (get_object_by_id med volume_id VOLUME_TYPE) (\<lambda>volume_after_expand.
                case volume_after_expand of
                  None \<Rightarrow> raise (ObjectNotFoundError volume_id)
                | Some after \<Rightarrow>
                    ret \<lparr>rp_code = None, rp_details = NoDetails,
                         rp_body = Some (generate_csi_expand_volume_response (object_capacity after) True)\<rparr>))))"

definition ControllerExpandVolume ::
  "'s env \<Rightarrow> ('s agent \<Rightarrow> 's \<Rightarrow> 's) \<Rightarrow> expand_volume_request
   \<Rightarrow> ('s ctl, expand_volume_response reply) pyprog" where
  "ControllerExpandVolume env finalize request =
     handle_common_exceptions
       (bnd (lift (validate_expand_volume_request (en_loads env) request)) (\<lambda>_.
          case get_volume_id_info (ev_volume_id request) of
            Inl ex \<Rightarrow>
              if is_ObjectIdError ex then ret (handle_exception ex INVALID_ARGUMENT) else raise ex
          | Inr i \<Rightarrow>
              try_except
                (bnd (lift (get_array_connection_info_from_secrets (en_loads env) (ev_secrets request)
                        None (oi_system_id i))) (\<lambda>info.
                   with_mediator env finalize info (Some (oi_array_type i))
                     (expand_volume_on request (oi_object_id i))))
                (\<lambda>ex. if is_NotEnoughSpace ex then ret (handle_exception ex RESOURCE_EXHAUSTED)
                      else raise ex)))"

end
