(* ===== verification/SvcProofs.thy ===== *)
theory SvcProofs
  imports Svc Mediator
begin

text \<open>
  What the SVC mediator does, for an arbitrary client: the size it asks for, the LUN it
  chooses, what it refuses to delete, how a snapshot is rolled back, and which host it finds.
  A statement that follows the client's answers names the worlds between the calls, so that
  equality of the final world says that no further command was sent.
\<close>

section \<open>Following a run\<close>

lemma except_cli_Inr: "m s = (Inr x, s') \<Longrightarrow> except_cli m h s = (Inr x, s')"
  by (simp add: except_cli_def run)

lemma except_cli_handled:
  "m s = (Inl (LibExc l), s') \<Longrightarrow> is_a l Svc_CommandExecutionError \<or> is_a l Svc_CLIFailureError \<Longrightarrow>
   except_cli m h s = h l s'"
  by (auto simp: except_cli_def run)

lemma except_cli_passed:
  "m s = (Inl e, s') \<Longrightarrow> \<not> is_lib_a [Svc_CommandExecutionError, Svc_CLIFailureError] e \<Longrightarrow>
   except_cli m h s = (Inl e, s')"
  by (cases e) (auto simp: except_cli_def run)

definition cli_error :: "lib_exc \<Rightarrow> bool" where
  "cli_error l \<longleftrightarrow> (is_a l Svc_CommandExecutionError \<or> is_a l Svc_CLIFailureError) \<and>
     is_warning_message (lx_message l) = Inr False"

lemma unless_warning_error: "cli_error l \<Longrightarrow> unless_warning l m after = bnd m (\<lambda>_. after)"
  by (simp add: unless_warning_def cli_error_def)

lemma cli_error_caught:
  "cli_error l \<Longrightarrow> m s = (Inl (LibExc l), s') \<Longrightarrow> except_cli m h s = h l s'"
  by (auto simp: cli_error_def intro: except_cli_handled)

lemmas svc_run = step_rules lib_Inr lib_Inl except_cli_Inr cli_error_caught unless_warning_error

text \<open>What a handler raises, a later \<open>except_cli\<close> of the same kind lets pass.\<close>

lemma yields_except_cli:
  "yields Q G m \<Longrightarrow>
   (\<And>l. yields Q F (h l)) \<Longrightarrow>
   (\<And>e. G e \<Longrightarrow> \<not> is_lib_a [Svc_CommandExecutionError, Svc_CLIFailureError] e \<Longrightarrow> F e) \<Longrightarrow>
   yields Q F (except_cli m h)"
  unfolding except_cli_def
  by (erule yields_try_except) (auto split: exc.split intro!: spec_rules)

section \<open>Sizes\<close>

text \<open>
  The size a volume is created with, or expanded to, is the smallest multiple of the block size
  of 512 bytes that is not below the requested one.
\<close>

theorem svc_size_rounding:
  "512 dvd svc_convert_size_bytes n \<and> n \<le> svc_convert_size_bytes n \<and>
   (\<forall>m. 512 dvd m \<longrightarrow> n \<le> m \<longrightarrow> svc_convert_size_bytes n \<le> m)"
proof -
  obtain q r where n: "n = 512 * q + r" "0 \<le> r" "r < 512"
    using div_mult_mod_eq [of n 512] by (metis mult.commute pos_mod_bound pos_mod_sign zero_less_numeral)
  then have "n mod 512 = r" by simp
  then have eq: "svc_convert_size_bytes n = 512 * (if r = 0 then q else q + 1)"
    using n by (simp add: svc_convert_size_bytes_def SVC_BLOCK_SIZE_IN_BYTES_def)
  have least: "svc_convert_size_bytes n \<le> 512 * k" if "n \<le> 512 * k" for k
  proof (cases "r = 0")
    case False
    with n that have "q < k" by linarith
    with False eq show ?thesis by simp
  qed (use n that eq in simp)
  have "n \<le> svc_convert_size_bytes n" and "512 dvd svc_convert_size_bytes n"
    using eq n by auto
  then show ?thesis
    by (intro conjI allI impI) (auto elim: dvdE intro: least simp del: dvd_imp_mod_0)
qed

lemma svc_size_rounding_witness:
  "512 dvd (1024::int) \<and> 1000 \<le> (1024::int) \<and> svc_convert_size_bytes 1000 \<le> 1024"
  using svc_size_rounding [of 1000] by auto

section \<open>LUNs\<close>

lemma find_map: "find P (map f xs) = map_option f (find (\<lambda>x. P (f x)) xs)"
  by (induction xs) auto

lemma svc_free_lun_find:
  "svc_free_lun used =
     (case find (\<lambda>k. str_nat k \<notin> set used) [0..<512] of
        None \<Rightarrow> None | Some k \<Rightarrow> Some (str_nat k))"
  by (simp add: svc_free_lun_def SVC_MIN_LUN_NUMBER_def SVC_MAX_LUN_NUMBER_def find_map
      split: option.split)

lemma find_upt_least:
  "find P [0..<n] = Some k \<Longrightarrow> k < n \<and> P k \<and> (\<forall>j<k. \<not> P j)"
  by (auto simp: find_Some_iff)

lemma str_nat_nonempty [simp]: "str_nat k \<noteq> []"
  by (simp add: str_nat_def)

text \<open>
  The LUN chosen for a host is the smallest of 0 to 511 that the array does not report as in
  use for it; the volume is mapped with exactly that LUN, and when all 512 are in use nothing
  is mapped and \<^verbatim>\<open>NoAvailableLunError\<close> is raised.
\<close>

theorem svc_lun_choice:
  assumes volume: "sc_lsvdisk_filter cl (''vdisk_UID='' @ vid) s = (Inr (Some v), s1)"
    and "vd_name v \<noteq> []"
    and used: "sc_lshostvdiskmap cl h s1 = (Inr maps, s2)"
  shows "case find (\<lambda>k. str_nat k \<notin> set (map (\<lambda>m. dict_get m ''SCSI_id'' '''') maps)) [0..<512] of
      None \<Rightarrow> svc_map_volume cl vid h s = (Inl (NoAvailableLunError h), s2)
    | Some k \<Rightarrow>
        sc_mkvdiskhostmap cl h (vd_name v) (str_nat k) s2 = (Inr (), s3) \<longrightarrow>
        svc_map_volume cl vid h s = (Inr (LunStr (str_nat k)), s3)"
proof -
  have name: "svc_get_volume_name_by_wwn cl vid s = (Inr (vd_name v), s1)"
    using assms
    by (simp add: svc_get_volume_name_by_wwn_def svc_get_volume_name_by_wwn_if_exists_def
        svc_get_cli_volume_by_wwn_def svc_run)
  have luns: "svc_get_used_lun_ids_from_host cl h s1 =
      (Inr (map (\<lambda>m. dict_get m ''SCSI_id'' '''') maps), s2)"
    using used by (simp add: svc_get_used_lun_ids_from_host_def svc_run)
  show ?thesis
    by (auto simp: svc_map_volume_def svc_get_first_free_lun_def svc_free_lun_find name luns svc_run split: option.split)
qed

text \<open>A client all of whose commands succeed and that knows one volume, for the witnesses.\<close>

definition ok :: "'a \<Rightarrow> ('s, 'a) lib_call" where
  "ok x = (\<lambda>s. (Inr x, s))"

lemma ok_apply [simp]: "ok x s = (Inr x, s)"
  by (simp add: ok_def)

definition sample_vdisk :: svc_vdisk where
  "sample_vdisk =
     \<lparr>vd_name = ''v1'', vd_uid = ''6005'', vd_capacity = ''1024'', vd_mdisk_grp_name = ''p'',
      vd_FC_id = '''', vd_se_copy = ''no'', vd_compressed_copy = ''no'', vd_deduplicated_copy = None\<rparr>"

text \<open>The world of the sample client is the list of the commands that change the array.\<close>

definition sent :: "string \<Rightarrow> (string list, unit) lib_call" where
  "sent c = (\<lambda>s. (Inr (), s @ [c]))"

lemma sent_apply [simp]: "sent c s = (Inr (), s @ [c])"
  by (simp add: sent_def)

definition sample_client :: "string list svc_client" where
  "sample_client =
     \<lparr>sc_close = ok (), sc_is_active = ok True, sc_lssystem = ok [],
      sc_lsvdisk_by_id = (\<lambda>_. ok (Some sample_vdisk)),
      sc_lsvdisk_filter = (\<lambda>_. ok (Some sample_vdisk)),
      sc_lsfcmap = (\<lambda>_. ok []),
      sc_expandvdisksize = (\<lambda>v n. sent (''expandvdisksize '' @ v)),
      sc_mkvolume = (\<lambda>a. sent (''mkvolume '' @ mv_name a)),
      sc_rmvolume = (\<lambda>v. sent (''rmvolume '' @ v)),
      sc_mkfcmap = (\<lambda>v w r. sent (''mkfcmap '' @ v @ '' '' @ w)),
      sc_startfcmap = (\<lambda>f. sent (''startfcmap '' @ f)),
      sc_stopfcmap = (\<lambda>f. sent (''stopfcmap '' @ f)),
      sc_rmfcmap = (\<lambda>f b. sent (''rmfcmap '' @ f)),
      sc_lshost = ok [], sc_send_raw_command = (\<lambda>_. ok (None, None)),
      sc_lsvdiskhostmap = (\<lambda>_. ok []),
      sc_lshostvdiskmap = (\<lambda>_. ok [[(''SCSI_id'', ''0'')], [(''SCSI_id'', ''2'')]]),
      sc_mkvdiskhostmap = (\<lambda>h v l. sent (''mkvdiskhostmap '' @ l)),
      sc_rmvdiskhostmap = (\<lambda>h v. sent (''rmvdiskhostmap '' @ v)),
      sc_lsnode = ok [], sc_lsportip = (\<lambda>_. ok []), sc_lsfabric = (\<lambda>_. ok [])\<rparr>"

lemma upt_three: "[0..<512] = 0 # 1 # 2 # [3..<512]"
  by (simp add: upt_conv_Cons)

lemma str_nat_digits [simp]:
  "str_nat 0 = ''0''" "str_nat 1 = ''1''" "str_nat 2 = ''2''" "str_nat (Suc 0) = ''1''"
  by code_simp+

lemma svc_lun_choice_witness:
  "svc_map_volume sample_client ''6005'' ''h1'' [] = (Inr (LunStr ''1''), [''mkvdiskhostmap 1''])"
  using svc_lun_choice [of sample_client "''6005''" "[]" sample_vdisk "[]" "''h1''"
      "[[(''SCSI_id'', ''0'')], [(''SCSI_id'', ''2'')]]" "[]" "[''mkvdiskhostmap 1'']"]
  by (simp add: sample_client_def sample_vdisk_def upt_three dict_get_def del: upt_rec_numeral)

section \<open>Deleting\<close>

text \<open>
  A volume that is the source of a FlashCopy mapping that is still copying, or of a snapshot
  (copy rate 0), is not deleted, and none of its mappings is: the error names the first such
  mapping, and no command is sent after the mappings were listed.
\<close>

theorem svc_delete_refused:
  assumes "sc_lsvdisk_filter cl (''vdisk_UID='' @ vid) s = (Inr (Some v), s1)"
    and "sc_lsfcmap cl (''target_vdisk_name='' @ vd_name v) s1 = (Inr ts, s2)"
    and "sc_lsfcmap cl (''source_vdisk_name='' @ vd_name v) s2 = (Inr ss, s3)"
    and "f \<in> set ss" and "fc_status f \<noteq> ''idle_or_copied'' \<or> fc_copy_rate f = ''0''"
  shows "svc_delete_volume cl vid s =
    (Inl (ObjectIsStillInUseError (vd_name v) (map fc_text (filter fcmap_unfinished ss))), s3)"
proof -
  have unfinished: "filter fcmap_unfinished ss \<noteq> []" and "ss \<noteq> []"
    using assms(4,5) by (auto simp: filter_empty_conv fcmap_unfinished_def FCMAP_STATUS_DONE_def)
  then show ?thesis
    using assms(1-3)
    by (simp add: svc_delete_volume_def svc_get_cli_volume_by_wwn_def svc_delete_object_def
        svc_get_fcmap_as_target_if_exists_def svc_get_fcmaps_as_source_if_exist_def
        svc_get_fcmaps_def ENDPOINT_TYPE_TARGET_def ENDPOINT_TYPE_SOURCE_def
        svc_safe_delete_fcmaps_def svc_run)
qed

definition sample_fcmap :: "string \<Rightarrow> svc_fcmap" where
  "sample_fcmap rate =
     \<lparr>fc_id = ''7'', fc_source_vdisk_name = ''v1'', fc_status = ''idle_or_copied'',
      fc_copy_rate = rate, fc_text = ''fcmap 7''\<rparr>"

lemma svc_delete_refused_witness:
  "svc_delete_volume (sample_client\<lparr>sc_lsfcmap := \<lambda>_. ok [sample_fcmap ''0'']\<rparr>) ''6005'' [] =
     (Inl (ObjectIsStillInUseError ''v1'' [''fcmap 7'']), [])"
  using svc_delete_refused [of "sample_client\<lparr>sc_lsfcmap := \<lambda>_. ok [sample_fcmap ''0'']\<rparr>" "''6005''"
      "[]" sample_vdisk "[]" "[sample_fcmap ''0'']" "[]" "[sample_fcmap ''0'']" "[]" "sample_fcmap ''0''"]
  by (simp add: sample_client_def sample_vdisk_def sample_fcmap_def fcmap_unfinished_def)

section \<open>Snapshots\<close>

text \<open>A command error, and one whose message is only a warning.\<close>

definition cli_refusal :: "lib_exc \<Rightarrow> bool" where
  "cli_refusal l \<longleftrightarrow> is_a l Svc_CommandExecutionError \<or> is_a l Svc_CLIFailureError"

definition cli_warning :: "lib_exc \<Rightarrow> bool" where
  "cli_warning l \<longleftrightarrow> cli_refusal l \<and> is_warning_message (lx_message l) = Inr True"

text \<open>
  The commands that undo a snapshot's target in the world \<open>t\<close>, and the world after them: the target
  is looked up by its name; when it is there, its mapping is removed, if it has one, where a refusal
  is only logged, and then the volume, and this is carried out.  There is nothing to remove when
  the array finds no volume, or answers the lookup with a command error.
\<close>

definition target_undone :: "'s svc_client \<Rightarrow> string \<Rightarrow> 's \<Rightarrow> 's \<Rightarrow> bool" where
  "target_undone cl name t t' \<longleftrightarrow>
     (\<exists>v t1 t2 z. sc_lsvdisk_by_id cl name t = (Inr (Some v), t1) \<and>
        (if vd_FC_id v = [] then t2 = t1
         else \<exists>y. sc_rmfcmap cl (vd_FC_id v) False t1 = (y, t2) \<and> (\<forall>l. y = Inl l \<longrightarrow> cli_refusal l)) \<and>
        sc_rmvolume cl (vd_name v) t2 = (z, t') \<and> (\<forall>l. z = Inl l \<longrightarrow> cli_warning l)) \<or>
     (\<exists>x. sc_lsvdisk_by_id cl name t = (x, t') \<and> (case x of Inr y \<Rightarrow> y = None | Inl l \<Rightarrow> cli_refusal l))"

text \<open>One attempt of \<^verbatim>\<open>_rollback_create_snapshot\<close>.\<close>

abbreviation undo_snapshot :: "'s svc_client \<Rightarrow> string \<Rightarrow> ('s, unit) pyprog" where
  "undo_snapshot cl name \<equiv>
     bnd (svc_delete_unstarted_fcmap_if_exists cl name) (svc_delete_target_volume_if_exists cl)"

lemma except_cli_unit_Inr:
  assumes "except_cli (lib c) (\<lambda>ex. unless_warning ex (m ex) (ret ())) s = (Inr (), s')"
  shows "\<exists>y s1. c s = (y, s1) \<and> (\<forall>l. y = Inl l \<longrightarrow> cli_refusal l \<and>
      (cli_warning l \<and> s' = s1 \<or> (\<exists>u. m l s1 = (Inr u, s')))) \<and> ((\<exists>u. y = Inr u) \<longrightarrow> s' = s1)"
  using assms
  by (cases "c s")
    (auto simp: except_cli_def lib_def run unless_warning_def cli_refusal_def cli_warning_def
      split: sum.split_asm if_split_asm prod.split_asm)

lemma undo_snapshot_Inr:
  assumes "undo_snapshot cl name t = (Inr u, t')"
  shows "target_undone cl name t t'"
proof -
  obtain x t1 where x: "svc_delete_unstarted_fcmap_if_exists cl name t = (Inr x, t1)"
    and drop: "svc_delete_target_volume_if_exists cl x t1 = (Inr u, t')"
    using assms by (auto simp: run split: prod.split_asm sum.split_asm)
  from x obtain t0 where got: "svc_get_cli_volume cl name False t = (Inr x, t0)"
    and fcmap: "(case x of Some v \<Rightarrow> if vd_FC_id v \<noteq> [] then svc_delete_fcmap cl (vd_FC_id v) False else ret ()
      | None \<Rightarrow> ret ()) t0 = (Inr (), t1)"
    by (auto simp: svc_delete_unstarted_fcmap_if_exists_def svc_get_cli_volume_if_exists_def run
        split: prod.split_asm sum.split_asm)
  show ?thesis
  proof (cases x)
    case None
    then have "t' = t0" using fcmap drop by (simp add: svc_delete_target_volume_if_exists_def run)
    moreover have "\<exists>y. sc_lsvdisk_by_id cl name t = (y, t0) \<and> (case y of Inr z \<Rightarrow> z = None | Inl l \<Rightarrow> cli_refusal l)"
      using got None
      by (cases "sc_lsvdisk_by_id cl name t")
        (auto simp: svc_get_cli_volume_def except_cli_def lib_def run unless_warning_def cli_refusal_def
          split: sum.split_asm if_split_asm prod.split_asm)
    ultimately show ?thesis by (auto simp: target_undone_def)
  next
    case (Some v)
    have found: "sc_lsvdisk_by_id cl name t = (Inr (Some v), t0)"
      using got Some
      by (cases "sc_lsvdisk_by_id cl name t")
        (auto simp: svc_get_cli_volume_def except_cli_def lib_def run unless_warning_def
          split: sum.split_asm if_split_asm prod.split_asm)
    have "if vd_FC_id v = [] then t1 = t0
        else \<exists>y. sc_rmfcmap cl (vd_FC_id v) False t0 = (y, t1) \<and> (\<forall>l. y = Inl l \<longrightarrow> cli_refusal l)"
      using fcmap Some except_cli_unit_Inr [of "sc_rmfcmap cl (vd_FC_id v) False" "\<lambda>_. ret ()" t0 t1]
      by (cases "sc_rmfcmap cl (vd_FC_id v) False t0"; cases "fst (sc_rmfcmap cl (vd_FC_id v) False t0)")
        (auto simp: svc_delete_fcmap_def run)
    moreover have "\<exists>z. sc_rmvolume cl (vd_name v) t1 = (z, t') \<and> (\<forall>l. z = Inl l \<longrightarrow> cli_warning l)"
    proof -
      from drop Some have "except_cli (lib (sc_rmvolume cl (vd_name v)))
          (\<lambda>ex. unless_warning ex (raise (LibExc ex)) (ret ())) t1 = (Inr (), t')"
        by (simp add: svc_delete_target_volume_if_exists_def svc_delete_volume_by_name_def)
      from except_cli_unit_Inr [OF this] show ?thesis
        by (cases "sc_rmvolume cl (vd_name v) t1"; cases "fst (sc_rmvolume cl (vd_name v) t1)") (auto simp: raise_def)
    qed
    ultimately show ?thesis using found unfolding target_undone_def by blast
  qed
qed

text \<open>
  C38: svc_snapshot_rolled_back
  When creating the target volume of a snapshot or its FlashCopy mapping fails with a command
  error, the target is removed before that error is reported: at most five attempts are made, the
  next one only when the one before was lost to an exception of the client that is retried; once one
  of them carries the removal through, the mapping first, when there is one, and then the volume,
  or finds no target, that error is reported.  (A command error of the lookup counts as no target,
  and a refusal to remove the mapping is only logged.)  Otherwise, after the fifth lost attempt or at an
  exception that is not retried, the exception of the last attempt is reported instead.
\<close>

theorem svc_snapshot_rolled_back:
  assumes "retry_law retry"
    and "bnd (svc_create_similar_volume cl ep src name pool)
        (\<lambda>_. svc_create_and_start_fcmap cl (vd_name src) name False) s = (Inl (LibExc ex), s1)"
    and "cli_refusal ex"
    and "svc_create_snapshot_volume retry cl ep name src pool s = (r, s')"
  shows "\<exists>k<5. (\<forall>i<k. \<exists>e. fst (undo_snapshot cl name (attempt (undo_snapshot cl name) i s1)) = Inl e \<and>
        svc_rollback_retried e) \<and>
      (case undo_snapshot cl name (attempt (undo_snapshot cl name) k s1) of
         (Inr u, t) \<Rightarrow> r = Inl (LibExc ex) \<and> s' = t \<and>
           target_undone cl name (attempt (undo_snapshot cl name) k s1) s'
       | (Inl e, t) \<Rightarrow> r = Inl e \<and> s' = t \<and> (svc_rollback_retried e \<longrightarrow> k = 4))"
proof -
  let ?undo = "undo_snapshot cl name"
  from retry_settles [OF assms(1), where p = svc_rollback_retried and m = ?undo and n = 5 and s = s1]
  obtain k where k: "k < 5" "\<forall>i<k. \<exists>e. fst (?undo (attempt ?undo i s1)) = Inl e \<and> svc_rollback_retried e"
    "\<forall>e. fst (?undo (attempt ?undo k s1)) = Inl e \<longrightarrow> svc_rollback_retried e \<longrightarrow> Suc k = 5"
    "retry svc_rollback_retried 5 ?undo s1 = ?undo (attempt ?undo k s1)"
    by auto
  have "svc_create_snapshot_volume retry cl ep name src pool s =
      bnd (svc_rollback_create_snapshot retry cl name) (\<lambda>_. raise (LibExc ex)) s1"
    unfolding svc_create_snapshot_volume_def
    by (rule except_cli_handled) (rule assms(2), rule assms(3) [unfolded cli_refusal_def])
  with assms(4) k(4) have out: "(r, s') = bnd ?undo (\<lambda>_. raise (LibExc ex)) (attempt ?undo k s1)"
    by (simp add: svc_rollback_create_snapshot_def bnd_def)
  obtain q t where q: "?undo (attempt ?undo k s1) = (q, t)" by (metis surj_pair)
  show ?thesis
  proof (intro exI [of _ k] conjI)
    show "case ?undo (attempt ?undo k s1) of
        (Inr u, t) \<Rightarrow> r = Inl (LibExc ex) \<and> s' = t \<and> target_undone cl name (attempt ?undo k s1) s'
      | (Inl e, t) \<Rightarrow> r = Inl e \<and> s' = t \<and> (svc_rollback_retried e \<longrightarrow> k = 4)"
    proof (cases q)
      case (Inl e)
      then show ?thesis using out q k(3) by (auto simp: bnd_Inl)
    next
      case (Inr u)
      then show ?thesis using out q undo_snapshot_Inr [OF q [unfolded Inr]] by (simp add: bnd_Inr)
    qed
  qed (use k in auto)
qed

definition sample_cli_error :: "string \<Rightarrow> lib_exc" where
  "sample_cli_error code =
     \<lparr>lx_mro = [Svc_CLIFailureError], lx_message = [CHR 0x22] @ code @ '' text'' @ [CHR 0x22],
      lx_details = '''', lx_text = code\<rparr>"

definition sample_lost :: lib_exc where
  "sample_lost =
     \<lparr>lx_mro = [Svc_StorageArrayClientException], lx_message = ''lost'', lx_details = '''', lx_text = ''lost''\<rparr>"

text \<open>\<^verbatim>\<open>mkfcmap\<close> fails, and the connection is lost for the first command after it.\<close>

definition flaky_client :: "string list svc_client" where
  "flaky_client = sample_client\<lparr>
     sc_mkfcmap := (\<lambda>_ _ _ s. (Inl (sample_cli_error ''CMMVC1E''), s @ [''failed''])),
     sc_lsvdisk_by_id := (\<lambda>_ s. if s \<noteq> [] \<and> last s = ''failed'' then (Inl sample_lost, s @ [''lost''])
                                else (Inr (Some sample_vdisk), s))\<rparr>"

lemma sample_capacity: "py_int ''1024'' = Inr 1024"
  by code_simp

lemma sample_cli_error_simps:
  "is_a (sample_cli_error code) Svc_CLIFailureError"
  "cli_error (sample_cli_error ''CMMVC1E'')"
  "\<not> contains FCMAP_ALREADY_EXIST (lx_message (sample_cli_error ''CMMVC1E''))"
  by (simp add: is_a_def sample_cli_error_def, code_simp, code_simp)

lemma flaky_fails:
  "bnd (svc_create_similar_volume flaky_client ''ep'' sample_vdisk ''sn'' None)
     (\<lambda>_. svc_create_and_start_fcmap flaky_client (vd_name sample_vdisk) ''sn'' False) [] =
   (Inl (LibExc (sample_cli_error ''CMMVC1E'')), [''mkvolume sn'', ''failed''])"
  using sample_cli_error_simps(2)
  by (simp add: svc_create_similar_volume_def svc_create_cli_volume_def svc_create_and_start_fcmap_def
      svc_create_fcmap_def svc_get_cli_volume_def flaky_client_def sample_client_def sample_vdisk_def
      sample_capacity sample_cli_error_simps build_kwargs_from_parameters_def Let_def run
      except_cli_def unless_warning_error)

lemma flaky_undo:
  "undo_snapshot flaky_client ''sn'' [''mkvolume sn'', ''failed''] =
     (Inl (LibExc sample_lost), [''mkvolume sn'', ''failed'', ''lost''])"
  "undo_snapshot flaky_client ''sn'' [''mkvolume sn'', ''failed'', ''lost''] =
     (Inr (), [''mkvolume sn'', ''failed'', ''lost'', ''rmvolume v1''])"
  by code_simp+

lemma svc_snapshot_rolled_back_witness:
  "svc_create_snapshot_volume retry_loop flaky_client ''ep'' ''sn'' sample_vdisk None [] =
     (Inl (LibExc (sample_cli_error ''CMMVC1E'')), [''mkvolume sn'', ''failed'', ''lost'', ''rmvolume v1'']) \<and>
   target_undone flaky_client ''sn'' [''mkvolume sn'', ''failed'', ''lost'']
     [''mkvolume sn'', ''failed'', ''lost'', ''rmvolume v1'']"
proof -
  let ?undo = "undo_snapshot flaky_client ''sn''"
  let ?run = "svc_create_snapshot_volume retry_loop flaky_client ''ep'' ''sn'' sample_vdisk None []"
  have "cli_refusal (sample_cli_error ''CMMVC1E'')"
    by (simp add: cli_refusal_def sample_cli_error_simps)
  note settled = svc_snapshot_rolled_back [OF retry_loop_law flaky_fails this prod.collapse [symmetric]]
  obtain k where k: "\<forall>i<k. \<exists>e. fst (?undo (attempt ?undo i [''mkvolume sn'', ''failed''])) = Inl e \<and>
        svc_rollback_retried e"
    and out: "case ?undo (attempt ?undo k [''mkvolume sn'', ''failed'']) of
         (Inr u, t) \<Rightarrow> fst ?run = Inl (LibExc (sample_cli_error ''CMMVC1E'')) \<and> snd ?run = t \<and>
           target_undone flaky_client ''sn'' (attempt ?undo k [''mkvolume sn'', ''failed'']) (snd ?run)
       | (Inl e, t) \<Rightarrow> fst ?run = Inl e \<and> snd ?run = t \<and> (svc_rollback_retried e \<longrightarrow> k = 4)"
    using settled by (elim exE conjE)
  have first: "attempt ?undo (Suc 0) [''mkvolume sn'', ''failed''] = [''mkvolume sn'', ''failed'', ''lost'']"
    by (simp add: flaky_undo)
  have "svc_rollback_retried (LibExc sample_lost)" by code_simp
  then have "k \<noteq> 0" using out by (intro notI) (simp add: flaky_undo)
  moreover have "\<not> Suc 0 < k" using k first by (auto simp: flaky_undo)
  ultimately have "k = Suc 0" by simp
  from out [unfolded this first flaky_undo(2) prod.case sum.case]
  have "fst ?run = Inl (LibExc (sample_cli_error ''CMMVC1E''))"
    and s': "snd ?run = [''mkvolume sn'', ''failed'', ''lost'', ''rmvolume v1'']"
    and "target_undone flaky_client ''sn'' [''mkvolume sn'', ''failed'', ''lost''] (snd ?run)"
    by blast+
  then show ?thesis by (metis prod.collapse)
qed

text \<open>
  A snapshot whose name is taken fails with \<^verbatim>\<open>VolumeAlreadyExists\<close>, and the existing volume is left
  alone: nothing is rolled back, no command is sent after \<^verbatim>\<open>mkvolume\<close> was refused.
\<close>

theorem svc_snapshot_existing_target:
  assumes "py_int (vd_capacity src) = Inr n"
    and "sc_mkvolume cl (build_kwargs_from_parameters (Some (get_cli_volume_space_efficiency src))
           (if truthy pool then the pool else vd_mdisk_grp_name src) name (svc_convert_size_bytes n)) s
         = (Inl ex, s1)"
    and "cli_error ex" and "contains OBJ_ALREADY_EXIST (lx_message ex)"
  shows "svc_create_snapshot_volume retry cl ep name src pool s = (Inl (VolumeAlreadyExists name ep), s1)"
proof -
  have "svc_create_similar_volume cl ep src name pool s = (Inl (VolumeAlreadyExists name ep), s1)"
    using assms by (simp add: svc_create_similar_volume_def svc_create_cli_volume_def svc_run)
  then show ?thesis
    unfolding svc_create_snapshot_volume_def by (intro except_cli_passed) (simp_all add: svc_run)
qed

lemma sample_exists:
  "cli_error (sample_cli_error ''CMMVC6035E'')"
  "contains OBJ_ALREADY_EXIST (lx_message (sample_cli_error ''CMMVC6035E''))"
  by code_simp+

lemma svc_snapshot_existing_target_witness:
  "svc_create_snapshot_volume retry_loop
     (sample_client\<lparr>sc_mkvolume := \<lambda>_ s. (Inl (sample_cli_error ''CMMVC6035E''), s)\<rparr>)
     ''ep'' ''sn'' sample_vdisk None [] = (Inl (VolumeAlreadyExists ''sn'' ''ep''), [])"
  by (rule svc_snapshot_existing_target [where n = 1024 and ex = "sample_cli_error ''CMMVC6035E''"])
    (simp_all add: sample_exists sample_capacity sample_vdisk_def)

text \<open>
  The roll-back goes by the name: when \<^verbatim>\<open>mkvolume\<close> is refused for a reason that the code has no
  exception for, a volume that carries the name of the snapshot, and that this call has not
  made, is deleted.
\<close>

theorem svc_rollback_takes_existing:
  assumes "retry_law retry" and "py_int (vd_capacity src) = Inr n"
    and "sc_mkvolume cl (build_kwargs_from_parameters (Some (get_cli_volume_space_efficiency src))
           (if truthy pool then the pool else vd_mdisk_grp_name src) name (svc_convert_size_bytes n)) s
         = (Inl ex, s1)"
    and "cli_error ex"
    and "\<not> any_in [OBJ_ALREADY_EXIST, NAME_NOT_EXIST_OR_MEET_RULES, POOL_NOT_MATCH_VOL_CAPABILITIES,
      NOT_REDUCTION_POOL, NOT_ENOUGH_EXTENTS_IN_POOL_CREATE, NON_ASCII_CHARS, INVALID_NAME, TOO_MANY_CHARS]
      (lx_message ex)"
    and "sc_lsvdisk_by_id cl name s1 = (Inr (Some v), s2)" and "vd_FC_id v = []"
    and "sc_rmvolume cl (vd_name v) s2 = (Inr (), s3)"
  shows "svc_create_snapshot_volume retry cl ep name src pool s = (Inl (LibExc ex), s3)"
proof -
  have "svc_create_similar_volume cl ep src name pool s = (Inl (LibExc ex), s1)"
    using assms(2-5) by (simp add: svc_create_similar_volume_def svc_create_cli_volume_def svc_run any_in_def)
  then have failed: "bnd (svc_create_similar_volume cl ep src name pool)
      (\<lambda>_. svc_create_and_start_fcmap cl (vd_name src) name False) s = (Inl (LibExc ex), s1)"
    by (simp add: svc_run)
  have "bnd (svc_delete_unstarted_fcmap_if_exists cl name) (svc_delete_target_volume_if_exists cl) s1 = (Inr (), s3)"
    using assms(6-8)
    by (simp add: svc_delete_unstarted_fcmap_if_exists_def svc_get_cli_volume_if_exists_def svc_get_cli_volume_def
        svc_delete_target_volume_if_exists_def svc_delete_volume_by_name_def svc_run)
  then have rolled: "svc_rollback_create_snapshot retry cl name s1 = (Inr (), s3)"
    unfolding svc_rollback_create_snapshot_def by (rule retry_success [OF assms(1)])
  have "svc_create_snapshot_volume retry cl ep name src pool s =
      bnd (svc_rollback_create_snapshot retry cl name) (\<lambda>_. raise (LibExc ex)) s1"
    unfolding svc_create_snapshot_volume_def
    by (rule except_cli_handled) (rule failed, use assms(4) in \<open>simp add: cli_error_def\<close>)
  then show ?thesis by (simp add: bnd_Inr rolled)
qed

lemma sample_unknown_error:
  "cli_error (sample_cli_error ''CMMVC1E'') \<and>
   \<not> any_in [OBJ_ALREADY_EXIST, NAME_NOT_EXIST_OR_MEET_RULES, POOL_NOT_MATCH_VOL_CAPABILITIES,
      NOT_REDUCTION_POOL, NOT_ENOUGH_EXTENTS_IN_POOL_CREATE, NON_ASCII_CHARS, INVALID_NAME, TOO_MANY_CHARS]
      (lx_message (sample_cli_error ''CMMVC1E''))"
  by code_simp

lemma svc_rollback_takes_existing_witness:
  "svc_create_snapshot_volume retry_loop
     (sample_client\<lparr>sc_mkvolume := \<lambda>_ s. (Inl (sample_cli_error ''CMMVC1E''), s)\<rparr>)
     ''ep'' ''v1'' (sample_vdisk\<lparr>vd_name := ''v2''\<rparr>) None [] =
   (Inl (LibExc (sample_cli_error ''CMMVC1E'')), [''rmvolume v1''])"
  by (rule svc_rollback_takes_existing [where n = 1024 and v = "sample_vdisk\<lparr>vd_FC_id := []\<rparr>"])
    (use sample_unknown_error in
      \<open>simp_all add: retry_loop_law sample_capacity sample_vdisk_def sample_client_def\<close>)

section \<open>Hosts\<close>

definition iscsi_matches :: "initiators \<Rightarrow> host list \<Rightarrow> string list" where
  "iscsi_matches i hosts =
     map (the \<circ> h_name) (filter (\<lambda>h. is_array_iscsi_iqns_match i (h_iscsi_names h)) hosts)"

definition fc_matches :: "initiators \<Rightarrow> host list \<Rightarrow> string list" where
  "fc_matches i hosts =
     map (the \<circ> h_name) (filter (\<lambda>h. is_array_wwns_match i (h_wwns h)) hosts)"

definition last_opt :: "'a option \<Rightarrow> 'a list \<Rightarrow> 'a option" where
  "last_opt d xs = (if xs = [] then d else Some (last xs))"

lemma svc_match_hosts_last:
  assumes "\<forall>h \<in> set hosts. truthy (h_name h)"
  shows "svc_match_hosts i hosts =
    (last_opt None (iscsi_matches i hosts), last_opt None (fc_matches i hosts))"
proof -
  have "fold (\<lambda>host (iscsi_host, fc_host).
       ((if is_array_iscsi_iqns_match i (h_iscsi_names host) then h_name host else iscsi_host),
        (if is_array_wwns_match i (h_wwns host) then h_name host else fc_host))) hosts (a, b) =
     (last_opt a (iscsi_matches i hosts), last_opt b (fc_matches i hosts))" for a b
    using assms
    by (induction hosts arbitrary: a b)
      (auto simp: last_opt_def iscsi_matches_def fc_matches_def elim!: truthyE)
  then show ?thesis by (simp add: svc_match_hosts_def)
qed

text \<open>
  C31: svc_host_lookup
  Reading the detailed host list and matching it: among hosts that all have a name, the last
  one with the node's IQN and the last one with one of its WWNs are taken; the result names
  the host with the connectivities it matched, both when they agree, an error when they are
  two different hosts, and \<^verbatim>\<open>HostNotFoundError\<close> exactly when no host matched.  Two hosts that
  match in the same way are not noticed.
\<close>

theorem svc_host_lookup:
  assumes "svc_get_detailed_hosts_list cl s = (Inr hosts, s')"
    and "\<forall>h \<in> set hosts. truthy (h_name h)"
  shows "svc_get_host_by_host_identifiers cl i s =
    ((case (iscsi_matches i hosts, fc_matches i hosts) of
        ([], []) \<Rightarrow> Inl (HostNotFoundError (initiators_str i))
      | (a # as, []) \<Rightarrow> Inr (last (a # as), [''iscsi''])
      | ([], b # bs) \<Rightarrow> Inr (last (b # bs), [''fc''])
      | (a # as, b # bs) \<Rightarrow>
          if last (a # as) = last (b # bs) then Inr (last (a # as), [''iscsi'', ''fc''])
          else Inl (MultipleHostsFoundError (initiators_str i) (last (b # bs)))), s')"
proof -
  have "x \<noteq> []" if "x \<in> set (iscsi_matches i hosts) \<union> set (fc_matches i hosts)" for x
    using that assms(2) by (auto simp: iscsi_matches_def fc_matches_def elim!: truthyE)
  then have ne: "\<And>a as. iscsi_matches i hosts = a # as \<Longrightarrow> last (a # as) \<noteq> []"
    "\<And>a as. fc_matches i hosts = a # as \<Longrightarrow> last (a # as) \<noteq> []"
    by (metis UnI1 last_in_set list.discI, metis UnI2 last_in_set list.discI)
  have "svc_choose_host i (svc_match_hosts i hosts) =
    (case (iscsi_matches i hosts, fc_matches i hosts) of
        ([], []) \<Rightarrow> Inl (HostNotFoundError (initiators_str i))
      | (a # as, []) \<Rightarrow> Inr (last (a # as), [''iscsi''])
      | ([], b # bs) \<Rightarrow> Inr (last (b # bs), [''fc''])
      | (a # as, b # bs) \<Rightarrow>
          if last (a # as) = last (b # bs) then Inr (last (a # as), [''iscsi'', ''fc''])
          else Inl (MultipleHostsFoundError (initiators_str i) (last (b # bs))))"
    using ne unfolding svc_match_hosts_last [OF assms(2)]
    by (cases "iscsi_matches i hosts"; cases "fc_matches i hosts")
      (simp_all add: svc_choose_host_def last_opt_def ISCSI_CONNECTIVITY_TYPE_def
        FC_CONNECTIVITY_TYPE_def del: last.simps)
  then show ?thesis
    using assms(1) by (simp add: svc_get_host_by_host_identifiers_def bnd_Inr)
qed

text \<open>A host list as the array prints it, read by the mediator.\<close>

definition hosts_output :: string where
  "hosts_output = print_objects
     [(''0'', [(''name'', ''h1''), (''WWPN'', ''A1''), (''WWPN'', ''B2'')]),
      (''1'', [(''name'', ''h2''), (''iscsi_name'', ''iqn.x'')])]"

definition hosts_client :: "string list svc_client" where
  "hosts_client = sample_client\<lparr>sc_lshost := ok [[(''id'', ''0'')], [(''id'', ''1'')]],
     sc_send_raw_command := \<lambda>_. ok (Some hosts_output, None)\<rparr>"

lemma hosts_client_hosts:
  "svc_get_detailed_hosts_list hosts_client [] =
     (Inr [\<lparr>h_id = Some ''0'', h_name = Some ''h1'', h_iscsi_names = [], h_wwns = [''A1'', ''B2'']\<rparr>,
           \<lparr>h_id = Some ''1'', h_name = Some ''h2'', h_iscsi_names = [''iqn.x''], h_wwns = []\<rparr>], [])"
proof -
  have "svc_get_detailed_hosts_by_raw_output hosts_output =
     Inr [\<lparr>h_id = Some ''0'', h_name = Some ''h1'', h_iscsi_names = [], h_wwns = [''A1'', ''B2'']\<rparr>,
          \<lparr>h_id = Some ''1'', h_name = Some ''h2'', h_iscsi_names = [''iqn.x''], h_wwns = []\<rparr>]"
    by code_simp
  moreover have "hosts_output \<noteq> []"
    by (simp add: hosts_output_def print_objects_def object_lines_def)
  ultimately show ?thesis
    by (simp add: svc_get_detailed_hosts_list_def svc_send_raw_cli_command_def hosts_client_def
        bytes_to_string_def run)
qed

lemma svc_host_lookup_witness:
  "svc_get_host_by_host_identifiers hosts_client \<lparr>ini_iscsi_iqn = ''IQN.x'', ini_fc_wwns = [''c3'']\<rparr> [] =
     (Inr (''h2'', [''iscsi'']), [])"
proof -
  have "lower ''IQN.x'' = ''iqn.x''" "lower ''iqn.x'' = ''iqn.x''" "lower ''A1'' = ''a1''"
    "lower ''B2'' = ''b2''" "lower ''c3'' = ''c3''"
    by code_simp+
  then show ?thesis
    using svc_host_lookup [OF hosts_client_hosts, of "\<lparr>ini_iscsi_iqn = ''IQN.x'', ini_fc_wwns = [''c3'']\<rparr>"]
    by (simp add: iscsi_matches_def fc_matches_def is_array_iscsi_iqns_match_def is_array_wwns_match_def)
qed

section \<open>Expanding\<close>

text \<open>
  Expanding a volume asks the array for exactly the difference between the rounded requested
  size and the present capacity, so the new capacity is the smallest multiple of the block
  size that is large enough; a volume with an unfinished FlashCopy mapping is not expanded.
\<close>

theorem svc_expand_exact:
  assumes "sc_lsvdisk_filter cl (''vdisk_UID='' @ vid) s = (Inr (Some v), s1)"
    and "py_int (vd_capacity v) = Inr capacity"
    and "sc_lsfcmap cl (''target_vdisk_name='' @ vd_name v) s1 = (Inr ts, s2)"
    and "sc_lsfcmap cl (''source_vdisk_name='' @ vd_name v) s2 = (Inr ss, s3)"
  shows "(ts = [] \<and> ss = [] \<longrightarrow>
      sc_expandvdisksize cl (vd_name v) (svc_convert_size_bytes required - capacity) s3 = (Inr (), s4) \<longrightarrow>
      svc_expand_volume cl vid required s = (Inr (), s4)) \<and>
    (\<forall>f \<in> set ss. fcmap_unfinished f \<longrightarrow>
      (\<exists>us. svc_expand_volume cl vid required s = (Inl (ObjectIsStillInUseError (vd_name v) us), s3)))"
proof -
  have fcmaps: "svc_get_object_fcmaps cl (vd_name v) s1 =
      (Inr ((if length ts = 1 then [hd ts] else []) @ ss), s3)"
    using assms(3,4)
    by (simp add: svc_get_object_fcmaps_def svc_get_fcmap_as_target_if_exists_def
        svc_get_fcmaps_as_source_if_exist_def svc_get_fcmaps_def ENDPOINT_TYPE_TARGET_def
        ENDPOINT_TYPE_SOURCE_def svc_run)
  have "filter fcmap_unfinished ((if length ts = 1 then [hd ts] else []) @ ss) \<noteq> []"
    if "f \<in> set ss" "fcmap_unfinished f" for f
    using that by (auto simp: filter_empty_conv)
  then show ?thesis
    using assms(1,2) fcmaps
    by (auto simp: svc_expand_volume_def svc_get_cli_volume_by_wwn_def svc_safe_delete_fcmaps_def
        svc_expand_cli_volume_def Let_def svc_run)
qed

lemma svc_expand_exact_witness:
  "svc_expand_volume sample_client ''6005'' 2000 [] = (Inr (), [''expandvdisksize v1''])"
  using svc_expand_exact [of sample_client "''6005''" "[]" sample_vdisk "[]" 1024 "[]" "[]" "[]" "[]"
      2000 "[''expandvdisksize v1'']"] sample_capacity
  by (simp add: sample_client_def sample_vdisk_def)

section \<open>The contract of a mediator\<close>

lemma yields_except_cli_same [spec_rules]:
  "yields Q F m \<Longrightarrow> (\<And>l. yields Q F (h l)) \<Longrightarrow> yields Q F (except_cli m h)"
  by (rule yields_except_cli)

lemma yields_unless_warning [spec_rules]:
  "F (LibExc l) \<Longrightarrow> F KeyError \<Longrightarrow> F IndexError \<Longrightarrow> yields (\<lambda>_. True) F m \<Longrightarrow> yields Q F n \<Longrightarrow> yields Q F (unless_warning l m n)"
  by (auto simp: unless_warning_def is_warning_message_def intro!: spec_rules yields_lift split: list.splits if_splits)

lemma svc_volume_response_type:
  "yields (\<lambda>v. vol_array_type v = ARRAY_TYPE_SVC) (\<lambda>_. True) (svc_generate_volume_response cl ep v)"
  by (auto simp: svc_generate_volume_response_def intro!: spec_rules yields_any)

lemma svc_matched_names:
  "yields (\<lambda>(h, cts). cts \<noteq> [] \<and> set cts \<subseteq> {FC_CONNECTIVITY_TYPE, ISCSI_CONNECTIVITY_TYPE})
     not_connectivity_error (lift (svc_choose_host i found))"
  by (rule yields_lift) (auto simp: svc_choose_host_def split: prod.splits if_splits)

lemma init_reader_error: "init_first_object_id nid ls = Inl e \<Longrightarrow> \<exists>d. e = InvalidCliResponseError d"
  by (induction nid ls rule: init_first_object_id.induct)
    (auto simp: Let_def split: if_splits prod.splits)

lemma yields_detailed_hosts:
  "yields (\<lambda>_. True) not_connectivity_error (lift (svc_get_detailed_hosts_by_raw_output raw))"
  by (rule yields_lift)
    (auto simp: svc_get_detailed_hosts_by_raw_output_def bnd_err_Inl_iff parse_cli_def
      SVCListResultsReader_def dest!: init_reader_error)

interpretation svc: array_mediator "svc_mediator retry cl ep" for retry cl ep
proof unfold_locales
  let ?m = "svc_mediator retry cl ep"
  show "yields (\<lambda>(h, cts). cts \<noteq> [] \<and> set cts \<subseteq> {FC_CONNECTIVITY_TYPE, ISCSI_CONNECTIVITY_TYPE})
      not_connectivity_error (get_host_by_host_identifiers ?m i)" for i
    by (auto simp: svc_mediator_def svc_get_host_by_host_identifiers_def svc_get_detailed_hosts_list_def svc_send_raw_cli_command_def
        intro!: spec_rules yields_detailed_hosts svc_matched_names)
  show "yields (\<lambda>v. vol_array_type v = array_type ?m) (\<lambda>_. True) (get_volume ?m n pool)" for n pool
    by (auto simp: svc_mediator_def svc_get_volume_def intro!: spec_rules yields_any svc_volume_response_type)
  show "yields (\<lambda>v. \<forall>w. v = Some w \<longrightarrow> vol_array_type w = array_type ?m) (\<lambda>_. True)
      (create_volume ?m n sz se p)" for n sz se p
    by (auto simp: svc_mediator_def svc_create_volume_def
        intro!: yields_any yields_bnd_any yields_ret yields_bnd [OF svc_volume_response_type])
  show "yields (\<lambda>_. True) not_connectivity_error (get_array_fc_wwns ?m h)"
    "yields (\<lambda>_. True) not_connectivity_error (get_iscsi_targets_by_iqn ?m)"
    "yields (\<lambda>_. True) not_connectivity_error (get_volume_mappings ?m vol)"
    "yields (\<lambda>_. True) not_connectivity_error (map_volume ?m vol h)" for h vol
    by (auto simp: svc_mediator_def svc_get_array_fc_wwns_def svc_get_iscsi_targets_by_iqn_def svc_get_array_iqns_by_node_id_def
        svc_get_iscsi_targets_by_node_id_def svc_list_ip_ports_def svc_get_volume_mappings_def svc_map_volume_def
        svc_get_volume_name_by_wwn_def svc_get_volume_name_by_wwn_if_exists_def svc_get_cli_volume_by_wwn_def
        svc_get_first_free_lun_def svc_get_used_lun_ids_from_host_def Let_def intro!: spec_rules)
qed (simp_all add: svc_mediator_def ALL_ARRAY_TYPES_def)

end
