(* ===== verification/XivProofs.thy ===== *)
theory XivProofs
  imports Xiv Mediator
begin

text \<open>
  What the XIV mediator does, for an arbitrary client: the number of blocks it asks for, the
  LUN it draws, which host it finds, and what it refuses to delete.
\<close>

lemmas xiv_run = step_rules lib_Inr lib_Inl except_lib_Inr except_lib_handled

section \<open>Sizes\<close>

lemma round_double_exact: "n < 2 ^ 53 \<Longrightarrow> round_double n = n"
proof -
  assume "n < 2 ^ 53"
  then have "floorlog 2 n \<le> 53"
    by (simp add: floorlog_le_iff powr_realpow)
  then show ?thesis by (simp add: round_double_def Let_def)
qed

lemma xiv_blocks_exact:
  "0 \<le> n \<Longrightarrow> n < 2 ^ 53 \<Longrightarrow> xiv_convert_size_bytes_to_blocks n = n div 512"
  by (auto simp: xiv_convert_size_bytes_to_blocks_def round_double_exact nat_less_iff zdiv_int sgn_if)

text \<open>
  A size in the range the mediator accepts is converted without any error of the floating-point
  division, but the number of blocks is rounded down: a requested size that is not a multiple
  of 512 bytes asks the array for less than was requested.
\<close>

theorem xiv_size_rounded_down:
  assumes "0 \<le> n" and "n \<le> maximal_volume_size_in_bytes (xiv_mediator randint cl eps)"
  shows "xiv_convert_size_bytes_to_blocks n * XIV_BLOCK_SIZE_IN_BYTES = n - n mod 512 \<and>
    (\<not> 512 dvd n \<longrightarrow> xiv_convert_size_bytes_to_blocks n * XIV_BLOCK_SIZE_IN_BYTES < n)"
proof -
  have "n < 2 ^ 53" using assms by (simp add: xiv_mediator_def)
  then have "xiv_convert_size_bytes_to_blocks n * XIV_BLOCK_SIZE_IN_BYTES = n - n mod 512"
    using xiv_blocks_exact [of n] assms(1)
    by (simp add: XIV_BLOCK_SIZE_IN_BYTES_def minus_mod_eq_div_mult)
  then show ?thesis
    using pos_mod_sign [of 512 n] by (auto simp: dvd_eq_mod_eq_0)
qed

text \<open>A client all of whose commands succeed, for the witnesses; its world is the changes sent.\<close>

definition xok :: "'a \<Rightarrow> ('s, 'a) lib_call" where
  "xok x = (\<lambda>s. (Inr x, s))"

definition xsent :: "string \<Rightarrow> (string list, unit) lib_call" where
  "xsent c = (\<lambda>s. (Inr (), s @ [c]))"

lemma xok_apply [simp]: "xok x s = (Inr x, s)"
  and xsent_apply [simp]: "xsent c s = (Inr (), s @ [c])"
  by (simp_all add: xok_def xsent_def)

definition sample_xiv_volume :: xiv_volume where
  "sample_xiv_volume =
     \<lparr>xv_id = ''9'', xv_name = ''v1'', xv_wwn = ''6001'', xv_capacity = ''2097152'', xv_pool_name = ''p'',
      xv_master_name = '''', xv_copy_master_wwn = None, xv_text = ''v1''\<rparr>"

lemma sample_xiv_capacity: "int_of_str ''2097152'' = Some 2097152"
  by (simp add: int_of_str_def int_of_base_def strip_def lstrip_def rstrip_def py_space_def digit_val_def
      read_nat_def drop_0x_def)

definition sample_xiv :: "string list xiv_client" where
  "sample_xiv =
     \<lparr>xc_is_connected = xok True, xc_close = xok (), xc_config_get = xok [],
      xc_vol_list_name = (\<lambda>_. xok (Some sample_xiv_volume)),
      xc_vol_list_wwn = (\<lambda>_. xok (Some sample_xiv_volume)),
      xc_vol_create = (\<lambda>_ _ _. xok (Some sample_xiv_volume)),
      xc_vol_resize = (\<lambda>v _. xsent (''vol_resize '' @ v)), xc_vol_format = (\<lambda>v. xsent (''vol_format '' @ v)),
      xc_vol_copy = (\<lambda>v w. xsent (''vol_copy '' @ v)), xc_vol_delete = (\<lambda>v. xsent (''vol_delete '' @ v)),
      xc_snapshot_list = (\<lambda>_. xok []), xc_snapshot_create = (\<lambda>_ _. xok None),
      xc_snapshot_delete = (\<lambda>v. xsent (''snapshot_delete '' @ v)),
      xc_host_list = xok
        [\<lparr>xh_name = ''h1'', xh_iscsi_ports = '''', xh_fc_ports = ''A1, B2''\<rparr>,
         \<lparr>xh_name = ''h2'', xh_iscsi_ports = ''iqn.x'', xh_fc_ports = ''''\<rparr>],
      xc_vol_mapping_list = (\<lambda>_. xok []),
      xc_mapping_list = (\<lambda>_. xok [\<lparr>xm_host = ''h1'', xm_lun = ''1''\<rparr>]),
      xc_map_vol = (\<lambda>h v l. xsent (''map_vol '' @ v)), xc_unmap_vol = (\<lambda>h v. xsent (''unmap_vol '' @ v)),
      xc_ipinterface_list = xok [], xc_fc_port_list = xok []\<rparr>"

definition zero_random :: "'s randint" where
  "zero_random a b s = (a, s)"

lemma zero_random_law: "randint_law zero_random"
  by (simp add: randint_law_def zero_random_def)

lemma xiv_size_rounded_down_witness:
  "xiv_convert_size_bytes_to_blocks 1073741825 * XIV_BLOCK_SIZE_IN_BYTES < 1073741825"
  using xiv_size_rounded_down [of 1073741825 zero_random sample_xiv "[]"]
  by (simp add: xiv_mediator_def)

section \<open>LUNs\<close>

lemma available_luns_iff:
  "l \<in> set (available_luns used) \<longleftrightarrow> 1 \<le> l \<and> l \<le> 250 \<and> l \<notin> set used"
  by (auto simp: available_luns_def XIV_MIN_LUN_NUMBER_def XIV_MAX_LUN_NUMBER_def)

text \<open>
  Whatever the random number generator draws, a volume is mapped with a LUN between 1 and 250
  that is not in use for the host; \<^verbatim>\<open>NoAvailableLunError\<close> is raised exactly when there is none.
\<close>

theorem xiv_lun_choice:
  assumes "randint_law randint"
    and "xc_mapping_list cl h s = (Inr maps, s1)" and "luns_of maps = Inr used"
  shows "if {1..250} \<subseteq> set used
     then xiv_get_next_available_lun randint cl h s = (Inl (NoAvailableLunError h), s1)
     else \<exists>l s2. xiv_get_next_available_lun randint cl h s = (Inr l, s2) \<and>
       1 \<le> l \<and> l \<le> 250 \<and> l \<notin> set used"
proof -
  let ?av = "available_luns used"
  let ?n = "int (length ?av) - 1"
  have none: "?av = [] \<longleftrightarrow> {1..250} \<subseteq> set used"
    by (simp add: set_empty [symmetric] set_eq_iff available_luns_iff subset_iff del: set_empty) blast
  obtain i s2 where draw: "randint 0 ?n s1 = (i, s2)" by (cases "randint 0 ?n s1")
  have "?av ! nat i \<in> set ?av" if "?av \<noteq> []"
  proof -
    have "0 \<le> ?n" using that by (cases ?av) auto
    then have "0 \<le> i \<and> i \<le> ?n"
      using assms(1) draw unfolding randint_law_def by (metis fst_conv)
    then show ?thesis by (intro nth_mem) linarith
  qed
  then show ?thesis
    using assms(2,3) none draw available_luns_iff [of "?av ! nat i" used]
    by (simp add: xiv_get_next_available_lun_def xiv_run Let_def random_int_def run)
qed

lemma sample_luns: "luns_of [\<lparr>xm_host = ''h1'', xm_lun = ''1''\<rparr>] = Inr [1]"
  by code_simp

lemma xiv_lun_choice_witness:
  "\<exists>l s2. xiv_get_next_available_lun zero_random sample_xiv ''h1'' [] = (Inr l, s2) \<and>
     1 \<le> l \<and> l \<le> 250 \<and> l \<noteq> 1"
proof -
  have "\<not> {1..250::int} \<subseteq> {1}" by (force dest: subsetD [of _ _ 2])
  moreover have "xc_mapping_list sample_xiv ''h1'' [] = (Inr [\<lparr>xm_host = ''h1'', xm_lun = ''1''\<rparr>], [])"
    by (simp add: sample_xiv_def)
  ultimately show ?thesis
    using xiv_lun_choice [OF zero_random_law _ sample_luns, of sample_xiv "''h1''" "[]"] by simp
qed

section \<open>Hosts\<close>

definition xiv_fc_match :: "initiators \<Rightarrow> xiv_host \<Rightarrow> bool" where
  "xiv_fc_match i h \<longleftrightarrow> is_array_wwns_match i (string_to_array (xh_fc_ports h) (CHR '',''))"

definition xiv_iscsi_match :: "initiators \<Rightarrow> xiv_host \<Rightarrow> bool" where
  "xiv_iscsi_match i h \<longleftrightarrow> is_array_iscsi_iqns_match i (string_to_array (xh_iscsi_ports h) (CHR '',''))"

definition xiv_matches :: "initiators \<Rightarrow> xiv_host list \<Rightarrow> string set" where
  "xiv_matches i hosts = xh_name ` {h \<in> set hosts. xiv_fc_match i h \<or> xiv_iscsi_match i h}"

lemma xiv_host_fold:
  "fold (xiv_host_step i) hosts (ns, ts) = (ns', ts') \<Longrightarrow>
   set ns' = set ns \<union> xiv_matches i hosts \<and>
   set ts' = set ts \<union> (if \<exists>h \<in> set hosts. xiv_fc_match i h then {FC_CONNECTIVITY_TYPE} else {})
     \<union> (if \<exists>h \<in> set hosts. xiv_iscsi_match i h then {ISCSI_CONNECTIVITY_TYPE} else {})"
proof (induction hosts arbitrary: ns ts)
  case Nil
  then show ?case by (simp add: xiv_matches_def)
next
  case (Cons h hosts)
  have "xiv_matches i (h # hosts) =
      (if xiv_fc_match i h \<or> xiv_iscsi_match i h then {xh_name h} else {}) \<union> xiv_matches i hosts"
    by (auto simp: xiv_matches_def)
  then show ?case
    using Cons.IH Cons.prems
    by (simp add: xiv_host_step_def Let_def flip: xiv_fc_match_def xiv_iscsi_match_def) force
qed

lemma sorted_set_cases:
  "sorted_set ns = [] \<longleftrightarrow> set ns = {}"
  "sorted_set ns = [h] \<Longrightarrow> set ns = {h}"
  "sorted_set ns = a # b # cs \<Longrightarrow> a \<in> set ns \<and> b \<in> set ns \<and> a \<noteq> b"
proof -
  have s: "set (sorted_set ns) = set ns" and d: "distinct (sorted_set ns)"
    by (simp_all add: sorted_set_def)
  show "sorted_set ns = [] \<longleftrightarrow> set ns = {}" using s by (metis set_empty)
  show "sorted_set ns = [h] \<Longrightarrow> set ns = {h}" using s by auto
  show "sorted_set ns = a # b # cs \<Longrightarrow> a \<in> set ns \<and> b \<in> set ns \<and> a \<noteq> b" using s d by auto
qed

text \<open>
  The host of a node is found only when exactly one host name matches its IQN or one of its
  WWNs, and then with exactly the connectivities by which some host matched; several matching
  names are an error that lists them in order, and none is \<^verbatim>\<open>HostNotFoundError\<close>.
\<close>

theorem xiv_host_lookup:
  assumes "xc_host_list cl s = (Inr hosts, s1)"
  shows "(\<exists>r. xiv_get_host_by_host_identifiers cl i s = (r, s1) \<and>
    (case r of
       Inr (h, types) \<Rightarrow> xiv_matches i hosts = {h} \<and>
         set types = {t. t = ''fc'' \<and> (\<exists>x \<in> set hosts. xiv_fc_match i x) \<or>
                         t = ''iscsi'' \<and> (\<exists>x \<in> set hosts. xiv_iscsi_match i x)} \<and> types \<noteq> []
     | Inl e \<Rightarrow>
         e = HostNotFoundError (initiators_str i) \<and> xiv_matches i hosts = {} \<or>
         (\<exists>hs. e = MultipleHostsFoundError (initiators_str i) (str_list hs) \<and>
           set hs = xiv_matches i hosts \<and> sorted hs \<and> distinct hs \<and> 1 < length hs)))"
proof -
  obtain ns ts where f: "fold (xiv_host_step i) hosts ([], []) = (ns, ts)"
    by (cases "fold (xiv_host_step i) hosts ([], [])")
  from xiv_host_fold [OF f] have ns: "set ns = xiv_matches i hosts"
    and ts: "set ts = (if \<exists>h \<in> set hosts. xiv_fc_match i h then {''fc''} else {}) \<union>
      (if \<exists>h \<in> set hosts. xiv_iscsi_match i h then {''iscsi''} else {})"
    by (simp_all add: FC_CONNECTIVITY_TYPE_def ISCSI_CONNECTIVITY_TYPE_def)
  have some: "ts \<noteq> []" if "set ns \<noteq> {}"
  proof
    assume "ts = []"
    with ts have "\<forall>h \<in> set hosts. \<not> xiv_fc_match i h \<and> \<not> xiv_iscsi_match i h"
      by (auto split: if_splits)
    then show False using that ns by (auto simp: xiv_matches_def)
  qed
  have sorted: "sorted (sorted_set ns)" "distinct (sorted_set ns)" "set (sorted_set ns) = set ns"
    by (simp_all add: sorted_set_def)
  show ?thesis
  proof (cases "sorted_set ns")
    case Nil
    then show ?thesis
      using assms f ns sorted_set_cases(1) [of ns]
      by (simp add: xiv_get_host_by_host_identifiers_def xiv_choose_host_def xiv_run)
  next
    case (Cons h rest)
    show ?thesis
    proof (cases rest)
      case Nil
      then show ?thesis
        using assms f ns ts some Cons sorted_set_cases(2) [of ns h]
        by (auto simp: xiv_get_host_by_host_identifiers_def xiv_choose_host_def xiv_run)
    next
      case (Cons b cs)
      then show ?thesis
        using assms f ns \<open>sorted_set ns = h # rest\<close> sorted
        by (auto simp: xiv_get_host_by_host_identifiers_def xiv_choose_host_def xiv_run
            intro!: exI [of _ "sorted_set ns"])
    qed
  qed
qed

lemma xiv_host_lookup_witness:
  "\<exists>r s'. xiv_get_host_by_host_identifiers sample_xiv \<lparr>ini_iscsi_iqn = ''q'', ini_fc_wwns = [''b2'']\<rparr> [] = (r, s')
    \<and> (case r of Inr (h, types) \<Rightarrow> h = ''h1'' | Inl _ \<Rightarrow> False)"
proof -
  let ?i = "\<lparr>ini_iscsi_iqn = ''q'', ini_fc_wwns = [''b2'']\<rparr>"
  let ?hosts = "[\<lparr>xh_name = ''h1'', xh_iscsi_ports = '''', xh_fc_ports = ''A1, B2''\<rparr>,
         \<lparr>xh_name = ''h2'', xh_iscsi_ports = ''iqn.x'', xh_fc_ports = ''''\<rparr>]"
  have "xiv_fc_match ?i (?hosts ! 0)" "\<not> xiv_fc_match ?i (?hosts ! 1)"
    "\<not> xiv_iscsi_match ?i (?hosts ! 0)" "\<not> xiv_iscsi_match ?i (?hosts ! 1)"
    by code_simp+
  then have "{h \<in> set ?hosts. xiv_fc_match ?i h \<or> xiv_iscsi_match ?i h} = {?hosts ! 0}"
    by auto
  then have "xiv_matches ?i ?hosts = {''h1''}"
    unfolding xiv_matches_def by simp
  note one = this
  have "xc_host_list sample_xiv [] = (Inr ?hosts, [])"
    by (simp add: sample_xiv_def)
  from xiv_host_lookup [OF this, of ?i] obtain r where
    r: "xiv_get_host_by_host_identifiers sample_xiv ?i [] = (r, [])"
    and spec: "case r of
       Inr (h, types) \<Rightarrow> xiv_matches ?i ?hosts = {h} \<and>
         set types = {t. t = ''fc'' \<and> (\<exists>x \<in> set ?hosts. xiv_fc_match ?i x) \<or>
                         t = ''iscsi'' \<and> (\<exists>x \<in> set ?hosts. xiv_iscsi_match ?i x)} \<and> types \<noteq> []
     | Inl e \<Rightarrow>
         e = HostNotFoundError (initiators_str ?i) \<and> xiv_matches ?i ?hosts = {} \<or>
         (\<exists>hs. e = MultipleHostsFoundError (initiators_str ?i) (str_list hs) \<and>
           set hs = xiv_matches ?i ?hosts \<and> sorted hs \<and> distinct hs \<and> 1 < length hs)"
    by blast
  have single: "\<not> 1 < length hs" if "set hs = {x}" "distinct hs" for hs and x :: string
    using that distinct_card [of hs] by simp
  show ?thesis
  proof (cases r)
    case (Inl e)
    have False
      using spec unfolding Inl sum.case one by (metis insert_not_empty single)
    then show ?thesis ..
  next
    case (Inr a)
    then obtain h types where a: "r = Inr (h, types)" by (cases a) auto
    have "xiv_matches ?i ?hosts = {h}"
      using spec unfolding a by (simp only: sum.case prod.case)
    then have "h = ''h1''" unfolding one by (metis singleton_inject)
    then show ?thesis using r unfolding a by (intro exI conjI) (assumption, simp)
  qed
qed

section \<open>Deleting\<close>

text \<open>
  A volume that has snapshots is not deleted: the error names the first one, and no command is
  sent after the snapshots were listed; a volume without snapshots is deleted by its name.
\<close>

theorem xiv_delete_refused:
  assumes "xc_vol_list_wwn cl vid s = (Inr (Some v), s1)"
    and "xc_snapshot_list cl (xv_name v) s1 = (Inr snaps, s2)"
    and "xc_vol_delete cl (xv_name v) s2 = (Inr (), s3)"
  shows "xiv_delete_volume cl vid s =
    (if snaps = [] then (Inr (), s3) else (Inl (ObjectIsStillInUseError vid (map xv_text snaps)), s2))"
  using assms
  by (simp add: xiv_delete_volume_def xiv_get_object_name_by_wwn_def xiv_get_cli_object_by_wwn_def
      xiv_run)

lemma xiv_delete_refused_witness:
  "xiv_delete_volume sample_xiv ''6001'' [] = (Inr (), [''vol_delete v1'']) \<and>
   xiv_delete_volume (sample_xiv\<lparr>xc_snapshot_list := \<lambda>_. xok [sample_xiv_volume]\<rparr>) ''6001'' [] =
     (Inl (ObjectIsStillInUseError ''6001'' [''v1'']), [])"
  using xiv_delete_refused [of sample_xiv "''6001''" "[]" sample_xiv_volume "[]" "[]" "[]" "[''vol_delete v1'']"]
    xiv_delete_refused [of "sample_xiv\<lparr>xc_snapshot_list := \<lambda>_. xok [sample_xiv_volume]\<rparr>" "''6001''" "[]"
      sample_xiv_volume "[]" "[sample_xiv_volume]" "[]" "[''vol_delete v1'']"]
  by (simp add: sample_xiv_def sample_xiv_volume_def)

section \<open>The contract of a mediator\<close>

lemma yields_luns_of [spec_rules]: "F ValueError \<Longrightarrow> (\<And>ls. Q ls) \<Longrightarrow> yields Q F (lift (luns_of ms))"
  by (rule yields_lift, simp, induction ms) (auto simp: bnd_err_Inl_iff py_int_def split: option.splits)

lemma xiv_hosts_seen:
  "fold (xiv_host_step i) hosts acc = (names, pts) \<Longrightarrow>
   (fst acc \<noteq> [] \<longrightarrow> snd acc \<noteq> []) \<Longrightarrow> set (snd acc) \<subseteq> {FC_CONNECTIVITY_TYPE, ISCSI_CONNECTIVITY_TYPE} \<Longrightarrow>
   (names \<noteq> [] \<longrightarrow> pts \<noteq> []) \<and> set pts \<subseteq> {FC_CONNECTIVITY_TYPE, ISCSI_CONNECTIVITY_TYPE}"
  by (induction hosts arbitrary: acc) (auto simp: xiv_host_step_def Let_def split: if_splits)

lemma xiv_choose_host_yields:
  "yields (\<lambda>(h, cts). cts \<noteq> [] \<and> set cts \<subseteq> {FC_CONNECTIVITY_TYPE, ISCSI_CONNECTIVITY_TYPE})
     not_connectivity_error (lift (xiv_choose_host i hosts))"
  by (rule yields_lift)
    (auto simp: xiv_choose_host_def sorted_set_def split: prod.splits list.splits dest: xiv_hosts_seen)


lemma xiv_volume_response_type:
  "yields (\<lambda>v. vol_array_type v = ARRAY_TYPE_XIV) (\<lambda>_. True) (xiv_generate_volume_response eps v)"
  by (auto simp: xiv_generate_volume_response_def intro!: spec_rules yields_any)

interpretation xiv: array_mediator "xiv_mediator randint cl eps" for randint cl eps
proof unfold_locales
  let ?m = "xiv_mediator randint cl eps"
  show "yields (\<lambda>(h, cts). cts \<noteq> [] \<and> set cts \<subseteq> {FC_CONNECTIVITY_TYPE, ISCSI_CONNECTIVITY_TYPE})
      not_connectivity_error (get_host_by_host_identifiers ?m i)" for i
    by (simp add: xiv_mediator_def xiv_get_host_by_host_identifiers_def yields_bnd_any yields_lib
        xiv_choose_host_yields)
  show "yields (\<lambda>v. vol_array_type v = array_type ?m) (\<lambda>_. True) (get_volume ?m n pool)" for n pool
    by (auto simp: xiv_mediator_def xiv_get_volume_def intro!: spec_rules yields_any xiv_volume_response_type yields_any)
  show "yields (\<lambda>v. \<forall>w. v = Some w \<longrightarrow> vol_array_type w = array_type ?m) (\<lambda>_. True)
      (create_volume ?m n sz se p)" for n sz se p
    by (auto simp: xiv_mediator_def xiv_create_volume_def
        intro!: spec_rules yields_any yields_bnd [OF xiv_volume_response_type])
  show "yields (\<lambda>_. True) not_connectivity_error (get_array_fc_wwns ?m h)"
    "yields (\<lambda>_. True) not_connectivity_error (get_iscsi_targets_by_iqn ?m)"
    "yields (\<lambda>_. True) not_connectivity_error (get_volume_mappings ?m vol)"
    "yields (\<lambda>_. True) not_connectivity_error (map_volume ?m vol h)" for h vol
    by (auto simp: xiv_mediator_def xiv_get_array_fc_wwns_def xiv_get_iscsi_targets_by_iqn_def
        xiv_get_array_iqn_def xiv_get_iscsi_targets_def xiv_get_volume_mappings_def xiv_map_volume_def
        xiv_get_object_name_by_wwn_def xiv_get_cli_object_by_wwn_def xiv_get_next_available_lun_def Let_def
        intro!: spec_rules)
qed (simp_all add: xiv_mediator_def ALL_ARRAY_TYPES_def)

end
