(* ===== verification/Ds8kProofs.thy ===== *)
theory Ds8kProofs
  imports Ds8k Mediator
begin

text \<open>
  What the DS8K mediator does, for an arbitrary client: the identifiers it gives out and reads,
  the uniqueness of names it enforces, what it refuses to delete, and the errors it drops.
\<close>

lemmas ds8k_run = step_rules lib_Inr lib_Inl except_lib_Inr except_lib_own except_lib_handled

lemmas rest_defs =
  rest_get_volume_def rest_get_volumes_by_pool_def rest_get_flashcopies_by_volume_def
  rest_create_volume_def rest_extend_volume_def rest_delete_volume_def rest_create_flashcopy_def
  rest_delete_flashcopy_def rest_get_flashcopies_def rest_get_hosts_def
  rest_get_host_mappings_def rest_unmap_volume_from_host_def first_item_def

section \<open>A client for the witnesses\<close>

definition dok :: "'a \<Rightarrow> ('s, 'a) lib_call" where
  "dok x = (\<lambda>s. (Inr x, s))"

definition dsent :: "string \<Rightarrow> 'a \<Rightarrow> (string list, 'a) lib_call" where
  "dsent c x = (\<lambda>s. (Inr x, s @ [c]))"

definition dfail :: "lib_class list \<Rightarrow> string \<Rightarrow> ('s, 'a) lib_call" where
  "dfail cs msg = (\<lambda>s. (Inl \<lparr>lx_mro = cs, lx_message = msg, lx_details = msg, lx_text = msg\<rparr>, s))"

lemma dok_apply [simp]: "dok x s = (Inr x, s)"
  and dsent_apply [simp]: "dsent c x s = (Inr x, s @ [c])"
  and dfail_apply [simp]:
    "dfail cs msg s = (Inl \<lparr>lx_mro = cs, lx_message = msg, lx_details = msg, lx_text = msg\<rparr>, s)"
  by (simp_all add: dok_def dsent_def dfail_def)

definition sample_ds8k_volume :: "ds8k_flashcopy list \<Rightarrow> ds8k_volume" where
  "sample_ds8k_volume fs =
     \<lparr>dv_id = ''0001'', dv_name = ''v1'', dv_cap = ''1024'', dv_pool = ''P0'', dv_tp = ''ese'',
      dv_flashcopy = fs\<rparr>"

definition sample_flashcopy :: "string \<Rightarrow> ds8k_flashcopy" where
  "sample_flashcopy background =
     \<lparr>dc_id = ''f1'', dc_sourcevolume = ''0001'', dc_targetvolume = ''0002'',
      dc_backgroundcopy = background, dc_state = ''valid'', dc_out_of_sync_tracks = ''0'',
      dc_representation = ''f1''\<rparr>"

definition sample_system :: ds8k_system where
  "sample_system = \<lparr>sy_id = ''2107'', sy_name = ''ds'', sy_bundle = ''88.0.151.0'', sy_wwnn = ''5005AABB''\<rparr>"

definition sample_api :: "ds8k_flashcopy list \<Rightarrow> string list ds8k_api" where
  "sample_api fs =
     \<lparr>da_tp_ese = ''ese'', da_tp_none = ''none'', da_option_per = ''per'', da_option_nbc = ''nbc'',
      da_option_pset = ''pset'', da_ioport_wwpn = ''wwpn'', da_ioport_status = ''state'',
      da_get_io_enclosures = dok (), da_get_systems = dok [sample_system],
      da_get_volumes = (\<lambda>_. dok (sample_ds8k_volume [])),
      da_get_volumes_by_pool = (\<lambda>_. dok [sample_ds8k_volume []]),
      da_get_host = (\<lambda>h. dok \<lparr>dh_name = h, dh_host_ports_briefs = [], dh_mappings_briefs = [],
                                dh_login_ports = []\<rparr>),
      da_get_hosts = dok [],
      da_get_flashcopies_by_volume = (\<lambda>_. dok fs),
      da_get_mappings_by_host = (\<lambda>_. dok []),
      da_create_volume_fb = (\<lambda>a. dsent (''create '' @ ca_name a @ '' '' @ ca_tp a) [sample_ds8k_volume []]),
      da_update_volume_extend = (\<lambda>v _. dsent (''extend '' @ v) ()),
      da_delete_volume = (\<lambda>v. dsent (''delete '' @ v) ()),
      da_map_volume_to_host = (\<lambda>_ _ _. dok []),
      da_unmap_volume_from_host = (\<lambda>_ _. dok ()),
      da_create_cs_flashcopy = (\<lambda>s t _. dsent (''flashcopy '' @ s @ '' '' @ t) [sample_flashcopy ''disabled'']),
      da_delete_cs_flashcopy = (\<lambda>f. dsent (''delete flashcopy '' @ f) ()),
      da_get_cs_flashcopies = (\<lambda>_. dok (sample_flashcopy ''disabled''))\<rparr>"

section \<open>Identifiers\<close>

lemma scsi_id_read_back:
  assumes "length volume_id = 4"
  shows "scsi_id_to_volume_id (ds8k_scsi_identifier sys volume_id) = volume_id"
proof -
  have "scsi_id_to_volume_id (prefix @ volume_id) = volume_id" for prefix
    using assms by (simp add: scsi_id_to_volume_id_def)
  from this [of "''6'' @ tl (sy_wwnn sys) @ ''000000000000''"] show ?thesis
    by (simp add: ds8k_scsi_identifier_def)
qed

text \<open>
  The identifier the mediator reports for a volume number of the array (four digits) is
  converted back to that number by every decorated method, so the volume that is deleted,
  expanded or mapped is the one that was reported.
\<close>

theorem ds8k_identifier_roundtrip:
  assumes "length volume_id = 4"
  shows "scsi_id_to_volume_id (ds8k_scsi_identifier sys volume_id) = volume_id \<and>
    delete_volume (ds8k_mediator retry api sa sys) (ds8k_scsi_identifier sys volume_id) =
      ds8k_delete_volume api volume_id"
  using scsi_id_read_back [OF assms] by (simp add: ds8k_mediator_def)

lemma ds8k_identifier_roundtrip_witness:
  "scsi_id_to_volume_id (ds8k_scsi_identifier sample_system ''00A1'') = ''00A1'' \<and>
   delete_volume (ds8k_mediator retry_loop (sample_api []) ''ds'' sample_system)
     (ds8k_scsi_identifier sample_system ''00A1'') = ds8k_delete_volume (sample_api []) ''00A1''"
  by (rule ds8k_identifier_roundtrip) simp

section \<open>Names\<close>

lemma from_volumes_some:
  "\<exists>v \<in> set vs. dv_name v = name \<Longrightarrow> (\<And>v s. \<exists>fs. da_get_flashcopies_by_volume api v s = (Inr fs, s)) \<Longrightarrow>
   \<exists>v. ds8k_get_api_volume_from_volumes api vs name s = (Inr (Some v), s) \<and> dv_name v = name"
proof (induction vs)
  case (Cons v vs)
  obtain fs where "da_get_flashcopies_by_volume api (dv_id v) s = (Inr fs, s)"
    using Cons.prems(2) by blast
  then show ?case
    using Cons by (auto simp: rest_get_flashcopies_by_volume_def ds8k_run)
qed simp

text \<open>
  Volume names are not unique on the array, so the mediator enforces it: when the pool already
  holds a volume of the requested name, nothing is created.
\<close>

theorem ds8k_name_unique:
  assumes "da_get_volumes_by_pool api pool s = (Inr vs, s1)"
    and "\<exists>v \<in> set vs. dv_name v = name"
    and "\<And>v s. \<exists>fs. da_get_flashcopies_by_volume api v s = (Inr fs, s)"
  shows "ds8k_create_api_volume api sys name sz se pool s = (Inl (VolumeAlreadyExists name (sy_id sys)), s1)"
proof -
  obtain v where v: "ds8k_get_api_volume_from_volumes api vs name s1 = (Inr (Some v), s1)"
    using from_volumes_some [OF assms(2,3), of s1] by blast
  then have "ds8k_get_api_volume_by_name api sys name (Some pool) s = (Inr (Some v), s1)"
    using assms(1) by (simp add: ds8k_get_api_volume_by_name_def rest_get_volumes_by_pool_def ds8k_run)
  then show ?thesis
    unfolding ds8k_create_api_volume_def
    by (intro except_lib_own) (simp_all add: ds8k_run ds8k_identifier_def)
qed

lemma ds8k_name_unique_witness:
  "ds8k_create_api_volume (sample_api []) sample_system ''v1'' 512 None ''P0'' [] =
     (Inl (VolumeAlreadyExists ''v1'' (sy_id sample_system)), [])"
  by (rule ds8k_name_unique [where vs = "[sample_ds8k_volume []]"])
    (simp_all add: sample_api_def sample_ds8k_volume_def)

section \<open>Deleting\<close>

lemma safe_delete_refused:
  assumes "list_all (\<lambda>g. dc_backgroundcopy g \<noteq> ''disabled'') pre" and "dc_backgroundcopy f = ''disabled''"
    and "\<And>i s. \<exists>p. da_get_cs_flashcopies api i s = (Inr p, s) \<and> dc_out_of_sync_tracks p = ''0''"
  shows "ds8k_safe_delete_flashcopies api (pre @ f # post) name s =
    (Inl (ObjectIsStillInUseError name [dc_representation f]), s)"
proof -
  have proc: "\<exists>p. ds8k_get_flashcopy_process api i True s = (Inr (Some p), s) \<and> dc_out_of_sync_tracks p = ''0''" for i
  proof -
    obtain p where "da_get_cs_flashcopies api i s = (Inr p, s)" "dc_out_of_sync_tracks p = ''0''"
      using assms(3) by blast
    then show ?thesis
      by (simp add: ds8k_get_flashcopy_process_def rest_get_flashcopies_def ds8k_run)
  qed
  have "for_each (\<lambda>f. ds8k_ensure_flashcopy_safe_to_delete api f name) (pre @ f # post) s =
    (Inl (ObjectIsStillInUseError name [dc_representation f]), s)"
    using assms(1)
  proof (induction pre)
    case Nil
    obtain p where "ds8k_get_flashcopy_process api (dc_id f) True s = (Inr (Some p), s)"
      using proc by blast
    then show ?case
      using assms(2) by (simp add: ds8k_ensure_flashcopy_safe_to_delete_def ds8k_run)
  next
    case (Cons g pre)
    obtain p where "ds8k_get_flashcopy_process api (dc_id g) True s = (Inr (Some p), s)"
      "dc_out_of_sync_tracks p = ''0''"
      using proc by blast
    then show ?case
      using Cons by (simp add: ds8k_ensure_flashcopy_safe_to_delete_def ds8k_run)
  qed
  then show ?thesis by (simp add: ds8k_safe_delete_flashcopies_def ds8k_run)
qed

text \<open>
  A volume that is the source of a snapshot (a FlashCopy relationship without background copy)
  is not deleted, and none of its relationships is: all of them are checked before the first
  one would be removed.
\<close>

theorem ds8k_delete_refused:
  assumes volume: "da_get_volumes api vid s = (Inr v, s1)"
    and fcs: "da_get_flashcopies_by_volume api (dv_id v) s1 = (Inr fs, s2)"
    and snap: "f \<in> set fs" "dc_sourcevolume f = dv_id v" "dc_backgroundcopy f = ''disabled''"
    and synced: "\<And>i s. \<exists>p. da_get_cs_flashcopies api i s = (Inr p, s) \<and> dc_out_of_sync_tracks p = ''0''"
  shows "\<exists>used_by. ds8k_delete_volume api vid s = (Inl (ObjectIsStillInUseError (dv_name v) used_by), s2)"
proof -
  let ?src = "filter (\<lambda>f. dc_sourcevolume f = dv_id v) fs"
  have "f \<in> set ?src" using snap by simp
  then have "\<exists>g \<in> set ?src. dc_backgroundcopy g = ''disabled''" using snap(3) by blast
  from split_list_first_prop [OF this] obtain pre g post where g: "?src = pre @ g # post"
    "dc_backgroundcopy g = ''disabled''" "\<forall>h \<in> set pre. dc_backgroundcopy h \<noteq> ''disabled''"
    by blast
  have "ds8k_safe_delete_flashcopies api ?src (dv_name v) s2 =
      (Inl (ObjectIsStillInUseError (dv_name v) [dc_representation g]), s2)"
    unfolding g(1) using g(2,3) synced by (intro safe_delete_refused) (simp_all add: list_all_iff)
  moreover have "ds8k_get_api_volume_by_id api vid True s = (Inr (Some (v\<lparr>dv_flashcopy := fs\<rparr>)), s2)"
    using volume fcs
    by (simp add: ds8k_get_api_volume_by_id_def rest_get_volume_def rest_get_flashcopies_by_volume_def
        ds8k_run)
  ultimately show ?thesis
    by (simp add: ds8k_delete_volume_def ds8k_delete_object_def ds8k_run)
qed

lemma ds8k_delete_refused_witness:
  "\<exists>used_by. ds8k_delete_volume (sample_api [sample_flashcopy ''disabled'']) ''0001'' [] =
     (Inl (ObjectIsStillInUseError ''v1'' used_by), [])"
  using ds8k_delete_refused [of "sample_api [sample_flashcopy ''disabled'']" "''0001''" "[]"
      "sample_ds8k_volume []" "[]" "[sample_flashcopy ''disabled'']" "[]" "sample_flashcopy ''disabled''"]
  by (simp add: sample_api_def sample_ds8k_volume_def sample_flashcopy_def)

section \<open>Errors that are dropped\<close>

text \<open>
  When the array refuses to extend a volume for any reason but a missing volume or missing
  extents, the refusal is dropped: expanding reports success although nothing was extended.
\<close>

theorem ds8k_expand_drops_errors:
  assumes "da_get_volumes api vid s = (Inr v, s1)"
    and "da_get_flashcopies_by_volume api (dv_id v) s1 = (Inr [], s2)"
    and "da_update_volume_extend api (dv_id v) required s2 = (Inl ex, s3)"
    and "is_a ex Ds8k_ClientException" and "\<not> is_a ex Ds8k_NotFound"
    and "\<not> contains ''BE531465'' (upper (lx_message ex))"
  shows "ds8k_expand_volume api vid required s = (Inr (), s3)"
proof -
  have "ds8k_extend_volume api (v\<lparr>dv_flashcopy := []\<rparr>) required s2 = (Inr (), s3)"
    using assms(3-6)
    by (simp add: ds8k_extend_volume_def rest_extend_volume_def ds8k_run has_code_def
        ERROR_CODE_EXPAND_VOLUME_NOT_ENOUGH_EXTENTS_def)
  then show ?thesis
    using assms(1,2)
    by (simp add: ds8k_expand_volume_def ds8k_get_api_volume_by_id_def rest_get_volume_def
        rest_get_flashcopies_by_volume_def ds8k_safe_delete_flashcopies_def ds8k_run)
qed

lemma ds8k_expand_drops_errors_witness:
  "ds8k_expand_volume
     ((sample_api [])\<lparr>da_update_volume_extend := \<lambda>_ _. dfail [Ds8k_ClientException] ''BE0''\<rparr>) ''0001'' 2048 []
   = (Inr (), [])"
  by (rule ds8k_expand_drops_errors [where v = "sample_ds8k_volume []" and ?s1.0 = "[]" and ?s2.0 = "[]"
        and ex = "\<lparr>lx_mro = [Ds8k_ClientException], lx_message = ''BE0'', lx_details = ''BE0'', lx_text = ''BE0''\<rparr>"])
    (simp_all add: sample_api_def is_a_def, code_simp)

section \<open>Snapshots\<close>

text \<open>
  The target volume of a snapshot is removed only when the FlashCopy command itself fails in
  one of two ways.  When the relationship is created but not in the valid state, it is
  deleted and \<^verbatim>\<open>ValueError\<close> is raised, and the target volume stays on the array.
\<close>

theorem ds8k_snapshot_target_left:
  assumes "ds8k_create_similar_volume api sys name src pool s = (Inr target, s1)"
    and "da_create_cs_flashcopy api (dv_id src) (dv_id target)
           [da_option_nbc api, da_option_per api, da_option_pset api] s1 = (Inr [f], s2)"
    and "da_get_cs_flashcopies api (dc_id f) s2 = (Inr p, s3)" and "dc_state p \<noteq> ''valid''"
    and "da_delete_cs_flashcopy api (dc_id f) s3 = (Inr (), s4)"
  shows "ds8k_create_snapshot_volume retry api sa sys name src pool s = (Inl ValueError, s4)"
proof -
  have "ds8k_get_flashcopy_state api (dc_id f) s2 = (Inr (dc_state p), s3)"
    using assms(3)
    by (simp add: ds8k_get_flashcopy_state_def ds8k_get_flashcopy_process_def rest_get_flashcopies_def
        ds8k_run)
  then have "ds8k_create_flashcopy api sa (dv_id src) (dv_id target) [da_option_nbc api, da_option_per api] s1
      = (Inl ValueError, s4)"
    using assms(2,4,5)
    by (simp add: ds8k_create_flashcopy_def rest_create_flashcopy_def first_item_def
        ds8k_delete_flashcopy_def rest_delete_flashcopy_def FLASHCOPY_STATE_VALID_def ds8k_run)
  then show ?thesis
    using assms(1) by (simp add: ds8k_create_snapshot_volume_def ds8k_run)
qed

definition broken_api :: "string list ds8k_api" where
  "broken_api = (sample_api [])\<lparr>da_get_volumes_by_pool := \<lambda>_. dok [],
     da_get_cs_flashcopies := \<lambda>_. dok ((sample_flashcopy ''disabled'')\<lparr>dc_state := ''invalid''\<rparr>)\<rparr>"

lemma ds8k_capacity: "py_int ''1024'' = Inr 1024"
  by code_simp

lemma broken_target:
  "ds8k_create_similar_volume broken_api sample_system ''sn'' (sample_ds8k_volume []) None [] =
     (Inr (sample_ds8k_volume []), [''create sn none''])"
proof -
  have "lower ''ese'' \<noteq> ''thin''" by code_simp
  then show ?thesis
    by (simp add: ds8k_create_similar_volume_def ds8k_create_api_volume_def ds8k_get_api_volume_by_name_def
        rest_defs broken_api_def sample_api_def ds8k_capacity get_array_space_efficiency_def
        SPACE_EFFICIENCY_THIN_def run except_lib_def sample_ds8k_volume_def)
qed

lemma ds8k_snapshot_target_left_witness:
  "ds8k_create_snapshot_volume retry_loop broken_api ''ds'' sample_system ''sn'' (sample_ds8k_volume []) None [] =
     (Inl ValueError, [''create sn none'', ''flashcopy 0001 0001'', ''delete flashcopy f1''])"
  by (rule ds8k_snapshot_target_left [OF broken_target, where f = "sample_flashcopy ''disabled''"
        and p = "(sample_flashcopy ''disabled'')\<lparr>dc_state := ''invalid''\<rparr>"])
    (simp_all add: broken_api_def sample_api_def sample_ds8k_volume_def sample_flashcopy_def)

text \<open>
  The space efficiency of a snapshot's source is the array's own name of it, which is compared
  with the storage class's \<^verbatim>\<open>thin\<close>: as long as the array's names differ from that word, the target
  of a snapshot of a thin volume is created without space efficiency.
\<close>

theorem ds8k_snapshot_not_thin:
  assumes "py_int (dv_cap src) = Inr capacity"
    and "lower (dv_tp src) \<noteq> ''thin''"
    and "da_get_volumes_by_pool api (dv_pool src) s = (Inr [], s1)"
    and "da_create_volume_fb api
           \<lparr>ca_name = name, ca_cap = capacity, ca_pool = dv_pool src, ca_tp = da_tp_none api\<rparr> s1 = (Inr [new], s2)"
    and "da_get_volumes api (dv_id new) s2 = (Inr v, s3)"
  shows "ds8k_create_similar_volume api sys name src None s = (Inr v, s3)"
proof -
  have "get_array_space_efficiency api (Some (dv_tp src)) = da_tp_none api"
    using assms(2) by (simp add: get_array_space_efficiency_def SPACE_EFFICIENCY_THIN_def)
  then show ?thesis
    using assms(1,3-5)
    by (simp add: ds8k_create_similar_volume_def ds8k_create_api_volume_def
        ds8k_get_api_volume_by_name_def rest_defs ds8k_run)
qed

lemma ds8k_snapshot_not_thin_witness:
  "ds8k_create_similar_volume broken_api sample_system ''sn'' (sample_ds8k_volume []) None [] =
     (Inr (sample_ds8k_volume []), [''create sn none''])"
  by (rule ds8k_snapshot_not_thin [where capacity = 1024 and new = "sample_ds8k_volume []"])
    (simp_all add: broken_api_def sample_api_def sample_ds8k_volume_def ds8k_capacity lower_def lower_char_def)

section \<open>The contract of a mediator\<close>

lemma dict_item_error: "dict_item d k = Inl e \<Longrightarrow> e = KeyError"
  by (auto simp: dict_item_def split: option.splits)

lemma first_item_error: "first_item xs = Inl e \<Longrightarrow> e = IndexError"
  by (auto simp: first_item_def split: list.splits)

lemma scsilun_error: "scsilun_to_int l = Inl e \<Longrightarrow> not_connectivity_error e"
  by (auto simp: scsilun_to_int_def bnd_err_Inl_iff split: option.splits if_splits)

lemma brief_wwpns_error: "brief_wwpns ps = Inl e \<Longrightarrow> e = KeyError"
  by (induction ps) (auto simp: bnd_err_Inl_iff dest: dict_item_error)

lemma find_host_error: "ds8k_find_host i hs = Inl e \<Longrightarrow> e = KeyError"
  by (induction hs) (auto simp: bnd_err_Inl_iff dest: brief_wwpns_error split: if_splits)

lemma online_wwpns_error: "online_wwpns api ps = Inl e \<Longrightarrow> e = KeyError"
  by (induction ps) (auto simp: bnd_err_Inl_iff dest: dict_item_error split: if_splits)

lemma find_lun_error: "ds8k_find_lun v ms = Inl e \<Longrightarrow> not_connectivity_error e"
  by (induction ms) (auto simp: bnd_err_Inl_iff dest: dict_item_error scsilun_error split: if_splits)

lemma mappings_error: "ds8k_mappings_of_hosts v hs = Inl e \<Longrightarrow> not_connectivity_error e"
  unfolding ds8k_mappings_of_hosts_def
  by (erule fold_err_error) (auto simp: bnd_err_Inl_iff dest: find_lun_error)

lemma ds8k_volume_response_type:
  "yields (\<lambda>v. vol_array_type v = ARRAY_TYPE_DS8K) (\<lambda>_. True) (lift (ds8k_generate_volume_response sa sys v))"
  by (rule yields_lift) (auto simp: ds8k_generate_volume_response_def bnd_err_Inr_iff)

interpretation ds8k: array_mediator "ds8k_mediator retry api sa sys" for retry api sa sys
proof unfold_locales
  let ?m = "ds8k_mediator retry api sa sys"
  show "yields (\<lambda>(h, cts). cts \<noteq> [] \<and> set cts \<subseteq> {FC_CONNECTIVITY_TYPE, ISCSI_CONNECTIVITY_TYPE})
      not_connectivity_error (get_host_by_host_identifiers ?m i)" for i
    by (auto simp: ds8k_mediator_def ds8k_get_host_by_host_identifiers_def rest_get_hosts_def 
        intro!: spec_rules yields_lift dest!: find_host_error)
  show "yields (\<lambda>v. vol_array_type v = array_type ?m) (\<lambda>_. True) (get_volume ?m n pool)" for n pool
    by (auto simp: ds8k_mediator_def ds8k_get_volume_def intro!: spec_rules yields_any ds8k_volume_response_type yields_any)
  show "yields (\<lambda>v. \<forall>w. v = Some w \<longrightarrow> vol_array_type w = array_type ?m) (\<lambda>_. True)
      (create_volume ?m n sz se p)" for n sz se p
    by (auto simp: ds8k_mediator_def ds8k_create_volume_def
        intro!: yields_any yields_bnd_any yields_ret yields_bnd [OF ds8k_volume_response_type])
  show "yields (\<lambda>_. True) not_connectivity_error (get_array_fc_wwns ?m h)"
    "yields (\<lambda>_. True) not_connectivity_error (get_iscsi_targets_by_iqn ?m)"
    "yields (\<lambda>_. True) not_connectivity_error (get_volume_mappings ?m vol)"
    "yields (\<lambda>_. True) not_connectivity_error (map_volume ?m vol h)" for h vol
    by (auto simp: ds8k_mediator_def ds8k_get_array_fc_wwns_def rest_get_host_def ds8k_get_iscsi_targets_by_iqn_def
     ds8k_get_volume_mappings_def rest_get_hosts_def ds8k_map_volume_def rest_map_volume_to_host_def
        intro!: spec_rules yields_lift dest!: online_wwpns_error first_item_error intro: mappings_error scsilun_error)
qed (simp_all add: ds8k_mediator_def ALL_ARRAY_TYPES_def)

end
