(* ===== verification/AgentProofs.thy ===== *)
theory AgentProofs
  imports Agent SvcProofs XivProofs Ds8kProofs
begin

text \<open>
  What the agents guarantee: which storage type is detected, whose credentials a request's
  connection carries, and that every request gives its connection back to the pool it came
  from, however it ends.
\<close>

section \<open>Detection\<close>

lemma any_endpoint_answers_run:
  assumes "\<And>h p s. en_connect_ex env h p s = (answer h p, s)"
  shows "any_endpoint_answers env p es s = (Inr (\<exists>e \<in> set es. answer e p = Inr 0), s)"
proof (induction es)
  case (Cons e es)
  have "socket_connect_test env e p s = (Inr (case answer e p of Inl _ \<Rightarrow> - 1 | Inr r \<Rightarrow> r), s)"
    by (simp add: socket_connect_test_def run assms split: sum.split)
  then show ?case
    using Cons.IH by (auto simp: bnd_Inr split: sum.splits)
qed simp

lemma array_kinds: "(UNIV :: array_kind set) = {XIV, DS8K, SVC}"
proof -
  have "k \<in> {XIV, DS8K, SVC}" for k by (cases k) simp_all
  then show ?thesis by auto
qed

lemma kind_order [simp]: "XIV \<le> k" "DS8K \<le> k \<longleftrightarrow> k \<noteq> XIV" "SVC \<le> k \<longleftrightarrow> k = SVC"
  by (cases k; simp add: less_eq_array_kind_def)+

lemma finite_kinds: "finite (K :: array_kind set)"
  by (metis array_kinds finite.emptyI finite_insert finite_subset subset_UNIV)

lemma least_kind:
  "Min K = (if XIV \<in> K then XIV else if DS8K \<in> K then DS8K else SVC)" if "K \<noteq> {}"
proof (rule Min_eqI [OF finite_kinds])
  from that obtain k where "k \<in> K" by auto
  then show "(if XIV \<in> K then XIV else if DS8K \<in> K then DS8K else SVC) \<in> K"
    by (cases k) auto
qed (auto split: if_splits, (metis array_kind.exhaust)+)

text \<open>
  The storage type detected at some addresses is the first, in the order XIV, DS8K, SVC, for
  which some address accepts a connection on that type's port; no such type is an error
  naming the addresses.  A DS8K is so told from an SVC, whose port it also serves.
\<close>

theorem detect_first_kind:
  assumes "\<And>h p s. en_connect_ex env h p s = (answer h p, s)"
  shows "detect_array_type env endpoints s =
    (let kinds = {k. \<exists>e \<in> set endpoints. answer e (kind_port k) = Inr 0} in
     (if kinds = {} then Inl (FailedToFindStorageSystemType (str_list endpoints))
      else Inr (kind_array_type (Min kinds)), s))"
proof -
  define kinds where "kinds = {k. \<exists>e \<in> set endpoints. answer e (kind_port k) = Inr 0}"
  have answers: "any_endpoint_answers env (kind_port k) endpoints s = (Inr (k \<in> kinds), s)" for k
    by (simp add: any_endpoint_answers_run [OF assms] kinds_def)
  have "detect_among env array_type_to_port endpoints s =
      (Inr (if kinds = {} then None else Some (Min kinds)), s)"
    using answers [of XIV] answers [of DS8K] answers [of SVC] array_kinds
    by (auto simp: array_type_to_port_def run least_kind simp del: kind_port.simps)
      (metis array_kind.exhaust)+
  then show ?thesis
    by (simp add: detect_array_type_def bnd_Inr kinds_def Let_def)
qed


text \<open>An environment for the witnesses: every connection fails, and only chosen ports answer.\<close>

definition stub_env :: "(string \<Rightarrow> int \<Rightarrow> lib_exc + int) \<Rightarrow> 's env" where
  "stub_env answer =
     \<lparr>en_loads = Inl, en_sha256 = id, en_b58encode = id, en_retry = retry_loop, en_retry_map = retry_loop,
      en_svc_connect = (\<lambda>_ _ _ s. (Inl \<lparr>lx_mro = [Svc_IncorrectCredentials], lx_message = '''',
        lx_details = '''', lx_text = ''''\<rparr>, s)),
      en_xiv_connect = (\<lambda>_ _ _ s. (Inl \<lparr>lx_mro = [Xcli_XCLIError], lx_message = '''', lx_details = '''',
        lx_text = ''''\<rparr>, s)),
      en_ds8k_connect = (\<lambda>_ _ _ s. (Inl \<lparr>lx_mro = [Ds8k_ClientException], lx_message = '''',
        lx_details = '''', lx_text = ''''\<rparr>, s)),
      en_randint = (\<lambda>a b s. (a, s)), en_version_less = (\<lambda>_ _. False),
      en_connect_ex = (\<lambda>h p s. (answer h p, s)), en_wait = raise Empty, en_now = (\<lambda>_. 0)\<rparr>"

definition ds8k_answers :: "string \<Rightarrow> int \<Rightarrow> lib_exc + int" where
  "ds8k_answers h p = (if p \<in> {22, 8452} then Inr 0 else Inr 111)"

lemma detect_first_kind_witness:
  "detect_array_type (stub_env ds8k_answers) [''a''] (0::nat) = (Inr ''DS8K'', 0)"
proof -
  have kinds: "{k. \<exists>e \<in> set [''a'']. ds8k_answers e (kind_port k) = Inr 0} = {DS8K, SVC}"
  proof (rule set_eqI)
    show "k \<in> {k. \<exists>e \<in> set [''a'']. ds8k_answers e (kind_port k) = Inr 0} \<longleftrightarrow> k \<in> {DS8K, SVC}" for k
      by (cases k) (simp_all add: ds8k_answers_def)
  qed
  show ?thesis
    using detect_first_kind [of "stub_env ds8k_answers" ds8k_answers "[''a'']" "0::nat"]
    unfolding kinds by (simp add: stub_env_def least_kind ARRAY_TYPE_DS8K_def)
qed

section \<open>Keys\<close>

lemma join_head: "join sep ((c # x) # xs) = c # join sep (x # xs)"
  by (cases xs) simp_all

lemma join_with_space:
  "join '', '' (x # xs) = join [CHR '',''] (x # map ((#) (CHR '' '')) xs)"
  by (induction xs arbitrary: x) (simp_all add: join_head)

lemma join_comma_space_inj:
  assumes "xs \<noteq> []" "ys \<noteq> []" "\<forall>x \<in> set xs. CHR '','' \<notin> set x" "\<forall>y \<in> set ys. CHR '','' \<notin> set y"
    and "join '', '' xs = join '', '' ys"
  shows "xs = ys"
proof -
  obtain x xs' y ys' where eq: "xs = x # xs'" "ys = y # ys'"
    using assms(1,2) by (metis list.exhaust)
  let ?spaced = "map ((#) (CHR '' ''))"
  have "split_on (CHR '','') (join [CHR '',''] (x # ?spaced xs')) = x # ?spaced xs'"
    using assms(3) eq by (intro split_on_join) auto
  moreover have "split_on (CHR '','') (join [CHR '',''] (y # ?spaced ys')) = y # ?spaced ys'"
    using assms(4) eq by (intro split_on_join) auto
  moreover have "join [CHR '',''] (x # ?spaced xs') = join [CHR '',''] (y # ?spaced ys')"
    using assms(5) unfolding eq join_with_space .
  ultimately have "x # ?spaced xs' = y # ?spaced ys'" by metis
  then have "x = y" "?spaced xs' = ?spaced ys'" by simp_all
  moreover have "inj ((#) (CHR '' ''))" by (simp add: inj_def)
  ultimately show ?thesis
    unfolding eq by (metis inj_map_eq_map)
qed

text \<open>
  Two management addresses as they stand in the secrets share an agent of a user exactly when
  they are the same text: joining the split addresses with \<^verbatim>\<open>', '\<close> confuses nothing.
\<close>

theorem agent_keys_distinct:
  "agent_key_of \<lparr>ci_array_addresses = split_on PARAMETERS_ARRAY_ADDRESSES_DELIMITER a,
       ci_user = u, ci_password = p, ci_system_id = i\<rparr> =
   agent_key_of \<lparr>ci_array_addresses = split_on PARAMETERS_ARRAY_ADDRESSES_DELIMITER b,
       ci_user = v, ci_password = q, ci_system_id = j\<rparr>
   \<longleftrightarrow> u = v \<and> a = b"
proof -
  have "a = b" if "join '', '' (split_on (CHR '','') a) = join '', '' (split_on (CHR '','') b)"
  proof -
    have "split_on (CHR '','') a = split_on (CHR '','') b"
      using that by (intro join_comma_space_inj) (auto dest: split_on_parts)
    then show ?thesis by (metis join_split_on)
  qed
  then show ?thesis
    by (auto simp: agent_key_of_def ENDPOINTS_SEPARATOR_def PARAMETERS_ARRAY_ADDRESSES_DELIMITER_def)
qed

section \<open>A pool used by one request at a time\<close>

text \<open>
  \<open>balanced good k p\<close>: the pool has \<open>k\<close> connections lent and the others in its queue, all of them
  \<open>good\<close> for the user, the password and the addresses of the pool.
\<close>

type_synonym 'i login_test = "json \<Rightarrow> json \<Rightarrow> string list \<Rightarrow> 'i \<Rightarrow> bool"

abbreviation good_for :: "'i login_test \<Rightarrow> 'i pool \<Rightarrow> 'i \<Rightarrow> bool" where
  "good_for good p \<equiv> good (pl_username p) (pl_password p) (pl_endpoints p)"

definition balanced :: "'i login_test \<Rightarrow> int \<Rightarrow> 'i pool \<Rightarrow> bool" where
  "balanced good k p \<longleftrightarrow> current_size p = int (length (channel p)) + k \<and> current_size p \<le> max_size p \<and>
     0 < max_size p \<and> (\<forall>i \<in> set (channel p). good_for good p i)"

definition same_login :: "'i pool \<Rightarrow> 'i pool \<Rightarrow> bool" where
  "same_login p q \<longleftrightarrow> pl_endpoints q = pl_endpoints p \<and> pl_username q = pl_username p \<and>
     pl_password q = pl_password p \<and> pl_endpoint_key q = pl_endpoint_key p \<and> max_size q = max_size p"

lemma same_login_refl [simp]: "same_login p p"
  and same_login_trans: "same_login p q \<Longrightarrow> same_login q r \<Longrightarrow> same_login p r"
  by (simp_all add: same_login_def)

lemma same_login_good: "same_login p q \<Longrightarrow> good_for good q i = good_for good p i"
  by (simp add: same_login_def)

text \<open>More fuel gives the same end.\<close>

lemma pool_del_more:
  "pool_del m active disc cls wait ps = Some x \<Longrightarrow> m \<le> n \<Longrightarrow> pool_del n active disc cls wait ps = Some x"
proof (induction m arbitrary: n ps)
  case (Suc m)
  then obtain k where "n = Suc k" "m \<le> k" by (cases n) auto
  then show ?case
    using Suc.prems(1) Suc.IH by (auto split: if_splits prod.splits sum.splits)
qed simp

text \<open>
  What a pool asks of its connections: \<^verbatim>\<open>is_active\<close> of a connection that the class has made
  does not raise.
\<close>

locale pool_client =
  fixes active :: "'i \<Rightarrow> ('s, bool) pyprog" and disc :: "'i \<Rightarrow> ('s, unit) pyprog"
    and cls :: "json \<Rightarrow> json \<Rightarrow> string list \<Rightarrow> ('s, 'i) pyprog"
    and good :: "'i login_test"
  assumes checks: "good u w eps i \<Longrightarrow> yields (\<lambda>_. True) (\<lambda>_. False) (active i)"
    and makes: "yields (good u w eps) (\<lambda>_. True) (cls u w eps)"
begin

lemma take_active_balanced:
  "balanced good 0 p \<Longrightarrow> take_active active disc (p, s) = (r, (p', s')) \<Longrightarrow>
   same_login p p' \<and> (case r of
      Inl e \<Rightarrow> False
    | Inr None \<Rightarrow> balanced good 0 p' \<and> channel p' = []
    | Inr (Some i) \<Rightarrow> balanced good 1 p' \<and> good_for good p i \<and> length (channel p') < length (channel p))"
proof (induction "length (channel p)" arbitrary: p s)
  case 0
  then show ?case
    by (auto simp: take_active.simps channel_get_def)
next
  case (Suc n)
  then obtain i rest where ch: "channel p = i # rest" by (cases "channel p") auto
  then have i: "good_for good p i" using Suc.prems by (simp add: balanced_def)
  let ?p1 = "p\<lparr>channel := rest\<rparr>"
  obtain b s1 where act: "active i s = (Inr b, s1)"
    using checks [OF i] by (metis old.prod.exhaust old.sum.exhaust yields_errorD)
  show ?case
  proof (cases b)
    case True
    then show ?thesis
      using Suc.prems ch act i
      by (auto simp: take_active.simps channel_get_def balanced_def same_login_def)
  next
    case False
    let ?p2 = "release_slot ?p1"
    have "take_active active disc (?p2, snd (disc i s1)) = (r, (p', s'))"
      using Suc.prems(2) ch act False by (simp add: take_active.simps [of _ _ p] channel_get_def)
    moreover have "n = length (channel ?p2)" "balanced good 0 ?p2"
      using Suc.hyps(2) Suc.prems(1) ch by (auto simp: release_slot_def balanced_def)
    ultimately have "same_login ?p2 p' \<and> (case r of
        Inl e \<Rightarrow> False
      | Inr None \<Rightarrow> balanced good 0 p' \<and> channel p' = []
      | Inr (Some i) \<Rightarrow> balanced good 1 p' \<and> good_for good ?p2 i \<and> length (channel p') < length (channel ?p2))"
      by (intro Suc.hyps(1)) auto
    then show ?thesis
      using ch by (auto simp: same_login_def release_slot_def split: sum.splits option.splits)
  qed
qed

text \<open>\<open>get\<close> never waits, and \<open>put\<close> takes the connection back.\<close>

lemma pool_get_balanced:
  assumes "balanced good 0 p" and "pool_get active disc cls wait (p, s) = (r, (p', s'))"
  shows "same_login p p' \<and>
    (case r of
       Inl e \<Rightarrow> balanced good 0 p'
     | Inr i \<Rightarrow> balanced good 1 p' \<and> good_for good p i \<and>
         (channel p' = [] \<or> length (channel p') < length (channel p)))"
proof -
  obtain f p1 s1 where f: "take_active active disc (p, s) = (f, (p1, s1))"
    by (metis surj_pair)
  note taken = take_active_balanced [OF assms(1) f]
  show ?thesis
  proof (cases f)
    case (Inr found)
    show ?thesis
    proof (cases found)
      case None
      then have p1: "balanced good 0 p1" "channel p1 = []" "same_login p p1"
        using taken Inr by auto
      then have free: "\<not> max_size p1 \<le> current_size p1"
        by (simp add: balanced_def)
      let ?p2 = "p1\<lparr>current_size := current_size p1 + 1\<rparr>"
      obtain c s2 where c: "cls (pl_username p1) (pl_password p1) (pl_endpoints p1) s1 = (c, s2)"
        by (metis surj_pair)
      have "pool_get active disc cls wait (p, s) =
          (case c of Inl e \<Rightarrow> (Inl e, (release_slot ?p2, s2)) | Inr i \<Rightarrow> (Inr i, (?p2, s2)))"
        using f Inr None free c
        by (simp add: pool_get_def run on_pool_def on_world_def reserve_slot_def split: sum.split)
      then show ?thesis
        using assms(2) p1 yields_resultD [OF makes] c
        by (auto simp: balanced_def same_login_def release_slot_def split: sum.split_asm)
    next
      case (Some i)
      then have "pool_get active disc cls wait (p, s) = (Inr i, (p1, s1))"
        using f Inr by (simp add: pool_get_def bnd_Inr)
      then show ?thesis using assms(2) taken Inr Some by simp
    qed
  qed (use taken in simp)
qed

lemma pool_put_balanced:
  assumes "balanced good 1 p" and "good_for good p i"
  shows "\<exists>p'. pool_put disc i (p, s) = (Inr (), (p', s)) \<and> same_login p p' \<and> balanced good 0 p'"
proof -
  have keep: "\<not> max_size p < current_size p" "\<not> queue_full p"
    using assms(1) by (auto simp: balanced_def queue_full_def)
  then have "pool_put disc i (p, s) = (Inr (), (p\<lparr>channel := channel p @ [i]\<rparr>, s))"
    by (simp add: pool_put_def run on_pool_def check_discard_def channel_put_def)
  then show ?thesis
    using assms by (auto simp: balanced_def same_login_def)
qed

lemma pool_del_ends:
  "balanced good 0 p \<Longrightarrow>
   \<exists>r p' s'. pool_del (Suc (length (channel p))) active disc cls wait (p, s) = Some (r, (p', s')) \<and>
     (r = Inr () \<longrightarrow> current_size p' = 0)"
proof (induction "length (channel p)" arbitrary: p s rule: less_induct)
  case less
  show ?case
  proof (cases "current_size p = 0")
    case False
    then have nonempty: "channel p \<noteq> []" using less.prems by (auto simp: balanced_def)
    obtain g p1 s1 where g: "pool_get active disc cls wait (p, s) = (g, (p1, s1))"
      by (metis surj_pair)
    note got = pool_get_balanced [OF less.prems g]
    show ?thesis
    proof (cases g)
      case (Inl e)
      then show ?thesis using False g by (simp add: run)
    next
      case (Inr i)
      obtain d s2 where d: "disc i s1 = (d, s2)" by (metis surj_pair)
      let ?p2 = "release_slot p1"
      have shorter: "length (channel ?p2) < length (channel p)" and bal: "balanced good 0 ?p2"
        using got Inr nonempty by (auto simp: release_slot_def balanced_def)
      show ?thesis
      proof (cases d)
        case (Inl e)
        then show ?thesis using False g \<open>g = Inr i\<close> d by (simp add: run on_world_def)
      next
        case (Inr u)
        have "pool_del (Suc (length (channel p))) active disc cls wait (p, s) =
            pool_del (length (channel p)) active disc cls wait (?p2, s2)"
          using False g \<open>g = Inr i\<close> d Inr by (simp add: run on_world_def)
        moreover obtain r p' s' where
          "pool_del (Suc (length (channel ?p2))) active disc cls wait (?p2, s2) = Some (r, (p', s'))"
          "r = Inr () \<longrightarrow> current_size p' = 0"
          using less.hyps [OF shorter bal] by blast
        ultimately show ?thesis
          using shorter by (metis Suc_leI pool_del_more)
      qed
    qed
  qed simp
qed

lemma new_pool_balanced:
  assumes "0 < mx" and "ConnectionPool active disc cls wait eps u w n mx s = (Inr p, s')"
  shows "balanced good 0 p \<and> same_login (empty_pool eps u w mx) p"
proof -
  have loop: "same_login p p' \<and> balanced good 0 p'"
    if "balanced good 0 p" and
      "for_each (\<lambda>_. bnd (pool_get active disc cls wait) (pool_put disc)) (replicate n ()) (p, s) = (r, (p', s'))"
    for r p p' s s'
    using that
  proof (induction n arbitrary: p s)
    case (Suc n)
    obtain g p1 s1 where g: "pool_get active disc cls wait (p, s) = (g, (p1, s1))"
      by (metis surj_pair)
    show ?case
    proof (cases g)
      case (Inl e)
      then show ?thesis
        using Suc.prems pool_get_balanced [OF Suc.prems(1) g] g by (auto simp: run)
    next
      case (Inr i)
      then have p1: "same_login p p1" "balanced good 1 p1" "good_for good p1 i"
        using pool_get_balanced [OF Suc.prems(1) g] by (auto simp: same_login_good)
      obtain p2 where p2: "pool_put disc i (p1, s1) = (Inr (), (p2, s1))" "same_login p1 p2" "balanced good 0 p2"
        using pool_put_balanced [OF p1(2,3)] by metis
      then have "same_login p2 p' \<and> balanced good 0 p'"
        using Suc.prems(2) g Inr by (intro Suc.IH [of p2 s1]) (simp_all add: run)
      then show ?thesis using p1 p2 by (auto intro: same_login_trans)
    qed
  qed simp
  have "balanced good 0 (empty_pool eps u w mx)"
    using assms(1) by (simp add: balanced_def empty_pool_def)
  then show ?thesis
    using assms(2) loop
    by (auto simp: ConnectionPool_def split: prod.split_asm sum.split_asm)
qed

end

section \<open>Every request gives its connection back\<close>

text \<open>
  The type of a connection: it meets the contract of a mediator, carries the array type, the
  port and the limit of its kind, and \<^verbatim>\<open>is_active\<close> does not raise.
\<close>

definition of_kind :: "array_kind \<Rightarrow> 's mediator \<Rightarrow> bool" where
  "of_kind k med \<longleftrightarrow> array_mediator med \<and> array_type_to_mediator (array_type med) = Some k \<and>
     port med = kind_port k \<and> max_connections med = kind_max_connections k"

lemma kinds_made:
  "of_kind XIV (xiv_mediator randint xcl eps)" "of_kind SVC (svc_mediator retry cl ep)"
  "of_kind DS8K (ds8k_mediator retry api sa sys)"
  unfolding of_kind_def
  by (rule conjI, rule xiv.array_mediator_axioms svc.array_mediator_axioms ds8k.array_mediator_axioms,
      simp add: xiv_mediator_def svc_mediator_def ds8k_mediator_def array_type_to_mediator_def array_type_defs)+

text \<open>A connection that the class of the storage type made with these credentials.\<close>

definition opened :: "'s env \<Rightarrow> array_kind \<Rightarrow> json \<Rightarrow> json \<Rightarrow> string list \<Rightarrow> 's mediator \<Rightarrow> bool" where
  "opened env k u w eps med \<longleftrightarrow> (\<exists>s s'. med_class env k u w eps s = (Inr med, s'))"

lemma yields_opened:
  "yields Q F (med_class env k u w eps) \<Longrightarrow>
   yields (\<lambda>med. Q med \<and> opened env k u w eps med) F (med_class env k u w eps)"
  by (rule yieldsI) (auto simp: opened_def dest: yields_resultD yields_errorD)

definition guarded :: "array_kind \<Rightarrow> 's mediator \<Rightarrow> bool" where
  "guarded k med \<longleftrightarrow> of_kind k med \<and> yields (\<lambda>_. True) (\<lambda>_. False) (is_active med)"

lemma guarded_checks: "guarded k med \<Longrightarrow> yields (\<lambda>_. True) (\<lambda>_. False) (is_active med)"
  by (simp add: guarded_def)

text \<open>
  The XIV and the DS8K mediator answer \<^verbatim>\<open>is_active\<close> without raising.  The SVC mediator passes
  on what the client's property raises, and then \<^verbatim>\<open>get\<close> loses the connection and its slot;
  \<open>svc_alive\<close> says that it raises nothing.  Only the pools of SVC agents need it.
\<close>

definition svc_alive :: "'s env \<Rightarrow> bool" where
  "svc_alive env \<longleftrightarrow> (\<forall>ep u w.
     yields (\<lambda>cl. yields (\<lambda>_. True) (\<lambda>_. False) (sc_is_active cl)) (\<lambda>_. True) (en_svc_connect env ep u w))"

definition checked :: "'s env \<Rightarrow> array_kind \<Rightarrow> bool" where
  "checked env k \<longleftrightarrow> (k = SVC \<longrightarrow> svc_alive env)"

definition own_connection :: "'s env \<Rightarrow> array_kind \<Rightarrow> 's mediator login_test" where
  "own_connection env k u w eps med \<longleftrightarrow> guarded k med \<and> opened env k u w eps med"

lemma yields_lib_good: "yields Q (\<lambda>_. True) m \<Longrightarrow> yields Q (\<lambda>_. True) (lib m)"
  by (rule yieldsI) (auto simp: run split: prod.split_asm sum.split_asm dest: yields_resultD)

lemma guarded_xiv: "guarded XIV (xiv_mediator r cl eps)"
  unfolding guarded_def by (rule conjI, rule kinds_made) (simp add: xiv_mediator_def xiv_is_active_def yields_ret)

lemma guarded_ds8k: "guarded DS8K (ds8k_mediator r api sa sys)"
  unfolding guarded_def by (rule conjI, rule kinds_made) (auto simp: ds8k_mediator_def ds8k_is_active_def rest_is_valid_def
      intro!: yields_try_except [where G = "\<lambda>_. True"] spec_rules yields_any)

lemma guarded_svc:
  "yields (\<lambda>_. True) (\<lambda>_. False) (sc_is_active cl) \<Longrightarrow> guarded SVC (svc_mediator r cl ep)"
  unfolding guarded_def
  by (rule conjI, rule kinds_made, rule yieldsI)
    (auto simp: svc_mediator_def svc_is_active_def run split: prod.split_asm sum.split_asm
      dest: yields_errorD)

lemma xiv_class_guarded: "yields (guarded XIV) (\<lambda>_. True) (med_class env XIV u w eps)"
  by (auto simp: XIVArrayMediator_def intro!: spec_rules yields_any guarded_xiv)

lemma ds8k_class_guarded: "yields (guarded DS8K) (\<lambda>_. True) (med_class env DS8K u w eps)"
  by (auto simp: DS8KArrayMediator_def intro!: spec_rules yields_any guarded_ds8k split: prod.split)

lemma svc_class_guarded:
  assumes "svc_alive env" shows "yields (guarded SVC) (\<lambda>_. True) (med_class env SVC u w eps)"
proof -
  let ?alive = "\<lambda>cl. yields (\<lambda>_. True) (\<lambda>_. False) (sc_is_active cl)"
  have "yields ?alive (\<lambda>_. True) (svc_connect_client (en_svc_connect env) u w ep)" for ep
    unfolding svc_connect_client_def using assms
    by (intro yields_try_except [where G = "\<lambda>_. True"] yields_lib_good)
      (auto simp: svc_alive_def intro: spec_rules)
  then have "yields (guarded SVC) (\<lambda>_. True)
      (bnd (svc_connect_client (en_svc_connect env) u w ep) (\<lambda>cl. ret (svc_mediator r cl ep)))" for ep r
    by (rule yields_bnd) (auto intro: spec_rules guarded_svc)
  then show ?thesis
    by (auto simp: SVCArrayMediator_def intro: spec_rules split: list.split)
qed

lemma agent_pool:
  "checked env k \<Longrightarrow> pool_client is_active (med_class env k) (own_connection env k)"
proof (rule pool_client.intro)
  assume "checked env k"
  then have "yields (guarded k) (\<lambda>_. True) (med_class env k u w eps)" for u w eps
    by (cases k) (simp_all add: checked_def xiv_class_guarded ds8k_class_guarded svc_class_guarded del: med_class.simps)
  from yields_opened [OF this]
  show "yields (own_connection env k u w eps) (\<lambda>_. True) (med_class env k u w eps)" for u w eps
    by (simp add: own_connection_def [abs_def] del: med_class.simps)
qed (simp add: own_connection_def guarded_def)

interpretation xiv_pool: pool_client is_active disconnect "med_class env XIV" "own_connection env XIV" for env
  by (rule agent_pool) (simp add: checked_def)

interpretation ds8k_pool: pool_client is_active disconnect "med_class env DS8K" "own_connection env DS8K" for env
  by (rule agent_pool) (simp add: checked_def)

text \<open>The invariant of the cache.\<close>

definition addresses_ok :: "string list \<Rightarrow> bool" where
  "addresses_ok eps \<longleftrightarrow> eps \<noteq> [] \<and> (\<forall>a \<in> set eps. PARAMETERS_ARRAY_ADDRESSES_DELIMITER \<notin> set a)"

definition agent_ok :: "'s env \<Rightarrow> int \<Rightarrow> agent_key \<Rightarrow> 's agent \<Rightarrow> bool" where
  "agent_ok env k key a \<longleftrightarrow>
     key = (ag_username a, ag_endpoint_key a) \<and>
     ag_endpoint_key a = join ENDPOINTS_SEPARATOR (ag_endpoints a) \<and> addresses_ok (ag_endpoints a) \<and>
     pl_username (ag_pool a) = ag_username a \<and> pl_password (ag_pool a) = ag_password a \<and>
     pl_endpoints (ag_pool a) = ag_endpoints a \<and>
     max_size (ag_pool a) = int (min (kind_max_connections (ag_med_class a)) CSI_CONTROLLER_SERVER_WORKERS) \<and>
     balanced (own_connection env (ag_med_class a)) k (ag_pool a)"

definition agents_ok :: "'s env \<Rightarrow> 's ctl \<Rightarrow> bool" where
  "agents_ok env c \<longleftrightarrow> (\<forall>key a. map_of (ctl_agents c) key = Some a \<longrightarrow>
     checked env (ag_med_class a) \<longrightarrow> agent_ok env 0 key a)"

lemma agents_okD:
  "agents_ok env c \<Longrightarrow> map_of (ctl_agents c) key = Some a \<Longrightarrow> checked env (ag_med_class a) \<Longrightarrow>
   agent_ok env 0 key a"
  unfolding agents_ok_def by blast

lemma agents_ok_array [simp]: "agents_ok env (c\<lparr>ctl_array := s\<rparr>) = agents_ok env c"
  by (simp add: agents_ok_def)

lemma agents_ok_set:
  "agents_ok env c \<Longrightarrow> (checked env (ag_med_class a) \<Longrightarrow> agent_ok env 0 key a) \<Longrightarrow>
   agents_ok env (c\<lparr>ctl_agents := dict_set key a (ctl_agents c)\<rparr>)"
  by (simp add: agents_ok_def)

lemma agents_ok_del: "agents_ok env c \<Longrightarrow> agents_ok env (c\<lparr>ctl_agents := dict_del key (ctl_agents c)\<rparr>)"
  by (simp add: agents_ok_def)

lemma agent_ok_pool:
  "agent_ok env k key a \<Longrightarrow> same_login (ag_pool a) p \<Longrightarrow>
   balanced (own_connection env (ag_med_class a)) k' p \<Longrightarrow> agent_ok env k' key (a\<lparr>ag_pool := p\<rparr>)"
  by (simp add: agent_ok_def same_login_def)

lemma new_agent_ok:
  assumes "addresses_ok eps" and "StorageAgent env eps u w ty s = (Inr a, s')"
  shows "ag_password a = w" and "ag_endpoints a = eps"
    and "checked env (ag_med_class a) \<Longrightarrow> agent_ok env 0 (u, join ENDPOINTS_SEPARATOR eps) a"
proof -
  obtain k p s1 s2 where k: "ConnectionPool is_active disconnect (med_class env k) (en_wait env) eps u w 1
        (int (min (kind_max_connections k) CSI_CONTROLLER_SERVER_WORKERS)) s1 = (Inr p, s2)"
    and a: "a = \<lparr>ag_username = u, ag_password = w, ag_endpoints = eps,
        ag_endpoint_key = join ENDPOINTS_SEPARATOR eps, ag_med_class = k, ag_pool = p\<rparr>"
    using assms(2) by (auto simp: StorageAgent_def run split: prod.split_asm sum.split_asm option.split_asm)
  show "ag_password a = w" "ag_endpoints a = eps" by (simp_all add: a)
  show "agent_ok env 0 (u, join ENDPOINTS_SEPARATOR eps) a" if "checked env (ag_med_class a)"
  proof -
    have "checked env k" using that by (simp add: a)
    then have "balanced (own_connection env k) 0 p \<and> same_login (empty_pool eps u w
        (int (min (kind_max_connections k) CSI_CONTROLLER_SERVER_WORKERS))) p"
      using pool_client.new_pool_balanced [OF agent_pool _ k]
      by (cases k) (simp_all add: CSI_CONTROLLER_SERVER_WORKERS_def)
    then show ?thesis
      using a assms(1) by (simp add: agent_ok_def same_login_def empty_pool_def)
  qed
qed

text \<open>What \<^verbatim>\<open>get_agent\<close> leaves: a sound cache, with an agent of the request's password.\<close>

definition agent_found :: "'s env \<Rightarrow> array_connection_info \<Rightarrow> 's ctl \<Rightarrow> exc + agent_key \<Rightarrow> 's ctl \<Rightarrow> bool" where
  "agent_found env info c r c' \<longleftrightarrow> agents_ok env c' \<and>
     (\<forall>key. r = Inr key \<longrightarrow> key = agent_key_of info \<and>
        (\<exists>a. map_of (ctl_agents c') key = Some a \<and> ag_password a = ci_password info)) \<and>
     (\<forall>key. key \<noteq> agent_key_of info \<longrightarrow> map_of (ctl_agents c') key = map_of (ctl_agents c) key)"

lemma create_agent_ok:
  assumes "addresses_ok (ci_array_addresses info)" "agents_ok env c" "create_agent env info ty c = (r, c')"
  shows "agent_found env info c r c'"
proof -
  obtain m s where m: "StorageAgent env (ci_array_addresses info) (ci_user info) (ci_password info) ty
      (ctl_array c) = (m, s)"
    by (metis surj_pair)
  show ?thesis
  proof (cases m)
    case (Inl e)
    then show ?thesis
      using assms m by (auto simp: agent_found_def create_agent_def run on_array_def)
  next
    case (Inr a)
    note new = new_agent_ok [OF assms(1) m [unfolded Inr]]
    have "agents_ok env (c\<lparr>ctl_array := s, ctl_agents := dict_set (agent_key_of info) a (ctl_agents c)\<rparr>)"
      using agents_ok_set [of env "c\<lparr>ctl_array := s\<rparr>" a "agent_key_of info"] assms(2) new(3)
      by (simp add: agent_key_of_def)
    then show ?thesis
      using assms(3) m Inr new(1) by (auto simp: agent_found_def create_agent_def run on_array_def)
  qed
qed

lemma get_agent_ok:
  assumes "addresses_ok (ci_array_addresses info)" "agents_ok env c" "get_agent env fin info ty c = (r, c')"
  shows "agent_found env info c r c'"
proof (cases "hashable (ci_user info)")
  case True
  show ?thesis
  proof (cases "map_of (ctl_agents c) (agent_key_of info)")
    case None
    then show ?thesis
      using True assms(3) create_agent_ok [OF assms(1,2)] by (simp add: get_agent_def)
  next
    case (Some found)
    let ?c1 = "c\<lparr>ctl_agents := dict_del (agent_key_of info) (ctl_agents c),
      ctl_array := fin found (ctl_array c)\<rparr>"
    have "agents_ok env ?c1"
      using agents_ok_del [OF assms(2)] by (simp add: agents_ok_def)
    then show ?thesis
      using True Some assms(2,3) create_agent_ok [OF assms(1), of env ?c1 ty r c']
      by (auto simp: get_agent_def agent_found_def split: if_splits)
  qed
qed (use assms in \<open>auto simp: get_agent_def agent_found_def\<close>)

lemma lend_mediator_ok:
  assumes "agents_ok env c" "map_of (ctl_agents c) key = Some a" and "lend_mediator env key c = (r, c')"
  shows "\<exists>p s. c' = c\<lparr>ctl_agents := dict_set key (a\<lparr>ag_pool := p\<rparr>) (ctl_agents c), ctl_array := s\<rparr> \<and>
    (checked env (ag_med_class a) \<longrightarrow>
      (case r of Inl e \<Rightarrow> agent_ok env 0 key (a\<lparr>ag_pool := p\<rparr>)
       | Inr med \<Rightarrow> agent_ok env 1 key (a\<lparr>ag_pool := p\<rparr>) \<and>
           good_for (own_connection env (ag_med_class a)) (ag_pool a) med))"
proof -
  obtain g p s where g: "pool_get is_active disconnect (med_class env (ag_med_class a)) (en_wait env)
      (ag_pool a, ctl_array c) = (g, (p, s))"
    by (metis surj_pair)
  have lent: "case g of Inl e \<Rightarrow> agent_ok env 0 key (a\<lparr>ag_pool := p\<rparr>)
     | Inr med \<Rightarrow> agent_ok env 1 key (a\<lparr>ag_pool := p\<rparr>) \<and>
         good_for (own_connection env (ag_med_class a)) (ag_pool a) med"
    if ch: "checked env (ag_med_class a)"
  proof -
    have a: "agent_ok env 0 key a" by (rule agents_okD [OF assms(1,2) ch])
    then have "balanced (own_connection env (ag_med_class a)) 0 (ag_pool a)" by (simp add: agent_ok_def)
    from pool_client.pool_get_balanced [OF agent_pool [OF ch] this g] show ?thesis
      by (auto intro: agent_ok_pool [OF a] split: sum.splits)
  qed
  show ?thesis
    using lent g assms(2,3)
    by (auto simp: lend_mediator_def on_agent_def run split: sum.split_asm if_split_asm)
qed

lemma with_mediator_ok:
  assumes "addresses_ok (ci_array_addresses info)" "agents_ok env c"
  shows "agents_ok env (snd (with_mediator env fin info ty body c))"
proof -
  obtain k c1 where k: "get_agent env fin info ty c = (k, c1)" by (metis surj_pair)
  note agent = get_agent_ok [OF assms k, unfolded agent_found_def]
  show ?thesis
  proof (cases k)
    case (Inr key)
    then obtain a where a: "map_of (ctl_agents c1) key = Some a" and c1: "agents_ok env c1"
      using agent by auto
    let ?kind = "ag_med_class a"
    obtain l c2 where l: "lend_mediator env key c1 = (l, c2)" by (metis surj_pair)
    obtain p s where c2: "c2 = c1\<lparr>ctl_agents := dict_set key (a\<lparr>ag_pool := p\<rparr>) (ctl_agents c1), ctl_array := s\<rparr>"
      and lent: "checked env ?kind \<Longrightarrow> (case l of Inl e \<Rightarrow> agent_ok env 0 key (a\<lparr>ag_pool := p\<rparr>)
        | Inr med \<Rightarrow> agent_ok env 1 key (a\<lparr>ag_pool := p\<rparr>) \<and> good_for (own_connection env ?kind) (ag_pool a) med)"
      using lend_mediator_ok [OF c1 a l] by auto
    show ?thesis
    proof (cases l)
      case (Inl e)
      then show ?thesis
        using k Inr l lent c1 c2 by (auto simp: with_mediator_def run agents_ok_def)
    next
      case (Inr med)
      obtain r s1 where r: "body med s = (r, s1)" by (metis surj_pair)
      obtain q p1 s2 where put: "pool_put disconnect med (p, s1) = (q, (p1, s2))" by (metis surj_pair)
      have "agent_ok env 0 key (a\<lparr>ag_pool := p1\<rparr>)" if ch: "checked env ?kind"
      proof -
        have ok: "agent_ok env 1 key (a\<lparr>ag_pool := p\<rparr>)" "good_for (own_connection env ?kind) (ag_pool a) med"
          using lent [OF ch] Inr by auto
        moreover from this have "agent_ok env 0 key a" by (intro agents_okD [OF c1 a ch])
        ultimately have "good_for (own_connection env ?kind) p med" "balanced (own_connection env ?kind) 1 p"
          by (simp_all add: agent_ok_def)
        from pool_client.pool_put_balanced [OF agent_pool [OF ch] this(2,1), of disconnect s1] put
        show ?thesis using agent_ok_pool [OF ok(1), of p1] by simp
      qed
      moreover have "agents_ok env (snd (with_mediator env fin info ty body c)) =
          agents_ok env (c1\<lparr>ctl_agents := dict_set key (a\<lparr>ag_pool := p1\<rparr>)
            (dict_set key (a\<lparr>ag_pool := p\<rparr>) (ctl_agents c1))\<rparr>)"
        using k \<open>k = Inr key\<close> l Inr c2 r put
        by (cases q) (simp_all add: with_mediator_def run on_array_def return_mediator_def on_agent_def agents_ok_def)
      ultimately show ?thesis using c1 by (auto simp: agents_ok_def)
    qed
  qed (use k agent in \<open>auto simp: with_mediator_def run\<close>)
qed

text \<open>
  Whatever a request does with its connection, and however it ends, afterwards every cached
  agent still has all its connections in its pool's queue, at most as many as its storage
  type allows and at most one per worker thread, each of them opened with the user, password and
  addresses the agent was created for.  For the agents of an SVC this needs \<^verbatim>\<open>is_active\<close> of its
  client not to raise.
\<close>

theorem requests_return_connections:
  assumes "agents_ok env c" and "addresses_ok (ci_array_addresses info)"
  shows "agents_ok env (snd (with_mediator env fin info ty body c))"
  using assms by (intro with_mediator_ok)

definition sample_info :: array_connection_info where
  "sample_info = \<lparr>ci_array_addresses = [''a''], ci_user = JStr ''u'', ci_password = JStr ''p'', ci_system_id = None\<rparr>"

definition no_agents :: "'s \<Rightarrow> 's ctl" where
  "no_agents s = \<lparr>ctl_agents = [], ctl_array = s\<rparr>"

definition xiv_env :: "string list env" where
  "xiv_env = (stub_env ds8k_answers)\<lparr>en_xiv_connect := (\<lambda>_ _ _ s. (Inr sample_xiv, s @ [''connect'']))\<rparr>"

lemma xiv_env_alive: "svc_alive xiv_env"
  by (auto simp: svc_alive_def xiv_env_def stub_env_def intro!: yieldsI)

lemma sample_info_ok: "addresses_ok (ci_array_addresses sample_info)"
  by (simp add: sample_info_def addresses_ok_def PARAMETERS_ARRAY_ADDRESSES_DELIMITER_def)

lemma no_agents_ok: "agents_ok env (no_agents s)"
  by (simp add: no_agents_def agents_ok_def)

lemma requests_return_connections_witness:
  "agents_ok xiv_env (snd (with_mediator xiv_env (\<lambda>_ s. s) sample_info (Some ''A9000'')
     (\<lambda>_. (raise KeyError :: (string list, unit) pyprog)) (no_agents [])))"
  by (rule requests_return_connections [OF no_agents_ok sample_info_ok])

text \<open>
  The agent that \<^verbatim>\<open>get_agent\<close> finds or makes has the request's credentials, and so has every
  connection that it holds or lends.
\<close>

lemma found_agent_login:
  assumes "agents_ok env c" and "addresses_ok (ci_array_addresses info)"
    and "get_agent env fin info ty c = (Inr key, c')"
    and "map_of (ctl_agents c') key = Some a" and "checked env (ag_med_class a)"
  shows "pl_username (ag_pool a) = ci_user info \<and> pl_password (ag_pool a) = ci_password info \<and>
    pl_endpoints (ag_pool a) = ci_array_addresses info"
proof -
  have key: "key = agent_key_of info" and password: "ag_password a = ci_password info" and ok: "agents_ok env c'"
    using get_agent_ok [OF assms(2,1,3)] assms(4) by (auto simp: agent_found_def)
  have agent: "agent_ok env 0 key a" by (rule agents_okD [OF ok assms(4,5)])
  then have "join '', '' (ag_endpoints a) = join '', '' (ci_array_addresses info)" "addresses_ok (ag_endpoints a)"
    using key by (auto simp: agent_ok_def agent_key_of_def ENDPOINTS_SEPARATOR_def)
  then have "ag_endpoints a = ci_array_addresses info"
    using assms(2)
    by (intro join_comma_space_inj) (auto simp: addresses_ok_def PARAMETERS_ARRAY_ADDRESSES_DELIMITER_def)
  moreover have "ag_username a = ci_user info"
    using agent key by (simp add: agent_ok_def agent_key_of_def)
  ultimately show ?thesis
    using agent password by (simp add: agent_ok_def)
qed

lemma lent_connection:
  assumes "agents_ok env c" and "addresses_ok (ci_array_addresses info)"
    and "get_agent env fin info ty c = (Inr key, c')"
    and "map_of (ctl_agents c') key = Some a" and "checked env (ag_med_class a)"
  shows "med \<in> set (channel (ag_pool a)) \<Longrightarrow>
      opened env (ag_med_class a) (ci_user info) (ci_password info) (ci_array_addresses info) med"
    and "lend_mediator env key c' = (Inr med, c'') \<Longrightarrow>
      opened env (ag_med_class a) (ci_user info) (ci_password info) (ci_array_addresses info) med"
proof -
  note login = found_agent_login [OF assms]
  have ok: "agents_ok env c'" using get_agent_ok [OF assms(2,1,3)] by (simp add: agent_found_def)
  show "opened env (ag_med_class a) (ci_user info) (ci_password info) (ci_array_addresses info) med"
    if "med \<in> set (channel (ag_pool a))"
  proof -
    have "balanced (own_connection env (ag_med_class a)) 0 (ag_pool a)"
      using agents_okD [OF ok assms(4,5)] by (simp add: agent_ok_def)
    then have "good_for (own_connection env (ag_med_class a)) (ag_pool a) med"
      using that by (simp add: balanced_def)
    then show ?thesis using login by (simp add: own_connection_def)
  qed
  show "opened env (ag_med_class a) (ci_user info) (ci_password info) (ci_array_addresses info) med"
    if "lend_mediator env key c' = (Inr med, c'')"
    using lend_mediator_ok [OF ok assms(4) that] login assms(5) by (auto simp: own_connection_def)
qed

definition other_agent :: "string list agent" where
  "other_agent =
     \<lparr>ag_username = JStr ''u'', ag_password = JStr ''old'', ag_endpoints = [''a''], ag_endpoint_key = ''a'',
      ag_med_class = XIV, ag_pool = empty_pool [''a''] (JStr ''u'') (JStr ''old'') 2\<rparr>"

section \<open>Dropping a pool\<close>

text \<open>
  The finalizer of a cached agent's pool ends after at most one round for each queued
  connection, and without an exception it leaves no connection.
\<close>

theorem agent_finalizer_ends:
  assumes "agents_ok env c" and "map_of (ctl_agents c) key = Some a" and "checked env (ag_med_class a)"
  shows "\<exists>r p s'. pool_del (Suc (length (channel (ag_pool a)))) is_active disconnect
        (med_class env (ag_med_class a)) (en_wait env) (ag_pool a, s) = Some (r, (p, s')) \<and>
      (r = Inr () \<longrightarrow> current_size p = 0)"
  using agents_okD [OF assms] pool_client.pool_del_ends [OF agent_pool [OF assms(3)]]
  by (simp add: agent_ok_def del: pool_del.simps)

definition idle_agent :: "string list agent" where
  "idle_agent =
     other_agent\<lparr>ag_pool := (empty_pool [''a''] (JStr ''u'') (JStr ''old'') 2)
       \<lparr>current_size := 1, channel := [xiv_mediator (\<lambda>a b s. (a, s)) sample_xiv [''a'']]\<rparr>\<rparr>"

lemma agent_finalizer_ends_witness:
  "\<exists>r p s'. pool_del 2 is_active disconnect (med_class xiv_env XIV) (en_wait xiv_env)
        (ag_pool idle_agent, []) = Some (r, (p, s')) \<and> (r = Inr () \<longrightarrow> current_size p = 0)"
proof -
  let ?c = "\<lparr>ctl_agents = [((JStr ''u'', ''a''), idle_agent)], ctl_array = []\<rparr>"
  have "opened xiv_env XIV (JStr ''u'') (JStr ''old'') [''a''] (xiv_mediator (\<lambda>a b s. (a, s)) sample_xiv [''a''])"
    unfolding opened_def
    by (rule exI [of _ "[]"])
      (simp add: XIVArrayMediator_def xiv_connect_client_def except_lib_def run xiv_env_def stub_env_def)
  then have "agents_ok xiv_env ?c"
    by (simp add: agents_ok_def agent_ok_def idle_agent_def own_connection_def other_agent_def addresses_ok_def balanced_def
        empty_pool_def PARAMETERS_ARRAY_ADDRESSES_DELIMITER_def CSI_CONTROLLER_SERVER_WORKERS_def
        guarded_xiv)
  moreover have "ag_med_class idle_agent = XIV" "length (channel (ag_pool idle_agent)) = 1"
    by (simp_all add: idle_agent_def other_agent_def)
  ultimately show ?thesis
    using agent_finalizer_ends [of xiv_env ?c "(JStr ''u'', ''a'')" idle_agent "[]"]
    by (simp add: checked_def numeral_2_eq_2 del: pool_del.simps)
qed

text \<open>
  A pool that has lost a slot, with an empty queue and room for another connection, can not
  be dropped: the finalizer opens and closes connections forever, no fuel is enough.  (A slot
  is lost when \<^verbatim>\<open>is_active\<close> raises.)
\<close>

theorem leaked_finalizer_loops:
  assumes "channel p = []" and "0 < current_size p" and "current_size p < max_size p"
    and "\<And>s. \<exists>i s1 s2. cls (pl_username p) (pl_password p) (pl_endpoints p) s = (Inr i, s1) \<and>
      disc i s1 = (Inr (), s2)"
  shows "pool_del fuel active disc cls wait (p, s) = None"
proof (induction fuel arbitrary: s)
  case (Suc n)
  obtain i s1 s2 where c: "cls (pl_username p) (pl_password p) (pl_endpoints p) s = (Inr i, s1)"
    "disc i s1 = (Inr (), s2)"
    using assms(4) by blast
  let ?p1 = "p\<lparr>current_size := current_size p + 1\<rparr>"
  have "pool_get active disc cls wait (p, s) = (Inr i, (?p1, s1))"
    using assms(1,3) c by (simp add: pool_get_def run take_active.simps channel_get_def on_pool_def
        reserve_slot_def on_world_def)
  moreover have "release_slot ?p1 = p" by (simp add: release_slot_def)
  ultimately show ?case
    using assms(2) c(2) Suc.IH by (simp add: run on_world_def)
qed simp

lemma leaked_finalizer_loops_witness:
  "\<forall>fuel. pool_del fuel is_active disconnect (med_class xiv_env XIV) (en_wait xiv_env)
     ((empty_pool [''a''] (JStr ''u'') (JStr ''p'') 2)\<lparr>current_size := 1\<rparr>, []) = None"
  by (intro allI, rule leaked_finalizer_loops)
    (simp_all add: empty_pool_def XIVArrayMediator_def xiv_connect_client_def except_lib_def run xiv_env_def
      xiv_mediator_def xiv_disconnect_def sample_xiv_def)

end
