(* ===== verification/ServicerProofs.thy ===== *)
theory ServicerProofs
  imports Servicer AgentProofs
begin

text \<open>
  What the handlers of the controller service answer, and what they do to the arrays on the
  way: names, sizes, repeated requests, rollbacks, rejected requests and connections.
\<close>

section \<open>Names\<close>

lemma length_joined: "length (join_object_prefix_with_name (Some p) n) = length p + 1 + length n" if "p \<noteq> []"
  using that by (simp add: join_object_prefix_with_name_def NAME_PREFIX_SEPARATOR_def)

lemma joined_prefix: "p \<noteq> [] \<Longrightarrow> join_object_prefix_with_name (Some p) n = (p @ ''_'') @ n"
  by (simp add: join_object_prefix_with_name_def NAME_PREFIX_SEPARATOR_def)

lemma final_name_shape:
  assumes "get_object_final_name env prefix n med ty = Inr full"
  shows "\<exists>m. full = take (max_object_name_length med)
    (join_object_prefix_with_name (if truthy prefix then prefix else default_object_prefix med) m)"
proof -
  let ?p = "if truthy prefix then prefix else default_object_prefix med"
  let ?long = "max_object_name_length med < length (join_object_prefix_with_name ?p n)"
  have short: "\<not> (truthy prefix \<and> max_object_prefix_length med < length (the prefix))"
    using assms unfolding get_object_final_name_def by (metis Inl_Inr_False)
  have "take (max_object_name_length med)
      (if ?long then join_object_prefix_with_name ?p (hash_string (en_sha256 env) (en_b58encode env) n)
       else join_object_prefix_with_name ?p n) = full"
    using assms short unfolding get_object_final_name_def Let_def by (simp only: if_False sum.inject)
  then show ?thesis by metis
qed

context array_mediator
begin

text \<open>A prefix that is used is never cut off, because there is room for more than it.\<close>

lemma final_name:
  "get_object_final_name env prefix n med ty = Inr full \<Longrightarrow>
   length full \<le> max_object_name_length med \<and>
   (\<forall>p. (if truthy prefix then prefix else default_object_prefix med) = Some p \<longrightarrow>
     take (length p + 1) full = p @ ''_'')"
proof (intro conjI allI impI)
  assume full: "get_object_final_name env prefix n med ty = Inr full"
  then show "length full \<le> max_object_name_length med"
    by (auto simp: get_object_final_name_def Let_def split: if_splits)
  fix p assume p: "(if truthy prefix then prefix else default_object_prefix med) = Some p"
  then have "p \<noteq> []" "length p \<le> max_object_prefix_length med"
    using full default_prefix_fits
    by (auto simp: get_object_final_name_def Let_def split: if_splits elim!: truthyE)
  moreover from final_name_shape [OF full] p
  obtain m where "full = take (max_object_name_length med) (join_object_prefix_with_name (Some p) m)"
    by metis
  then have "full = take (max_object_name_length med) ((p @ ''_'') @ m)"
    unfolding joined_prefix [OF \<open>p \<noteq> []\<close>] .
  ultimately show "take (length p + 1) full = p @ ''_''"
    using name_room by (simp add: take_Cons')
qed

end

text \<open>A mediator that the model's constructors make.\<close>

inductive is_mediator :: "'s mediator \<Rightarrow> bool" where
  svc: "is_mediator (svc_mediator retry cl ep)"
| xiv: "is_mediator (xiv_mediator randint xcl eps)"
| ds8k: "is_mediator (ds8k_mediator retry api sa sys)"

lemma is_mediator_contract: "is_mediator med \<Longrightarrow> array_mediator med"
  by (induction rule: is_mediator.induct)
    (rule svc.array_mediator_axioms xiv.array_mediator_axioms ds8k.array_mediator_axioms)+

lemma class_of_kind: "yields (of_kind k) (\<lambda>_. True) (med_class env k u w eps)"
  by (cases k)
    (auto simp: XIVArrayMediator_def SVCArrayMediator_def DS8KArrayMediator_def
      intro!: spec_rules yields_any kinds_made split: list.split prod.split)

text \<open>
  C35: connected_mediator_typed
  Connecting to a storage type gives a mediator of that type: its array type leads back to the
  type, with its port and its limit of connections, and every volume it finds or makes carries
  that array type.
\<close>

theorem connected_mediator_typed:
  assumes "med_class env k u w eps s = (Inr med, s')"
  shows "array_type_to_mediator (array_type med) = Some k \<and> port med = kind_port k \<and>
    max_connections med = kind_max_connections k \<and>
    (\<forall>n p s1 v s2. get_volume med n p s1 = (Inr v, s2) \<longrightarrow> vol_array_type v = array_type med) \<and>
    (\<forall>n z se p s1 v s2. create_volume med n z se p s1 = (Inr (Some v), s2) \<longrightarrow> vol_array_type v = array_type med)"
proof -
  have med: "of_kind k med" by (rule yields_resultD [OF class_of_kind assms])
  then have am: "array_mediator med" by (simp add: of_kind_def)
  have "vol_array_type v = array_type med" if "get_volume med n p s1 = (Inr v, s2)" for n p s1 v s2
    using yields_resultD [OF array_mediator.volume_type [OF am] that] .
  moreover have "vol_array_type v = array_type med" if "create_volume med n z se p s1 = (Inr (Some v), s2)"
    for n z se p s1 v s2
    using yields_resultD [OF array_mediator.created_type [OF am] that] by simp
  ultimately show ?thesis using med unfolding of_kind_def by blast
qed

lemma connected_mediator_typed_witness:
  "\<exists>med. fst (med_class xiv_env XIV (JStr ''u'') (JStr ''p'') [''a''] []) = Inr med \<and>
    array_type_to_mediator (array_type med) = Some XIV \<and> port med = 7778 \<and> max_connections med = 2"
proof -
  obtain med where med: "med_class xiv_env XIV (JStr ''u'') (JStr ''p'') [''a''] [] = (Inr med, [''connect''])"
    by (simp add: XIVArrayMediator_def xiv_connect_client_def except_lib_def run xiv_env_def)
  from connected_mediator_typed [OF med] med show ?thesis by simp
qed

text \<open>
  C37: final_name_fits
  The name given to a volume or a snapshot is never longer than the storage type allows, and
  starts with the requested prefix, or else the type's default one, and an underscore: even
  where the name has to be replaced by its hash and cut off.
\<close>

theorem final_name_fits:
  assumes "is_mediator med" and "get_object_final_name env prefix n med ty = Inr full"
  shows "length full \<le> max_object_name_length med \<and>
    (\<forall>p. (if truthy prefix then prefix else default_object_prefix med) = Some p \<longrightarrow>
      take (length p + 1) full = p @ ''_'')"
  by (rule array_mediator.final_name [OF is_mediator_contract [OF assms(1)] assms(2)])

lemma final_name_fits_witness:
  "\<exists>full. get_object_final_name (stub_env ds8k_answers) (Some ''pre'') ''a-name-of-28-characters-long'' 
      (xiv_mediator (\<lambda>a b s. (a, s)) sample_xiv []) VOLUME_TYPE = Inr full \<and> take 4 full = ''pre_''"
proof -
  let ?m = "xiv_mediator (\<lambda>a b s. (a, s)) sample_xiv []"
  obtain full where f: "get_object_final_name (stub_env ds8k_answers) (Some ''pre'')
      ''a-name-of-28-characters-long'' ?m VOLUME_TYPE = Inr full"
    by (simp add: get_object_final_name_def xiv_mediator_def Let_def)
  from final_name_fits [OF is_mediator.xiv f] f show ?thesis by (simp add: numeral_eq_Suc)
qed

section \<open>Replies\<close>

text \<open>
  No handler of the controller service lets an exception out: whatever the request, the arrays
  and the libraries do, the caller gets a reply.
\<close>

theorem handlers_always_reply:
  "(\<exists>r w'. CreateVolume env fin cv w = (Inr r, w')) \<and>
   (\<exists>r w'. DeleteVolume env fin dv w = (Inr r, w')) \<and>
   (\<exists>r w'. ControllerPublishVolume env fin cfg pv w = (Inr r, w')) \<and>
   (\<exists>r w'. ControllerUnpublishVolume env fin uv w = (Inr r, w')) \<and>
   (\<exists>r w'. CreateSnapshot env fin cs w = (Inr r, w')) \<and>
   (\<exists>r w'. DeleteSnapshot env fin ds w = (Inr r, w')) \<and>
   (\<exists>r w'. ControllerExpandVolume env fin ev w = (Inr r, w'))"
proof -
  have reply: "\<exists>r w'. handle_common_exceptions m w = (Inr r, w')" for m :: "('w, 'b reply) pyprog" and w
    by (metis handled_Inl handled_Inr old.sum.exhaust surj_pair)
  show ?thesis
    unfolding CreateVolume_def DeleteVolume_def ControllerPublishVolume_def ControllerUnpublishVolume_def
      CreateSnapshot_def DeleteSnapshot_def ControllerExpandVolume_def
    by (intro conjI reply)
qed

text \<open>
  C26: rejected_requests_do_nothing
  A request that validation rejects is answered with the rejection: \<^verbatim>\<open>NOT_FOUND\<close> for a
  malformed source id of a volume to create, otherwise the status of the exception, which is
  \<^verbatim>\<open>INVALID_ARGUMENT\<close> for a validation error.  No array and no agent is touched.
\<close>

theorem rejected_requests_do_nothing:
  "(validate_create_volume_request (en_loads env) cv = Inl e \<longrightarrow>
      CreateVolume env fin cv w =
        (Inr (handle_exception e (if is_ObjectIdError e then NOT_FOUND else status_codes_by_exception e)), w)) \<and>
   (validate_delete_volume_request (en_loads env) dv = Inl e \<longrightarrow>
      DeleteVolume env fin dv w = (Inr (handle_exception e (status_codes_by_exception e)), w)) \<and>
   (validate_publish_volume_request (en_loads env) pv = Inl e \<longrightarrow>
      ControllerPublishVolume env fin cfg pv w = (Inr (handle_exception e (status_codes_by_exception e)), w)) \<and>
   (validate_unpublish_volume_request (en_loads env) uv = Inl e \<longrightarrow>
      ControllerUnpublishVolume env fin uv w = (Inr (handle_exception e (status_codes_by_exception e)), w)) \<and>
   (validate_create_snapshot_request (en_loads env) cs = Inl e \<longrightarrow>
      CreateSnapshot env fin cs w = (Inr (handle_exception e (status_codes_by_exception e)), w)) \<and>
   (validate_delete_snapshot_request (en_loads env) ds = Inl e \<longrightarrow>
      DeleteSnapshot env fin ds w = (Inr (handle_exception e (status_codes_by_exception e)), w)) \<and>
   (validate_expand_volume_request (en_loads env) ev = Inl e \<longrightarrow>
      ControllerExpandVolume env fin ev w = (Inr (handle_exception e (status_codes_by_exception e)), w))"
  unfolding CreateVolume_def DeleteVolume_def ControllerPublishVolume_def ControllerUnpublishVolume_def
    CreateSnapshot_def DeleteSnapshot_def ControllerExpandVolume_def
  by (intro conjI impI) (simp_all add: handled_Inl handled_Inr)

definition nameless_request :: create_volume_request where
  "nameless_request =
     \<lparr>cv_name = '''', cv_required_bytes = None, cv_capabilities = [], cv_secrets = [], cv_parameters = [],
      cv_content_source = None, cv_accessibility = None\<rparr>"

lemma rejected_requests_do_nothing_witness:
  "CreateVolume xiv_env (\<lambda>_ s. s) nameless_request (no_agents []) =
     (Inr (handle_exception (ValidationException name_should_not_be_empty_message) INVALID_ARGUMENT),
      no_agents [])"
  using rejected_requests_do_nothing [of xiv_env nameless_request
      "ValidationException name_should_not_be_empty_message" "\<lambda>_ s. s" "no_agents []"]
  by (simp add: validate_create_volume_request_def nameless_request_def)

section \<open>Connections\<close>

lemma addresses_split: "addresses_ok (split_on PARAMETERS_ARRAY_ADDRESSES_DELIMITER a)"
  by (auto simp: addresses_ok_def dest: split_on_parts)

lemma connection_addresses:
  "get_array_connection_info_from_secrets loads secrets tops sid = Inr info \<Longrightarrow>
   addresses_ok (ci_array_addresses info)"
  by (auto simp: get_array_connection_info_from_secrets_def get_array_connection_info_from_system_info_def
      bnd_err_Inr_iff addresses_split elim!: py_split.elims)

lemma keeps_bnd_lift: "(\<And>x. r = Inr x \<Longrightarrow> keeps P (f x)) \<Longrightarrow> keeps P (bnd (lift r) f)"
  by (cases r) (simp_all add: keeps_raise)

lemma keeps_on_array_agents: "keeps (agents_ok env) (on_array m)"
  by (rule keepsI) (simp add: on_array_def split: prod.split)

lemma keeps_with_mediator:
  "addresses_ok (ci_array_addresses info) \<Longrightarrow>
   keeps (agents_ok env) (with_mediator env fin info ty body)"
  by (rule keepsI) (rule with_mediator_ok)

lemma keeps_handled: "keeps P m \<Longrightarrow> keeps P (handle_common_exceptions m)"
  unfolding handle_common_exceptions_def by (intro keeps_rules)

lemma handlers_keep_agents:
  "keeps (agents_ok env) (CreateVolume env fin cv)" "keeps (agents_ok env) (DeleteVolume env fin dv)"
    "keeps (agents_ok env) (ControllerPublishVolume env fin cfg pv)"
    "keeps (agents_ok env) (ControllerUnpublishVolume env fin uv)"
    "keeps (agents_ok env) (CreateSnapshot env fin cs)" "keeps (agents_ok env) (DeleteSnapshot env fin ds)"
    "keeps (agents_ok env) (ControllerExpandVolume env fin ev)"
proof -
  note rules = keeps_handled keeps_bnd_lift keeps_rules keeps_with_mediator
    keeps_on_array_agents connection_addresses
  show "keeps (agents_ok env) (CreateVolume env fin cv)" "keeps (agents_ok env) (DeleteVolume env fin dv)"
    "keeps (agents_ok env) (ControllerPublishVolume env fin cfg pv)"
    "keeps (agents_ok env) (ControllerUnpublishVolume env fin uv)"
    "keeps (agents_ok env) (CreateSnapshot env fin cs)" "keeps (agents_ok env) (DeleteSnapshot env fin ds)"
    "keeps (agents_ok env) (ControllerExpandVolume env fin ev)"
    unfolding CreateVolume_def create_volume_from_def DeleteVolume_def ControllerPublishVolume_def
      ControllerUnpublishVolume_def CreateSnapshot_def DeleteSnapshot_def ControllerExpandVolume_def
    by (auto intro!: rules split: sum.split prod.split option.split)
qed

text \<open>
  Every handler, on every path through it, returns the connection it has borrowed: the cache
  of agents is sound after the request when it was before, as \<open>requests_return_connections\<close>
  describes.
\<close>

theorem handlers_return_connections:
  assumes "agents_ok env w"
  shows "agents_ok env (snd (CreateVolume env fin cv w)) \<and> agents_ok env (snd (DeleteVolume env fin dv w)) \<and>
    agents_ok env (snd (ControllerPublishVolume env fin cfg pv w)) \<and>
    agents_ok env (snd (ControllerUnpublishVolume env fin uv w)) \<and>
    agents_ok env (snd (CreateSnapshot env fin cs w)) \<and> agents_ok env (snd (DeleteSnapshot env fin ds w)) \<and>
    agents_ok env (snd (ControllerExpandVolume env fin ev w))"
  by (intro conjI keeps_apply [where P = "agents_ok env"] handlers_keep_agents assms)

definition sample_request :: "int \<Rightarrow> create_volume_request" where
  "sample_request n =
     \<lparr>cv_name = ''v1'', cv_required_bytes = Some n,
      cv_capabilities = [\<lparr>cap_mount_fs_type = Some ''ext4'', cap_has_block = False, cap_access_mode = 1,
        cap_access_mode_text = ''''\<rparr>],
      cv_secrets = sample_secrets, cv_parameters = [(''pool'', ''p'')], cv_content_source = None,
      cv_accessibility = None\<rparr>"

lemma handlers_return_connections_witness:
  "agents_ok xiv_env (snd (CreateVolume xiv_env (\<lambda>_ s. s) (sample_request 1073741824) (no_agents []))) \<and>
   agents_ok xiv_env (snd (DeleteVolume xiv_env (\<lambda>_ s. s)
     \<lparr>dv_volume_id = ''A9000:6001'', dv_secrets = sample_secrets\<rparr> (no_agents [])))"
  using handlers_return_connections [OF no_agents_ok, of xiv_env "\<lambda>_ s. s" "sample_request 1073741824"] by blast

section \<open>Creating a volume\<close>

text \<open>
  A request for more than the largest volume of the storage type is answered \<^verbatim>\<open>OUT_OF_RANGE\<close>
  before anything is asked of the array.
\<close>

theorem create_volume_out_of_range:
  assumes "get_volume_final_name env prefix (cv_name request) med = Inr name"
    and "maximal_volume_size_in_bytes med < requested_bytes (cv_required_bytes request)"
  shows "\<exists>r. create_volume_on env request prefix se pool source sys med s = (Inr r, s) \<and>
    rp_code r = Some OUT_OF_RANGE \<and> rp_body r = None"
  using assms by (simp add: create_volume_on_def Let_def)

definition xiv_sample :: "string list mediator" where
  "xiv_sample = xiv_mediator zero_random sample_xiv [''a'']"

lemma xiv_sample_name:
  "get_volume_final_name env None ''v1'' xiv_sample = Inr ''v1''"
  by (simp add: get_volume_final_name_def get_object_final_name_def xiv_sample_def xiv_mediator_def
      join_object_prefix_with_name_def Let_def)

lemma sample_request_name [simp]: "cv_name (sample_request n) = ''v1''"
  and sample_request_bytes [simp]: "cv_required_bytes (sample_request n) = Some n"
  by (simp_all add: sample_request_def)

lemma create_volume_out_of_range_witness:
  "\<exists>r. create_volume_on xiv_env (sample_request (2 ^ 51)) None None ''p'' (None, None) None xiv_sample [] =
      (Inr r, []) \<and> rp_code r = Some OUT_OF_RANGE \<and> rp_body r = None"
  by (rule create_volume_out_of_range)
    (simp_all add: xiv_sample_name, simp add: xiv_sample_def xiv_mediator_def requested_bytes_def)

text \<open>What an existing volume of the name means for the answer.\<close>

definition repeated_create_reply ::
  "volume \<Rightarrow> int \<Rightarrow> object_type option \<times> string option \<Rightarrow> string option \<Rightarrow> create_volume_response reply" where
  "repeated_create_reply v requested source sys =
     (let answer = generate_csi_create_volume_response v sys (fst source) in
      if truthy (snd source) then
        (if vol_copy_source_id v = snd source
         then \<lparr>rp_code = Some OK, rp_details = NoDetails, rp_body = Some answer\<rparr>
         else build_error_response ''Volume already exists but it was created from a different source.''
                ALREADY_EXISTS)
      else if vol_capacity_bytes v \<noteq> requested then
        build_error_response ''Volume was already created with different size.'' ALREADY_EXISTS
      else if truthy (vol_copy_source_id v) then
        build_error_response ''Volume already exists but it was created from a different source.''
          ALREADY_EXISTS
      else \<lparr>rp_code = None, rp_details = NoDetails, rp_body = Some answer\<rparr>)"

text \<open>
  When a volume of the final name exists, nothing is created, copied or deleted: the answer is
  that volume, if it has the requested size or the requested source, and otherwise an
  \<^verbatim>\<open>ALREADY_EXISTS\<close> error.
\<close>

theorem create_volume_repeated:
  assumes "get_volume_final_name env prefix (cv_name request) med = Inr name"
    and "requested_bytes (cv_required_bytes request) \<le> maximal_volume_size_in_bytes med"
    and "get_volume med name (Some pool) s = (Inr v, s1)"
    and "snd source \<noteq> Some [] \<and> vol_copy_source_id v \<noteq> Some []"
  shows "create_volume_on env request prefix se pool source sys med s =
    (Inr (repeated_create_reply v (requested_bytes (cv_required_bytes request)) source sys), s1)"
proof -
  obtain ty sid where source: "source = (ty, sid)" by (cases source)
  let ?requested = "requested_bytes (cv_required_bytes request)"
  have found: "find_or_create_volume med name ?requested n se pool source sys s =
      (if \<not> truthy sid \<and> vol_capacity_bytes v \<noteq> ?requested then
         ret (Inl (build_error_response ''Volume was already created with different size.'' ALREADY_EXISTS))
       else
         (case handle_existing_volume_source v sid ty sys of
            Some early \<Rightarrow> ret (Inl early) | None \<Rightarrow> ret (Inr (Some v)))) s1" for n
    using assms(3) by (simp add: find_or_create_volume_def source else_Inr)
  have start: "create_volume_on env request prefix se pool source sys med s =
      (case find_or_create_volume med name ?requested
          (if ?requested = 0 then minimal_volume_size_in_bytes med else ?requested) se pool source sys s of
        (Inl e, s') \<Rightarrow> (Inl e, s')
      | (Inr (Inl early), s') \<Rightarrow> (Inr early, s')
      | (Inr (Inr None), s') \<Rightarrow> (Inl AttributeError, s')
      | (Inr (Inr (Some v)), s') \<Rightarrow> create_volume_answer env source sys med
          (if ?requested = 0 then minimal_volume_size_in_bytes med else ?requested) v s')"
    using assms(1,2)
    by (simp add: create_volume_on_def Let_def run split: prod.split sum.split option.split)
  show ?thesis
    using assms(4) unfolding start found
    by (cases sid; cases "vol_copy_source_id v")
      (auto simp: source handle_existing_volume_source_def handle_volume_exists_with_same_source_def
        handle_volume_exists_with_different_source_def repeated_create_reply_def Let_def
        create_volume_answer_def)
qed

lemma xiv_sample_volume:
  "get_volume xiv_sample n p s =
    (Inr \<lparr>vol_capacity_bytes = 1073741824, vol_id = ''6001'', vol_name = ''v1'',
          vol_array_address = AddrList [''a''], vol_pool = ''p'', vol_copy_source_id = None,
          vol_array_type = ''A9000''\<rparr>, s)"
  by (simp add: xiv_sample_def xiv_mediator_def xiv_get_volume_def xiv_get_cli_object_by_name_def sample_xiv_def
      sample_xiv_volume_def xiv_generate_volume_response_def xiv_convert_size_blocks_to_bytes_def py_int_def
      XIV_BLOCK_SIZE_IN_BYTES_def ARRAY_TYPE_XIV_def except_lib_def run sample_xiv_capacity)

lemma create_volume_repeated_witness:
  "\<exists>r a. create_volume_on xiv_env (sample_request 1073741824) None None ''p'' (None, None) None xiv_sample [] =
      (Inr r, []) \<and> rp_code r = None \<and> rp_body r = Some a \<and> cvr_volume_id a = ''A9000:6001''"
proof -
  have "requested_bytes (cv_required_bytes (sample_request 1073741824)) \<le> maximal_volume_size_in_bytes xiv_sample"
    by (simp add: xiv_sample_def xiv_mediator_def requested_bytes_def)
  from create_volume_repeated [OF _ this xiv_sample_volume, where source = "(None, None)" and env = xiv_env
      and prefix = None and se = None and sys = None] xiv_sample_name
  show ?thesis
    by (simp add: repeated_create_reply_def Let_def requested_bytes_def generate_csi_create_volume_response_def
        get_volume_id_def get_object_id_def PARAMETERS_OBJECT_ID_DELIMITER_def)
qed

text \<open>
  A request without a size makes a volume of the smallest size; asked again, it is refused,
  because the size of the existing volume is compared with the zero of the request and not
  with the default that was used.
\<close>

theorem create_volume_default_size:
  assumes "is_mediator med"
    and "get_volume_final_name env prefix (cv_name request) med = Inr name"
    and "requested_bytes (cv_required_bytes request) = 0" and "\<not> truthy (snd source)"
  shows "(get_volume med name (Some pool) s = (Inl (ObjectNotFoundError n), s1) \<longrightarrow>
      validate_supported_space_efficiency med se s1 = (Inr (), s2) \<longrightarrow>
      create_volume med name (minimal_volume_size_in_bytes med) se pool s2 = (Inr (Some v), s3) \<longrightarrow>
      create_volume_on env request prefix se pool source sys med s =
        (Inr \<lparr>rp_code = None, rp_details = NoDetails,
              rp_body = Some (generate_csi_create_volume_response v sys (fst source))\<rparr>, s3)) \<and>
    (get_volume med name (Some pool) s = (Inr v, s1) \<longrightarrow>
      vol_capacity_bytes v = minimal_volume_size_in_bytes med \<longrightarrow>
      create_volume_on env request prefix se pool source sys med s =
        (Inr (build_error_response ''Volume was already created with different size.'' ALREADY_EXISTS), s1))"
proof -
  note range = array_mediator.size_range [OF is_mediator_contract [OF assms(1)]]
  show ?thesis
    using assms(2-4) range
    by (auto simp: create_volume_on_def Let_def find_or_create_volume_def create_volume_answer_def run
        split: prod.split)
qed

lemma create_volume_default_size_witness:
  "create_volume_on xiv_env (sample_request 0) None None ''p'' (None, None) None xiv_sample [] =
    (Inr (build_error_response ''Volume was already created with different size.'' ALREADY_EXISTS), [])"
proof -
  have m: "is_mediator xiv_sample"
    by (simp add: xiv_sample_def is_mediator.xiv)
  have min: "minimal_volume_size_in_bytes xiv_sample = 1073741824"
    by (simp add: xiv_sample_def xiv_mediator_def)
  show ?thesis
    using create_volume_default_size [OF m, where env = xiv_env and prefix = None and request = "sample_request 0"
        and name = "''v1''" and source = "(None, None)" and s = "[]" and pool = "''p''" and se = None and sys = None,
        THEN conjunct2]
    by (simp add: xiv_sample_name requested_bytes_def xiv_sample_volume min)
qed

end
