(* ===== verification/RequestFlows.thy ===== *)
theory RequestFlows
  imports ServicerProofs
begin

text \<open>
  Requests that go through several components: a source that is missing when it is copied,
  publishing a volume with the initiators of its host, and the id that a created volume is known by
  afterwards.
\<close>

section \<open>Copying a source\<close>

definition new_volume :: volume where
  "new_volume = \<lparr>vol_capacity_bytes = 512, vol_id = ''6005'', vol_name = ''v1'', vol_array_address = Addr ''a'',
     vol_pool = ''p'', vol_copy_source_id = None, vol_array_type = ''SVC''\<rparr>"

lemma xiv_env_retry [simp]: "en_retry xiv_env = retry_loop"
  by (simp add: xiv_env_def stub_env_def)

text \<open>
  A source that does not exist is rolled back twice, because the exception raised after the
  first rollback is caught by the clause that rolls back.  The volume is already gone then,
  so the second rollback fails in all its five attempts, and the caller is told that the new
  volume, not the source, was not found.
\<close>

theorem missing_source_error_lost:
  assumes "retry_law (en_retry env)" and "get_object_by_id med sid ty s = (Inr None, w 0)"
    and "delete_volume med (vol_id v) (w 0) = (Inr (), w 1)"
    and "\<And>i. 1 \<le> i \<Longrightarrow> i \<le> 5 \<Longrightarrow>
      delete_volume med (vol_id v) (w i) = (Inl (ObjectNotFoundError (vol_id v)), w (Suc i))"
    and "sid \<noteq> []"
  shows "create_volume_answer env (Some ty, Some sid) sys med n v s =
    (Inl (ObjectNotFoundError (vol_id v)), w 6)"
proof -
  let ?rb = "rollback_create_volume_from_source env med (vol_id v)"
  have first: "?rb (w 0) = (Inr (), w 1)"
    by (simp add: rollback_create_volume_from_source_def retry_success [OF assms(1)] assms(3))
  have again: "en_retry env (\<lambda>_. True) m (delete_volume med (vol_id v)) (w i) =
      en_retry env (\<lambda>_. True) (m - 1) (delete_volume med (vol_id v)) (w (Suc i))"
    if "1 \<le> i" "i \<le> 5" "1 < m" for i m
    using assms(4) [OF that(1,2)] that(3) by (intro retry_again [OF assms(1)]) auto
  have "?rb (w 1) = en_retry env (\<lambda>_. True) 1 (delete_volume med (vol_id v)) (w 5)"
    unfolding rollback_create_volume_from_source_def by (simp add: again eval_nat_numeral)
  also have "\<dots> = (Inl (ObjectNotFoundError (vol_id v)), w 6)"
    using assms(4) [of 5] by (intro retry_last [OF assms(1)]) (simp_all add: eval_nat_numeral)
  finally have "copy_volume_from_source env v sid ty n med s = (Inl (ObjectNotFoundError (vol_id v)), w 6)"
    using assms(2) first by (simp add: copy_volume_from_source_def run)
  with \<open>sid \<noteq> []\<close> show ?thesis
    by (simp add: create_volume_answer_def run)
qed

definition deletes_once :: "string list mediator" where
  "deletes_once = stub_mediator
     \<lparr>delete_volume := (\<lambda>v s. (if s = [] then Inr () else Inl (ObjectNotFoundError v), s @ [''delete'']))\<rparr>"

lemma missing_source_error_lost_witness:
  "create_volume_answer xiv_env (Some SNAPSHOT_TYPE, Some ''77'') None deletes_once 512 new_volume [] =
     (Inl (ObjectNotFoundError ''6005''), replicate 6 ''delete'')"
proof -
  have "retry_law (en_retry xiv_env)" by (simp add: retry_loop_law)
  from missing_source_error_lost [OF this, where w = "\<lambda>i. replicate i ''delete''" and med = deletes_once
      and v = new_volume and s = "[]" and sid = "''77''" and ty = SNAPSHOT_TYPE and sys = None and n = 512]
  show ?thesis by (simp add: deletes_once_def new_volume_def stub_mediator_def replicate_append_same)
qed

section \<open>Publishing a volume\<close>

context array_mediator
begin

lemma publish_yields:
  "retry_law retry \<Longrightarrow> yields (\<lambda>(_, ct, ai). initiators_of_type ct ai) not_connectivity_error
     (map_volume_by_initiators retry med vid i)"
  unfolding map_volume_by_initiators_def by (rule yields_retry [OF _ map_once_yields])

end

lemma map_of_fold_other:
  "k \<notin> set (map fst d) \<Longrightarrow> map_of (fold (\<lambda>(x, v). dict_set x (f v)) d c) k = map_of c k"
  by (induction d arbitrary: c) auto

lemma publish_context_entries:
  assumes "initiators_of_type ct ai"
    and "{''PUBLISH_CONTEXT_LUN'', ''PUBLISH_CONTEXT_CONNECTIVITY''} \<inter> set (initiator_keys ai) = {}"
  shows "\<exists>ctx. generate_csi_publish_volume_response default_publish_config lun ct ai = Inr ctx \<and>
    map_of ctx ''PUBLISH_CONTEXT_LUN'' = Some (lun_str lun) \<and>
    map_of ctx ''PUBLISH_CONTEXT_CONNECTIVITY'' = Some ct \<and>
    map_of ctx (if ct = ISCSI_CONNECTIVITY_TYPE then ''PUBLISH_CONTEXT_ARRAY_IQN''
      else ''PUBLISH_CONTEXT_ARRAY_FC_INITIATORS'') = Some (join '','' (initiator_keys ai))"
proof (cases ai)
  case (IscsiTargets d)
  with assms have "ct = ISCSI_CONNECTIVITY_TYPE" "''PUBLISH_CONTEXT_LUN'' \<notin> set (map fst d)"
    "''PUBLISH_CONTEXT_CONNECTIVITY'' \<notin> set (map fst d)"
    by (auto simp: initiators_of_type_def)
  with IscsiTargets show ?thesis
    by (simp add: generate_csi_publish_volume_response_def Let_def default_publish_config_def map_of_fold_other
        del: set_map)
next
  case (FcWwns ws)
  with assms have "ct = FC_CONNECTIVITY_TYPE" by (simp add: initiators_of_type_def)
  with FcWwns show ?thesis
    by (simp add: generate_csi_publish_volume_response_def Let_def default_publish_config_def)
qed

text \<open>
  C29: publish_reply_complete
  Publishing with any of the three mediators, whatever the array answers: the branch for an
  unsupported connectivity is never taken, and when mapping returns, the initiators fit the
  chosen connectivity, so the publish context can be made; it holds the LUN, the connectivity
  and the list of the array's initiators under the names of the shipped configuration.
\<close>

theorem publish_reply_complete:
  assumes "is_mediator med" and "retry_law retry"
    and "map_volume_by_initiators retry med vid i s = (r, s')"
  shows "case r of
      Inl e \<Rightarrow> \<forall>c. e \<noteq> UnsupportedConnectivityTypeError c
    | Inr (lun, ct, ai) \<Rightarrow>
        ct \<in> {FC_CONNECTIVITY_TYPE, ISCSI_CONNECTIVITY_TYPE} \<and>
        ({''PUBLISH_CONTEXT_LUN'', ''PUBLISH_CONTEXT_CONNECTIVITY''} \<inter> set (initiator_keys ai) = {} \<longrightarrow>
         (\<exists>ctx. generate_csi_publish_volume_response default_publish_config lun ct ai = Inr ctx \<and>
           map_of ctx ''PUBLISH_CONTEXT_LUN'' = Some (lun_str lun) \<and>
           map_of ctx ''PUBLISH_CONTEXT_CONNECTIVITY'' = Some ct \<and>
           map_of ctx (if ct = ISCSI_CONNECTIVITY_TYPE then ''PUBLISH_CONTEXT_ARRAY_IQN''
             else ''PUBLISH_CONTEXT_ARRAY_FC_INITIATORS'') = Some (join '','' (initiator_keys ai))))"
proof -
  note spec = array_mediator.publish_yields [OF is_mediator_contract [OF assms(1)] assms(2), of vid i]
  show ?thesis
  proof (cases r)
    case (Inl e)
    with yields_errorD [OF spec] assms(3) show ?thesis by (auto simp: not_connectivity_error_def)
  next
    case (Inr res)
    obtain lun ct ai where res: "res = (lun, ct, ai)" by (cases res) auto
    have fit: "initiators_of_type ct ai"
      using yields_resultD [OF spec, of s "(lun, ct, ai)" s'] assms(3) Inr res by simp
    then have "ct \<in> {FC_CONNECTIVITY_TYPE, ISCSI_CONNECTIVITY_TYPE}"
      by (auto simp: initiators_of_type_def split: array_initiators.splits)
    with publish_context_entries [OF fit] Inr res show ?thesis by simp
  qed
qed

lemma xiv_sample_maps:
  "map_volume_by_initiators retry_loop xiv_sample ''6001'' \<lparr>ini_iscsi_iqn = ''q'', ini_fc_wwns = [''b2'']\<rparr> [] =
     (Inr (LunStr ''2'', ''fc'', FcWwns []), [''map_vol v1''])"
  by code_simp

lemma publish_reply_complete_witness:
  "\<exists>ctx. generate_csi_publish_volume_response default_publish_config (LunStr ''2'') ''fc'' (FcWwns []) = Inr ctx \<and>
     map_of ctx ''PUBLISH_CONTEXT_LUN'' = Some ''2''"
proof -
  have "is_mediator xiv_sample" by (simp add: xiv_sample_def is_mediator.xiv)
  from publish_reply_complete [OF this retry_loop_law xiv_sample_maps] show ?thesis by auto
qed

section \<open>The id of a created volume\<close>

lemma yields_conj: "yields Q F m \<Longrightarrow> yields R F m \<Longrightarrow> yields (\<lambda>x. Q x \<and> R x) F m"
  by (auto intro!: yieldsI dest: yields_resultD yields_errorD)

lemma known_type_has_mediator:
  "t \<in> set ALL_ARRAY_TYPES \<Longrightarrow> \<exists>k. array_type_to_mediator t = Some k \<and> kind_array_type k = t"
  by (auto simp: array_type_to_mediator_def array_type_defs)

lemma volume_id_read_back:
  assumes "t \<in> set ALL_ARRAY_TYPES" "CHR '':'' \<notin> set i"
    and "sys \<noteq> None \<Longrightarrow> validate_system_id (the sys) = Inr ()"
  shows "get_object_id_info (get_object_id t i sys) ty =
    Inr \<lparr>oi_array_type = t, oi_system_id = sys, oi_object_id = i\<rparr>"
  using assms(2,3) array_types_no_colon [OF assms(1)]
  by (cases sys) (simp_all add: object_id_info_without_system object_id_info_with_system
      validate_system_id_Inr valid_system_id_no_colon valid_system_id_nonempty)

text \<open>The size that \<^verbatim>\<open>CreateVolume\<close> asks of the mediator.\<close>

definition created_size :: "'s mediator \<Rightarrow> create_volume_request \<Rightarrow> int" where
  "created_size med request =
     (let requested = requested_bytes (cv_required_bytes request) in
      if requested = 0 then minimal_volume_size_in_bytes med else requested)"

text \<open>
  The volume that a request is about in the world \<open>s\<close>: the one that the mediator finds under the
  name in the pool, or else the one that it then creates there.
\<close>

definition volume_served :: "'s mediator \<Rightarrow> string \<Rightarrow> int \<Rightarrow> string option \<Rightarrow> string \<Rightarrow> 's \<Rightarrow> volume \<Rightarrow> bool" where
  "volume_served med name n se pool s v \<longleftrightarrow>
     (\<exists>s1. get_volume med name (Some pool) s = (Inr v, s1)) \<or>
     (\<exists>e s1 s2 s3. get_volume med name (Some pool) s = (Inl e, s1) \<and> is_ObjectNotFound e \<and>
        validate_supported_space_efficiency med se s1 = (Inr (), s2) \<and>
        create_volume med name n se pool s2 = (Inr (Some v), s3))"

lemma found_served:
  assumes "find_or_create_volume med name req n se pool source sys s = (Inr x, s')"
  shows "case x of
      Inl early \<Rightarrow> \<forall>a. rp_body early = Some a \<longrightarrow>
        (\<exists>v. volume_served med name n se pool s v \<and> a = generate_csi_create_volume_response v sys (fst source))
    | Inr found \<Rightarrow> \<forall>v. found = Some v \<longrightarrow> volume_served med name n se pool s v"
proof -
  obtain st si where source: "source = (st, si)" by (cases source)
  obtain g s1 where g: "get_volume med name (Some pool) s = (g, s1)" by (metis surj_pair)
  show ?thesis
  proof (cases g)
    case (Inr v)
    then show ?thesis
      using assms g
      by (auto simp: find_or_create_volume_def source run handle_existing_volume_source_def volume_served_def
          handle_volume_exists_with_same_source_def handle_volume_exists_with_different_source_def
          build_error_response_def build_non_ok_response_def split: if_splits)
  next
    case (Inl e)
    obtain y s2 where y: "validate_supported_space_efficiency med se s1 = (y, s2)" by (metis surj_pair)
    obtain c s3 where c: "create_volume med name n se pool s2 = (c, s3)" by (metis surj_pair)
    show ?thesis
      using assms g Inl y c
      by (cases y; cases c; cases "is_ObjectNotFound e")
        (auto simp: find_or_create_volume_def source run volume_served_def split: sum.splits)
  qed
qed

lemma answer_carries:
  assumes "create_volume_answer env source sys med n v s = (Inr r, s')" and "rp_body r = Some a"
  shows "a \<in> {generate_csi_create_volume_response v sys (fst source),
    generate_csi_create_volume_response (v\<lparr>vol_copy_source_id := snd source\<rparr>) sys (fst source)}"
  using assms by (auto simp: create_volume_answer_def run split: if_splits prod.splits sum.splits)

lemma served_type:
  assumes "is_mediator med" and "volume_served med name n se pool s v"
  shows "vol_array_type v = array_type med"
proof -
  note contract = is_mediator_contract [OF assms(1)]
  from assms(2) show ?thesis
    unfolding volume_served_def
    using yields_resultD [OF array_mediator.volume_type [OF contract]]
      yields_resultD [OF array_mediator.created_type [OF contract]] by blast
qed

lemma created_reply:
  assumes "get_volume_final_name env prefix (cv_name request) med = Inr name"
    and "create_volume_on env request prefix se pool source sys med s = (Inr r, s')" and "rp_body r = Some a"
  shows "\<exists>v. volume_served med name (created_size med request) se pool s v \<and>
    a \<in> {generate_csi_create_volume_response v sys (fst source),
      generate_csi_create_volume_response (v\<lparr>vol_copy_source_id := snd source\<rparr>) sys (fst source)}"
proof (cases "maximal_volume_size_in_bytes med < requested_bytes (cv_required_bytes request)")
  case True
  with assms show ?thesis
    by (auto simp: create_volume_on_def run Let_def build_error_response_def build_non_ok_response_def)
next
  case False
  let ?find = "find_or_create_volume med name (requested_bytes (cv_required_bytes request))
    (created_size med request) se pool source sys"
  have "create_volume_on env request prefix se pool source sys med s =
      bnd ?find (\<lambda>found. case found of
           Inl early \<Rightarrow> ret early
         | Inr None \<Rightarrow> raise AttributeError
         | Inr (Some v) \<Rightarrow> create_volume_answer env source sys med (created_size med request) v) s"
    unfolding created_size_def Let_def using False assms(1)
    by (simp add: create_volume_on_def Let_def lift_def bnd_def)
  with assms(2) have "bnd ?find (\<lambda>found. case found of
           Inl early \<Rightarrow> ret early
         | Inr None \<Rightarrow> raise AttributeError
         | Inr (Some v) \<Rightarrow> create_volume_answer env source sys med (created_size med request) v) s = (Inr r, s')"
    by simp
  then show ?thesis
  proof (cases rule: bnd_cases)
    case (result x s1)
    note served = found_served [OF result(1)]
    show ?thesis
      using served result(2) assms(3)
      by (cases x) (auto simp: run split: option.splits dest: answer_carries)
  qed simp
qed

text \<open>
  C27: created_id_addresses_volume
  The volume id in the reply of CreateVolume names the volume for every later request.  The reply is
  about the very volume that the mediator found under the requested name, or else made under it with
  the requested size, also when a source was copied to it; and as long as the array's own ids
  have no colon in them, the id in the reply is read back as the storage type of the mediator that
  served the request, the system chosen for it and the array's id of that volume, and a mediator
  class exists for that type.
\<close>

theorem created_id_addresses_volume:
  assumes "is_mediator med"
    and "get_volume_final_name env prefix (cv_name request) med = Inr name"
    and "\<And>v. volume_served med name (created_size med request) se pool s v \<Longrightarrow> CHR '':'' \<notin> set (vol_id v)"
    and "sys \<noteq> None \<Longrightarrow> validate_system_id (the sys) = Inr ()"
    and "create_volume_on env request prefix se pool source sys med s = (Inr r, s')"
    and "rp_body r = Some a"
  shows "\<exists>v k. volume_served med name (created_size med request) se pool s v \<and>
    a \<in> {generate_csi_create_volume_response v sys (fst source),
      generate_csi_create_volume_response (v\<lparr>vol_copy_source_id := snd source\<rparr>) sys (fst source)} \<and>
    get_volume_id_info (cvr_volume_id a) =
      Inr \<lparr>oi_array_type = array_type med, oi_system_id = sys, oi_object_id = vol_id v\<rparr> \<and>
    array_type_to_mediator (array_type med) = Some k"
proof -
  have known: "array_type med \<in> set ALL_ARRAY_TYPES"
    by (rule array_mediator.type_known [OF is_mediator_contract [OF assms(1)]])
  from created_reply [OF assms(2,5,6)] obtain v
    where v: "volume_served med name (created_size med request) se pool s v"
      and a: "a \<in> {generate_csi_create_volume_response v sys (fst source),
        generate_csi_create_volume_response (v\<lparr>vol_copy_source_id := snd source\<rparr>) sys (fst source)}" by blast
  then have "cvr_volume_id a = get_object_id (array_type med) (vol_id v) sys"
    using served_type [OF assms(1) v] by (auto simp: generate_csi_create_volume_response_def get_volume_id_def)
  with v a volume_id_read_back [OF known assms(3) [OF v] assms(4)] known_type_has_mediator [OF known]
  show ?thesis by (auto simp: get_volume_id_info_def)
qed

lemma created_id_addresses_volume_witness:
  "\<exists>r a. create_volume_on xiv_env (sample_request 1073741824) None None ''p'' (None, None) None xiv_sample [] =
      (Inr r, []) \<and> rp_body r = Some a \<and>
    get_volume_id_info (cvr_volume_id a) =
      Inr \<lparr>oi_array_type = ''A9000'', oi_system_id = None, oi_object_id = ''6001''\<rparr>"
proof -
  have med: "is_mediator xiv_sample" by (simp add: xiv_sample_def is_mediator.xiv)
  have name: "get_volume_final_name xiv_env None (cv_name (sample_request 1073741824)) xiv_sample = Inr ''v1''"
    by (simp add: xiv_sample_name)
  have max: "maximal_volume_size_in_bytes xiv_sample = 1125899906842624" and ty: "array_type xiv_sample = ''A9000''"
    by (simp_all add: xiv_sample_def xiv_mediator_def ARRAY_TYPE_XIV_def)
  let ?v = "\<lparr>vol_capacity_bytes = 1073741824, vol_id = ''6001'', vol_name = ''v1'',
      vol_array_address = AddrList [''a''], vol_pool = ''p'', vol_copy_source_id = None,
      vol_array_type = ''A9000''\<rparr>"
  let ?r = "\<lparr>rp_code = None, rp_details = NoDetails, rp_body = Some (generate_csi_create_volume_response ?v None None)\<rparr>"
  have answer: "create_volume_on xiv_env (sample_request 1073741824) None None ''p'' (None, None) None xiv_sample [] =
      (Inr ?r, [])"
    by (simp add: create_volume_on_def xiv_sample_name max requested_bytes_def find_or_create_volume_def xiv_sample_volume
        else_Inr handle_existing_volume_source_def create_volume_answer_def run Let_def)
  have as_text: "cvr_volume_id (generate_csi_create_volume_response ?v None None) = ''A9000:6001''"
    by (simp add: generate_csi_create_volume_response_def get_volume_id_def get_object_id_def
        PARAMETERS_OBJECT_ID_DELIMITER_def)
  have served: "volume_served xiv_sample ''v1'' n None ''p'' [] v \<Longrightarrow> vol_id v = ''6001''" for n v
    by (auto simp: volume_served_def xiv_sample_volume)
  have "get_volume_id_info ''A9000:6001'' =
      Inr \<lparr>oi_array_type = ''A9000'', oi_system_id = None, oi_object_id = ''6001''\<rparr>"
    using created_id_addresses_volume [OF med name _ _ answer] served by (auto simp: as_text ty)
  with answer as_text show ?thesis by simp
qed

end
