(* ===== verification/ConnManager.thy ===== *)
theory ConnManager
  imports Agent
begin

text \<open>
  \<^verbatim>\<open>array_connection_manager.py\<close>: a context manager that opens one connection and counts the open
  connections of each set of addresses in a dictionary of the module.  The storage agents have
  taken its place in the handlers.

  First the operations as programs of one thread, then the atomic actions of any number of
  threads on the counter of one set of addresses, with the lock objects of the module.
\<close>

section \<open>The operations\<close>

text \<open>
  The two dictionaries of the module: a lock object per addresses, numbered in the order of
  their creation, and the number of open connections.
\<close>

record connection_module =
  connection_lock_dict :: "(string, nat) dict"
  next_lock :: nat
  array_connections_dict :: "(string, int) dict"

record 's manager =
  mg_user :: json
  mg_password :: json
  mg_endpoints :: "string list"
  mg_endpoint_key :: string
  mg_array_type :: string
  mg_med_class :: "'s mediator option"
  mg_connected :: bool

text \<open>The same ports in the same order as in the agents.\<close>

definition manager_detect_array_type :: "'s env \<Rightarrow> string list \<Rightarrow> ('s, string) pyprog" where
  "manager_detect_array_type env endpoints =
     bnd (detect_among env [(XIV, kind_port XIV), (DS8K, kind_port DS8K), (SVC, kind_port SVC)] endpoints) (\<lambda>k.
       case k of
         Some kind \<Rightarrow> ret (kind_array_type kind)
       | None \<Rightarrow> raise (FailedToFindStorageSystemType (str_list endpoints)))"

text \<open>Every new manager puts a new lock in the place of the one that is there.\<close>

definition ArrayConnectionManager ::
  "'s env \<Rightarrow> json \<Rightarrow> json \<Rightarrow> string list \<Rightarrow> string option
   \<Rightarrow> (connection_module \<times> 's, 's manager) pyprog" where
  "ArrayConnectionManager env user password endpoints ty =
     bnd (case ty of
            None \<Rightarrow> on_world (manager_detect_array_type env endpoints)
          | Some t \<Rightarrow> ret t) (\<lambda>t.
     bnd (on_pool (\<lambda>m. ((), m\<lparr>connection_lock_dict :=
            dict_set (join '','' endpoints) (next_lock m) (connection_lock_dict m),
            next_lock := next_lock m + 1\<rparr>))) (\<lambda>_.
       ret \<lparr>mg_user = user, mg_password = password, mg_endpoints = endpoints,
            mg_endpoint_key = join '','' endpoints, mg_array_type = t,
            mg_med_class = None, mg_connected = False\<rparr>))"

definition with_lock :: "string \<Rightarrow> (connection_module \<times> 's, 'a) pyprog \<Rightarrow> (connection_module \<times> 's, 'a) pyprog" where
  "with_lock key body =
     bnd (on_pool (\<lambda>m. (map_of (connection_lock_dict m) key, m))) (\<lambda>lock.
       case lock of None \<Rightarrow> raise KeyError | Some _ \<Rightarrow> body)"

text \<open>\<^verbatim>\<open>if d[key] == 1: del d[key] else: d[key] -= 1\<close>.\<close>

definition lower_count :: "string \<Rightarrow> (string, int) dict \<Rightarrow> exc + (string, int) dict" where
  "lower_count key d =
     (case map_of d key of
        None \<Rightarrow> Inl KeyError
      | Some n \<Rightarrow> Inr (if n = 1 then dict_del key d else dict_set key (n - 1) d))"

definition reduce_count :: "string \<Rightarrow> (connection_module \<times> 's, unit) pyprog" where
  "reduce_count key =
     (\<lambda>(m, s). case lower_count key (array_connections_dict m) of
        Inl e \<Rightarrow> (Inl e, (m, s))
      | Inr d \<Rightarrow> (Inr (), (m\<lparr>array_connections_dict := d\<rparr>, s)))"

definition raise_count :: "nat \<Rightarrow> string \<Rightarrow> (connection_module \<times> 's, unit) pyprog" where
  "raise_count limit key =
     (\<lambda>(m, s). case map_of (array_connections_dict m) key of
        Some n \<Rightarrow>
          if n < int limit
          then (Inr (), (m\<lparr>array_connections_dict := dict_set key (n + 1) (array_connections_dict m)\<rparr>, s))
          else (Inl (NoConnectionAvailableException key), (m, s))
      | None \<Rightarrow> (Inr (), (m\<lparr>array_connections_dict := dict_set key 1 (array_connections_dict m)\<rparr>, s)))"

definition get_array_connection ::
  "'s env \<Rightarrow> 's manager \<Rightarrow> (connection_module \<times> 's, 's manager) pyprog" where
  "get_array_connection env mgr =
     (case array_type_to_mediator (mg_array_type mgr) of
        None \<Rightarrow> raise KeyError
      | Some k \<Rightarrow>
          with_lock (mg_endpoint_key mgr)
            (bnd (raise_count (kind_max_connections k) (mg_endpoint_key mgr)) (\<lambda>_.
             bnd (try_except
                    (on_world (med_class env k (mg_user mgr) (mg_password mgr) (mg_endpoints mgr)))
                    (\<lambda>ex. bnd (reduce_count (mg_endpoint_key mgr)) (\<lambda>_. raise ex))) (\<lambda>med.
               ret (mgr\<lparr>mg_med_class := Some med, mg_connected := True\<rparr>)))))"

text \<open>\<^verbatim>\<open>__exit__\<close>.  A \<^verbatim>\<open>disconnect\<close> that raises leaves the counter and the manager as they are.\<close>

definition exit_manager :: "'s manager \<Rightarrow> (connection_module \<times> 's, 's manager) pyprog" where
  "exit_manager mgr =
     with_lock (mg_endpoint_key mgr)
       (if mg_connected mgr then
          (case mg_med_class mgr of
             None \<Rightarrow> raise AttributeError
           | Some med \<Rightarrow>
               bnd (on_world (disconnect med)) (\<lambda>_.
               bnd (reduce_count (mg_endpoint_key mgr)) (\<lambda>_.
                 ret (mgr\<lparr>mg_connected := False\<rparr>))))
        else ret mgr)"

text \<open>\<^verbatim>\<open>with ArrayConnectionManager(...) as med: body\<close>.\<close>

definition with_connection ::
  "'s env \<Rightarrow> 's manager \<Rightarrow> ('s mediator \<Rightarrow> ('s, 'a) pyprog) \<Rightarrow> (connection_module \<times> 's, 'a) pyprog" where
  "with_connection env mgr body =
     bnd (get_array_connection env mgr) (\<lambda>mgr'.
       finally_do (on_world (body (the (mg_med_class mgr')))) (bnd (exit_manager mgr') (\<lambda>_. ret ())))"

section \<open>The operations under threads\<close>

text \<open>
  One set of addresses.  A call is one thread's \<^verbatim>\<open>with ArrayConnectionManager(...) as med\<close>; its
  state is the place between two reads and writes of the module's dictionaries that it has
  reached, with the lock object it waits for or holds: the dictionary may hold another one by
  then.
\<close>

datatype conn_call =
    Made                  \<comment> \<open>the manager is made, \<open>__enter__\<close> is next\<close>
  | Entering nat          \<comment> \<open>waits for the lock in \<open>get_array_connection\<close>\<close>
  | Testing nat           \<comment> \<open>at \<open>if self.endpoint_key in array_connections_dict\<close>\<close>
  | Comparing nat         \<comment> \<open>at the comparison with \<open>max_connections\<close>\<close>
  | Adding nat            \<comment> \<open>at the read of \<open>+= 1\<close>\<close>
  | Raising nat int       \<comment> \<open>about to write the number\<close>
  | Opening nat           \<comment> \<open>the mediator's constructor under way\<close>
  | Using                 \<comment> \<open>the body of the \<open>with\<close> statement\<close>
  | Leaving nat           \<comment> \<open>waits for the lock in \<open>__exit__\<close>\<close>
  | Disconnecting nat     \<comment> \<open>\<open>disconnect\<close> under way\<close>
  | Lowering nat          \<comment> \<open>at the test whether the number is 1\<close>
  | Deleting nat          \<comment> \<open>at \<open>del array_connections_dict[self.endpoint_key]\<close>\<close>
  | Subtracting nat       \<comment> \<open>at the read of \<open>-= 1\<close>\<close>
  | Writing nat int       \<comment> \<open>about to write the lowered number\<close>
  | Over                  \<comment> \<open>the statement has ended\<close>
  | Refused               \<comment> \<open>too many connections\<close>
  | Lost                  \<comment> \<open>\<open>disconnect\<close> raised\<close>
  | Broken                \<comment> \<open>a key that is not in its dictionary\<close>

record conn_shared =
  cs_lock :: "nat option"
  cs_next :: nat
  cs_held :: "nat set"
  cs_count :: "int option"

definition release_lock :: "nat \<Rightarrow> conn_shared \<Rightarrow> conn_shared" where
  "release_lock l sh = sh\<lparr>cs_held := cs_held sh - {l}\<rparr>"

definition acquire_lock :: "nat \<Rightarrow> conn_shared \<Rightarrow> conn_shared option" where
  "acquire_lock l sh = (if l \<in> cs_held sh then None else Some (sh\<lparr>cs_held := insert l (cs_held sh)\<rparr>))"

text \<open>
  The next action of a call; \<open>good\<close>: the constructor or \<^verbatim>\<open>disconnect\<close>, when it is the next action,
  returns.  \<open>None\<close>: the call waits for a lock or has ended.
\<close>

fun conn_action :: "nat \<Rightarrow> bool \<Rightarrow> conn_shared \<Rightarrow> conn_call \<Rightarrow> (conn_shared \<times> conn_call) option" where
  "conn_action limit good sh Made =
     Some (case cs_lock sh of None \<Rightarrow> (sh, Broken) | Some l \<Rightarrow> (sh, Entering l))"
| "conn_action limit good sh (Entering l) = map_option (\<lambda>sh'. (sh', Testing l)) (acquire_lock l sh)"
| "conn_action limit good sh (Testing l) =
     Some (sh, if cs_count sh = None then Raising l 1 else Comparing l)"
| "conn_action limit good sh (Comparing l) =
     Some (case cs_count sh of
             None \<Rightarrow> (release_lock l sh, Broken)
           | Some n \<Rightarrow> if n < int limit then (sh, Adding l) else (release_lock l sh, Refused))"
| "conn_action limit good sh (Adding l) =
     Some (case cs_count sh of
             None \<Rightarrow> (release_lock l sh, Broken)
           | Some n \<Rightarrow> (sh, Raising l (n + 1)))"
| "conn_action limit good sh (Raising l n) = Some (sh\<lparr>cs_count := Some n\<rparr>, Opening l)"
| "conn_action limit good sh (Opening l) =
     Some (if good then (release_lock l sh, Using) else (sh, Lowering l))"
| "conn_action limit good sh Using =
     Some (case cs_lock sh of None \<Rightarrow> (sh, Broken) | Some l \<Rightarrow> (sh, Leaving l))"
| "conn_action limit good sh (Leaving l) = map_option (\<lambda>sh'. (sh', Disconnecting l)) (acquire_lock l sh)"
| "conn_action limit good sh (Disconnecting l) =
     Some (if good then (sh, Lowering l) else (release_lock l sh, Lost))"
| "conn_action limit good sh (Lowering l) =
     Some (case cs_count sh of
             None \<Rightarrow> (release_lock l sh, Broken)
           | Some n \<Rightarrow> (sh, if n = 1 then Deleting l else Subtracting l))"
| "conn_action limit good sh (Deleting l) =
     Some (case cs_count sh of
             None \<Rightarrow> (release_lock l sh, Broken)
           | Some n \<Rightarrow> (release_lock l sh\<lparr>cs_count := None\<rparr>, Over))"
| "conn_action limit good sh (Subtracting l) =
     Some (case cs_count sh of
             None \<Rightarrow> (release_lock l sh, Broken)
           | Some n \<Rightarrow> (sh, Writing l (n - 1)))"
| "conn_action limit good sh (Writing l n) = Some (release_lock l sh\<lparr>cs_count := Some n\<rparr>, Over)"
| "conn_action limit good sh _ = None"

record conn_system =
  cn_shared :: conn_shared
  cn_calls :: "conn_call list"

text \<open>The module before the first manager; the constructor, with its new lock; a call's action.\<close>

definition conn_start :: conn_system where
  "conn_start = \<lparr>cn_shared = \<lparr>cs_lock = None, cs_next = 0, cs_held = {}, cs_count = None\<rparr>, cn_calls = []\<rparr>"

definition conn_make :: "conn_system \<Rightarrow> conn_system" where
  "conn_make c =
     c\<lparr>cn_shared := (cn_shared c)\<lparr>cs_lock := Some (cs_next (cn_shared c)), cs_next := cs_next (cn_shared c) + 1\<rparr>,
       cn_calls := cn_calls c @ [Made]\<rparr>"

definition conn_act :: "nat \<Rightarrow> nat \<Rightarrow> bool \<Rightarrow> conn_system \<Rightarrow> conn_system option" where
  "conn_act limit k good c =
     (if k < length (cn_calls c)
      then map_option (\<lambda>(sh, cs). \<lparr>cn_shared = sh, cn_calls = (cn_calls c)[k := cs]\<rparr>)
             (conn_action limit good (cn_shared c) (cn_calls c ! k))
      else None)"

end
