(* ===== verification/ConnThreads.thy ===== *)
theory ConnThreads
  imports ConnManager PoolThreads AgentProofs
begin

text \<open>
  What the connection manager promises: for one thread, the counter of open connections is as
  before when the \<^verbatim>\<open>with\<close> statement ends; for many threads, the counter is exact as long as they
  share one lock, and it is not when a manager is made meanwhile.
\<close>

section \<open>One thread\<close>

lemma run_on_parts:
  "on_world m (p, s) = (case m s of (r, s') \<Rightarrow> (r, (p, s')))"
  "on_pool f (p, s) = (case f p of (x, p') \<Rightarrow> (Inr x, (p', s)))"
  by (simp_all add: on_world_def on_pool_def)

lemma run_with_lock:
  "with_lock key body (m, s) =
     (case map_of (connection_lock_dict m) key of None \<Rightarrow> (Inl KeyError, (m, s)) | Some _ \<Rightarrow> body (m, s))"
  by (simp add: with_lock_def run_bnd run_on_parts Prelude.run split: option.split)

text \<open>The counters and the locks of a state.\<close>

definition counted :: "(string \<Rightarrow> int option) \<Rightarrow> (string, nat) dict \<Rightarrow> connection_module \<times> 's \<Rightarrow> bool" where
  "counted cnt locks w \<longleftrightarrow>
     map_of (array_connections_dict (fst w)) = cnt \<and> connection_lock_dict (fst w) = locks"

definition one_more :: "string \<Rightarrow> (string \<Rightarrow> int option) \<Rightarrow> string \<Rightarrow> int option" where
  "one_more key cnt = cnt(key \<mapsto> (case cnt key of None \<Rightarrow> 1 | Some n \<Rightarrow> n + 1))"

lemma keeps_counted [keeps_rules]: "keeps (counted cnt locks) (on_world m)"
  by (rule keepsI) (auto simp: on_world_def counted_def split: prod.splits)

lemma raise_count_counted:
  "counted cnt locks w \<Longrightarrow> raise_count limit key w = (r, w') \<Longrightarrow>
   (case r of Inl _ \<Rightarrow> counted cnt locks w' | Inr _ \<Rightarrow> counted (one_more key cnt) locks w')"
  by (cases w) (auto simp: raise_count_def counted_def one_more_def split: option.splits if_splits)

lemma reduce_count_counted:
  assumes "counted (one_more key cnt) locks w" and "\<And>n. cnt key = Some n \<Longrightarrow> 0 < n"
  shows "\<exists>w'. reduce_count key w = (Inr (), w') \<and> counted cnt locks w'"
proof (cases "cnt key")
  case None
  then have "(one_more key cnt)(key := None) = cnt" by (auto simp: one_more_def)
  with None assms(1) show ?thesis
    by (cases w) (auto simp: reduce_count_def lower_count_def counted_def one_more_def)
next
  case (Some n)
  with assms(2) have "0 < n" "(one_more key cnt)(key \<mapsto> n) = cnt" by (auto simp: one_more_def)
  with Some assms(1) show ?thesis
    by (cases w) (auto simp: reduce_count_def lower_count_def counted_def one_more_def)
qed

text \<open>What a manager leaves behind at the start and at the end of the statement.\<close>

lemma get_array_connection_counted:
  assumes c: "counted cnt locks w" and pos: "\<And>n. cnt (mg_endpoint_key mgr) = Some n \<Longrightarrow> 0 < n"
    and get: "get_array_connection env mgr w = (r, w')"
  shows "case r of
      Inl _ \<Rightarrow> counted cnt locks w'
    | Inr mgr' \<Rightarrow> counted (one_more (mg_endpoint_key mgr) cnt) locks w' \<and>
        map_of locks (mg_endpoint_key mgr) \<noteq> None \<and> mg_connected mgr' \<and>
        mg_endpoint_key mgr' = mg_endpoint_key mgr \<and>
        (\<exists>k s med s'. array_type_to_mediator (mg_array_type mgr) = Some k \<and>
          med_class env k (mg_user mgr) (mg_password mgr) (mg_endpoints mgr) s = (Inr med, s') \<and>
          mg_med_class mgr' = Some med)"
proof (cases "array_type_to_mediator (mg_array_type mgr)")
  case None
  with get c show ?thesis by (auto simp: get_array_connection_def Prelude.run)
next
  case (Some k)
  let ?key = "mg_endpoint_key mgr"
  obtain m s where w: "w = (m, s)" by (cases w)
  show ?thesis
  proof (cases "map_of (connection_lock_dict m) ?key")
    case None
    with get c Some show ?thesis by (auto simp: get_array_connection_def w run_with_lock)
  next
    case (Some l)
    then have lock: "map_of locks ?key \<noteq> None"
      using c by (simp add: w counted_def)
    let ?cls = "med_class env k (mg_user mgr) (mg_password mgr) (mg_endpoints mgr)"
    have unfolded: "get_array_connection env mgr w =
        bnd (raise_count (kind_max_connections k) ?key) (\<lambda>_.
        bnd (try_except (on_world ?cls) (\<lambda>ex. bnd (reduce_count ?key) (\<lambda>_. raise ex))) (\<lambda>med.
          ret (mgr\<lparr>mg_med_class := Some med, mg_connected := True\<rparr>))) (m, s)"
      using \<open>array_type_to_mediator (mg_array_type mgr) = Some k\<close> Some
      by (simp add: get_array_connection_def w run_with_lock)
    obtain r1 w1 where raised: "raise_count (kind_max_connections k) ?key w = (r1, w1)"
      by (cases "raise_count (kind_max_connections k) ?key w")
    note counted1 = raise_count_counted [OF c raised]
    show ?thesis
    proof (cases r1)
      case (Inl e)
      with counted1 raised get unfolded show ?thesis by (simp add: w Prelude.run)
    next
      case (Inr u)
      obtain m1 s1 where w1: "w1 = (m1, s1)" by (cases w1)
      obtain r2 s2 where made: "?cls s1 = (r2, s2)" by (cases "?cls s1")
      have c2: "counted (one_more ?key cnt) locks (m1, s2)"
        using counted1 Inr by (simp add: w1 counted_def)
      from reduce_count_counted [OF c2 pos] obtain w3 where
        "reduce_count ?key (m1, s2) = (Inr (), w3)" "counted cnt locks w3" by blast
      with raised get unfolded Inr made c2 lock \<open>array_type_to_mediator (mg_array_type mgr) = Some k\<close>
      show ?thesis
        by (cases r2) (auto simp: w w1 Prelude.run run_on_parts)
    qed
  qed
qed

lemma exit_manager_counted:
  assumes "counted (one_more (mg_endpoint_key mgr) cnt) locks w" and "\<And>n. cnt (mg_endpoint_key mgr) = Some n \<Longrightarrow> 0 < n"
    and "map_of locks (mg_endpoint_key mgr) \<noteq> None" and "mg_connected mgr" and "mg_med_class mgr = Some med"
    and "yields (\<lambda>_. True) (\<lambda>_. False) (disconnect med)"
  shows "\<exists>mgr' w'. exit_manager mgr w = (Inr mgr', w') \<and> counted cnt locks w'"
proof -
  obtain m s where w: "w = (m, s)" by (cases w)
  obtain r s1 where closed: "disconnect med s = (r, s1)" by (cases "disconnect med s")
  then have ok: "r = Inr ()"
    using yields_errorD [OF assms(6)] by (cases r) auto
  have "counted (one_more (mg_endpoint_key mgr) cnt) locks (m, s1)"
    using assms(1) by (simp add: w counted_def)
  from reduce_count_counted [OF this assms(2)] obtain m2 s2 where
    "reduce_count (mg_endpoint_key mgr) (m, s1) = (Inr (), (m2, s2))" "counted cnt locks (m2, s2)"
    by (metis surj_pair)
  moreover have "map_of (connection_lock_dict m) (mg_endpoint_key mgr) \<noteq> None"
    using assms(1,3) by (simp add: w counted_def)
  ultimately show ?thesis
    using assms(4,5) closed ok by (auto simp: exit_manager_def w run_with_lock Prelude.run run_on_parts)
qed

text \<open>
  When a \<^verbatim>\<open>with\<close> statement on a manager ends, by a result or by any exception, the number of open
  connections of every set of addresses is what it was before, provided that disconnecting
  does not raise.
\<close>

theorem connection_count_restored:
  assumes "\<And>n. map_of (array_connections_dict m) (mg_endpoint_key mgr) = Some n \<Longrightarrow> 0 < n"
    and "\<And>k s med s'. array_type_to_mediator (mg_array_type mgr) = Some k \<Longrightarrow>
      med_class env k (mg_user mgr) (mg_password mgr) (mg_endpoints mgr) s = (Inr med, s') \<Longrightarrow>
      yields (\<lambda>_. True) (\<lambda>_. False) (disconnect med)"
    and "with_connection env mgr body (m, s) = (r, (m', s'))"
  shows "map_of (array_connections_dict m') = map_of (array_connections_dict m) \<and>
    connection_lock_dict m' = connection_lock_dict m"
proof -
  let ?cnt = "map_of (array_connections_dict m)" and ?locks = "connection_lock_dict m"
  have start: "counted ?cnt ?locks (m, s)" by (simp add: counted_def)
  obtain r1 w1 where get: "get_array_connection env mgr (m, s) = (r1, w1)"
    by (cases "get_array_connection env mgr (m, s)")
  note got = get_array_connection_counted [OF start assms(1) get]
  have "counted ?cnt ?locks (m', s')"
  proof (cases r1)
    case (Inl e)
    with got get assms(3) show ?thesis by (simp add: with_connection_def Prelude.run)
  next
    case (Inr mgr')
    let ?up = "one_more (mg_endpoint_key mgr) ?cnt"
    from got Inr obtain k t med t' where g: "counted ?up ?locks w1" "map_of ?locks (mg_endpoint_key mgr) \<noteq> None"
      "mg_connected mgr'" "mg_endpoint_key mgr' = mg_endpoint_key mgr" "mg_med_class mgr' = Some med"
      "array_type_to_mediator (mg_array_type mgr) = Some k" "med_class env k (mg_user mgr) (mg_password mgr) (mg_endpoints mgr) t = (Inr med, t')" by auto
    obtain r2 w2 where body: "on_world (body med) w1 = (r2, w2)" by (cases "on_world (body med) w1")
    have "counted ?up ?locks w2" by (rule keepsD [OF keeps_counted g(1) body])
    from exit_manager_counted [of mgr' ?cnt, unfolded g(4), OF this assms(1) g(2,3,5) assms(2) [OF g(6,7)]]
    obtain mgr'' w3 where "exit_manager mgr' w2 = (Inr mgr'', w3)" "counted ?cnt ?locks w3" by blast
    with get Inr body g(5) assms(3) show ?thesis by (auto simp: with_connection_def Prelude.run)
  qed
  then show ?thesis by (simp add: counted_def)
qed

lemma xiv_env_connects:
  "med_class xiv_env XIV u w eps s =
     (Inr (xiv_mediator (\<lambda>a b s. (a, s)) sample_xiv eps), s @ [''connect''])"
  by (simp add: XIVArrayMediator_def xiv_connect_client_def except_lib_def xiv_env_def stub_env_def Prelude.run)

lemma connection_count_restored_witness:
  "map_of (array_connections_dict (fst (snd (with_connection xiv_env
       \<lparr>mg_user = JStr ''u'', mg_password = JStr ''p'', mg_endpoints = [''a''], mg_endpoint_key = ''a'',
         mg_array_type = ''A9000'', mg_med_class = None, mg_connected = False\<rparr>
       (\<lambda>_. (raise KeyError :: (string list, unit) pyprog))
       (\<lparr>connection_lock_dict = [(''a'', 0)], next_lock = 1, array_connections_dict = [(''a'', 1)]\<rparr>, [])))))
     = map_of [(''a'', 1)]"
  (is "map_of (array_connections_dict (fst (snd (with_connection _ ?mgr ?body (?m, []))))) = _")
proof -
  obtain r m' s' where ended: "with_connection xiv_env ?mgr ?body (?m, []) = (r, (m', s'))"
    by (metis surj_pair)
  have "array_type_to_mediator (mg_array_type ?mgr) = Some XIV"
    by (simp add: array_type_to_mediator_def array_type_defs)
  moreover have "yields (\<lambda>_. True) (\<lambda>_. False) (disconnect med)"
    if "med_class xiv_env XIV u w eps s = (Inr med, s')" for u w eps s s' med
    using xiv_env_connects [of u w eps s] that
    by (auto simp: xiv_mediator_def xiv_disconnect_def sample_xiv_def Prelude.run xsent_def intro!: yieldsI)
  ultimately have "yields (\<lambda>_. True) (\<lambda>_. False) (disconnect med)"
    if "array_type_to_mediator (mg_array_type ?mgr) = Some k"
      "med_class xiv_env k (mg_user ?mgr) (mg_password ?mgr) (mg_endpoints ?mgr) s = (Inr med, s')" for k s s' med
    using that by force
  with connection_count_restored [OF _ _ ended] ended show ?thesis
    by (auto split: if_splits)
qed

section \<open>Many threads\<close>

inductive conn_step :: "nat \<Rightarrow> conn_system \<Rightarrow> conn_system \<Rightarrow> bool" for limit :: nat where
  make: "conn_step limit c (conn_make c)"
| act: "conn_act limit k good c = Some c' \<Longrightarrow> conn_step limit c c'"

text \<open>The lock object a call waits for or holds; whether it holds it.\<close>

fun lock_of :: "conn_call \<Rightarrow> nat option" where
  "lock_of (Entering l) = Some l" | "lock_of (Testing l) = Some l" | "lock_of (Comparing l) = Some l"
| "lock_of (Adding l) = Some l" | "lock_of (Raising l n) = Some l" | "lock_of (Opening l) = Some l"
| "lock_of (Leaving l) = Some l" | "lock_of (Disconnecting l) = Some l" | "lock_of (Lowering l) = Some l"
| "lock_of (Deleting l) = Some l" | "lock_of (Subtracting l) = Some l" | "lock_of (Writing l n) = Some l"
| "lock_of _ = None"

fun holds :: "conn_call \<Rightarrow> nat" where
  "holds (Testing _) = 1" | "holds (Comparing _) = 1" | "holds (Adding _) = 1"
| "holds (Raising _ _) = 1" | "holds (Opening _) = 1" | "holds (Disconnecting _) = 1"
| "holds (Lowering _) = 1" | "holds (Deleting _) = 1" | "holds (Subtracting _) = 1"
| "holds (Writing _ _) = 1" | "holds _ = 0"

text \<open>Whether a call's connection is open, and whether the call is counted.\<close>

fun is_open :: "conn_call \<Rightarrow> nat" where
  "is_open Using = 1" | "is_open (Leaving _) = 1" | "is_open (Disconnecting _) = 1" | "is_open _ = 0"

fun is_counted :: "conn_call \<Rightarrow> nat" where
  "is_counted (Opening _) = 1" | "is_counted Using = 1" | "is_counted (Leaving _) = 1"
| "is_counted (Disconnecting _) = 1" | "is_counted (Lowering _) = 1" | "is_counted (Deleting _) = 1"
| "is_counted (Subtracting _) = 1" | "is_counted (Writing _ _) = 1" | "is_counted Lost = 1"
| "is_counted _ = 0"

text \<open>Steps in which a manager is made only while no call waits for a lock or holds one.\<close>

inductive quiet_step :: "nat \<Rightarrow> conn_system \<Rightarrow> conn_system \<Rightarrow> bool" for limit :: nat where
  quiet_make: "list_all (\<lambda>cs. lock_of cs = None) (cn_calls c) \<Longrightarrow> quiet_step limit c (conn_make c)"
| quiet_act: "conn_act limit k good c = Some c' \<Longrightarrow> quiet_step limit c c'"

subsection \<open>The invariant of quiet steps\<close>

definition count_of :: "nat \<Rightarrow> int option" where
  "count_of u = (if u = 0 then None else Some (int u))"

text \<open>What a call that holds the lock has learned, with \<open>u\<close> calls counted.\<close>

fun knows :: "nat \<Rightarrow> nat \<Rightarrow> conn_call \<Rightarrow> bool" where
  "knows limit u (Comparing _) = (0 < u)"
| "knows limit u (Adding _) = (0 < u \<and> u < limit)"
| "knows limit u (Raising _ n) = (n = int u + 1 \<and> u < limit)"
| "knows limit u (Deleting _) = (u = 1)"
| "knows limit u (Subtracting _) = (1 < u)"
| "knows limit u (Writing _ n) = (n = int u - 1 \<and> 1 < u)"
| "knows limit u Made = True"
| "knows limit u Broken = False"
| "knows limit u _ = True"

lemma knows_free: "holds cs = 0 \<Longrightarrow> knows limit u cs \<longleftrightarrow> cs \<noteq> Broken"
  by (cases cs) auto

definition conn_ok :: "nat \<Rightarrow> conn_system \<Rightarrow> bool" where
  "conn_ok limit c \<longleftrightarrow>
     (\<forall>l\<in>cs_held (cn_shared c). l < cs_next (cn_shared c)) \<and>
     (cn_calls c \<noteq> [] \<longrightarrow> (\<exists>l<cs_next (cn_shared c). cs_lock (cn_shared c) = Some l)) \<and>
     (\<forall>cs\<in>set (cn_calls c). \<forall>l. lock_of cs = Some l \<longrightarrow> cs_lock (cn_shared c) = Some l) \<and>
     total holds (cn_calls c) =
       (case cs_lock (cn_shared c) of None \<Rightarrow> 0 | Some l \<Rightarrow> if l \<in> cs_held (cn_shared c) then 1 else 0) \<and>
     cs_count (cn_shared c) = count_of (total is_counted (cn_calls c)) \<and>
     total is_counted (cn_calls c) \<le> limit \<and>
     list_all (knows limit (total is_counted (cn_calls c))) (cn_calls c)"

lemma total_zero: "total f cs = 0 \<longleftrightarrow> (\<forall>x\<in>set cs. f x = 0)"
  by (simp add: total_def)

lemma holds_none: "lock_of cs = None \<Longrightarrow> holds cs = 0"
  by (cases cs) auto

lemma holds_le: "holds cs \<le> 1" "is_counted cs \<le> 1" "is_open cs \<le> is_counted cs"
  by (cases cs; simp)+

lemma conn_make_ok:
  assumes "conn_ok limit c" and "list_all (\<lambda>cs. lock_of cs = None) (cn_calls c)"
  shows "conn_ok limit (conn_make c)"
proof -
  have free: "total holds (cn_calls c) = 0"
    unfolding total_zero using assms(2) by (auto simp: list_all_iff holds_none)
  have "cs_next (cn_shared c) \<notin> cs_held (cn_shared c)"
    "\<forall>l\<in>cs_held (cn_shared c). l < Suc (cs_next (cn_shared c))"
    using assms(1) unfolding conn_ok_def by (blast, auto intro: less_SucI)
  with assms free show ?thesis
    unfolding conn_ok_def by (simp add: conn_make_def list_all_iff)
qed

text \<open>One action, seen by the call that takes it.\<close>

lemma conn_action_ok:
  assumes "conn_action limit good sh cs = Some (sh', cs')" and "0 < limit"
    and "cs_lock sh = Some m" and "\<And>l. lock_of cs = Some l \<Longrightarrow> l = m"
    and "knows limit u cs" and "cs_count sh = count_of u" and "u \<le> limit" and "is_counted cs \<le> u"
    and "holds cs = 1 \<Longrightarrow> m \<in> cs_held sh" and "u' + is_counted cs = u + is_counted cs'"
  shows "(knows limit u' cs' \<and> cs_count sh' = count_of u' \<and> u' \<le> limit) \<and>
     (cs_lock sh' = Some m \<and> cs_next sh' = cs_next sh \<and> cs_held sh' \<subseteq> insert m (cs_held sh)) \<and>
     (lock_of cs' = None \<or> lock_of cs' = Some m) \<and> (holds cs = 0 \<longrightarrow> u' = u) \<and>
     (if m \<in> cs_held sh' then 1 else 0) + holds cs = (if m \<in> cs_held sh then 1 else 0) + holds cs'"
  using assms
  by (cases cs) (auto simp: count_of_def release_lock_def acquire_lock_def split: if_splits)

lemma conn_act_ok:
  assumes inv: "conn_ok limit c" and "0 < limit" and step: "conn_act limit k good c = Some c'"
  shows "conn_ok limit c'"
proof -
  let ?sh = "cn_shared c" and ?cs = "cn_calls c ! k" and ?u = "total is_counted (cn_calls c)"
  from step obtain sh' cs' where k: "k < length (cn_calls c)"
    and act: "conn_action limit good ?sh ?cs = Some (sh', cs')"
    and c': "c' = \<lparr>cn_shared = sh', cn_calls = (cn_calls c)[k := cs']\<rparr>"
    by (auto simp: conn_act_def split: if_splits)
  have mem: "?cs \<in> set (cn_calls c)" using k by simp
  then obtain m where m: "cs_lock ?sh = Some m" "m < cs_next ?sh"
    using inv unfolding conn_ok_def by (cases "cn_calls c") auto
  have held: "total holds (cn_calls c) = (if m \<in> cs_held ?sh then 1 else 0)"
    using inv m(1) by (simp add: conn_ok_def)
  let ?u' = "total is_counted ((cn_calls c)[k := cs'])"
  have u': "?u' + is_counted ?cs = ?u + is_counted cs'"
    by (rule total_update [OF k])
  have "\<And>l. lock_of ?cs = Some l \<Longrightarrow> l = m" "knows limit ?u ?cs" "cs_count ?sh = count_of ?u" "?u \<le> limit"
    using inv m(1) mem by (auto simp: conn_ok_def list_all_iff)
  moreover have "is_counted ?cs \<le> ?u" "holds ?cs = 1 \<Longrightarrow> m \<in> cs_held ?sh"
    using total_member [OF k, of is_counted] total_member [OF k, of holds] held by (auto split: if_splits)
  ultimately have ok: "knows limit ?u' cs'" "cs_count sh' = count_of ?u'" "?u' \<le> limit"
    "cs_lock sh' = Some m" "cs_next sh' = cs_next ?sh" "cs_held sh' \<subseteq> insert m (cs_held ?sh)"
    "lock_of cs' = None \<or> lock_of cs' = Some m" "holds ?cs = 0 \<Longrightarrow> ?u' = ?u"
    "(if m \<in> cs_held sh' then 1 else 0) + holds ?cs = (if m \<in> cs_held ?sh then 1 else 0) + holds cs'"
    using conn_action_ok [OF act assms(2) m(1) _ _ _ _ _ _ u'] by auto
  have "total holds ((cn_calls c)[k := cs']) = (if m \<in> cs_held sh' then 1 else 0)"
    using total_update [OF k, of holds cs'] held ok(9) by (simp split: if_splits)
  moreover have "knows limit ?u' ((cn_calls c)[k := cs'] ! j)" if "j < length (cn_calls c)" for j
  proof (cases "j = k")
    case False
    have j: "knows limit ?u (cn_calls c ! j)"
      using inv that by (simp add: conn_ok_def list_all_length)
    have "holds (cn_calls c ! j) + holds ?cs \<le> 1"
      using total_two [OF that k False, of holds] held by (auto split: if_splits)
    with j ok(8) have "knows limit ?u' (cn_calls c ! j)"
      by (cases "holds ?cs = 0") (auto simp: knows_free)
    with False show ?thesis by simp
  qed (use k ok(1) in simp)
  moreover have "lock_of cs = Some l \<Longrightarrow> l = m" if "cs \<in> set ((cn_calls c)[k := cs'])" for cs l
    using set_update_subset_insert [of "cn_calls c" k cs'] that ok(7) inv m(1)
    by (auto simp: conn_ok_def)
  moreover have "\<forall>l\<in>cs_held sh'. l < cs_next sh'"
    using ok(5,6) m(2) inv by (auto simp: conn_ok_def)
  ultimately show ?thesis
    using ok(2-5) m(2) by (auto simp: conn_ok_def c' list_all_length)
qed

lemma conn_start_ok: "conn_ok limit conn_start"
  by (simp add: conn_ok_def conn_start_def count_of_def)

lemma kind_max_pos: "0 < kind_max_connections k"
  by (cases k) simp_all

interpretation counter: bounded_system "\<lambda>c. c = conn_start" "quiet_step (kind_max_connections kind)"
  "conn_ok (kind_max_connections kind)" "\<lambda>c. int (total is_open (cn_calls c))"
  "\<lambda>_. int (kind_max_connections kind)" for kind
proof unfold_locales
  fix c assume "conn_ok (kind_max_connections kind) c"
  then have "total is_counted (cn_calls c) \<le> kind_max_connections kind" by (simp add: conn_ok_def)
  moreover have "total is_open (cn_calls c) \<le> total is_counted (cn_calls c)"
    unfolding total_def by (rule sum_list_mono) (rule holds_le)
  ultimately show "int (total is_open (cn_calls c)) \<le> int (kind_max_connections kind)" by simp
qed (auto simp: conn_start_ok elim!: quiet_step.cases intro: conn_make_ok conn_act_ok kind_max_pos)

text \<open>Schedules, for the runs of chosen threads.\<close>

datatype conn_move = Make | Act nat

fun run_moves :: "bool \<Rightarrow> nat \<Rightarrow> conn_move list \<Rightarrow> conn_system \<Rightarrow> conn_system option" where
  "run_moves quiet limit [] c = Some c"
| "run_moves quiet limit (Make # ms) c =
     (if quiet \<and> \<not> list_all (\<lambda>cs. lock_of cs = None) (cn_calls c) then None
      else run_moves quiet limit ms (conn_make c))"
| "run_moves quiet limit (Act k # ms) c = Option.bind (conn_act limit k True c) (run_moves quiet limit ms)"

lemma run_moves_reachable:
  assumes act: "\<And>k c c'. conn_act limit k True c = Some c' \<Longrightarrow> step c c'"
    and make: "\<And>c. \<not> quiet \<or> list_all (\<lambda>cs. lock_of cs = None) (cn_calls c) \<Longrightarrow> step c (conn_make c)"
  shows "run_moves quiet limit ms c = Some c' \<Longrightarrow> reachable init step c \<Longrightarrow> reachable init step c'"
proof (induction ms arbitrary: c)
  case (Cons mv ms)
  obtain c1 where "run_moves quiet limit ms c1 = Some c'" "step c c1"
    using Cons.prems(1) act make [of c]
    by (cases mv) (auto simp: bind_eq_Some_conv split: if_splits)
  with Cons show ?case by (meson next_state)
qed simp

text \<open>
  As long as managers are made only while no thread is entering or leaving a \<^verbatim>\<open>with\<close> statement, the
  counter is the number of the calls that have a connection (a call whose \<^verbatim>\<open>disconnect\<close> raised
  counts forever), no more connections are open than the array's maximum, and no call ends by
  a missing key.
\<close>

theorem connections_counted_quiet:
  assumes "reachable (\<lambda>c. c = conn_start) (quiet_step (kind_max_connections kind)) c"
  shows "cs_count (cn_shared c) = count_of (total is_counted (cn_calls c)) \<and>
    int (total is_open (cn_calls c)) \<le> int (kind_max_connections kind) \<and> Broken \<notin> set (cn_calls c)"
  using counter.reachable_inv [OF assms] counter.reachable_bound [OF assms]
  by (auto simp: conn_ok_def list_all_iff)

definition two_users :: conn_system where
  "two_users = \<lparr>cn_shared = \<lparr>cs_lock = Some 1, cs_next = 2, cs_held = {}, cs_count = Some 2\<rparr>,
     cn_calls = [Using, Using]\<rparr>"

lemma connections_counted_quiet_witness:
  "cs_count (cn_shared two_users) = count_of (total is_counted (cn_calls two_users)) \<and>
   Broken \<notin> set (cn_calls two_users)"
proof -
  let ?ms = "Make # replicate 5 (Act 0) @ Make # replicate 7 (Act 1)"
  have run: "run_moves True (kind_max_connections SVC) ?ms conn_start = Some two_users"
    unfolding two_users_def by code_simp
  have "reachable (\<lambda>c. c = conn_start) (quiet_step (kind_max_connections SVC)) conn_start"
    by (simp add: start)
  from run_moves_reachable [OF _ _ run this]
  have "reachable (\<lambda>c. c = conn_start) (quiet_step (kind_max_connections SVC)) two_users"
    by (auto intro: quiet_step.intros)
  from connections_counted_quiet [OF this] show ?thesis by simp
qed

text \<open>
  Every new manager replaces the lock.  Two threads that make their managers one after the
  other hold different locks and both find no counter; two open connections are then counted
  as one, and a third is opened where the maximum is two.
\<close>

theorem connections_exceed_maximum:
  "\<exists>c. reachable (\<lambda>c. c = conn_start) (conn_step (kind_max_connections SVC)) c \<and>
     total is_open (cn_calls c) = 3 \<and> cs_count (cn_shared c) = Some 2 \<and>
     kind_max_connections SVC = 2"
proof -
  let ?ms = "[Make] @ replicate 3 (Act 0) @ [Make] @ replicate 3 (Act 1) @ replicate 2 (Act 0) @
    replicate 2 (Act 1) @ [Make] @ replicate 7 (Act 2)"
  have run: "run_moves False (kind_max_connections SVC) ?ms conn_start =
    Some \<lparr>cn_shared = \<lparr>cs_lock = Some 2, cs_next = 3, cs_held = {}, cs_count = Some 2\<rparr>,
      cn_calls = [Using, Using, Using]\<rparr>"
    by code_simp
  have "reachable (\<lambda>c. c = conn_start) (conn_step (kind_max_connections SVC)) conn_start"
    by (simp add: start)
  from run_moves_reachable [OF _ _ run this] show ?thesis
    by (intro exI conjI) (blast intro: conn_step.intros, simp_all add: total_def)
qed

end
