(* ===== verification/MappingTable.thy ===== *)
theory MappingTable
  imports Mediator Transition
begin

text \<open>
  What mapping a volume to a node means, whatever the storage: an abstract table of the LUNs,
  by volume and host, and the contract of a mediator that keeps one (the locale
  \<open>mapping_table\<close>).  Publishing and unpublishing, \<^verbatim>\<open>array_mediator_abstract.py\<close>, are operations on
  that table.  The storage types meet the contract in \<open>MappingStores\<close>.
\<close>

section \<open>The contract\<close>

text \<open>
  \<open>vid\<close>: the volume that an id of the mediator names; \<open>tbl s\<close>: the mappings of the volumes in the
  world \<open>s\<close>.  Only mapping and unmapping change them; an operation that raises leaves them.
\<close>

locale mapping_table =
  fixes med :: "'s mediator" and vid :: "string \<Rightarrow> 'k" and tbl :: "'s \<Rightarrow> 'k \<Rightarrow> string \<Rightarrow> lun option"
  assumes host_keeps: "keeps (\<lambda>s. tbl s = T) (get_host_by_host_identifiers med i)"
    and wwns_keep: "keeps (\<lambda>s. tbl s = T) (get_array_fc_wwns med h)"
    and targets_keep: "keeps (\<lambda>s. tbl s = T) (get_iscsi_targets_by_iqn med)"
    and mappings_read: "get_volume_mappings med v s = (r, s') \<Longrightarrow>
      tbl s' = tbl s \<and> (\<forall>ms. r = Inr ms \<longrightarrow> map_of ms = tbl s (vid v) \<and> distinct (map fst ms))"
    and map_adds: "map_volume med v h s = (rm, s') \<Longrightarrow>
      tbl s' = (case rm of Inl e \<Rightarrow> tbl s | Inr l \<Rightarrow> (tbl s)(vid v := (tbl s (vid v))(h \<mapsto> l)))"
    and unmap_drops: "unmap_volume med v h s = (ru, s') \<Longrightarrow>
      (case ru of
         Inl e \<Rightarrow> tbl s' = tbl s
       | Inr u \<Rightarrow> tbl s (vid v) h \<noteq> None \<and> tbl s' = (tbl s)(vid v := (tbl s (vid v))(h := None)))"
begin

lemma retries_add:
  "map_volume_retries med v h ex n s = (r, s') \<Longrightarrow> tbl s = T \<Longrightarrow>
   tbl s' = (case r of Inl e \<Rightarrow> T | Inr l \<Rightarrow> T(vid v := (T (vid v))(h \<mapsto> l)))"
proof (induction n arbitrary: s)
  case (Suc n)
  obtain r1 s1 where once: "map_volume med v h s = (r1, s1)" by (cases "map_volume med v h s")
  show ?case
    using Suc map_adds [OF once] once by (cases r1) (auto simp: run split: if_splits)
qed auto

lemma with_retries_add:
  assumes "map_volume_with_retries med v h s = (r, s')"
  shows "tbl s' = (case r of Inl e \<Rightarrow> tbl s | Inr l \<Rightarrow> (tbl s)(vid v := (tbl s (vid v))(h \<mapsto> l)))"
proof -
  obtain r1 s1 where once: "map_volume med v h s = (r1, s1)" by (cases "map_volume med v h s")
  show ?thesis
    using assms map_adds [OF once] once retries_add [where T = "tbl s"]
    by (cases r1) (auto simp: map_volume_with_retries_def run split: if_splits)
qed

lemma map_to_host_table:
  assumes "map_to_host med v h ct ai s = (r, s')"
  shows "case r of
      Inl e \<Rightarrow> tbl s' = tbl s
    | Inr (l, _, _) \<Rightarrow> (tbl s (vid v) = Map.empty \<or> tbl s (vid v) = [h \<mapsto> l]) \<and>
        tbl s' = (tbl s)(vid v := [h \<mapsto> l])"
proof -
  obtain r1 s1 where read: "get_volume_mappings med v s = (r1, s1)"
    by (cases "get_volume_mappings med v s")
  note t1 = mappings_read [OF read]
  show ?thesis
  proof (cases r1)
    case (Inr ms)
    then have ms: "map_of ms = tbl s (vid v)" "tbl s1 = tbl s" using t1 by auto
    show ?thesis
    proof (cases ms)
      case Nil
      obtain r2 s2 where mapped: "map_volume_with_retries med v h s1 = (r2, s2)"
        by (cases "map_volume_with_retries med v h s1")
      have empty: "tbl s (vid v) = Map.empty" using ms(1) Nil by simp
      show ?thesis
        using assms read Inr Nil mapped with_retries_add [OF mapped] ms empty
        by (cases r2) (auto simp: map_to_host_def run)
    next
      case (Cons m rest)
      then show ?thesis
        using assms read Inr ms
        by (cases rest; cases m) (auto simp: map_to_host_def run split: if_splits)
    qed
  qed (use assms read t1 in \<open>auto simp: map_to_host_def run\<close>)
qed

lemma initiators_keep: "keeps (\<lambda>s. tbl s = T) (get_array_initiators med h ct)"
  unfolding get_array_initiators_def by (intro keeps_rules wwns_keep targets_keep)

lemma map_once_table:
  assumes "map_volume_once med v i s = (r, s')"
  shows "case r of
      Inl e \<Rightarrow> tbl s' = tbl s
    | Inr (l, _, _) \<Rightarrow> \<exists>h. (tbl s (vid v) = Map.empty \<or> tbl s (vid v) = [h \<mapsto> l]) \<and>
        tbl s' = (tbl s)(vid v := [h \<mapsto> l])"
proof -
  obtain r1 s1 where host: "get_host_by_host_identifiers med i s = (r1, s1)"
    by (cases "get_host_by_host_identifiers med i s")
  have t1: "tbl s1 = tbl s" by (rule keepsD [OF host_keeps refl host])
  show ?thesis
  proof (cases r1)
    case (Inr hc)
    obtain h cts where hc: "hc = (h, cts)" by (cases hc)
    let ?ct = "choose_connectivity_type cts"
    obtain r2 s2 where ai: "get_array_initiators med h ?ct s1 = (r2, s2)"
      by (cases "get_array_initiators med h ?ct s1")
    have t2: "tbl s2 = tbl s" using keepsD [OF initiators_keep refl ai] t1 by simp
    show ?thesis
    proof (cases r2)
      case (Inr a)
      then have "map_to_host med v h (the ?ct) a s2 = (r, s')"
        using assms host \<open>r1 = Inr hc\<close> hc ai by (simp add: map_volume_once_def Let_def run)
      from map_to_host_table [OF this] show ?thesis
        unfolding t2 by (cases r) auto
    qed (use assms host Inr hc ai t2 in \<open>auto simp: map_volume_once_def Let_def run\<close>)
  qed (use assms host t1 in \<open>auto simp: map_volume_once_def run\<close>)
qed

lemma unmap_once_table:
  assumes "unmap_volume_once med v i s = (r, s')"
  shows "case r of
      Inl e \<Rightarrow> tbl s' = tbl s
    | Inr u \<Rightarrow> \<exists>h. tbl s (vid v) h \<noteq> None \<and> tbl s' = (tbl s)(vid v := (tbl s (vid v))(h := None))"
proof -
  obtain r1 s1 where host: "get_host_by_host_identifiers med i s = (r1, s1)"
    by (cases "get_host_by_host_identifiers med i s")
  have t1: "tbl s1 = tbl s" by (rule keepsD [OF host_keeps refl host])
  show ?thesis
  proof (cases r1)
    case (Inr hc)
    obtain h cts where hc: "hc = (h, cts)" by (cases hc)
    with assms host Inr have "unmap_volume med v h s1 = (r, s')" by (simp add: unmap_volume_once_def run)
    from unmap_drops [OF this] show ?thesis unfolding t1 by (cases r) auto
  qed (use assms host t1 in \<open>auto simp: unmap_volume_once_def run\<close>)
qed

text \<open>With the retries of the decorator.\<close>

lemma published:
  assumes "retry_law retry" and "map_volume_by_initiators retry med v i s = (r, s')"
  shows "case r of
      Inl e \<Rightarrow> tbl s' = tbl s
    | Inr (l, _, _) \<Rightarrow> \<exists>h. (tbl s (vid v) = Map.empty \<or> tbl s (vid v) = [h \<mapsto> l]) \<and>
        tbl s' = (tbl s)(vid v := [h \<mapsto> l])"
proof (rule retry_steps [OF assms(1), where P = "\<lambda>s'. tbl s' = tbl s", OF _ refl
      assms(2) [unfolded map_volume_by_initiators_def]])
  fix s0 r' s1
  assume "tbl s0 = tbl s" and "map_volume_once med v i s0 = (r', s1)"
  with map_once_table [of v i s0 r' s1]
  show "case r' of
      Inl e \<Rightarrow> tbl s1 = tbl s
    | Inr x \<Rightarrow> (case x of (l, _, _) \<Rightarrow> \<exists>h. (tbl s (vid v) = Map.empty \<or> tbl s (vid v) = [h \<mapsto> l]) \<and>
        tbl s1 = (tbl s)(vid v := [h \<mapsto> l]))"
    by (simp split: sum.splits prod.splits)
qed

lemma unpublished:
  assumes "retry_law retry" and "unmap_volume_by_initiators retry med v i s = (r, s')"
  shows "case r of
      Inl e \<Rightarrow> tbl s' = tbl s
    | Inr u \<Rightarrow> \<exists>h. tbl s (vid v) h \<noteq> None \<and> tbl s' = (tbl s)(vid v := (tbl s (vid v))(h := None))"
proof (rule retry_steps [OF assms(1), where P = "\<lambda>s'. tbl s' = tbl s", OF _ refl
      assms(2) [unfolded unmap_volume_by_initiators_def]])
  fix s0 r' s1
  assume "tbl s0 = tbl s" and "unmap_volume_once med v i s0 = (r', s1)"
  with unmap_once_table [of v i s0 r' s1]
  show "case r' of
      Inl e \<Rightarrow> tbl s1 = tbl s
    | Inr u \<Rightarrow> \<exists>h. tbl s (vid v) h \<noteq> None \<and> tbl s1 = (tbl s)(vid v := (tbl s (vid v))(h := None))"
    by (simp split: sum.splits prod.splits)
qed

end

section \<open>Publishing and unpublishing\<close>

text \<open>
  C11: published_to_one_host
  Publishing a volume, with all its retries, is one change of the table: when it returns a LUN,
  the volume is mapped to exactly one host, with that LUN, and it had no mapping before or
  this very one; no other volume's mappings change.  When it raises, no mapping has changed.
\<close>

theorem published_to_one_host:
  assumes "mapping_table med vid tbl" and "retry_law retry"
    and "map_volume_by_initiators retry med v i s = (r, s')"
  shows "case r of
      Inl e \<Rightarrow> tbl s' = tbl s
    | Inr (l, _, _) \<Rightarrow> \<exists>h. (tbl s (vid v) = Map.empty \<or> tbl s (vid v) = [h \<mapsto> l]) \<and>
        tbl s' = (tbl s)(vid v := [h \<mapsto> l])"
  by (rule mapping_table.published [OF assms])

text \<open>
  C24: publishing_twice
  Publishing is idempotent: a second publication of a volume, whatever the node, either fails or
  returns the LUN of the first, and the table stays as the first has left it.
\<close>

theorem publishing_twice:
  assumes "mapping_table med vid tbl" and "retry_law retry"
    and "map_volume_by_initiators retry med v i s = (Inr (l, ct, ai), s1)"
    and "map_volume_by_initiators retry med v i' s1 = (r, s2)"
  shows "tbl s2 = tbl s1 \<and> (\<forall>l' x. r = Inr (l', x) \<longrightarrow> l' = l)"
proof -
  obtain h where t1: "tbl s1 (vid v) = [h \<mapsto> l]" "tbl s1 = (tbl s)(vid v := [h \<mapsto> l])"
    using mapping_table.published [OF assms(1-3)] by auto
  show ?thesis
  proof (cases r)
    case (Inr x)
    then obtain l' ct' ai' where x: "r = Inr (l', ct', ai')" by (cases x) auto
    then obtain h' where t2: "tbl s1 (vid v) = [h' \<mapsto> l']" "tbl s2 = (tbl s1)(vid v := [h' \<mapsto> l'])"
      using mapping_table.published [OF assms(1,2,4)] t1(1) by auto
    then have "[h \<mapsto> l] = [h' \<mapsto> l']" using t1(1) by simp
    then have "h' = h \<and> l' = l" by (metis fun_upd_apply option.inject option.distinct(1))
    then show ?thesis using t1 t2 x by (auto simp: fun_upd_idem)
  qed (use mapping_table.published [OF assms(1,2,4)] in simp)
qed

text \<open>
  C12: publish_unpublish_roundtrip
  Publishing a volume that was not mapped and then unpublishing it, when both return, leaves
  the table as it was: the node that unpublishes is the one it was published to.
\<close>

theorem publish_unpublish_roundtrip:
  assumes "mapping_table med vid tbl" and "retry_law retry" and "retry_law retry'"
    and "map_volume_by_initiators retry med v i s = (Inr (l, ct, ai), s1)"
    and "tbl s (vid v) = Map.empty"
    and "unmap_volume_by_initiators retry' med v i' s1 = (Inr (), s2)"
  shows "tbl s2 = tbl s"
proof -
  obtain h where t1: "tbl s1 = (tbl s)(vid v := [h \<mapsto> l])"
    using mapping_table.published [OF assms(1,2,4)] by auto
  obtain h' where t2: "tbl s1 (vid v) h' \<noteq> None" "tbl s2 = (tbl s1)(vid v := (tbl s1 (vid v))(h' := None))"
    using mapping_table.unpublished [OF assms(1,3,6)] by auto
  have "h' = h" using t1 t2(1) by (simp split: if_splits)
  with t1 t2 show ?thesis
    using assms(5) by (auto simp: fun_eq_iff)
qed

text \<open>Any sequence of publications and unpublications.\<close>

inductive mapping_step ::
  "(exc, 's, lun \<times> string \<times> array_initiators) retrier \<Rightarrow> (exc, 's, unit) retrier \<Rightarrow> 's mediator
   \<Rightarrow> 's \<Rightarrow> 's \<Rightarrow> bool"
  for retry :: "(exc, 's, lun \<times> string \<times> array_initiators) retrier" and retry' and med
where
  publish: "mapping_step retry retry' med s (snd (map_volume_by_initiators retry med v i s))"
| unpublish: "mapping_step retry retry' med s (snd (unmap_volume_by_initiators retry' med v i s))"

definition one_host :: "('k \<Rightarrow> string \<Rightarrow> lun option) \<Rightarrow> bool" where
  "one_host t \<longleftrightarrow> (\<forall>k h h'. t k h \<noteq> None \<longrightarrow> t k h' \<noteq> None \<longrightarrow> h = h')"

lemma one_host_mono: "one_host t \<Longrightarrow> (\<And>k h. t' k h \<noteq> None \<Longrightarrow> t k h \<noteq> None) \<Longrightarrow> one_host t'"
  unfolding one_host_def by blast

lemma mapping_step_one_host:
  assumes "mapping_table med vid tbl" and "retry_law retry" and "retry_law retry'"
    and "mapping_step retry retry' med s s'" and "one_host (tbl s)"
  shows "one_host (tbl s')"
  using assms(4)
proof cases
  case (publish v i)
  obtain r where r: "map_volume_by_initiators retry med v i s = (r, s')"
    using publish by (metis prod.collapse)
  show ?thesis
  proof (cases r)
    case (Inr x)
    then obtain h l where "tbl s' = (tbl s)(vid v := [h \<mapsto> l])"
      using mapping_table.published [OF assms(1,2) r] by (cases x) auto
    then show ?thesis
      using assms(5) by (auto simp: one_host_def split: if_splits)
  qed (use mapping_table.published [OF assms(1,2) r] assms(5) in simp)
next
  case (unpublish v i)
  obtain r where r: "unmap_volume_by_initiators retry' med v i s = (r, s')"
    using unpublish by (metis prod.collapse)
  have "tbl s' k h \<noteq> None \<Longrightarrow> tbl s k h \<noteq> None" for k h
    using mapping_table.unpublished [OF assms(1,3) r] by (cases r) (auto split: if_splits)
  then show ?thesis by (rule one_host_mono [OF assms(5)])
qed

text \<open>
  Exclusive access: when every volume is mapped to at most one host, this stays so under any
  sequence of publications and unpublications, of any volumes by any nodes, failed ones
  included.
\<close>

theorem volumes_on_one_host:
  assumes "mapping_table med vid tbl" and "retry_law retry" and "retry_law retry'"
    and "one_host (tbl s)" and "(mapping_step retry retry' med)\<^sup>*\<^sup>* s s'"
  shows "one_host (tbl s')"
  using assms(5,4) by (induction rule: rtranclp_induct) (auto intro: mapping_step_one_host [OF assms(1-3)])

end
