(* ===== verification/MappingStores.thy ===== *)
theory MappingStores
  imports MappingTable SvcProofs XivProofs Ds8kProofs
begin

text \<open>
  The three storage types keep a table of mappings, in the sense of \<open>MappingTable\<close>.  What a
  command of a third-party client does to the mappings on the array is a named hypothesis for
  each client, its documented behaviour; the theorems are about the mediators that use it.
  The last section is an array in memory, for the witnesses.
\<close>

section \<open>Tables by volume name\<close>

text \<open>
  SVC and XIV map a volume by its name, which the mediator looks up by the volume's id:
  \<open>names\<close> gives the name of an id, \<open>luns\<close> the mappings of a name.
\<close>

definition named_table ::
  "(string \<Rightarrow> string option) \<Rightarrow> (string \<Rightarrow> string \<Rightarrow> 'l option) \<Rightarrow> ('l \<Rightarrow> lun) \<Rightarrow> string \<Rightarrow> string \<Rightarrow> lun option" where
  "named_table names luns f w =
     (case names w of None \<Rightarrow> Map.empty | Some n \<Rightarrow> map_option f \<circ> luns n)"

lemma named_table_at: "names w = Some n \<Longrightarrow> named_table names luns f w = map_option f \<circ> luns n"
  by (simp add: named_table_def)

lemma named_table_set:
  assumes "\<And>w w' n. names w = Some n \<Longrightarrow> names w' = Some n \<Longrightarrow> w = w'" and "names w = Some n"
  shows "named_table names (luns(n := (luns n)(h \<mapsto> l))) f =
    (named_table names luns f)(w := (named_table names luns f w)(h \<mapsto> f l))"
    and "named_table names (luns(n := (luns n)(h := None))) f =
    (named_table names luns f)(w := (named_table names luns f w)(h := None))"
  using assms by (fastforce simp: named_table_def fun_eq_iff split: option.split)+

lemma fold_dict_set_table:
  assumes "distinct (map k ms)"
  shows "map_of (fold (\<lambda>m. dict_set (k m) (f (v m))) ms []) = map_option f \<circ> map_of (map (\<lambda>m. (k m, v m)) ms)"
    and "distinct (map fst (fold (\<lambda>m. dict_set (k m) (f (v m))) ms []))"
proof -
  have "map_of (fold (\<lambda>m. dict_set (k m) (f (v m))) ms d) x =
      (case map_of (map (\<lambda>m. (k m, v m)) ms) x of None \<Rightarrow> map_of d x | Some y \<Rightarrow> Some (f y))" for d x
    using assms
  proof (induction ms arbitrary: d)
    case (Cons m ms)
    then have "map_of (map (\<lambda>m. (k m, v m)) ms) (k m) = None"
      by (auto simp: map_of_eq_None_iff)
    with Cons show ?case by (auto split: option.split)
  qed simp
  then show "map_of (fold (\<lambda>m. dict_set (k m) (f (v m))) ms []) = map_option f \<circ> map_of (map (\<lambda>m. (k m, v m)) ms)"
    by (auto simp: fun_eq_iff split: option.split)
  have "distinct (map fst d) \<Longrightarrow> distinct (map fst (fold (\<lambda>m. dict_set (k m) (f (v m))) ms d))" for d
    by (induction ms arbitrary: d) (simp_all add: distinct_update)
  then show "distinct (map fst (fold (\<lambda>m. dict_set (k m) (f (v m))) ms []))" by simp
qed

section \<open>XIV\<close>

text \<open>
  The commands that only list keep names and mappings, as the generator of random numbers
  does; \<^verbatim>\<open>vol_list\<close> gives the volume of a WWN, which no other volume has; \<^verbatim>\<open>vol_mapping_list\<close> lists
  the mappings of a volume, one for each host; \<^verbatim>\<open>map_vol\<close> adds a mapping and \<^verbatim>\<open>unmap_vol\<close>
  removes one that exists, when they return.
\<close>

definition xiv_lists :: "('s \<Rightarrow> bool) \<Rightarrow> 's randint \<Rightarrow> 's xiv_client \<Rightarrow> bool" where
  "xiv_lists P randint cl \<longleftrightarrow>
     (\<forall>w. keeps P (xc_vol_list_wwn cl w)) \<and> (\<forall>n. keeps P (xc_vol_mapping_list cl n)) \<and>
     (\<forall>h. keeps P (xc_mapping_list cl h)) \<and> keeps P (xc_host_list cl) \<and> keeps P (xc_config_get cl) \<and>
     keeps P (xc_ipinterface_list cl) \<and> keeps P (xc_fc_port_list cl) \<and>
     (\<forall>a b s. P s \<longrightarrow> P (snd (randint a b s)))"

lemma keeps_except_lib [keeps_rules]:
  "keeps P m \<Longrightarrow> (\<And>cs h l. (cs, h) \<in> set clauses \<Longrightarrow> keeps P (h l)) \<Longrightarrow> keeps P (except_lib m clauses)"
  unfolding except_lib_def
  by (rule keeps_try_except)
    (auto split: exc.split option.split intro!: keeps_raise simp: find_Some_iff dest: nth_mem)

lemma keeps_random_int [keeps_rules]:
  "(\<And>s. P s \<Longrightarrow> P (snd (randint a b s))) \<Longrightarrow> keeps P (random_int randint a b)"
  by (rule keepsI) (simp add: random_int_def case_prod_beta)

text \<open>What keeps names and mappings keeps the table.\<close>

lemma keeps_both:
  assumes "\<And>N L. keeps (\<lambda>s. names s = N \<and> luns s = L) m"
  shows "keeps (\<lambda>s. named_table (names s) (luns s) f = T) m"
  using keepsD [OF assms conjI [OF refl refl]]
  by (intro keepsI) (metis prod.collapse)

lemma keeps_image:
  assumes "\<And>L. keeps (\<lambda>s. luns s = L) m"
  shows "keeps (\<lambda>s. F (luns s) = T) m"
  using keepsD [OF assms refl] by (intro keepsI) (metis prod.collapse)

lemma keeps_bothD:
  "(\<And>N L. keeps (\<lambda>s. names s = N \<and> luns s = L) m) \<Longrightarrow> m s = (r, s') \<Longrightarrow>
   names s' = names s \<and> luns s' = luns s"
  using keepsD [of "\<lambda>s'. names s' = names s \<and> luns s' = luns s" m s r s'] by simp


lemma xiv_lists_keep:
  assumes "xiv_lists P randint cl"
  shows "keeps P (xiv_get_object_name_by_wwn cl w)" "keeps P (xiv_get_volume_mappings cl w)"
    "keeps P (xiv_get_next_available_lun randint cl h)" "keeps P (xiv_get_host_by_host_identifiers cl i)"
    "keeps P (xiv_get_array_fc_wwns cl h)" "keeps P (xiv_get_iscsi_targets_by_iqn cl)"
proof -
  have reads: "\<And>w. keeps P (xc_vol_list_wwn cl w)" "\<And>n. keeps P (xc_vol_mapping_list cl n)"
    "\<And>h. keeps P (xc_mapping_list cl h)" "keeps P (xc_host_list cl)" "keeps P (xc_config_get cl)"
    "keeps P (xc_ipinterface_list cl)" "keeps P (xc_fc_port_list cl)" "\<And>a b s. P s \<Longrightarrow> P (snd (randint a b s))"
    using assms by (simp_all add: xiv_lists_def)
  show name: "keeps P (xiv_get_object_name_by_wwn cl w)" for w
    unfolding xiv_get_object_name_by_wwn_def xiv_get_cli_object_by_wwn_def
    by (auto intro!: keeps_rules reads split: option.split)
  show "keeps P (xiv_get_volume_mappings cl w)"
    unfolding xiv_get_volume_mappings_def by (intro keeps_rules name reads)
  show "keeps P (xiv_get_next_available_lun randint cl h)"
    unfolding xiv_get_next_available_lun_def
    by (auto intro!: keeps_rules reads simp: Let_def)
  show "keeps P (xiv_get_host_by_host_identifiers cl i)" "keeps P (xiv_get_array_fc_wwns cl h)"
    "keeps P (xiv_get_iscsi_targets_by_iqn cl)"
    unfolding xiv_get_host_by_host_identifiers_def xiv_get_array_fc_wwns_def xiv_get_iscsi_targets_by_iqn_def
      xiv_get_array_iqn_def xiv_get_iscsi_targets_def
    by (auto intro!: keeps_rules reads split: option.split)
qed

text \<open>A command whose exceptions are all answered by other exceptions.\<close>

definition raising :: "('s, 'a) pyprog \<Rightarrow> bool" where
  "raising m \<longleftrightarrow> (\<forall>s. \<exists>e. m s = (Inl e, s))"

lemma raising_simps [simp]:
  "raising (raise e)"
  "raising (if b then m else n) \<longleftrightarrow> (b \<longrightarrow> raising m) \<and> (\<not> b \<longrightarrow> raising n)"
  by (auto simp: raising_def)

lemma except_lib_raises [consumes 1, case_names raises returned raised]:
  assumes "except_lib (lib c) clauses s = (r, s')" and "\<And>cs h l. (cs, h) \<in> set clauses \<Longrightarrow> raising (h l)"
  obtains (returned) x where "c s = (Inr x, s')" "r = Inr x" | (raised) l e where "c s = (Inl l, s')" "r = Inl e"
proof -
  obtain r1 s1 where c: "c s = (r1, s1)" by (cases "c s")
  show ?thesis
  proof (cases r1)
    case (Inl l)
    have "\<exists>e. except_lib (lib c) clauses s = (Inl e, s1)"
      using assms(2) [unfolded raising_def] c Inl
      by (fastforce simp: except_lib_def run lib_def find_Some_iff split: option.split dest: nth_mem)
    then show ?thesis using assms(1) c Inl raised by auto
  next
    case (Inr x)
    then show ?thesis using assms(1) c returned by (simp add: except_lib_def run lib_def)
  qed
qed

locale xiv_array =
  fixes randint :: "'s randint" and cl :: "'s xiv_client"
    and names :: "'s \<Rightarrow> string \<Rightarrow> string option" and luns :: "'s \<Rightarrow> string \<Rightarrow> string \<Rightarrow> string option"
  assumes lists: "xiv_lists (\<lambda>s. names s = N \<and> luns s = L) randint cl"
    and volume_of_wwn: "xc_vol_list_wwn cl w s = (Inr (Some v), s') \<Longrightarrow> names s w = Some (xv_name v)"
    and wwn_unique: "names s w = Some n \<Longrightarrow> names s w' = Some n \<Longrightarrow> w = w'"
    and mappings_listed: "xc_vol_mapping_list cl n s = (Inr ms, s') \<Longrightarrow>
      distinct (map xm_host ms) \<and> map_of (map (\<lambda>m. (xm_host m, xm_lun m)) ms) = luns s n"
    and mapping_made: "xc_map_vol cl h n l s = (rm, s') \<Longrightarrow> names s' = names s \<and>
      luns s' = (case rm of Inl e \<Rightarrow> luns s | Inr u \<Rightarrow> (luns s)(n := (luns s n)(h \<mapsto> str_int l)))"
    and mapping_removed: "xc_unmap_vol cl h n s = (ru, s') \<Longrightarrow> names s' = names s \<and>
      (case ru of
         Inl e \<Rightarrow> luns s' = luns s
       | Inr u \<Rightarrow> luns s n h \<noteq> None \<and> luns s' = (luns s)(n := (luns s n)(h := None)))"
begin

lemma xiv_name_found:
  assumes "xiv_get_object_name_by_wwn cl w s = (Inr n, s')"
  shows "names s w = Some n"
proof -
  obtain r1 s1 where list: "xc_vol_list_wwn cl w s = (r1, s1)" by (cases "xc_vol_list_wwn cl w s")
  have "\<exists>v. r1 = Inr (Some v) \<and> n = xv_name v"
    using assms list
    by (cases r1) (auto simp: xiv_get_object_name_by_wwn_def xiv_get_cli_object_by_wwn_def except_lib_def run
        lib_def find_Some_iff split: option.splits if_splits)
  with list show ?thesis using volume_of_wwn by auto
qed

lemma xiv_mappings_read:
  assumes run: "xiv_get_volume_mappings cl v s = (r, s')"
  shows "names s' = names s \<and> luns s' = luns s \<and> (\<forall>ms. r = Inr ms \<longrightarrow>
    map_of ms = named_table (names s) (luns s) LunStr v \<and> distinct (map fst ms))"
proof -
  note kept = xiv_lists_keep [OF lists]
  from run have "\<forall>ms. r = Inr ms \<longrightarrow>
    map_of ms = named_table (names s) (luns s) LunStr v \<and> distinct (map fst ms)"
    unfolding xiv_get_volume_mappings_def
  proof (cases rule: bnd_cases)
    case (result n s1)
    have n: "names s v = Some n" "luns s1 = luns s"
      using xiv_name_found [OF result(1)] keeps_bothD [OF kept(1) result(1)] by auto
    from result(2) show ?thesis
    proof (cases rule: bnd_cases)
      case (result l s2)
      then have list: "xc_vol_mapping_list cl n s1 = (Inr l, s2)"
        by (auto simp: lib_def Prelude.run split: prod.splits sum.splits)
      have "distinct (map xm_host l)" "map_of (map (\<lambda>m. (xm_host m, xm_lun m)) l) = luns s n"
        using mappings_listed [OF list] n(2) by simp_all
      then show ?thesis
        using fold_dict_set_table [of xm_host l LunStr xm_lun] n(1) result(2) by (auto simp: named_table_at)
    qed simp
  qed simp
  then show ?thesis using keeps_bothD [OF kept(2) run] by simp
qed

lemma xiv_map_adds:
  assumes run: "xiv_map_volume randint cl v h s = (r, s')"
  shows "names s' = names s \<and> (case r of
      Inl e \<Rightarrow> luns s' = luns s
    | Inr l \<Rightarrow> \<exists>n i. names s v = Some n \<and> l = LunStr i \<and> luns s' = (luns s)(n := (luns s n)(h \<mapsto> i)))"
proof -
  note kept = xiv_lists_keep [OF lists]
  from run show ?thesis unfolding xiv_map_volume_def
  proof (cases rule: bnd_cases)
    case (error e)
    then show ?thesis using keeps_bothD [OF kept(1) error(1)] by simp
  next
    case (result n s1)
    have n: "names s v = Some n" "names s1 = names s \<and> luns s1 = luns s"
      using xiv_name_found [OF result(1)] keeps_bothD [OF kept(1) result(1)] by auto
    from result(2) show ?thesis
    proof (cases rule: bnd_cases)
      case (error e)
      then show ?thesis using keeps_bothD [OF kept(3) error(1)] n by simp
    next
      case (result l s2)
      have t2: "names s2 = names s \<and> luns s2 = luns s" using keeps_bothD [OF kept(3) result(1)] n(2) by simp
      have effect: "names s3 = names s \<and>
          luns s3 = (case r3 of Inl e \<Rightarrow> luns s | Inr u \<Rightarrow> (luns s)(n := (luns s n)(h \<mapsto> str_int l)))"
        if "xc_map_vol cl h n l s2 = (r3, s3)" for r3 s3
        using mapping_made [OF that] t2 by (cases r3) simp_all
      from result(2) show ?thesis
      proof (cases rule: bnd_cases)
        case (error e)
        from error(1) show ?thesis
        proof (cases rule: except_lib_raises)
          case (raised l e)
          then show ?thesis using effect [OF raised(1)] error(2) by simp
        qed (auto split: if_splits)
      next
        case (result u s3)
        from result(1) show ?thesis
        proof (cases rule: except_lib_raises)
          case (returned x)
          then show ?thesis using effect [OF returned(1)] result(2) n(1) by auto
        qed (auto split: if_splits)
      qed
    qed
  qed
qed

lemma xiv_unmap_drops:
  assumes run: "xiv_unmap_volume cl v h s = (r, s')"
  shows "names s' = names s \<and> (case r of
      Inl e \<Rightarrow> luns s' = luns s
    | Inr u \<Rightarrow> \<exists>n. names s v = Some n \<and> luns s n h \<noteq> None \<and> luns s' = (luns s)(n := (luns s n)(h := None)))"
proof -
  note kept = xiv_lists_keep [OF lists]
  from run show ?thesis unfolding xiv_unmap_volume_def
  proof (cases rule: bnd_cases)
    case (error e)
    then show ?thesis using keeps_bothD [OF kept(1) error(1)] by simp
  next
    case (result n s1)
    have n: "names s v = Some n" "names s1 = names s \<and> luns s1 = luns s"
      using xiv_name_found [OF result(1)] keeps_bothD [OF kept(1) result(1)] by auto
    have effect: "names s3 = names s \<and> (case r3 of Inl e \<Rightarrow> luns s3 = luns s
        | Inr u \<Rightarrow> luns s n h \<noteq> None \<and> luns s3 = (luns s)(n := (luns s n)(h := None)))"
      if "xc_unmap_vol cl h n s1 = (r3, s3)" for r3 s3
      using mapping_removed [OF that] n(2) by (cases r3) simp_all
    from result(2) show ?thesis
    proof (cases rule: except_lib_raises)
      case (returned x)
      then show ?thesis using effect [OF returned(1)] n(1) by auto
    next
      case (raised l e)
      then show ?thesis using effect [OF raised(1)] by simp
    qed (auto split: if_splits)
  qed
qed

lemma keeps_table:
  "mapping_table (xiv_mediator randint cl eps) id (\<lambda>s. named_table (names s) (luns s) LunStr)"
  by unfold_locales
    (auto simp: xiv_mediator_def named_table_set [OF wwn_unique] named_table_at keeps_both xiv_lists_keep [OF lists]
      dest!: xiv_mappings_read xiv_map_adds xiv_unmap_drops split: sum.splits)

end

sublocale xiv_array \<subseteq> table: mapping_table "xiv_mediator randint cl eps" id
  "\<lambda>s. named_table (names s) (luns s) LunStr" for eps
  by (rule keeps_table)

text \<open>
  The XIV mediator keeps a table of mappings, and its operations change it as the contract
  says, whatever LUN the random generator chooses.
\<close>

theorem xiv_keeps_mapping_table:
  assumes "xiv_array randint cl names luns"
  shows "mapping_table (xiv_mediator randint cl eps) id (\<lambda>s. named_table (names s) (luns s) LunStr)"
  by (rule xiv_array.keeps_table [OF assms])

section \<open>SVC\<close>

text \<open>
  The same for SVC, whose client reports a warning as an exception: a command that ends with a
  warning has been carried out.
\<close>

fun carried_out :: "lib_exc + unit \<Rightarrow> bool" where
  "carried_out (Inr u) = True"
| "carried_out (Inl l) =
     ((is_a l Svc_CommandExecutionError \<or> is_a l Svc_CLIFailureError) \<and>
      is_warning_message (lx_message l) = Inr True)"

definition svc_lists :: "('s \<Rightarrow> bool) \<Rightarrow> 's svc_client \<Rightarrow> bool" where
  "svc_lists P cl \<longleftrightarrow>
     (\<forall>f. keeps P (sc_lsvdisk_filter cl f)) \<and> (\<forall>n. keeps P (sc_lsvdiskhostmap cl n)) \<and>
     (\<forall>h. keeps P (sc_lshostvdiskmap cl h)) \<and> keeps P (sc_lshost cl) \<and>
     (\<forall>hs. keeps P (sc_send_raw_command cl (svc_get_detailed_hosts_list_cmd hs))) \<and>
     keeps P (sc_lsnode cl) \<and> (\<forall>f. keeps P (sc_lsportip cl f)) \<and> (\<forall>h. keeps P (sc_lsfabric cl h))"

abbreviation hostmap_host :: "(string, string) dict \<Rightarrow> string" where
  "hostmap_host m \<equiv> dict_get m ''host_name'' ''''"

abbreviation hostmap_lun :: "(string, string) dict \<Rightarrow> string" where
  "hostmap_lun m \<equiv> dict_get m ''SCSI_id'' ''''"

lemma keeps_except_cli [keeps_rules]:
  "keeps P m \<Longrightarrow> (\<And>l. keeps P (h l)) \<Longrightarrow> keeps P (except_cli m h)"
  unfolding except_cli_def by (rule keeps_try_except) (auto split: exc.split intro!: keeps_raise)

lemma keeps_unless_warning [keeps_rules]:
  "keeps P m \<Longrightarrow> keeps P a \<Longrightarrow> keeps P (unless_warning l m a)"
  unfolding unless_warning_def by (intro keeps_rules)

lemma except_cli_outcome:
  assumes "except_cli (lib c) (\<lambda>ex. unless_warning ex (m ex) (ret ())) s = (r, s')"
    and "\<And>l. raising (m l)"
  shows "\<exists>r1. c s = (r1, s') \<and> (case r of Inl e \<Rightarrow> \<not> carried_out r1 | Inr u \<Rightarrow> carried_out r1)"
proof -
  obtain r1 s1 where c: "c s = (r1, s1)" by (cases "c s")
  show ?thesis
  proof (cases r1)
    case (Inl l)
    obtain e where "m l s1 = (Inl e, s1)" using assms(2) [unfolded raising_def] by blast
    with assms(1) c Inl show ?thesis
      by (cases "is_warning_message (lx_message l)")
        (auto simp: except_cli_def unless_warning_def run lib_def split: if_splits)
  qed (use assms(1) c in \<open>auto simp: except_cli_def run lib_def\<close>)
qed

lemma svc_lists_keep:
  assumes "svc_lists P cl"
  shows "keeps P (svc_get_volume_name_by_wwn cl w)" "keeps P (svc_get_volume_mappings cl w)"
    "keeps P (svc_get_first_free_lun cl h)" "keeps P (svc_get_host_by_host_identifiers cl i)"
    "keeps P (svc_get_array_fc_wwns cl h)" "keeps P (svc_get_iscsi_targets_by_iqn cl ep)"
proof -
  have reads: "\<And>f. keeps P (sc_lsvdisk_filter cl f)" "\<And>n. keeps P (sc_lsvdiskhostmap cl n)"
    "\<And>h. keeps P (sc_lshostvdiskmap cl h)" "keeps P (sc_lshost cl)"
    "\<And>hs. keeps P (sc_send_raw_command cl (svc_get_detailed_hosts_list_cmd hs))"
    "keeps P (sc_lsnode cl)" "\<And>f. keeps P (sc_lsportip cl f)" "\<And>h. keeps P (sc_lsfabric cl h)"
    using assms by (simp_all add: svc_lists_def)
  show name: "keeps P (svc_get_volume_name_by_wwn cl w)" for w
    unfolding svc_get_volume_name_by_wwn_def svc_get_volume_name_by_wwn_if_exists_def
      svc_get_cli_volume_by_wwn_def by (intro keeps_rules reads)
  show "keeps P (svc_get_volume_mappings cl w)"
    unfolding svc_get_volume_mappings_def by (intro keeps_rules name reads)
  show "keeps P (svc_get_first_free_lun cl h)"
    unfolding svc_get_first_free_lun_def svc_get_used_lun_ids_from_host_def Let_def
    by (intro keeps_rules reads)
  show "keeps P (svc_get_host_by_host_identifiers cl i)"
    unfolding svc_get_host_by_host_identifiers_def svc_get_detailed_hosts_list_def svc_send_raw_cli_command_def
    by (auto intro!: keeps_rules reads split: prod.split)
  show "keeps P (svc_get_array_fc_wwns cl h)" "keeps P (svc_get_iscsi_targets_by_iqn cl ep)"
    unfolding svc_get_array_fc_wwns_def svc_get_iscsi_targets_by_iqn_def svc_get_array_iqns_by_node_id_def
      svc_get_iscsi_targets_by_node_id_def svc_list_ip_ports_def Let_def
    by (intro keeps_rules reads)+
qed

locale svc_array =
  fixes cl :: "'s svc_client"
    and names :: "'s \<Rightarrow> string \<Rightarrow> string option" and luns :: "'s \<Rightarrow> string \<Rightarrow> string \<Rightarrow> string option"
  assumes lists: "svc_lists (\<lambda>s. names s = N \<and> luns s = L) cl"
    and volume_of_uid: "sc_lsvdisk_filter cl (''vdisk_UID='' @ w) s = (Inr (Some v), s') \<Longrightarrow>
      names s w = Some (vd_name v)"
    and uid_unique: "names s w = Some n \<Longrightarrow> names s w' = Some n \<Longrightarrow> w = w'"
    and mappings_listed: "sc_lsvdiskhostmap cl n s = (Inr ms, s') \<Longrightarrow>
      distinct (map hostmap_host ms) \<and> map_of (map (\<lambda>m. (hostmap_host m, hostmap_lun m)) ms) = luns s n"
    and mapping_made: "sc_mkvdiskhostmap cl h n l s = (r, s') \<Longrightarrow> names s' = names s \<and>
      luns s' = (if carried_out r then (luns s)(n := (luns s n)(h \<mapsto> l)) else luns s)"
    and mapping_removed: "sc_rmvdiskhostmap cl h n s = (r, s') \<Longrightarrow> names s' = names s \<and>
      (if carried_out r then luns s n h \<noteq> None \<and> luns s' = (luns s)(n := (luns s n)(h := None))
       else luns s' = luns s)"
begin

lemmas kept = svc_lists_keep [OF lists]

lemma svc_name_found:
  assumes "svc_get_volume_name_by_wwn cl w s = (Inr n, s')"
  shows "names s w = Some n"
proof -
  obtain r1 s1 where list: "sc_lsvdisk_filter cl (''vdisk_UID='' @ w) s = (r1, s1)"
    by (cases "sc_lsvdisk_filter cl (''vdisk_UID='' @ w) s")
  have "\<exists>v. r1 = Inr (Some v) \<and> n = vd_name v"
    using assms list
    by (cases r1; cases "projr r1") (auto simp: svc_get_volume_name_by_wwn_def
        svc_get_volume_name_by_wwn_if_exists_def svc_get_cli_volume_by_wwn_def except_cli_def
        unless_warning_def run lib_def split: if_splits sum.splits)
  with list show ?thesis using volume_of_uid by auto
qed

lemma svc_mappings_read:
  assumes run: "svc_get_volume_mappings cl v s = (r, s')"
  shows "names s' = names s \<and> luns s' = luns s \<and> (\<forall>ms. r = Inr ms \<longrightarrow>
    map_of ms = named_table (names s) (luns s) LunStr v \<and> distinct (map fst ms))"
proof -
  from run have "\<forall>ms. r = Inr ms \<longrightarrow>
    map_of ms = named_table (names s) (luns s) LunStr v \<and> distinct (map fst ms)"
    unfolding svc_get_volume_mappings_def
  proof (cases rule: bnd_cases)
    case (result n s1)
    have n: "names s v = Some n" "luns s1 = luns s"
      using svc_name_found [OF result(1)] keeps_bothD [OF kept(1) result(1)] by auto
    obtain r2 s2 where list: "sc_lsvdiskhostmap cl n s1 = (r2, s2)" by (cases "sc_lsvdiskhostmap cl n s1")
    show ?thesis
    proof (cases r2)
      case (Inr l)
      with list mappings_listed have "distinct (map hostmap_host l)"
        "map_of (map (\<lambda>m. (hostmap_host m, hostmap_lun m)) l) = luns s n"
        by (auto simp: n(2) [symmetric])
      then show ?thesis
        using fold_dict_set_table [of hostmap_host l LunStr hostmap_lun] n(1) result(2) list Inr
        by (auto simp: named_table_at except_cli_def Prelude.run lib_def)
    qed (use result(2) list in \<open>auto simp: except_cli_def Prelude.run lib_def split: if_splits\<close>)
  qed simp
  then show ?thesis using keeps_bothD [OF kept(2) run] by simp
qed

lemma svc_map_adds:
  assumes run: "svc_map_volume cl v h s = (r, s')"
  shows "names s' = names s \<and> (case r of
      Inl e \<Rightarrow> luns s' = luns s
    | Inr l \<Rightarrow> \<exists>n i. names s v = Some n \<and> l = LunStr i \<and> luns s' = (luns s)(n := (luns s n)(h \<mapsto> i)))"
  using run unfolding svc_map_volume_def
proof (cases rule: bnd_cases)
  case (error e)
  then show ?thesis using keeps_bothD [OF kept(1) error(1)] by simp
next
  case (result n s1)
  have n: "names s v = Some n" "names s1 = names s \<and> luns s1 = luns s"
    using svc_name_found [OF result(1)] keeps_bothD [OF kept(1) result(1)] by auto
  from result(2) show ?thesis
  proof (cases rule: bnd_cases)
    case (error e)
    then show ?thesis using keeps_bothD [OF kept(3) error(1)] n by simp
  next
    case (result l s2)
    have t2: "names s2 = names s \<and> luns s2 = luns s" using keeps_bothD [OF kept(3) result(1)] n(2) by simp
    from result(2) show ?thesis
    proof (cases rule: bnd_cases)
      case (error e)
      have "\<exists>r3. sc_mkvdiskhostmap cl h n l s2 = (r3, s') \<and> \<not> carried_out r3"
        using except_cli_outcome [OF error(1)] by simp
      then obtain r3 where
        "sc_mkvdiskhostmap cl h n l s2 = (r3, s')" "\<not> carried_out r3" by blast
      then show ?thesis using mapping_made t2 error(2) by auto
    next
      case (result u s3)
      have "\<exists>r3. sc_mkvdiskhostmap cl h n l s2 = (r3, s3) \<and> carried_out r3"
        using except_cli_outcome [OF result(1)] by simp
      then obtain r3 where
        "sc_mkvdiskhostmap cl h n l s2 = (r3, s3)" "carried_out r3" by blast
      then show ?thesis using mapping_made t2 n(1) result(2) by auto
    qed
  qed
qed

lemma svc_unmap_drops:
  assumes run: "svc_unmap_volume cl v h s = (r, s')"
  shows "names s' = names s \<and> (case r of
      Inl e \<Rightarrow> luns s' = luns s
    | Inr u \<Rightarrow> \<exists>n. names s v = Some n \<and> luns s n h \<noteq> None \<and> luns s' = (luns s)(n := (luns s n)(h := None)))"
  using run unfolding svc_unmap_volume_def
proof (cases rule: bnd_cases)
  case (error e)
  then show ?thesis using keeps_bothD [OF kept(1) error(1)] by simp
next
  case (result n s1)
  have n: "names s v = Some n" "names s1 = names s \<and> luns s1 = luns s"
    using svc_name_found [OF result(1)] keeps_bothD [OF kept(1) result(1)] by auto
  have "\<exists>r3. sc_rmvdiskhostmap cl h n s1 = (r3, s') \<and>
      (case r of Inl e \<Rightarrow> \<not> carried_out r3 | Inr u \<Rightarrow> carried_out r3)"
    using except_cli_outcome [OF result(2)] by simp
  then obtain r3 where removed: "sc_rmvdiskhostmap cl h n s1 = (r3, s')"
    and "case r of Inl e \<Rightarrow> \<not> carried_out r3 | Inr u \<Rightarrow> carried_out r3" by blast
  then show ?thesis using mapping_removed [OF removed] n by (auto split: sum.splits)
qed

lemma keeps_table:
  "mapping_table (svc_mediator retry cl ep) id (\<lambda>s. named_table (names s) (luns s) LunStr)"
  by unfold_locales
    (auto simp: svc_mediator_def named_table_set [OF uid_unique] named_table_at keeps_both kept
      dest!: svc_mappings_read svc_map_adds svc_unmap_drops split: sum.splits)

end

sublocale svc_array \<subseteq> table: mapping_table "svc_mediator retry cl ep" id
  "\<lambda>s. named_table (names s) (luns s) LunStr" for retry ep
  by (rule keeps_table)

text \<open>
  The SVC mediator keeps a table of mappings too; a command that ends with a warning counts
  as done, and every other error of the client leaves the table alone.
\<close>

theorem svc_keeps_mapping_table:
  assumes "svc_array cl names luns"
  shows "mapping_table (svc_mediator retry cl ep) id (\<lambda>s. named_table (names s) (luns s) LunStr)"
  by (rule svc_array.keeps_table [OF assms])

section \<open>DS8K\<close>

text \<open>
  On a DS8K a volume is mapped by its internal id, the tail of the id that the controller hands
  out, and the array chooses the LUN.  The mappings of a volume are those in the lists of the
  hosts.  The last hypothesis excludes a case in which \<^verbatim>\<open>unmap_volume\<close> reports a success without
  having unmapped: a \<^verbatim>\<open>NotFound\<close> with neither of the two codes it knows.
\<close>

definition brief_lun :: "string \<Rightarrow> (string, string) dict list \<Rightarrow> string option" where
  "brief_lun v briefs =
     (case find (\<lambda>m. map_of m ''volume_id'' = Some v) briefs of
        None \<Rightarrow> None | Some m \<Rightarrow> map_of m ''lunid'')"

definition hosts_lun :: "string \<Rightarrow> ds8k_host list \<Rightarrow> string \<Rightarrow> string option" where
  "hosts_lun v hosts h =
     (case find (\<lambda>x. dh_name x = h) hosts of None \<Rightarrow> None | Some x \<Rightarrow> brief_lun v (dh_mappings_briefs x))"

definition lun_number :: "string \<Rightarrow> lun" where
  "lun_number l = LunInt (projr (scsilun_to_int l))"

definition number_table :: "(string \<Rightarrow> string \<Rightarrow> string option) \<Rightarrow> string \<Rightarrow> string \<Rightarrow> lun option" where
  "number_table luns v = map_option lun_number \<circ> luns v"

lemma number_table_set:
  "number_table (luns(v := (luns v)(h \<mapsto> l))) =
     (number_table luns)(v := (number_table luns v)(h \<mapsto> lun_number l))"
  "number_table (luns(v := (luns v)(h := None))) = (number_table luns)(v := (number_table luns v)(h := None))"
  by (auto simp: number_table_def fun_eq_iff)

lemma ds8k_found_lun:
  "ds8k_find_lun v briefs = Inr found \<Longrightarrow>
   (case brief_lun v briefs of None \<Rightarrow> found = None | Some l \<Rightarrow> found = Some (projr (scsilun_to_int l)))"
proof (induction briefs)
  case (Cons m ms)
  then show ?case
    by (cases "map_of m ''volume_id'' = Some v")
      (auto simp: brief_lun_def dict_item_def bnd_err_Inr_iff split: option.splits if_splits)
qed (simp add: brief_lun_def)

lemma ds8k_mappings_of_hosts_run:
  "fold_err (\<lambda>host d. bnd_err (ds8k_find_lun v (dh_mappings_briefs host)) (\<lambda>found.
      Inr (case found of None \<Rightarrow> d | Some i \<Rightarrow> dict_set (dh_name host) (LunInt i) d))) hosts d = Inr d' \<Longrightarrow>
   distinct (map dh_name hosts) \<Longrightarrow>
   map_of d' h = (case hosts_lun v hosts h of None \<Rightarrow> map_of d h | Some l \<Rightarrow> Some (lun_number l)) \<and>
   (distinct (map fst d) \<longrightarrow> distinct (map fst d'))"
proof (induction hosts arbitrary: d)
  case (Cons x xs)
  obtain found where found: "ds8k_find_lun v (dh_mappings_briefs x) = Inr found"
    using Cons.prems(1) by (cases "ds8k_find_lun v (dh_mappings_briefs x)") auto
  let ?d = "case found of None \<Rightarrow> d | Some i \<Rightarrow> dict_set (dh_name x) (LunInt i) d"
  have IH: "map_of d' h = (case hosts_lun v xs h of None \<Rightarrow> map_of ?d h | Some l \<Rightarrow> Some (lun_number l)) \<and>
     (distinct (map fst ?d) \<longrightarrow> distinct (map fst d'))"
    using Cons.prems found by (intro Cons.IH) auto
  have "h = dh_name x \<Longrightarrow> hosts_lun v xs h = None"
  proof -
    assume "h = dh_name x"
    with Cons.prems(2) have "find (\<lambda>y. dh_name y = h) xs = None" by (auto simp: find_None_iff) (metis image_eqI)
    then show ?thesis by (simp add: hosts_lun_def)
  qed
  with IH ds8k_found_lun [OF found] show ?case
    by (cases "h = dh_name x"; cases "brief_lun v (dh_mappings_briefs x)")
      (auto simp: hosts_lun_def lun_number_def distinct_update split: option.splits)
qed (simp add: hosts_lun_def)

locale ds8k_array =
  fixes api :: "'s ds8k_api" and luns :: "'s \<Rightarrow> string \<Rightarrow> string \<Rightarrow> string option"
  assumes lists: "keeps (\<lambda>s. luns s = L) (da_get_hosts api)" "keeps (\<lambda>s. luns s = L) (da_get_host api h)"
      "keeps (\<lambda>s. luns s = L) (da_get_mappings_by_host api h)"
    and hosts_listed: "da_get_hosts api s = (Inr hosts, s') \<Longrightarrow>
      distinct (map dh_name hosts) \<and> luns s v = hosts_lun v hosts"
    and mapping_made: "da_map_volume_to_host api h v '''' s = (rm, s') \<Longrightarrow>
      (case rm of
         Inl e \<Rightarrow> luns s' = luns s
       | Inr ms \<Rightarrow> \<exists>m i. first_item ms = Inr m \<and> scsilun_to_int (dm_lunid m) = Inr i \<and>
           luns s' = (luns s)(v := (luns s v)(h \<mapsto> dm_lunid m)))"
    and mapping_removed: "da_get_mappings_by_host api h s = (Inr ms, s1) \<Longrightarrow> m \<in> set ms \<Longrightarrow>
      da_unmap_volume_from_host api h (dm_id m) s1 = (ru, s') \<Longrightarrow>
      (case ru of
         Inl e \<Rightarrow> luns s' = luns s
       | Inr u \<Rightarrow> luns s (dm_volume m) h \<noteq> None \<and>
           luns s' = (luns s)(dm_volume m := (luns s (dm_volume m))(h := None)))"
    and not_found_coded: "da_get_mappings_by_host api h s = (Inl l, s') \<or>
        da_unmap_volume_from_host api h i s = (Inl l, s') \<Longrightarrow> is_a l Ds8k_NotFound \<Longrightarrow>
      has_code HOST_DOES_NOT_EXIST l \<or> has_code MAPPING_DOES_NOT_EXIST l"
begin

lemma ds8k_mappings_read:
  assumes run: "ds8k_get_volume_mappings api v s = (r, s')"
  shows "luns s' = luns s \<and> (\<forall>ms. r = Inr ms \<longrightarrow>
    map_of ms = number_table (luns s) v \<and> distinct (map fst ms))"
  using run unfolding ds8k_get_volume_mappings_def
proof (cases rule: bnd_cases)
  case (error e)
  have "keeps (\<lambda>s'. luns s' = luns s) (rest_get_hosts api)"
    unfolding rest_get_hosts_def by (intro keeps_rules lists)
  from keepsD [OF this refl error(1)] error(2) show ?thesis by simp
next
  case (result hosts s1)
  then have list: "da_get_hosts api s = (Inr hosts, s')" and r: "r = ds8k_mappings_of_hosts v hosts"
    by (auto simp: rest_get_hosts_def lib_def Prelude.run split: prod.splits sum.splits)
  have hosts: "distinct (map dh_name hosts)" "luns s v = hosts_lun v hosts" for v
    using hosts_listed [OF list] by simp_all
  have "map_of ms h = number_table (luns s) v h \<and> distinct (map fst ms)" if "r = Inr ms" for ms h
    using ds8k_mappings_of_hosts_run [of v hosts "[]" ms h] that hosts
    by (auto simp: r ds8k_mappings_of_hosts_def number_table_def split: option.splits)
  then show ?thesis
    using keepsD [OF lists(1) refl list] by auto
qed

lemma ds8k_map_adds:
  assumes run: "ds8k_map_volume api v h s = (r, s')"
  shows "case r of
      Inl e \<Rightarrow> luns s' = luns s
    | Inr l \<Rightarrow> \<exists>i. l = lun_number i \<and> luns s' = (luns s)(v := (luns s v)(h \<mapsto> i))"
proof -
  obtain r1 s1 where mapped: "da_map_volume_to_host api h v '''' s = (r1, s1)"
    by (cases "da_map_volume_to_host api h v '''' s")
  show ?thesis
  proof (cases r1)
    case (Inl e)
    have "\<exists>e. r = Inl e \<and> s' = s1"
      using run mapped Inl by (auto simp: ds8k_map_volume_def rest_map_volume_to_host_def except_lib_def
          Prelude.run lib_def split: if_splits)
    then show ?thesis using mapping_made [OF mapped] Inl by auto
  next
    case (Inr ms)
    obtain m i where m: "first_item ms = Inr m" "scsilun_to_int (dm_lunid m) = Inr i"
      "luns s1 = (luns s)(v := (luns s v)(h \<mapsto> dm_lunid m))"
      using mapping_made [OF mapped] Inr by auto
    then have "r = Inr (lun_number (dm_lunid m)) \<and> s' = s1"
      using run mapped Inr by (auto simp: ds8k_map_volume_def rest_map_volume_to_host_def except_lib_def
          Prelude.run lib_def lun_number_def)
    with m(3) show ?thesis by auto
  qed
qed

lemma ds8k_unmap_drops:
  assumes run: "ds8k_unmap_volume api v h s = (r, s')"
  shows "case r of
      Inl e \<Rightarrow> luns s' = luns s
    | Inr u \<Rightarrow> luns s v h \<noteq> None \<and> luns s' = (luns s)(v := (luns s v)(h := None))"
proof -
  obtain r1 s1 where listed: "da_get_mappings_by_host api h s = (r1, s1)"
    by (cases "da_get_mappings_by_host api h s")
  have t1: "luns s1 = luns s" by (rule keepsD [OF lists(3) refl listed])
  show ?thesis
  proof (cases r1)
    case (Inl l)
    have "\<exists>e. r = Inl e \<and> s' = s1"
      using run listed Inl not_found_coded [OF disjI1, of h s l s1]
      by (auto simp: ds8k_unmap_volume_def rest_get_host_mappings_def except_lib_def Prelude.run lib_def
          split: if_splits)
    then show ?thesis using t1 by auto
  next
    case (Inr ms)
    show ?thesis
    proof (cases "find (\<lambda>m. dm_volume m = v) ms")
      case None
      then have "r = Inl (ObjectNotFoundError v) \<and> s' = s1"
        using run listed Inr by (auto simp: ds8k_unmap_volume_def rest_get_host_mappings_def except_lib_def
            Prelude.run lib_def)
      then show ?thesis using t1 by simp
    next
      case (Some m)
      then have m: "m \<in> set ms" "dm_volume m = v"
        by (auto simp: find_Some_iff)
      obtain r2 s2 where removed: "da_unmap_volume_from_host api h (dm_id m) s1 = (r2, s2)"
        by (cases "da_unmap_volume_from_host api h (dm_id m) s1")
      have "s' = s2 \<and> (case r2 of Inl l \<Rightarrow> \<exists>e. r = Inl e | Inr u \<Rightarrow> r = Inr ())"
        using run listed Inr Some removed not_found_coded [OF disjI2, of h "dm_id m" s1]
        by (cases r2) (auto simp: ds8k_unmap_volume_def rest_get_host_mappings_def rest_unmap_volume_from_host_def
            except_lib_def Prelude.run lib_def split: if_splits)
      then show ?thesis
        using mapping_removed [OF listed [unfolded Inr] m(1) removed] m(2) by (auto split: sum.splits)
    qed
  qed
qed

lemma ds8k_lists_keep:
  "keeps (\<lambda>s. luns s = L) (ds8k_get_host_by_host_identifiers api i)"
  "keeps (\<lambda>s. luns s = L) (ds8k_get_array_fc_wwns api hn)"
  "keeps (\<lambda>s. luns s = L) ds8k_get_iscsi_targets_by_iqn"
  unfolding ds8k_get_host_by_host_identifiers_def ds8k_get_array_fc_wwns_def ds8k_get_iscsi_targets_by_iqn_def
    rest_get_hosts_def rest_get_host_def
  by (auto intro!: keeps_rules lists)

lemma keeps_table:
  "mapping_table (ds8k_mediator retry api sa sys) scsi_id_to_volume_id (\<lambda>s. number_table (luns s))"
  by unfold_locales
    (auto simp: ds8k_mediator_def number_table_set keeps_image [where F = number_table] ds8k_lists_keep
      dest!: ds8k_mappings_read ds8k_map_adds ds8k_unmap_drops split: sum.splits,
     auto simp: number_table_def)

end

sublocale ds8k_array \<subseteq> table: mapping_table "ds8k_mediator retry api sa sys" scsi_id_to_volume_id
  "\<lambda>s. number_table (luns s)" for retry sa sys
  by (rule keeps_table)

text \<open>
  The DS8K mediator keeps a table of mappings by the internal id of a volume; the LUN numbers
  it returns are those it lists.
\<close>

theorem ds8k_keeps_mapping_table:
  assumes "ds8k_array api luns"
  shows "mapping_table (ds8k_mediator retry api sa sys) scsi_id_to_volume_id (\<lambda>s. number_table (luns s))"
  by (rule ds8k_array.keeps_table [OF assms])

section \<open>An array in memory\<close>

text \<open>
  For the witnesses: clients whose world is the list of the mappings, \<open>((volume, host), lun)\<close>.  A
  volume's name is its id; there is one host, \<open>h1\<close>.
\<close>

type_synonym memory = "(string \<times> string, string) dict"

definition memory_luns :: "memory \<Rightarrow> string \<Rightarrow> string \<Rightarrow> string option" where
  "memory_luns s v h = map_of s (v, h)"

definition memory_mappings :: "string \<Rightarrow> memory \<Rightarrow> (string, string) dict" where
  "memory_mappings v s =
     map (\<lambda>h. (h, the (map_of s (v, h)))) (remdups (map (snd \<circ> fst) (filter (\<lambda>x. fst (fst x) = v) s)))"

definition memory_add :: "string \<Rightarrow> string \<Rightarrow> string \<Rightarrow> (memory, unit) lib_call" where
  "memory_add v h l s = (Inr (), dict_set (v, h) l s)"

definition memory_error :: "lib_class list \<Rightarrow> string \<Rightarrow> lib_exc" where
  "memory_error classes message = \<lparr>lx_mro = classes, lx_message = message, lx_details = '''', lx_text = ''''\<rparr>"

definition memory_drop :: "lib_exc \<Rightarrow> string \<Rightarrow> string \<Rightarrow> (memory, unit) lib_call" where
  "memory_drop e v h s = (if map_of s (v, h) = None then (Inl e, s) else (Inr (), dict_del (v, h) s))"

lemma memory_luns_set:
  "memory_luns (dict_set (v, h) l s) = (memory_luns s)(v := (memory_luns s v)(h \<mapsto> l))"
  "memory_luns (dict_del (v, h) s) = (memory_luns s)(v := (memory_luns s v)(h := None))"
  by (auto simp: memory_luns_def fun_eq_iff)

lemma memory_mappings_table:
  "distinct (map fst (memory_mappings v s))" "map_of (memory_mappings v s) = memory_luns s v"
proof -
  show "distinct (map fst (memory_mappings v s))" by (simp add: memory_mappings_def comp_def)
  show "map_of (memory_mappings v s) = memory_luns s v"
  proof
    fix h
    have "map_of s (v, h) = None" if "h \<notin> (snd \<circ> fst) ` set (filter (\<lambda>x. fst (fst x) = v) s)"
      using that by (force simp: map_of_eq_None_iff)
    moreover have "map_of s (v, h) \<noteq> None" if "h \<in> (snd \<circ> fst) ` set (filter (\<lambda>x. fst (fst x) = v) s)"
      using that by (auto simp: map_of_eq_None_iff image_iff prod_eq_iff) (metis fst_conv snd_conv)
    ultimately show "map_of (memory_mappings v s) h = memory_luns s v h"
      by (auto simp: memory_mappings_def memory_luns_def map_of_map_restrict restrict_map_def)
  qed
qed

definition memory_xiv :: "memory xiv_client" where
  "memory_xiv =
     \<lparr>xc_is_connected = xok True, xc_close = xok (), xc_config_get = xok [(''iscsi_name'', ''iqn.t'')],
      xc_vol_list_name = (\<lambda>n. xok (Some (sample_xiv_volume\<lparr>xv_name := n\<rparr>))),
      xc_vol_list_wwn = (\<lambda>w. xok (Some (sample_xiv_volume\<lparr>xv_name := w\<rparr>))),
      xc_vol_create = (\<lambda>_ _ _. xok None), xc_vol_resize = (\<lambda>_ _. xok ()), xc_vol_format = (\<lambda>_. xok ()),
      xc_vol_copy = (\<lambda>_ _. xok ()), xc_vol_delete = (\<lambda>_. xok ()), xc_snapshot_list = (\<lambda>_. xok []),
      xc_snapshot_create = (\<lambda>_ _. xok None), xc_snapshot_delete = (\<lambda>_. xok ()),
      xc_host_list = xok [\<lparr>xh_name = ''h1'', xh_iscsi_ports = ''iqn'', xh_fc_ports = ''''\<rparr>],
      xc_vol_mapping_list = (\<lambda>n s. (Inr (map (\<lambda>(h, l). \<lparr>xm_host = h, xm_lun = l\<rparr>) (memory_mappings n s)), s)),
      xc_mapping_list = (\<lambda>h s. (Inr (map (\<lambda>(k, l). \<lparr>xm_host = h, xm_lun = l\<rparr>)
        (filter (\<lambda>x. snd (fst x) = h) s)), s)),
      xc_map_vol = (\<lambda>h n l. memory_add n h (str_int l)),
      xc_unmap_vol = (\<lambda>h n. memory_drop (memory_error [Xcli_CommandFailedRuntimeError] UNDEFINED_MAPPING_ERROR) n h),
      xc_ipinterface_list = xok [], xc_fc_port_list = xok []\<rparr>"

lemma keeps_xok [keeps_rules]: "keeps P (xok x)"
  by (simp add: keeps_def xok_def)

lemma keeps_same [keeps_rules]: "keeps P (\<lambda>s. (f s, s))"
  by (simp add: keeps_def)

interpretation memory_xiv: xiv_array zero_random memory_xiv "\<lambda>_. Some" memory_luns
proof
  show "xiv_lists (\<lambda>s. Some = N \<and> memory_luns s = L) zero_random memory_xiv" for N L
    by (auto simp: xiv_lists_def memory_xiv_def zero_random_def intro: keeps_rules)
  show "distinct (map xm_host ms) \<and> map_of (map (\<lambda>m. (xm_host m, xm_lun m)) ms) = memory_luns s n"
    if "xc_vol_mapping_list memory_xiv n s = (Inr ms, s')" for n s ms s'
    using that memory_mappings_table [of n s]
    by (auto simp: memory_xiv_def comp_def case_prod_beta)
qed (auto simp: memory_xiv_def xok_def memory_add_def memory_drop_def memory_luns_set memory_luns_def split: if_splits)

lemma xiv_keeps_mapping_table_witness:
  "mapping_table (xiv_mediator zero_random memory_xiv []) id (\<lambda>s. named_table Some (memory_luns s) LunStr)"
  by (rule xiv_keeps_mapping_table [OF memory_xiv.xiv_array_axioms])

definition memory_svc :: "memory svc_client" where
  "memory_svc =
     \<lparr>sc_close = xok (), sc_is_active = xok True, sc_lssystem = xok [], sc_lsvdisk_by_id = (\<lambda>_. xok None),
      sc_lsvdisk_filter = (\<lambda>f. xok (Some
        \<lparr>vd_name = drop (length ''vdisk_UID='') f, vd_uid = drop (length ''vdisk_UID='') f, vd_capacity = ''512'',
         vd_mdisk_grp_name = ''p'', vd_FC_id = '''', vd_se_copy = ''no'', vd_compressed_copy = ''no'',
         vd_deduplicated_copy = None\<rparr>)),
      sc_lsfcmap = (\<lambda>_. xok []), sc_expandvdisksize = (\<lambda>_ _. xok ()), sc_mkvolume = (\<lambda>_. xok ()),
      sc_rmvolume = (\<lambda>_. xok ()), sc_mkfcmap = (\<lambda>_ _ _. xok ()), sc_startfcmap = (\<lambda>_. xok ()),
      sc_stopfcmap = (\<lambda>_. xok ()), sc_rmfcmap = (\<lambda>_ _. xok ()), sc_lshost = xok [],
      sc_send_raw_command = (\<lambda>_. xok (None, None)),
      sc_lsvdiskhostmap = (\<lambda>n s. (Inr (map (\<lambda>(h, l). [(''host_name'', h), (''SCSI_id'', l)]) (memory_mappings n s)), s)),
      sc_lshostvdiskmap = (\<lambda>h s. (Inr (map (\<lambda>(k, l). [(''SCSI_id'', l)]) (filter (\<lambda>x. snd (fst x) = h) s)), s)),
      sc_mkvdiskhostmap = (\<lambda>h n l. memory_add n h l),
      sc_rmvdiskhostmap = (\<lambda>h n. memory_drop
        (memory_error [Svc_CLIFailureError] (CHR 0x22 # ''CMMVC5842E'' @ [CHR 0x22])) n h),
      sc_lsnode = xok [], sc_lsportip = (\<lambda>_. xok []), sc_lsfabric = (\<lambda>_. xok [])\<rparr>"

lemma memory_error_fails:
  "\<not> carried_out (Inl (memory_error [Svc_CLIFailureError] (CHR 0x22 # ''CMMVC5842E'' @ [CHR 0x22])))"
  by code_simp

interpretation memory_svc: svc_array memory_svc "\<lambda>_. Some" memory_luns
proof
  show "svc_lists (\<lambda>s. Some = N \<and> memory_luns s = L) memory_svc" for N L
    by (auto simp: svc_lists_def memory_svc_def intro: keeps_rules)
  show "distinct (map hostmap_host ms) \<and>
      map_of (map (\<lambda>m. (hostmap_host m, hostmap_lun m)) ms) = memory_luns s n"
    if "sc_lsvdiskhostmap memory_svc n s = (Inr ms, s')" for n s ms s'
    using that memory_mappings_table [of n s]
    by (auto simp: memory_svc_def dict_get_def comp_def case_prod_beta)
  show "Some = Some \<and> (if carried_out r
      then memory_luns s n h \<noteq> None \<and> memory_luns s' = (memory_luns s)(n := (memory_luns s n)(h := None))
      else memory_luns s' = memory_luns s)"
    if "sc_rmvdiskhostmap memory_svc h n s = (r, s')" for h n s r s'
    using that memory_error_fails
    by (auto simp: memory_svc_def memory_drop_def memory_luns_set memory_luns_def split: if_splits
        simp del: carried_out.simps(2))
qed (auto simp: memory_svc_def xok_def memory_add_def memory_luns_set)

lemma svc_keeps_mapping_table_witness:
  "mapping_table (svc_mediator retry_loop memory_svc ''a'') id (\<lambda>s. named_table Some (memory_luns s) LunStr)"
  by (rule svc_keeps_mapping_table [OF memory_svc.svc_array_axioms])

text \<open>A DS8K with the host \<open>h1\<close>; its LUNs are 1.\<close>

definition memory_host :: "memory \<Rightarrow> ds8k_host" where
  "memory_host s =
     \<lparr>dh_name = ''h1'', dh_host_ports_briefs = [],
      dh_mappings_briefs = map (\<lambda>((v, h), l). [(''volume_id'', v), (''lunid'', l)])
        (filter (\<lambda>x. snd (fst x) = ''h1'') s),
      dh_login_ports = []\<rparr>"

definition memory_mapping :: "string \<Rightarrow> ds8k_mapping" where
  "memory_mapping v = \<lparr>dm_id = v, dm_volume = v, dm_lunid = ''01''\<rparr>"

definition no_host :: lib_exc where
  "no_host = memory_error [Ds8k_NotFound] HOST_DOES_NOT_EXIST"

definition memory_ds8k :: "memory ds8k_api" where
  "memory_ds8k =
     \<lparr>da_tp_ese = ''ese'', da_tp_none = ''none'', da_option_per = ''per'', da_option_nbc = ''nbc'',
      da_option_pset = ''pset'', da_ioport_wwpn = ''wwpn'', da_ioport_status = ''state'',
      da_get_io_enclosures = xok (), da_get_systems = xok [],
      da_get_volumes = (\<lambda>v. xok (sample_ds8k_volume [])), da_get_volumes_by_pool = (\<lambda>_. xok []),
      da_get_host = (\<lambda>h s. (Inr (memory_host s), s)), da_get_hosts = (\<lambda>s. (Inr [memory_host s], s)),
      da_get_flashcopies_by_volume = (\<lambda>_. xok []),
      da_get_mappings_by_host = (\<lambda>h s.
        (if h = ''h1'' then Inr (map (memory_mapping \<circ> fst \<circ> fst) (filter (\<lambda>x. snd (fst x) = h) s))
         else Inl no_host, s)),
      da_create_volume_fb = (\<lambda>a. xok []), da_update_volume_extend = (\<lambda>v n. xok ()),
      da_delete_volume = (\<lambda>v. xok ()),
      da_map_volume_to_host = (\<lambda>h v l s. if h = ''h1'' then (Inr [memory_mapping v], dict_set (v, h) ''01'' s)
        else (Inl no_host, s)),
      da_unmap_volume_from_host = (\<lambda>h v. memory_drop no_host v h),
      da_create_cs_flashcopy = (\<lambda>v w o'. xok []), da_delete_cs_flashcopy = (\<lambda>f. xok ()),
      da_get_cs_flashcopies = (\<lambda>f. xok (sample_flashcopy ''disabled''))\<rparr>"

lemma memory_brief: "brief_lun v (dh_mappings_briefs (memory_host s)) = map_of s (v, ''h1'')"
proof (induction s)
  case (Cons x s)
  obtain w h l where "x = ((w, h), l)" by (cases x) auto
  with Cons show ?case by (cases "w = v") (auto simp: brief_lun_def memory_host_def)
qed (simp add: brief_lun_def memory_host_def)

text \<open>The mappings to the only host.\<close>

definition h1_luns :: "memory \<Rightarrow> string \<Rightarrow> string \<Rightarrow> string option" where
  "h1_luns s v h = (if h = ''h1'' then map_of s (v, h) else None)"

lemma h1_luns_set:
  "h1_luns (dict_set (v, ''h1'') l s) = (h1_luns s)(v := (h1_luns s v)(''h1'' \<mapsto> l))"
  "h1_luns (dict_del (v, h) s) = (h1_luns s)(v := (h1_luns s v)(h := None))"
  by (auto simp: h1_luns_def fun_eq_iff)

interpretation memory_ds8k: ds8k_array memory_ds8k h1_luns
proof
  show "distinct (map dh_name hosts) \<and> h1_luns s v = hosts_lun v hosts"
    if "da_get_hosts memory_ds8k s = (Inr hosts, s')" for s hosts s' v
    using that memory_brief [of v s]
    by (auto simp: memory_ds8k_def h1_luns_def hosts_lun_def fun_eq_iff) (simp_all add: memory_host_def)
  have one: "scsilun_to_int ''01'' = Inr 1" by code_simp
  show "case r of Inl e \<Rightarrow> h1_luns s' = h1_luns s
      | Inr ms \<Rightarrow> \<exists>m i. first_item ms = Inr m \<and> scsilun_to_int (dm_lunid m) = Inr i \<and>
          h1_luns s' = (h1_luns s)(v := (h1_luns s v)(h \<mapsto> dm_lunid m))"
    if "da_map_volume_to_host memory_ds8k h v '''' s = (r, s')" for h v s r s'
    using that one by (auto simp: memory_ds8k_def first_item_def memory_mapping_def h1_luns_set split: if_splits)
  show "case r of Inl e \<Rightarrow> h1_luns s' = h1_luns s
      | Inr u \<Rightarrow> h1_luns s (dm_volume m) h \<noteq> None \<and>
          h1_luns s' = (h1_luns s)(dm_volume m := (h1_luns s (dm_volume m))(h := None))"
    if "da_get_mappings_by_host memory_ds8k h s = (Inr ms, s1)" "m \<in> set ms"
      "da_unmap_volume_from_host memory_ds8k h (dm_id m) s1 = (r, s')" for h s ms s1 m r s'
    using that
    by (auto simp: memory_ds8k_def memory_mapping_def memory_drop_def h1_luns_set h1_luns_def split: if_splits)
  have "has_code HOST_DOES_NOT_EXIST no_host" by code_simp
  then show "has_code HOST_DOES_NOT_EXIST l \<or> has_code MAPPING_DOES_NOT_EXIST l"
    if "da_get_mappings_by_host memory_ds8k h s = (Inl l, s') \<or>
      da_unmap_volume_from_host memory_ds8k h i s = (Inl l, s')" for h s l s' i
    using that by (auto simp: memory_ds8k_def memory_drop_def split: if_splits)
qed (auto simp: memory_ds8k_def intro!: keeps_same)

lemma ds8k_keeps_mapping_table_witness:
  "mapping_table (ds8k_mediator retry_loop memory_ds8k ''a'' sample_system) scsi_id_to_volume_id
     (\<lambda>s. number_table (h1_luns s))"
  by (rule ds8k_keeps_mapping_table [OF memory_ds8k.ds8k_array_axioms])

section \<open>Runs on the memory\<close>

abbreviation memory_mediator :: "memory mediator" where
  "memory_mediator \<equiv> xiv_mediator zero_random memory_xiv []"

lemma memory_published:
  "map_volume_by_initiators retry_loop memory_mediator ''6001'' sample_initiators [] =
     (Inr (LunStr ''1'', ''iscsi'', IscsiTargets [(''iqn.t'', [])]), [((''6001'', ''h1''), ''1'')])"
  by code_simp

lemma memory_published_again:
  "map_volume_by_initiators retry_loop memory_mediator ''6001'' sample_initiators [((''6001'', ''h1''), ''1'')] =
     (Inr (LunStr ''1'', ''iscsi'', IscsiTargets [(''iqn.t'', [])]), [((''6001'', ''h1''), ''1'')])"
  by code_simp

lemma memory_unpublished:
  "unmap_volume_by_initiators retry_loop memory_mediator ''6001'' sample_initiators [((''6001'', ''h1''), ''1'')] =
     (Inr (), [])"
  by code_simp

abbreviation memory_table :: "memory \<Rightarrow> string \<Rightarrow> string \<Rightarrow> lun option" where
  "memory_table s \<equiv> named_table Some (memory_luns s) LunStr"

lemmas memory_keeps_table = memory_xiv.keeps_table [of "[]"]

lemma published_to_one_host_witness:
  "\<exists>h. memory_table [((''6001'', ''h1''), ''1'')] ''6001'' = [h \<mapsto> LunStr ''1'']"
  using published_to_one_host [OF memory_keeps_table retry_loop_law memory_published] by auto

lemma publishing_twice_witness:
  "fst (map_volume_by_initiators retry_loop memory_mediator ''6001'' sample_initiators
     [((''6001'', ''h1''), ''1'')]) = Inr (LunStr ''1'', ''iscsi'', IscsiTargets [(''iqn.t'', [])]) \<and>
   LunStr ''1'' = LunStr ''1''"
  using publishing_twice [OF memory_keeps_table retry_loop_law memory_published memory_published_again]
    memory_published_again by simp

lemma publish_unpublish_roundtrip_witness:
  "memory_table (snd (unmap_volume_by_initiators retry_loop memory_mediator ''6001'' sample_initiators
     (snd (map_volume_by_initiators retry_loop memory_mediator ''6001'' sample_initiators [])))) = memory_table []"
proof -
  have none: "memory_table [] (id ''6001'') = Map.empty"
    by (auto simp: named_table_def memory_luns_def)
  have "memory_table [] = memory_table []"
    by (rule publish_unpublish_roundtrip [where med = memory_mediator and vid = id and tbl = memory_table
          and retry = retry_loop and retry' = retry_loop and v = "''6001''" and i = sample_initiators
          and i' = sample_initiators])
      (fact memory_keeps_table retry_loop_law memory_published none memory_unpublished)+
  then show ?thesis by (simp add: memory_published memory_unpublished)
qed

lemma volumes_on_one_host_witness:
  "one_host (memory_table (snd (map_volume_by_initiators retry_loop memory_mediator ''6001''
     sample_initiators [])))"
proof (rule volumes_on_one_host [where s = "[]", OF memory_keeps_table retry_loop_law retry_loop_law])
  show "one_host (memory_table [])" by (simp add: one_host_def named_table_def memory_luns_def)
qed (auto intro: mapping_step.publish)

end
