(* ===== verification/Ds8kHosts.thy ===== *)
theory Ds8kHosts
  imports Ds8kRest
begin

text \<open>
  The methods of \<^verbatim>\<open>RESTClient\<close> that the mediator does not use: its constructor, pools, host ports,
  logical subsystems, users, and the administration of hosts and volumes.  The record of the
  client of \<^verbatim>\<open>pyds8k\<close> is extended by the methods they reach.
\<close>

section \<open>The package's client\<close>

record ds8k_pool =
  dp_id :: string
  dp_representation :: "(string, string) dict"

record ds8k_port =
  hp_id :: string
  hp_host :: string

record 's ds8k_admin_api = "'s ds8k_api" +
  da_get_mapping_by_host :: "string \<Rightarrow> string \<Rightarrow> ('s, ds8k_mapping) lib_call"
  da_get_host_ports :: "string option \<Rightarrow> ('s, ds8k_port list) lib_call"
  da_get_host_port :: "string \<Rightarrow> ('s, ds8k_port) lib_call"
  da_get_pool :: "string \<Rightarrow> ('s, ds8k_pool) lib_call"
  da_get_pools :: "('s, ds8k_pool list) lib_call"
  da_pool_eserep :: "ds8k_pool \<Rightarrow> ('s, string list option) lib_call"
  da_get_lss :: "('s, string list) lib_call"
  da_get_volumes_by_lss :: "string \<Rightarrow> ('s, ds8k_volume list) lib_call"
  da_get_users :: "json \<Rightarrow> ('s, string list) lib_call"
  da_update_volume_rename :: "string \<Rightarrow> string \<Rightarrow> ('s, unit) lib_call"
  da_update_volume_move :: "string \<Rightarrow> string \<Rightarrow> ('s, unit) lib_call"
  da_create_host :: "string \<Rightarrow> string \<Rightarrow> ('s, string list) lib_call"
  da_delete_host :: "string \<Rightarrow> ('s, unit) lib_call"
  da_delete_host_port :: "string \<Rightarrow> ('s, unit) lib_call"
  da_update_host_port_change_host :: "string \<Rightarrow> string \<Rightarrow> ('s, unit) lib_call"
  da_create_host_port :: "string \<Rightarrow> string \<Rightarrow> ('s, unit) lib_call"

text \<open>The keyword arguments of the class \<^verbatim>\<open>Client\<close>; \<open>None\<close> is one that is not passed.\<close>

record ds8k_client_kwargs =
  kw_service_address :: string
  kw_user :: json
  kw_password :: json
  kw_port :: "int option"
  kw_hostname :: "string option"

section \<open>The constructor\<close>

record 's rest_client =
  rc_user :: json
  rc_client :: "'s ds8k_admin_api"

definition client_kwargs :: "string \<Rightarrow> json \<Rightarrow> json \<Rightarrow> int option \<Rightarrow> string \<Rightarrow> ds8k_client_kwargs" where
  "client_kwargs service_address user password client_port hostname =
     \<lparr>kw_service_address = service_address, kw_user = user, kw_password = password,
      kw_port = (if client_port = Some 0 then None else client_port),
      kw_hostname = (if hostname = '''' then None else Some hostname)\<rparr>"

definition RESTClient ::
  "(ds8k_client_kwargs \<Rightarrow> ('s, 's ds8k_admin_api) lib_call)
   \<Rightarrow> string \<Rightarrow> json \<Rightarrow> json \<Rightarrow> int option \<Rightarrow> string \<Rightarrow> ('s, 's rest_client) pyprog" where
  "RESTClient client service_address user password client_port hostname =
     bnd (lib (client (client_kwargs service_address user password client_port hostname))) (\<lambda>api.
       ret \<lparr>rc_user = user, rc_client = api\<rparr>)"

section \<open>What is read\<close>

definition rest_get_host_mapping :: "'s ds8k_admin_api \<Rightarrow> string \<Rightarrow> int \<Rightarrow> ('s, ds8k_mapping) pyprog" where
  "rest_get_host_mapping api host_name lunid =
     lib (da_get_mapping_by_host api host_name (int_to_scsilun lunid))"

definition rest_get_host_port :: "'s ds8k_admin_api \<Rightarrow> string \<Rightarrow> ('s, ds8k_port list) pyprog" where
  "rest_get_host_port api port_id = lib (da_get_host_ports api (Some port_id))"

text \<open>
  The capacity of a pool's thin volumes is loaded when the attribute \<^verbatim>\<open>eserep\<close> is read; a pool
  without the attribute is returned as it is.
\<close>

definition rest_get_pool :: "'s ds8k_admin_api \<Rightarrow> string \<Rightarrow> ('s, ds8k_pool) pyprog" where
  "rest_get_pool api pool_id =
     bnd (lib (da_get_pool api pool_id)) (\<lambda>pool.
       try_except
         (bnd (lib (da_pool_eserep api pool)) (\<lambda>attribute.
            case attribute of
              None \<Rightarrow> raise AttributeError
            | Some eserep \<Rightarrow>
                bnd (lift (first_item eserep)) (\<lambda>representation.
                  ret (pool\<lparr>dp_representation :=
                    dict_set ''eserep'' representation (dp_representation pool)\<rparr>))))
         (\<lambda>ex. if ex = AttributeError then ret pool else raise ex))"

definition rest_get_pools :: "'s ds8k_admin_api \<Rightarrow> ('s, ds8k_pool list) pyprog" where
  "rest_get_pools api = lib (da_get_pools api)"

definition rest_get_host_ports :: "'s ds8k_admin_api \<Rightarrow> ('s, ds8k_port list) pyprog" where
  "rest_get_host_ports api = lib (da_get_host_ports api None)"

definition rest_get_lss :: "'s ds8k_admin_api \<Rightarrow> ('s, string list) pyprog" where
  "rest_get_lss api = lib (da_get_lss api)"

definition rest_get_volumes_by_lss :: "'s ds8k_admin_api \<Rightarrow> string \<Rightarrow> ('s, ds8k_volume list) pyprog" where
  "rest_get_volumes_by_lss api lss_number = lib (da_get_volumes_by_lss api lss_number)"

definition rest_get_user :: "'s rest_client \<Rightarrow> ('s, string list) pyprog" where
  "rest_get_user self = lib (da_get_users (rc_client self) (rc_user self))"

definition rest_get_used_lun_numbers_by_host :: "'s ds8k_admin_api \<Rightarrow> string \<Rightarrow> ('s, string list) pyprog" where
  "rest_get_used_lun_numbers_by_host api host_name =
     bnd (lib (da_get_mappings_by_host api host_name)) (\<lambda>mappings. ret (map dm_id mappings))"

section \<open>What is changed\<close>

definition rest_rename_volume :: "'s ds8k_admin_api \<Rightarrow> string \<Rightarrow> string \<Rightarrow> ('s, unit) pyprog" where
  "rest_rename_volume api volume_id new_name = lib (da_update_volume_rename api volume_id new_name)"

definition rest_move_volume :: "'s ds8k_admin_api \<Rightarrow> string \<Rightarrow> string \<Rightarrow> ('s, unit) pyprog" where
  "rest_move_volume api volume_id new_pool_id = lib (da_update_volume_move api volume_id new_pool_id)"

text \<open>The update is inside the \<^verbatim>\<open>try\<close>: a \<^verbatim>\<open>NotFound\<close> of its own leads to the creation, too.\<close>

definition rest_get_attach_or_create_host_port ::
  "'s ds8k_admin_api \<Rightarrow> string \<Rightarrow> string \<Rightarrow> ('s, unit) pyprog" where
  "rest_get_attach_or_create_host_port api host_name wwpn =
     try_except
       (bnd (lib (da_get_host_port api wwpn)) (\<lambda>host_port.
          lib (da_update_host_port_change_host api (hp_id host_port) host_name)))
       (\<lambda>ex. if is_lib_a [Ds8k_NotFound] ex then lib (da_create_host_port api wwpn host_name) else raise ex)"

definition rest_attach_port_to_host :: "'s ds8k_admin_api \<Rightarrow> string \<Rightarrow> string \<Rightarrow> ('s, unit) pyprog" where
  "rest_attach_port_to_host api host_name wwpn = rest_get_attach_or_create_host_port api host_name wwpn"

definition rest_create_host :: "'s ds8k_admin_api \<Rightarrow> string \<Rightarrow> string \<Rightarrow> string \<Rightarrow> ('s, string) pyprog" where
  "rest_create_host api host_name wwpn host_type =
     bnd (lib (da_create_host api host_name host_type)) (\<lambda>hosts.
     bnd (lift (first_item hosts)) (\<lambda>host_id.
     bnd (rest_attach_port_to_host api host_id wwpn) (\<lambda>_.
     bnd (lift (first_item hosts)) (\<lambda>host_id. ret host_id))))"

definition rest_delete_host :: "'s ds8k_admin_api \<Rightarrow> string \<Rightarrow> ('s, unit) pyprog" where
  "rest_delete_host api host_name = lib (da_delete_host api host_name)"

definition rest_detach_port_from_host :: "'s ds8k_admin_api \<Rightarrow> string \<Rightarrow> ('s, unit) pyprog" where
  "rest_detach_port_from_host api wwpn = lib (da_delete_host_port api wwpn)"

section \<open>Host ports\<close>

text \<open>
  What \<^verbatim>\<open>pyds8k\<close> promises of host ports, over a table from a port to its host: reading changes
  nothing, and a change that fails has changed nothing.
\<close>

locale host_ports =
  fixes api :: "'s ds8k_admin_api" and ports :: "'s \<Rightarrow> string \<Rightarrow> string option"
  assumes get_port: "da_get_host_port api p s = (g, s') \<Longrightarrow>
      ports s' = ports s \<and> (case g of Inl e \<Rightarrow> True | Inr hp \<Rightarrow> hp_id hp = p)"
    and change_port: "da_update_host_port_change_host api p h s = (r, s') \<Longrightarrow>
      ports s' = (case r of Inl e \<Rightarrow> ports s | Inr u \<Rightarrow> (ports s)(p \<mapsto> h))"
    and create_port: "da_create_host_port api p h s = (r, s') \<Longrightarrow>
      ports s' = (case r of Inl e \<Rightarrow> ports s | Inr u \<Rightarrow> (ports s)(p \<mapsto> h))"
    and delete_port: "da_delete_host_port api p s = (r, s') \<Longrightarrow>
      ports s' = (case r of Inl e \<Rightarrow> ports s | Inr u \<Rightarrow> (ports s)(p := None))"
    and create_host: "da_create_host api h ty s = (hosts, s') \<Longrightarrow> ports s' = ports s"
begin

lemma attached:
  assumes "rest_attach_port_to_host api h p s = (r, s')"
  shows "ports s' = (case r of Inl e \<Rightarrow> ports s | Inr u \<Rightarrow> (ports s)(p \<mapsto> h))"
proof -
  have creates: "ports s' = (case r of Inl e \<Rightarrow> ports s | Inr u \<Rightarrow> (ports s)(p \<mapsto> h))"
    if "lib (da_create_host_port api p h) t = (r, s')" "ports t = ports s" for t
    using that create_port [of p h t] by (auto simp: run split: prod.splits sum.splits)
  obtain g s1 where g: "da_get_host_port api p s = (g, s1)" by (metis surj_pair)
  note got = get_port [OF g]
  show ?thesis
  proof (cases g)
    case (Inl e)
    then show ?thesis
      using assms g got creates [of s1]
      by (auto simp: rest_attach_port_to_host_def rest_get_attach_or_create_host_port_def run split: if_splits)
  next
    case (Inr hp)
    obtain u s2 where u: "da_update_host_port_change_host api p h s1 = (u, s2)" by (metis surj_pair)
    note changed = change_port [OF u]
    show ?thesis
      using assms g got Inr u changed creates [of s2]
      by (cases u)
        (auto simp: rest_attach_port_to_host_def rest_get_attach_or_create_host_port_def run split: if_splits)
  qed
qed

end

text \<open>
  Attaching a port to a host, whether the array knows the port, has to create it, or loses it
  between the two calls, either ends with the port at that host and no other port moved, or
  raises and leaves every port where it was.
\<close>

theorem attach_port:
  assumes "host_ports api ports"
    and "rest_attach_port_to_host api h p s = (r, s')"
  shows "ports s' = (case r of Inl e \<Rightarrow> ports s | Inr u \<Rightarrow> (ports s)(p \<mapsto> h))"
  using assms by (rule host_ports.attached)

section \<open>A client in memory\<close>

text \<open>The world is the list of ports with their hosts.\<close>

definition port_missing :: lib_exc where
  "port_missing = \<lparr>lx_mro = [Ds8k_NotFound], lx_message = '''', lx_details = '''', lx_text = ''''\<rparr>"

definition memory_ports :: "(string, string) dict ds8k_api \<Rightarrow> (string, string) dict ds8k_admin_api" where
  "memory_ports api = ds8k_api.extend api
     \<lparr>da_get_mapping_by_host = (\<lambda>h l s. (Inl port_missing, s)),
      da_get_host_ports = (\<lambda>p s. (Inr (map (\<lambda>(q, h). \<lparr>hp_id = q, hp_host = h\<rparr>)
        (case p of None \<Rightarrow> s | Some p \<Rightarrow> filter (\<lambda>x. fst x = p) s)), s)),
      da_get_host_port = (\<lambda>p s. (case map_of s p of None \<Rightarrow> Inl port_missing
        | Some h \<Rightarrow> Inr \<lparr>hp_id = p, hp_host = h\<rparr>, s)),
      da_get_pool = (\<lambda>p s. (Inl port_missing, s)), da_get_pools = (\<lambda>s. (Inr [], s)),
      da_pool_eserep = (\<lambda>p s. (Inr None, s)), da_get_lss = (\<lambda>s. (Inr [], s)),
      da_get_volumes_by_lss = (\<lambda>n s. (Inr [], s)), da_get_users = (\<lambda>u s. (Inr [], s)),
      da_update_volume_rename = (\<lambda>v n s. (Inr (), s)), da_update_volume_move = (\<lambda>v p s. (Inr (), s)),
      da_create_host = (\<lambda>h ty s. (Inr [h], s)),
      da_delete_host = (\<lambda>h s. (Inr (), filter (\<lambda>x. snd x \<noteq> h) s)),
      da_delete_host_port = (\<lambda>p s. (if map_of s p = None then Inl port_missing else Inr (), dict_del p s)),
      da_update_host_port_change_host = (\<lambda>p h s.
        if map_of s p = None then (Inl port_missing, s) else (Inr (), dict_set p h s)),
      da_create_host_port = (\<lambda>p h s. (Inr (), dict_set p h s))\<rparr>"

interpretation memory_ports: host_ports "memory_ports api" map_of
  for api :: "(string, string) dict ds8k_api"
proof
  show "map_of s' = (case r of Inl e \<Rightarrow> map_of s | Inr u \<Rightarrow> (map_of s)(p := None))"
    if "da_delete_host_port (memory_ports api) p s = (r, s')" for p s r s'
    using that by (auto simp: memory_ports_def ds8k_api.defs fun_eq_iff split: if_splits)
qed (auto simp: memory_ports_def ds8k_api.defs split: if_splits option.splits)

lemma attach_port_witness:
  "\<forall>api. snd (rest_attach_port_to_host (memory_ports api) ''h2'' ''w1'' [(''w1'', ''h1''), (''w2'', ''h1'')]) =
     [(''w1'', ''h2''), (''w2'', ''h1'')] \<and>
   map_of (snd (rest_attach_port_to_host (memory_ports api) ''h2'' ''w3'' [(''w1'', ''h1'')])) =
     [''w1'' \<mapsto> ''h1'', ''w3'' \<mapsto> ''h2'']"
proof
  fix api
  have "rest_attach_port_to_host (memory_ports api) ''h2'' ''w3'' [(''w1'', ''h1'')] =
      (Inr (), [(''w1'', ''h1''), (''w3'', ''h2'')])"
    by (simp add: rest_attach_port_to_host_def rest_get_attach_or_create_host_port_def memory_ports_def
        ds8k_api.defs run port_missing_def is_a_def)
  from attach_port [OF memory_ports.host_ports_axioms this]
  show "snd (rest_attach_port_to_host (memory_ports api) ''h2'' ''w1'' [(''w1'', ''h1''), (''w2'', ''h1'')]) =
     [(''w1'', ''h2''), (''w2'', ''h1'')] \<and>
   map_of (snd (rest_attach_port_to_host (memory_ports api) ''h2'' ''w3'' [(''w1'', ''h1'')])) =
     [''w1'' \<mapsto> ''h1'', ''w3'' \<mapsto> ''h2'']"
    by (simp add: rest_attach_port_to_host_def rest_get_attach_or_create_host_port_def memory_ports_def
        ds8k_api.defs run port_missing_def is_a_def)
qed

end
