(* ===== verification/Identity.thy ===== *)
theory Identity
  imports ExceptionHandler PyJson
begin

text \<open>
  The handlers of \<^verbatim>\<open>csi_controller_server.py\<close> that need no storage: the identity service, the
  capabilities, and the operations that are not implemented.  They read the section
  \<^verbatim>\<open>identity\<close> of \<^verbatim>\<open>common/config.yaml\<close>, whose values are those of a JSON document.
\<close>

section \<open>Enumerations\<close>

text \<open>The numbers of the enum values in \<^verbatim>\<open>csi_pb2.py\<close>; \<^verbatim>\<open>Value\<close> of an unknown name is \<^verbatim>\<open>ValueError\<close>.\<close>

definition service_type :: "(string, nat) dict" where
  "service_type = [(''UNKNOWN'', 0), (''CONTROLLER_SERVICE'', 1), (''VOLUME_ACCESSIBILITY_CONSTRAINTS'', 2)]"

definition volume_expansion_type :: "(string, nat) dict" where
  "volume_expansion_type = [(''UNKNOWN'', 0), (''ONLINE'', 1), (''OFFLINE'', 2)]"

definition rpc_types :: "(string, nat) dict" where
  "rpc_types =
     [(''UNKNOWN'', 0), (''CREATE_DELETE_VOLUME'', 1), (''PUBLISH_UNPUBLISH_VOLUME'', 2),
      (''LIST_VOLUMES'', 3), (''GET_CAPACITY'', 4), (''CREATE_DELETE_SNAPSHOT'', 5),
      (''LIST_SNAPSHOTS'', 6), (''CLONE_VOLUME'', 7), (''PUBLISH_READONLY'', 8),
      (''EXPAND_VOLUME'', 9), (''LIST_VOLUMES_PUBLISHED_NODES'', 10)]"

definition enum_value :: "(string, nat) dict \<Rightarrow> json \<Rightarrow> exc + nat" where
  "enum_value enum name =
     (case name of
        JStr s \<Rightarrow> (case map_of enum s of None \<Rightarrow> Inl ValueError | Some v \<Rightarrow> Inr v)
      | _ \<Rightarrow> Inl ValueError)"

section \<open>The identity service\<close>

text \<open>\<^verbatim>\<open>self.cfg['identity'][attribute_name]\<close>.\<close>

definition get_identity_config :: "json \<Rightarrow> string \<Rightarrow> exc + json" where
  "get_identity_config identity attribute_name = py_getitem identity attribute_name"

record plugin_info =
  pi_name :: string
  pi_vendor_version :: string

text \<open>A message field of type \<^verbatim>\<open>string\<close> takes no other value.\<close>

fun string_field :: "json \<Rightarrow> exc + string" where
  "string_field (JStr s) = Inr s"
| "string_field _ = Inl TypeError"

definition GetPluginInfo :: "json \<Rightarrow> ('w, plugin_info reply) pyprog" where
  "GetPluginInfo identity =
     handle_common_exceptions
       (bnd (lift (get_identity_config identity ''name'')) (\<lambda>name.
        bnd (lift (get_identity_config identity ''version'')) (\<lambda>version.
          if \<not> json_truthy name \<or> \<not> json_truthy version then
            ret (build_error_response ''plugin name or version cannot be empty'' INTERNAL)
          else
            bnd (lift (string_field name)) (\<lambda>n.
            bnd (lift (string_field version)) (\<lambda>v.
              ret \<lparr>rp_code = None, rp_details = NoDetails,
                   rp_body = Some \<lparr>pi_name = n, pi_vendor_version = v\<rparr>\<rparr>)))))"

datatype plugin_capability = Service nat | VolumeExpansion nat

fun service_capability_list :: "json list \<Rightarrow> exc + plugin_capability list" where
  "service_capability_list [] = Inr []"
| "service_capability_list (c # cs) =
     bnd_err (enum_value service_type c) (\<lambda>v.
     bnd_err (service_capability_list cs) (\<lambda>vs. Inr (Service v # vs)))"

text \<open>This handler has no decorator: an exception leaves it.\<close>

definition GetPluginCapabilities :: "json \<Rightarrow> exc + plugin_capability list" where
  "GetPluginCapabilities identity =
     bnd_err (get_identity_config identity ''capabilities'') (\<lambda>capabilities.
     bnd_err (py_get capabilities ''Service'' JNull) (\<lambda>service_capabilities.
     bnd_err (py_get capabilities ''VolumeExpansion'' JNull) (\<lambda>volume_expansion_capability.
     bnd_err (if json_truthy service_capabilities
              then bnd_err (py_iter service_capabilities) service_capability_list else Inr []) (\<lambda>services.
     bnd_err (if json_truthy volume_expansion_capability
              then bnd_err (enum_value volume_expansion_type volume_expansion_capability)
                     (\<lambda>v. Inr [VolumeExpansion v]) else Inr []) (\<lambda>expansion.
       Inr (services @ expansion))))))"

definition Probe :: "unit reply" where
  "Probe = \<lparr>rp_code = Some OK, rp_details = NoDetails, rp_body = None\<rparr>"

section \<open>The controller's capabilities\<close>

definition ControllerGetCapabilities :: "exc + nat list" where
  "ControllerGetCapabilities =
     fold_err (\<lambda>name vs. bnd_err (enum_value rpc_types (JStr name)) (\<lambda>v. Inr (vs @ [v])))
       [''CREATE_DELETE_VOLUME'', ''CREATE_DELETE_SNAPSHOT'', ''PUBLISH_UNPUBLISH_VOLUME'',
        ''CLONE_VOLUME'', ''EXPAND_VOLUME''] []"

definition ValidateVolumeCapabilities :: "('w, unit reply) pyprog" where
  "ValidateVolumeCapabilities = handle_common_exceptions (raise NotImplementedError)"

definition ListVolumes :: "('w, unit reply) pyprog" where
  "ListVolumes = handle_common_exceptions (raise NotImplementedError)"

definition GetCapacity :: "('w, unit reply) pyprog" where
  "GetCapacity = handle_common_exceptions (raise NotImplementedError)"

text \<open>The section \<^verbatim>\<open>identity\<close> of the file that is shipped.\<close>

definition shipped_identity :: json where
  "shipped_identity =
     JObj [(''name'', JStr ''block.csi.ibm.com''), (''version'', JStr ''1.7.0''),
       (''capabilities'', JObj
          [(''Service'', JArr [JStr ''CONTROLLER_SERVICE'', JStr ''VOLUME_ACCESSIBILITY_CONSTRAINTS'']),
           (''VolumeExpansion'', JStr ''ONLINE'')])]"

lemma controller_capabilities: "ControllerGetCapabilities = Inr [1, 5, 2, 7, 9]"
  by code_simp

text \<open>
  With the shipped configuration the plugin declares the controller service, the topology
  constraints and online expansion; the controller declares exactly the five operations that
  are implemented, and the three that are not answer \<^verbatim>\<open>UNIMPLEMENTED\<close> and change nothing.
\<close>

lemma declared_capabilities:
  "GetPluginCapabilities shipped_identity = Inr [Service 1, Service 2, VolumeExpansion 1] \<and>
   GetPluginInfo shipped_identity w =
     (Inr \<lparr>rp_code = None, rp_details = NoDetails,
           rp_body = Some \<lparr>pi_name = ''block.csi.ibm.com'', pi_vendor_version = ''1.7.0''\<rparr>\<rparr>, w) \<and>
   ControllerGetCapabilities = Inr [1, 5, 2, 7, 9] \<and>
   list_all (\<lambda>m. \<exists>r. m w = (Inr r, w) \<and> rp_code r = Some UNIMPLEMENTED)
     [ValidateVolumeCapabilities, ListVolumes, GetCapacity]"
proof -
  have "GetPluginCapabilities shipped_identity = Inr [Service 1, Service 2, VolumeExpansion 1]"
    by code_simp
  moreover have "GetPluginInfo shipped_identity w =
     (Inr \<lparr>rp_code = None, rp_details = NoDetails,
           rp_body = Some \<lparr>pi_name = ''block.csi.ibm.com'', pi_vendor_version = ''1.7.0''\<rparr>\<rparr>, w)"
    by (simp add: GetPluginInfo_def shipped_identity_def get_identity_config_def handled_Inr)
  ultimately show ?thesis
    by (simp add: ValidateVolumeCapabilities_def ListVolumes_def GetCapacity_def handled_Inl controller_capabilities)
qed

end
