(* ===== verification/Server.thy ===== *)
theory Server
  imports Servicer Identity
begin

text \<open>
  The server: which method answers which remote procedure, as \<^verbatim>\<open>csi_pb2_grpc.py\<close> registers them for
  the servicer of \<^verbatim>\<open>csi_controller_server.py\<close> (shown in \<open>ServerStart\<close>), and what the caller is given.
  Requests are served one after the other here; what the threads that serve them share is the subject of
  \<open>PoolThreads\<close>.  The transport, and the decoding of the messages, are the third-party
  package \<^verbatim>\<open>grpc\<close>.
\<close>

datatype rpc =
    CreateVolumeRpc create_volume_request
  | DeleteVolumeRpc delete_volume_request
  | PublishVolumeRpc publish_volume_request
  | UnpublishVolumeRpc unpublish_volume_request
  | ValidateVolumeCapabilitiesRpc
  | ListVolumesRpc
  | GetCapacityRpc
  | GetCapabilitiesRpc
  | CreateSnapshotRpc create_snapshot_request
  | DeleteSnapshotRpc delete_snapshot_request
  | ListSnapshotsRpc
  | ExpandVolumeRpc expand_volume_request
  | GetPluginInfoRpc
  | GetPluginCapabilitiesRpc
  | ProbeRpc

datatype response =
    CreateVolumeResponse create_volume_response
  | PublishVolumeResponse "(string, string) dict"
  | CreateSnapshotResponse create_snapshot_response
  | ExpandVolumeResponse expand_volume_response
  | CapabilitiesResponse "nat list"
  | PluginInfoResponse plugin_info
  | PluginCapabilitiesResponse "plugin_capability list"
  | NoFields unit

text \<open>The code and the details on the context, and what the method returned or raised.\<close>

record outcome =
  oc_code :: "status_code option"
  oc_details :: details
  oc_result :: "exc + response option"

definition answered :: "('b \<Rightarrow> response) \<Rightarrow> ('c, 'b reply) pyprog \<Rightarrow> 'c \<Rightarrow> outcome \<times> 'c" where
  "answered f m c =
     (case m c of
        (Inl e, c') \<Rightarrow> (\<lparr>oc_code = None, oc_details = NoDetails, oc_result = Inl e\<rparr>, c')
      | (Inr r, c') \<Rightarrow>
          (\<lparr>oc_code = rp_code r, oc_details = rp_details r, oc_result = Inr (map_option f (rp_body r))\<rparr>, c'))"

text \<open>A method that returns its message and sets nothing on the context.\<close>

definition returned :: "('b \<Rightarrow> response) \<Rightarrow> exc + 'b \<Rightarrow> outcome" where
  "returned f r = \<lparr>oc_code = None, oc_details = NoDetails,
     oc_result = (case r of Inl e \<Rightarrow> Inl e | Inr b \<Rightarrow> Inr (Some (f b)))\<rparr>"

text \<open>The method of the generated base class, for what the servicer does not define.\<close>

definition base_method :: outcome where
  "base_method = \<lparr>oc_code = Some UNIMPLEMENTED, oc_details = Details ''Method not implemented!'',
     oc_result = Inl NotImplementedError\<rparr>"

text \<open>\<open>cfg\<close> and \<open>identity\<close> are the sections of the configuration that the servicer reads at its start.\<close>

fun serve ::
  "'s env \<Rightarrow> ('s agent \<Rightarrow> 's \<Rightarrow> 's) \<Rightarrow> publish_config \<Rightarrow> json \<Rightarrow> rpc \<Rightarrow> 's ctl \<Rightarrow> outcome \<times> 's ctl" where
  "serve env fin cfg identity (CreateVolumeRpc r) c = answered CreateVolumeResponse (CreateVolume env fin r) c"
| "serve env fin cfg identity (DeleteVolumeRpc r) c = answered NoFields (DeleteVolume env fin r) c"
| "serve env fin cfg identity (PublishVolumeRpc r) c =
     answered PublishVolumeResponse (ControllerPublishVolume env fin cfg r) c"
| "serve env fin cfg identity (UnpublishVolumeRpc r) c = answered NoFields (ControllerUnpublishVolume env fin r) c"
| "serve env fin cfg identity ValidateVolumeCapabilitiesRpc c = answered NoFields ValidateVolumeCapabilities c"
| "serve env fin cfg identity ListVolumesRpc c = answered NoFields ListVolumes c"
| "serve env fin cfg identity GetCapacityRpc c = answered NoFields GetCapacity c"
| "serve env fin cfg identity GetCapabilitiesRpc c = (returned CapabilitiesResponse ControllerGetCapabilities, c)"
| "serve env fin cfg identity (CreateSnapshotRpc r) c = answered CreateSnapshotResponse (CreateSnapshot env fin r) c"
| "serve env fin cfg identity (DeleteSnapshotRpc r) c = answered NoFields (DeleteSnapshot env fin r) c"
| "serve env fin cfg identity ListSnapshotsRpc c = (base_method, c)"
| "serve env fin cfg identity (ExpandVolumeRpc r) c = answered ExpandVolumeResponse (ControllerExpandVolume env fin r) c"
| "serve env fin cfg identity GetPluginInfoRpc c = answered PluginInfoResponse (GetPluginInfo identity) c"
| "serve env fin cfg identity GetPluginCapabilitiesRpc c =
     (returned PluginCapabilitiesResponse (GetPluginCapabilities identity), c)"
| "serve env fin cfg identity ProbeRpc c = answered NoFields (ret Probe) c"

end
