(* ===== verification/ServerProofs.thy ===== *)
theory ServerProofs
  imports Server ServicerProofs
begin

text \<open>
  Properties of the server as a whole: of the state that any sequence of requests leaves, and of
  what a caller is given.
\<close>

section \<open>The pools after any requests\<close>

text \<open>The server starts without agents.\<close>

definition server_init :: "'s ctl \<Rightarrow> bool" where
  "server_init c \<longleftrightarrow> ctl_agents c = []"

inductive server_step ::
  "'s env \<Rightarrow> ('s agent \<Rightarrow> 's \<Rightarrow> 's) \<Rightarrow> publish_config \<Rightarrow> json \<Rightarrow> 's ctl \<Rightarrow> 's ctl \<Rightarrow> bool"
  for env fin cfg identity
where
  request: "serve env fin cfg identity q c = (out, c') \<Longrightarrow> server_step env fin cfg identity c c'"
| world: "server_step env fin cfg identity c (c\<lparr>ctl_array := s\<rparr>)"

lemma answered_state: "snd (answered f m c) = snd (m c)"
  by (simp add: answered_def split: prod.split sum.split)

lemma serve_agents_ok:
  assumes "agents_ok env c"
  shows "agents_ok env (snd (serve env fin cfg identity q c))"
  using assms
  by (cases q) (auto simp: answered_state ValidateVolumeCapabilities_def ListVolumes_def GetCapacity_def
      GetPluginInfo_def intro!: keeps_apply [where P = "agents_ok env"] handlers_keep_agents keeps_handled keeps_rules)

interpretation server: invariant_system server_init "server_step env fin cfg identity" "agents_ok env"
  for env :: "'s env" and fin cfg identity
proof
  show "agents_ok env c" if "server_init c" for c :: "'s ctl"
    using that by (simp add: server_init_def agents_ok_def)
  show "agents_ok env c'" if "agents_ok env c" "server_step env fin cfg identity c c'" for c c' :: "'s ctl"
    using that(2)
  proof cases
    case (request q out)
    with serve_agents_ok [OF that(1), of fin cfg identity q] show ?thesis by simp
  next
    case (world s)
    with that(1) show ?thesis by simp
  qed
qed

text \<open>
  C3: server_keeps_pools
  After any sequence of requests of any kind, accepted or not, with the array changing in
  between, for every cached agent of an XIV or a DS8K, and for those of an SVC provided that
  \<^verbatim>\<open>is_active\<close> of its client never raises (\<open>svc_alive\<close>; otherwise \<^verbatim>\<open>get\<close> loses the connection and
  its slot): every connection that the pool counts is in its queue, none is lost or lent for good,
  the pool has no more than its storage type and the number of workers allow, it logs in as the
  user, and at the addresses, that the agent's key names, and every connection in it is of the
  agent's storage type and was opened with the user, password and addresses of the pool.
\<close>

theorem server_keeps_pools:
  assumes "reachable server_init (server_step env fin cfg identity) c"
    and "map_of (ctl_agents c) key = Some a" and "ag_med_class a = SVC \<Longrightarrow> svc_alive env"
  shows "current_size (ag_pool a) = int (length (channel (ag_pool a))) \<and>
    current_size (ag_pool a) \<le> int (min (kind_max_connections (ag_med_class a)) CSI_CONTROLLER_SERVER_WORKERS) \<and>
    key = (pl_username (ag_pool a), join ENDPOINTS_SEPARATOR (pl_endpoints (ag_pool a))) \<and>
    (\<forall>med \<in> set (channel (ag_pool a)). of_kind (ag_med_class a) med \<and>
      opened env (ag_med_class a) (pl_username (ag_pool a)) (pl_password (ag_pool a)) (pl_endpoints (ag_pool a)) med)"
proof -
  have "agents_ok env c" by (rule server.reachable_inv [OF assms(1)])
  from agents_okD [OF this assms(2)] assms(3) show ?thesis
    by (auto simp: checked_def agent_ok_def balanced_def own_connection_def guarded_def)
qed

definition delete_request :: rpc where
  "delete_request = DeleteVolumeRpc \<lparr>dv_volume_id = ''A9000:6001'', dv_secrets = sample_secrets\<rparr>"

lemma delete_leaves_agent:
  "case map_of (ctl_agents (snd (serve xiv_env (\<lambda>_ s. s) default_publish_config shipped_identity delete_request (no_agents []))))
      (JStr ''u'', ''a, b'') of None \<Rightarrow> False | Some a \<Rightarrow> current_size (ag_pool a) = 1"
  unfolding delete_request_def xiv_env_def by code_simp

lemma request_reachable:
  "server_init c \<Longrightarrow>
   reachable server_init (server_step env fin cfg identity) (snd (serve env fin cfg identity q c))"
  by (metis reachable.intros server_step.request prod.collapse)

lemma server_keeps_pools_witness:
  "\<exists>a. map_of (ctl_agents (snd (serve xiv_env (\<lambda>_ s. s) default_publish_config shipped_identity delete_request (no_agents []))))
      (JStr ''u'', ''a, b'') = Some a \<and> current_size (ag_pool a) = 1 \<and> length (channel (ag_pool a)) = 1 \<and>
    pl_username (ag_pool a) = JStr ''u''"
proof -
  let ?c = "snd (serve xiv_env (\<lambda>_ s. s) default_publish_config shipped_identity delete_request (no_agents []))"
  have "server_init (no_agents [])"
    by (simp add: server_init_def no_agents_def)
  then have "reachable server_init (server_step xiv_env (\<lambda>_ s. s) default_publish_config shipped_identity) ?c"
    by (rule request_reachable)
  moreover from delete_leaves_agent obtain a where
    "map_of (ctl_agents ?c) (JStr ''u'', ''a, b'') = Some a" "current_size (ag_pool a) = 1"
    by (auto split: option.splits)
  ultimately show ?thesis
    using server_keeps_pools [of xiv_env "\<lambda>_ s. s" default_publish_config shipped_identity ?c "(JStr ''u'', ''a, b'')" a]
      xiv_env_alive by auto
qed

section \<open>Whose connections a request uses\<close>

text \<open>
  C25: agent_credentials
  In every state that the server reaches, the agent that a request is given, old or new, holds and
  lends only connections that were opened with the very user, password and addresses of this
  request's secrets: after a change of the password no request is served by a connection that
  was opened with the old one.  For the agents of an SVC this needs \<^verbatim>\<open>is_active\<close> of its client not to
  raise (\<open>svc_alive\<close>).  The agents of other users and addresses stay as they are.
\<close>

theorem agent_credentials:
  assumes "reachable server_init (server_step env fin cfg identity) c"
    and "get_array_connection_info_from_secrets (en_loads env) secrets tops sid = Inr info"
    and "get_agent env fin info ty c = (Inr key, c')"
  shows "(\<forall>k. k \<noteq> key \<longrightarrow> map_of (ctl_agents c') k = map_of (ctl_agents c) k) \<and>
    (\<exists>a. map_of (ctl_agents c') key = Some a \<and>
      ((ag_med_class a = SVC \<longrightarrow> svc_alive env) \<longrightarrow>
        pl_username (ag_pool a) = ci_user info \<and> pl_password (ag_pool a) = ci_password info \<and>
        pl_endpoints (ag_pool a) = ci_array_addresses info \<and>
        (\<forall>med. med \<in> set (channel (ag_pool a)) \<or> (\<exists>c''. lend_mediator env key c' = (Inr med, c'')) \<longrightarrow>
          opened env (ag_med_class a) (ci_user info) (ci_password info) (ci_array_addresses info) med)))"
proof -
  have ok: "agents_ok env c" by (rule server.reachable_inv [OF assms(1)])
  have eps: "addresses_ok (ci_array_addresses info)" by (rule connection_addresses [OF assms(2)])
  have found: "agent_found env info c (Inr key) c'" by (rule get_agent_ok [OF eps ok assms(3)])
  then obtain a where a: "map_of (ctl_agents c') key = Some a" by (auto simp: agent_found_def)
  note login = found_agent_login [OF ok eps assms(3) a] and lent = lent_connection [OF ok eps assms(3) a]
  have "\<forall>k. k \<noteq> key \<longrightarrow> map_of (ctl_agents c') k = map_of (ctl_agents c) k"
    using found by (simp add: agent_found_def)
  with a show ?thesis
    unfolding checked_def [symmetric] using login lent by blast
qed

text \<open>
  An XIV whose connections say on closing with which password they were opened.  After a request
  with the password \<^verbatim>\<open>p\<close>, one with \<^verbatim>\<open>q\<close> has none of the connections of the first.
\<close>

definition password_text :: "json \<Rightarrow> string" where
  "password_text w = (case w of JStr s \<Rightarrow> s | _ \<Rightarrow> [])"

definition login_env :: "string list env" where
  "login_env = (stub_env ds8k_answers)
     \<lparr>en_xiv_connect := (\<lambda>_ w _ s. (Inr (sample_xiv\<lparr>xc_close := xsent (''close '' @ password_text w)\<rparr>), s))\<rparr>"

definition changed_secrets :: "(string, string) dict" where
  "changed_secrets = [(''username'', ''u''), (''password'', ''q''), (''management_address'', ''a,b'')]"

definition changed_info :: array_connection_info where
  "changed_info = \<lparr>ci_array_addresses = [''a'', ''b''], ci_user = JStr ''u'', ci_password = JStr ''q'', ci_system_id = None\<rparr>"

definition logged_in :: "string list ctl" where
  "logged_in = snd (serve login_env (\<lambda>_ s. s) default_publish_config shipped_identity delete_request (no_agents []))"

lemma logged_in_agent:
  "case map_of (ctl_agents logged_in) (JStr ''u'', ''a, b'') of None \<Rightarrow> False
   | Some a \<Rightarrow> ag_password a = JStr ''p'' \<and> map (\<lambda>med. snd (disconnect med [])) (channel (ag_pool a)) = [[''close p'']]"
  unfolding logged_in_def login_env_def delete_request_def by code_simp

lemma changed_agent:
  "case get_agent login_env (\<lambda>_ s. s) changed_info (Some ''A9000'') logged_in of
     (Inr key, c') \<Rightarrow> key = (JStr ''u'', ''a, b'') \<and>
       (case map_of (ctl_agents c') key of None \<Rightarrow> False
        | Some a \<Rightarrow> ag_med_class a = XIV \<and> length (channel (ag_pool a)) = 1)
   | _ \<Rightarrow> False"
  unfolding logged_in_def login_env_def delete_request_def by code_simp

lemma changed_secrets_info:
  "get_array_connection_info_from_secrets (en_loads login_env) changed_secrets None None = Inr changed_info"
  by code_simp

lemma login_closes:
  "opened login_env XIV u (JStr q) eps med \<Longrightarrow> snd (disconnect med []) = [''close '' @ q]"
  by (auto simp: opened_def login_env_def stub_env_def XIVArrayMediator_def xiv_connect_client_def except_lib_def
      run xiv_mediator_def xiv_disconnect_def sample_xiv_def xsent_def password_text_def)

lemma agent_credentials_witness:
  "\<exists>a c'. get_agent login_env (\<lambda>_ s. s) changed_info (Some ''A9000'') logged_in = (Inr (JStr ''u'', ''a, b''), c') \<and>
    map_of (ctl_agents c') (JStr ''u'', ''a, b'') = Some a \<and>
    map (\<lambda>med. snd (disconnect med [])) (channel (ag_pool a)) = [[''close q'']]"
proof -
  obtain c' a where c': "get_agent login_env (\<lambda>_ s. s) changed_info (Some ''A9000'') logged_in =
      (Inr (JStr ''u'', ''a, b''), c')"
    and a: "map_of (ctl_agents c') (JStr ''u'', ''a, b'') = Some a" "ag_med_class a = XIV"
      "length (channel (ag_pool a)) = 1"
    using changed_agent by (auto split: prod.splits sum.splits option.splits)
  have "reachable server_init (server_step login_env (\<lambda>_ s. s) default_publish_config shipped_identity) logged_in"
    unfolding logged_in_def by (rule request_reachable) (simp add: server_init_def no_agents_def)
  from agent_credentials [OF this changed_secrets_info c'] a
  have "\<forall>med \<in> set (channel (ag_pool a)). opened login_env XIV (JStr ''u'') (JStr ''q'') [''a'', ''b''] med"
    by (simp add: changed_info_def)
  with a(3) have "map (\<lambda>med. snd (disconnect med [])) (channel (ag_pool a)) = [[''close q'']]"
    by (auto simp: length_Suc_conv dest!: login_closes)
  with c' a(1) show ?thesis by (intro exI conjI)
qed

section \<open>What the caller is given\<close>

text \<open>A reply with a code other than \<^verbatim>\<open>OK\<close> has no message.\<close>

definition empty_on_error :: "'b reply \<Rightarrow> bool" where
  "empty_on_error r \<longleftrightarrow> rp_code r = None \<or> rp_code r = Some OK \<or> rp_body r = None"

lemma empty_on_error_simps [simp]:
  "empty_on_error (handle_exception e st)" "empty_on_error (build_error_response m st)"
  "empty_on_error empty_reply"
  "empty_on_error \<lparr>rp_code = None, rp_details = d, rp_body = b\<rparr>"
  "empty_on_error \<lparr>rp_code = Some OK, rp_details = d, rp_body = b\<rparr>"
  by (simp_all add: empty_on_error_def empty_reply_def)

lemma yields_handled:
  assumes "yields Q (\<lambda>_. True) m" and "\<And>e. Q (handle_exception e (status_codes_by_exception e))"
  shows "yields Q (\<lambda>_. False) (handle_common_exceptions m)"
  unfolding handle_common_exceptions_def
  by (rule yields_try_except [OF assms(1)], rule yields_ret, rule assms(2))

lemma yields_with_mediator:
  assumes "\<And>med. yields Q (\<lambda>_. True) (body med)"
  shows "yields Q (\<lambda>_. True) (with_mediator env fin info ty body)"
proof -
  have "yields Q (\<lambda>_. True) (on_array (body med))" for med
    unfolding on_array_def
    by (rule yieldsI) (auto split: prod.splits dest: yields_resultD [OF assms])
  then show ?thesis
    unfolding with_mediator_def by (intro yields_bnd_any yields_any yields_finally)
qed

lemma yields_bnd_lift: "(\<And>x. r = Inr x \<Longrightarrow> yields Q (\<lambda>_. True) (f x)) \<Longrightarrow> yields Q (\<lambda>_. True) (bnd (lift r) f)"
  by (cases r) (auto simp: yields_def run)

lemmas empty_rules = yields_handled yields_bnd_lift yields_with_mediator
  yields_try_except [where G = "\<lambda>_. True"] yields_bnd_any yields_any yields_ret yields_raise

lemma delete_empty_on_error:
  "yields empty_on_error (\<lambda>_. False) (DeleteVolume env fin dv)"
  "yields empty_on_error (\<lambda>_. False) (DeleteSnapshot env fin ds)"
  unfolding DeleteVolume_def DeleteSnapshot_def delete_volume_on_def delete_snapshot_on_def
  by (auto intro!: empty_rules split: sum.split)

lemma publish_empty_on_error:
  "yields empty_on_error (\<lambda>_. False) (ControllerPublishVolume env fin cfg pv)"
  "yields empty_on_error (\<lambda>_. False) (ControllerUnpublishVolume env fin uv)"
  unfolding ControllerPublishVolume_def ControllerUnpublishVolume_def
  by (auto intro!: empty_rules split: sum.split prod.split option.split)

lemma snapshot_empty_on_error:
  "yields empty_on_error (\<lambda>_. True) (create_snapshot_on env r prefix pool i med)"
  "yields empty_on_error (\<lambda>_. False) (CreateSnapshot env fin cs)"
proof -
  show one: "yields empty_on_error (\<lambda>_. True) (create_snapshot_on env r prefix pool i med)"
    for r prefix pool i med
  proof -
    have "yields (\<lambda>r. case r of Inl early \<Rightarrow> empty_on_error early | Inr _ \<Rightarrow> True) (\<lambda>_. True)
      (case existing of
            Some sn \<Rightarrow>
              if snap_source_volume_id sn \<noteq> Some i then
                ret (Inl (build_error_response
                  (SnapshotWrongVolumeError_message nm
                     (str_option (snap_source_volume_id sn)) i) ALREADY_EXISTS))
              else ret (Inr sn)
          | None \<Rightarrow> bnd (create_snapshot med i nm pool) (\<lambda>sn. ret (Inr sn)))" for existing nm
      by (auto intro!: empty_rules split: option.split)
    note pick = yields_bnd [OF this]
    show ?thesis
      unfolding create_snapshot_on_def
      by (intro yields_bnd_lift yields_bnd_any yields_any pick) (auto intro!: yieldsI yields_ret split: sum.split)
  qed
  show "yields empty_on_error (\<lambda>_. False) (CreateSnapshot env fin cs)"
    unfolding CreateSnapshot_def
    by (auto intro!: empty_rules one split: option.split)
qed

lemma expand_empty_on_error:
  fixes env :: "'s env"
  shows "yields empty_on_error (\<lambda>_. False) (ControllerExpandVolume env fin ev)"
proof -
  have "yields empty_on_error (\<lambda>_. True) (expand_volume_on r i med)" for r i and med :: "'s mediator"
    unfolding expand_volume_on_def Let_def
    by (auto intro!: empty_rules split: option.split)
  then show ?thesis
    unfolding ControllerExpandVolume_def
    by (auto intro!: empty_rules split: sum.split)
qed

lemma create_empty_on_error:
  fixes env :: "'s env"
  shows "yields empty_on_error (\<lambda>_. False) (CreateVolume env fin cv)"
proof -
  let ?early = "\<lambda>r. case r of Inl early \<Rightarrow> empty_on_error early | Inr _ \<Rightarrow> True"
  have existing: "handle_existing_volume_source v i ty sys = Some r \<Longrightarrow> empty_on_error r" for v i ty sys r
    by (auto simp: handle_existing_volume_source_def handle_volume_exists_with_same_source_def
        handle_volume_exists_with_different_source_def split: if_splits)
  have "yields ?early (\<lambda>_. True) (find_or_create_volume med n q rq se p src sys)"
    for n q rq se p src sys and med :: "'s mediator"
    unfolding find_or_create_volume_def
    by (auto intro!: empty_rules yields_try_else [where G = "\<lambda>_. True" and R = "\<lambda>_. True"]
        split: option.split prod.split)
      (rule existing, assumption)+
  note found = yields_bnd [OF this]
  have "yields empty_on_error (\<lambda>_. True) (create_volume_on env r prefix se p src sys med)"
    for r prefix se p src sys and med :: "'s mediator"
    unfolding create_volume_on_def create_volume_answer_def Let_def
    by (auto intro!: yields_bnd_lift found empty_rules split: sum.split option.split)
      (auto intro!: yieldsI simp: run)
  then show ?thesis
    unfolding CreateVolume_def create_volume_from_def
    by (auto intro!: empty_rules split: sum.split)
qed

lemma unsupported_empty_on_error:
  "yields empty_on_error (\<lambda>_. False) (ValidateVolumeCapabilities :: ('s ctl, unit reply) pyprog)"
  "yields empty_on_error (\<lambda>_. False) (ListVolumes :: ('s ctl, unit reply) pyprog)"
  "yields empty_on_error (\<lambda>_. False) (GetCapacity :: ('s ctl, unit reply) pyprog)"
  "yields empty_on_error (\<lambda>_. False) (GetPluginInfo identity :: ('s ctl, plugin_info reply) pyprog)"
  "yields empty_on_error (\<lambda>_. False) (ret Probe :: ('s ctl, unit reply) pyprog)"
  by (auto simp: ValidateVolumeCapabilities_def ListVolumes_def GetCapacity_def GetPluginInfo_def Probe_def
      intro!: empty_rules)

lemmas replies_empty_on_error =
  create_empty_on_error delete_empty_on_error publish_empty_on_error snapshot_empty_on_error(2)
  expand_empty_on_error unsupported_empty_on_error

lemma answered_empty_on_error:
  assumes "yields empty_on_error (\<lambda>_. False) m"
  shows "\<exists>b. oc_result (fst (answered f m c)) = Inr b \<and>
    (oc_code (fst (answered f m c)) \<in> {None, Some OK} \<or> b = None)"
  using yields_resultD [OF assms] yields_errorD [OF assms]
  by (auto simp: answered_def empty_on_error_def split: prod.split sum.split) blast+

text \<open>
  C4: error_replies_empty
  No exception leaves a request to create, delete, publish, unpublish, expand or copy: its caller
  is given a message, and when the code is not \<^verbatim>\<open>OK\<close> the message is empty.  Only the method
  for the capabilities of the plugin, which is not decorated and reads the configuration, and
  the one that the servicer lacks can end with an exception.
\<close>

theorem error_replies_empty:
  assumes "q \<noteq> ListSnapshotsRpc" and "q \<noteq> GetPluginCapabilitiesRpc"
  shows "\<exists>b. oc_result (fst (serve env fin cfg identity q c)) = Inr b \<and>
    (oc_code (fst (serve env fin cfg identity q c)) \<in> {None, Some OK} \<or> b = None)"
proof -
  have "\<exists>b. oc_result (fst (serve env fin cfg identity GetCapabilitiesRpc c)) = Inr b \<and>
    (oc_code (fst (serve env fin cfg identity GetCapabilitiesRpc c)) \<in> {None, Some OK} \<or> b = None)"
    by (simp add: controller_capabilities returned_def)
  then show ?thesis
    using assms
    by (cases q) (simp_all only: serve.simps answered_empty_on_error replies_empty_on_error, blast+)
qed

lemma error_replies_empty_witness:
  "\<exists>b. oc_result (fst (serve xiv_env (\<lambda>_ s. s) default_publish_config shipped_identity delete_request (no_agents []))) = Inr b \<and>
    (oc_code (fst (serve xiv_env (\<lambda>_ s. s) default_publish_config shipped_identity delete_request (no_agents []))) \<in> {None, Some OK} \<or> b = None)"
  by (rule error_replies_empty) (simp_all add: delete_request_def)

end
