(* ===== verification/VolumeStore.thy ===== *)
theory VolumeStore
  imports ServicerProofs Transition
begin

text \<open>
  What creating and deleting volumes means, whatever the storage: an abstract store of the
  volumes, by id and name, and the contract of a mediator that keeps one (the locale
  \<open>volume_store\<close>).  The bodies of the handlers \<^verbatim>\<open>CreateVolume\<close>, \<^verbatim>\<open>DeleteVolume\<close> and
  \<^verbatim>\<open>ControllerExpandVolume\<close> of \<^verbatim>\<open>csi_controller_server.py\<close> are operations on that store.  The storage
  types meet the contract in \<open>VolumeStores\<close>.
\<close>

section \<open>Stores\<close>

text \<open>
  A store gives the name of every volume.  \<open>adds_one t x t'\<close>: at most one volume was added, with a
  name that was free; \<open>named_once t\<close>: no two volumes have one name.
\<close>

definition adds_one :: "('k \<Rightarrow> 'n option) \<Rightarrow> 'n \<Rightarrow> ('k \<Rightarrow> 'n option) \<Rightarrow> bool" where
  "adds_one t x t' \<longleftrightarrow> t' = t \<or> x \<notin> ran t \<and> (\<exists>k. t k = None \<and> t' = t(k \<mapsto> x))"

definition named_once :: "('k \<Rightarrow> 'n option) \<Rightarrow> bool" where
  "named_once t \<longleftrightarrow> (\<forall>i j x. t i = Some x \<longrightarrow> t j = Some x \<longrightarrow> i = j)"

lemma adds_one_refl [simp]: "adds_one t x t"
  by (simp add: adds_one_def)

lemma adds_oneI: "x \<notin> ran t \<Longrightarrow> t k = None \<Longrightarrow> adds_one t x (t(k \<mapsto> x))"
  by (auto simp: adds_one_def)

lemma adds_one_drop: "t k = None \<Longrightarrow> adds_one t x (t(k := None))"
  by (simp add: adds_one_def fun_upd_idem)

lemma named_once_add: "named_once t \<Longrightarrow> x \<notin> ran t \<Longrightarrow> named_once (t(k \<mapsto> x))"
  by (auto simp: named_once_def ran_def)

lemma named_once_adds: "adds_one t x t' \<Longrightarrow> named_once t \<Longrightarrow> named_once t'"
  by (auto simp: adds_one_def intro: named_once_add)

lemma named_once_drop: "named_once t \<Longrightarrow> named_once (t(k := None))"
  by (auto simp: named_once_def)

lemma named_onceD: "named_once t \<Longrightarrow> t i = Some x \<Longrightarrow> t j = Some x \<Longrightarrow> i = j"
  unfolding named_once_def by blast

section \<open>The contract\<close>

text \<open>
  \<open>vid\<close>: the volume that an id of the mediator names; \<open>nm\<close>: how a volume's name is told from
  others, given its pool; \<open>vols s\<close>: the store in the world \<open>s\<close>.
\<close>

locale volume_store =
  fixes med :: "'s mediator" and vid :: "string \<Rightarrow> 'k" and nm :: "string \<Rightarrow> string \<Rightarrow> 'n"
    and vols :: "'s \<Rightarrow> 'k \<Rightarrow> 'n option"
  assumes efficiency_keeps: "keeps (\<lambda>s. vols s = T) (validate_supported_space_efficiency med se)"
    and object_keeps: "keeps (\<lambda>s. vols s = T) (get_object_by_id med i ty)"
    and copy_keeps: "keeps (\<lambda>s. vols s = T) (copy_to_existing_volume_from_source med i j c m)"
    and expand_keeps: "keeps (\<lambda>s. vols s = T) (expand_volume med i m)"
    and get_reads: "get_volume med n (Some p) s = (rg, s') \<Longrightarrow> vols s' = vols s \<and>
      (case rg of
         Inl e \<Rightarrow> is_ObjectNotFound e \<longrightarrow> nm p n \<notin> ran (vols s)
       | Inr v \<Rightarrow> vols s (vid (vol_id v)) = Some (nm p n))"
    and create_adds: "nm p n \<notin> ran (vols s) \<Longrightarrow> create_volume med n sz se p s = (rc, s') \<Longrightarrow>
      (case rc of
         Inr (Some v) \<Rightarrow> vols s (vid (vol_id v)) = None \<and> vols s' = (vols s)(vid (vol_id v) \<mapsto> nm p n)
       | _ \<Rightarrow> adds_one (vols s) (nm p n) (vols s'))"
    and delete_drops: "delete_volume med i s = (rd, s') \<Longrightarrow>
      (case rd of
         Inl e \<Rightarrow> vols s' = vols s \<and> (is_ObjectNotFound e \<longrightarrow> vols s (vid i) = None)
       | Inr u \<Rightarrow> vols s' = (vols s)(vid i := None))"
begin

text \<open>The volume that \<^verbatim>\<open>CreateVolume\<close> finds or makes.\<close>

lemma found_or_created:
  assumes "find_or_create_volume med n req required se p source sys s = (r, s')"
  shows "case r of
      Inr (Inr (Some v)) \<Rightarrow> vols s' (vid (vol_id v)) = Some (nm p n) \<and>
        (vols s' = vols s \<or> nm p n \<notin> ran (vols s) \<and> vols s (vid (vol_id v)) = None \<and>
          vols s' = (vols s)(vid (vol_id v) \<mapsto> nm p n))
    | Inr (Inl early) \<Rightarrow> vols s' = vols s \<and>
        (\<forall>a. rp_body early = Some a \<longrightarrow> (\<exists>v. a = generate_csi_create_volume_response v sys (fst source) \<and>
          vols s (vid (vol_id v)) = Some (nm p n)))
    | _ \<Rightarrow> adds_one (vols s) (nm p n) (vols s')"
proof -
  obtain st si where source: "source = (st, si)" by (cases source)
  obtain g s1 where g: "get_volume med n (Some p) s = (g, s1)" by (metis surj_pair)
  note got = get_reads [OF g]
  show ?thesis
  proof (cases g)
    case (Inr v)
    then show ?thesis
      using assms g got
      by (auto simp: find_or_create_volume_def source run handle_existing_volume_source_def
          handle_volume_exists_with_same_source_def handle_volume_exists_with_different_source_def
          build_error_response_def build_non_ok_response_def split: if_splits)
  next
    case (Inl e)
    show ?thesis
    proof (cases "is_ObjectNotFound e")
      case True
      then have free: "nm p n \<notin> ran (vols s)" and s1: "vols s1 = vols s" using got Inl by auto
      obtain x s2 where x: "validate_supported_space_efficiency med se s1 = (x, s2)" by (metis surj_pair)
      have s2: "vols s2 = vols s" using keepsD [OF efficiency_keeps refl x] s1 by simp
      obtain c s3 where c: "create_volume med n required se p s2 = (c, s3)" by (metis surj_pair)
      from create_adds [OF _ c] free have
        "case c of
           Inr (Some v) \<Rightarrow> vols s (vid (vol_id v)) = None \<and> vols s3 = (vols s)(vid (vol_id v) \<mapsto> nm p n)
         | _ \<Rightarrow> adds_one (vols s) (nm p n) (vols s3)"
        unfolding s2 by simp
      with assms g Inl True x c free s2 show ?thesis
        by (cases x; cases c)
          (auto simp: find_or_create_volume_def source run split: option.splits)
    qed (use assms g got Inl in \<open>auto simp: find_or_create_volume_def source run\<close>)
  qed
qed

lemma rolled_back:
  assumes "retry_law (en_retry env)" and "vols s \<in> {T, T(vid i := None)}"
    and "rollback_create_volume_from_source env med i s = (r, s')"
  shows "vols s' \<in> {T, T(vid i := None)}"
proof -
  have "keeps (\<lambda>t. vols t \<in> {T, T(vid i := None)}) (delete_volume med i)"
  proof (rule keepsI)
    fix t assume "vols t \<in> {T, T(vid i := None)}"
    then show "vols (snd (delete_volume med i t)) \<in> {T, T(vid i := None)}"
      using delete_drops [of i t] by (cases "delete_volume med i t") (auto split: sum.splits)
  qed
  from keepsD [OF keeps_retry [OF assms(1) this] assms(2) assms(3) [unfolded rollback_create_volume_from_source_def]]
  show ?thesis .
qed

lemma copied:
  assumes "retry_law (en_retry env)" and "copy_volume_from_source env v i ty m med s = (r, s')"
  shows "case r of
      Inl e \<Rightarrow> vols s' \<in> {vols s, (vols s)(vid (vol_id v) := None)}
    | Inr u \<Rightarrow> vols s' = vols s"
proof -
  note undone = rolled_back [OF assms(1), of _ "vols s" "vol_id v"]
  obtain g s1 where g: "get_object_by_id med i ty s = (g, s1)" by (metis surj_pair)
  have s1: "vols s1 = vols s" using keepsD [OF object_keeps refl g] by simp
  obtain b s2 where b: "rollback_create_volume_from_source env med (vol_id v) s1 = (b, s2)" by (metis surj_pair)
  obtain b' s3 where b': "rollback_create_volume_from_source env med (vol_id v) s2 = (b', s3)" by (metis surj_pair)
  have s2: "vols s2 \<in> {vols s, (vols s)(vid (vol_id v) := None)}" using undone [OF _ b] s1 by simp
  note s3 = undone [OF s2 b']
  show ?thesis
  proof (cases g)
    case (Inl e)
    then show ?thesis
      using assms(2) g b s2 by (cases b) (auto simp: copy_volume_from_source_def run)
  next
    case (Inr x)
    show ?thesis
    proof (cases x)
      case None
      then show ?thesis
        using assms(2) g Inr b b' s2 s3 by (cases b; cases b') (auto simp: copy_volume_from_source_def run)
    next
      case (Some src)
      obtain c s4 where c: "copy_to_existing_volume_from_source med (vol_id v) i (object_capacity src) m s1 = (c, s4)"
        by (metis surj_pair)
      have s4: "vols s4 = vols s" using keepsD [OF copy_keeps refl c] s1 by simp
      obtain d s5 where d: "rollback_create_volume_from_source env med (vol_id v) s4 = (d, s5)" by (metis surj_pair)
      show ?thesis
        using assms(2) g Inr Some c s4 d undone [OF _ d]
        by (cases c; cases d) (auto simp: copy_volume_from_source_def run)
    qed
  qed
qed

lemma answered_copy:
  assumes "retry_law (en_retry env)" and "create_volume_answer env source sys med m v s = (r, s')"
  shows "case r of
      Inl e \<Rightarrow> truthy (snd source) \<and> vols s' \<in> {vols s, (vols s)(vid (vol_id v) := None)}
    | Inr reply \<Rightarrow> vols s' = vols s \<and> (\<exists>w. vol_id w = vol_id v \<and>
        rp_body reply = Some (generate_csi_create_volume_response w sys (fst source)))"
proof (cases "truthy (snd source)")
  case True
  obtain c s1 where c: "copy_volume_from_source env v (the (snd source)) (the (fst source)) m med s = (c, s1)"
    by (metis surj_pair)
  show ?thesis
    using assms(2) True c copied [OF assms(1) c]
    by (cases c) (auto simp: create_volume_answer_def run intro!: exI [of _ "v\<lparr>vol_copy_source_id := snd source\<rparr>"])
qed (use assms(2) in \<open>auto simp: create_volume_answer_def run\<close>)

text \<open>
  An existing volume is answered at once when the request has a source; so only a new volume is
  ever rolled back.
\<close>

lemma existing_has_no_source:
  assumes "find_or_create_volume med n req required se p source sys s = (Inr (Inr (Some v)), s')"
    and "truthy (snd source)"
  shows "nm p n \<notin> ran (vols s)"
proof -
  obtain g s1 where g: "get_volume med n (Some p) s = (g, s1)" by (metis surj_pair)
  show ?thesis
    using assms g get_reads [OF g]
    by (cases g) (auto simp: find_or_create_volume_def run handle_existing_volume_source_def
        split: prod.splits if_splits)
qed

lemma created:
  assumes "retry_law (en_retry env)" and "get_volume_final_name env prefix (cv_name q) med = Inr n"
    and "create_volume_on env q prefix se p source sys med s = (r, s')"
  shows "adds_one (vols s) (nm p n) (vols s') \<and>
    (\<forall>reply a. r = Inr reply \<longrightarrow> rp_body reply = Some a \<longrightarrow>
      (\<exists>v. a = generate_csi_create_volume_response v sys (fst source) \<and>
        vols s' (vid (vol_id v)) = Some (nm p n)))"
proof (cases "maximal_volume_size_in_bytes med < requested_bytes (cv_required_bytes q)")
  case True
  then show ?thesis
    using assms(2,3) by (auto simp: create_volume_on_def run Let_def build_error_response_def build_non_ok_response_def)
next
  case False
  define req where "req = requested_bytes (cv_required_bytes q)"
  define required where "required = (if req = 0 then minimal_volume_size_in_bytes med else req)"
  obtain f s1 where f: "find_or_create_volume med n req required se p source sys s = (f, s1)"
    by (metis surj_pair)
  note found = found_or_created [OF f]
  have body: "create_volume_on env q prefix se p source sys med s =
      bnd (find_or_create_volume med n req required se p source sys) (\<lambda>found.
           case found of
             Inl early \<Rightarrow> ret early
           | Inr None \<Rightarrow> raise AttributeError
           | Inr (Some v) \<Rightarrow> create_volume_answer env source sys med required v) s"
    unfolding required_def req_def using False assms(2) by (simp add: create_volume_on_def run Let_def)
  show ?thesis
  proof (cases "\<exists>v. f = Inr (Inr (Some v))")
    case True
    then obtain v where v: "f = Inr (Inr (Some v))" by auto
    obtain a s2 where a: "create_volume_answer env source sys med required v s1 = (a, s2)" by (metis surj_pair)
    note answer = answered_copy [OF assms(1) a]
    have r: "r = a" "s' = s2" using assms(3) body f v a by (simp_all add: run)
    show ?thesis
    proof (cases a)
      case (Inl e)
      then have "nm p n \<notin> ran (vols s)"
        using answer existing_has_no_source f v by auto
      with Inl answer found v r show ?thesis
        by (auto intro: adds_oneI adds_one_drop dest: ranI)
    next
      case (Inr reply)
      then show ?thesis
        using answer found v r
        by (auto intro: adds_oneI)
    qed
  next
    case False
    then show ?thesis
      using assms(3) body f found by (auto simp: run split: sum.splits option.splits)
  qed
qed

lemma deleted:
  assumes "delete_volume_on i med s = (r, s')"
  shows "vols s' = (case r of
      Inr reply \<Rightarrow> if rp_code reply = None then (vols s)(vid i := None) else vols s
    | Inl e \<Rightarrow> vols s)"
proof -
  obtain d s1 where d: "delete_volume med i s = (d, s1)" by (metis surj_pair)
  show ?thesis
    using assms d delete_drops [OF d]
    by (cases d) (auto simp: delete_volume_on_def run empty_reply_def fun_upd_idem split: if_splits)
qed

lemma expanded_keeps: "keeps (\<lambda>s. vols s = T) (expand_volume_on q i med)"
  unfolding expand_volume_on_def Let_def
  by (auto intro!: keeps_rules object_keeps expand_keeps split: option.split)

end

section \<open>The handlers on a store\<close>

text \<open>
  C14: created_volume_stored
  Creating a volume, with or without a source to copy, changes the store at most by one new
  volume under a name that was free, whatever fails on the way and whatever the roll-back
  does; and the id of every answered volume, new or existing, is that of a volume with the
  requested name.
\<close>

theorem created_volume_stored:
  assumes "volume_store med vid nm vols" and "retry_law (en_retry env)"
    and "get_volume_final_name env prefix (cv_name q) med = Inr n"
    and "create_volume_on env q prefix se p source sys med s = (r, s')"
  shows "adds_one (vols s) (nm p n) (vols s') \<and>
    (\<forall>reply a. r = Inr reply \<longrightarrow> rp_body reply = Some a \<longrightarrow>
      (\<exists>v. a = generate_csi_create_volume_response v sys (fst source) \<and>
        vols s' (vid (vol_id v)) = Some (nm p n)))"
  by (rule volume_store.created [OF assms])

text \<open>
  C28: copy_failure_rolled_back
  When looking up the source of a new volume, or copying it, raises an exception, the volume is
  deleted again, in up to five attempts.  As soon as one of them succeeds, that same exception is
  raised, and the store is as it was without the new volume.  When all five fail, the exception of
  the fifth is raised instead, and the volume is still in the store.
\<close>

theorem copy_failure_rolled_back:
  assumes "volume_store med vid nm vols" and "retry_law (en_retry env)" and "sid \<noteq> []"
    and "get_object_by_id med sid ty s = (Inl ex, s1) \<or>
      (\<exists>src s0. get_object_by_id med sid ty s = (Inr (Some src), s0) \<and>
        copy_to_existing_volume_from_source med (vol_id v) sid (object_capacity src) n s0 = (Inl ex, s1))"
    and "create_volume_answer env (Some ty, Some sid) sys med n v s = (r, s')"
  shows "\<exists>k<5. (\<forall>i<k. \<exists>e. fst (delete_volume med (vol_id v) (attempt (delete_volume med (vol_id v)) i s1)) = Inl e) \<and>
    (case delete_volume med (vol_id v) (attempt (delete_volume med (vol_id v)) k s1) of
       (Inr u, t) \<Rightarrow> r = Inl ex \<and> s' = t \<and> vols s' = (vols s)(vid (vol_id v) := None)
     | (Inl e, t) \<Rightarrow> k = 4 \<and> r = Inl e \<and> s' = t \<and> vols s' = vols s)"
proof -
  let ?del = "delete_volume med (vol_id v)"
  note drops = volume_store.delete_drops [OF assms(1)]
  from assms(4) have s1: "vols s1 = vols s"
  proof (elim disjE exE conjE)
    assume "get_object_by_id med sid ty s = (Inl ex, s1)"
    from keepsD [OF volume_store.object_keeps [OF assms(1)] refl this] show ?thesis .
  next
    fix src s0
    assume found: "get_object_by_id med sid ty s = (Inr (Some src), s0)"
      and copy: "copy_to_existing_volume_from_source med (vol_id v) sid (object_capacity src) n s0 = (Inl ex, s1)"
    show ?thesis
      using keepsD [OF volume_store.object_keeps [OF assms(1)] refl found]
        keepsD [OF volume_store.copy_keeps [OF assms(1)] refl copy] by simp
  qed
  obtain k where k: "k < 5" "\<forall>i<k. \<exists>e. fst (?del (attempt ?del i s1)) = Inl e"
    "\<forall>e. fst (?del (attempt ?del k s1)) = Inl e \<longrightarrow> Suc k = 5"
    "en_retry env (\<lambda>_. True) 5 ?del s1 = ?del (attempt ?del k s1)"
    using retry_settles [OF assms(2), where p = "\<lambda>_. True" and m = ?del and n = 5 and s = s1] by auto
  have before: "i \<le> k \<Longrightarrow> vols (attempt ?del i s1) = vols s" for i
  proof (induction i)
    case (Suc i)
    then obtain e t where "?del (attempt ?del i s1) = (Inl e, t)"
      using k(2) by (metis Suc_le_lessD prod.collapse)
    then show ?case using drops [of "vol_id v" "attempt ?del i s1"] Suc by (simp add: attempt_next del: attempt_simps(2))
  qed (simp add: s1)
  obtain d t where d: "?del (attempt ?del k s1) = (d, t)" by (metis surj_pair)
  then have "rollback_create_volume_from_source env med (vol_id v) s1 = (d, t)"
    using k(4) by (simp add: rollback_create_volume_from_source_def)
  then have r: "r = Inl (case d of Inl e \<Rightarrow> e | Inr u \<Rightarrow> ex)" "s' = t"
    using assms(3,4,5)
    by (auto simp: create_volume_answer_def copy_volume_from_source_def run split: sum.splits)
  have t: "vols t = (case d of Inl e \<Rightarrow> vols s | Inr u \<Rightarrow> (vols s)(vid (vol_id v) := None))"
    using drops [OF d] before [of k] by (cases d) simp_all
  have last: "d = Inl e \<Longrightarrow> k = 4" for e
    using k(3) unfolding d by simp
  have "case (d, t) of
       (Inr u, t) \<Rightarrow> r = Inl ex \<and> s' = t \<and> vols s' = (vols s)(vid (vol_id v) := None)
     | (Inl e, t) \<Rightarrow> k = 4 \<and> r = Inl e \<and> s' = t \<and> vols s' = vols s"
    using r t last by (cases d) simp_all
  with d have "case ?del (attempt ?del k s1) of
       (Inr u, t) \<Rightarrow> r = Inl ex \<and> s' = t \<and> vols s' = (vols s)(vid (vol_id v) := None)
     | (Inl e, t) \<Rightarrow> k = 4 \<and> r = Inl e \<and> s' = t \<and> vols s' = vols s" by (simp only:)
  then show ?thesis by (intro exI [of _ k] conjI k(1,2))
qed

text \<open>
  Deleting a volume that is answered without an error leaves no volume under the id, and every
  other volume as it was, whether the volume was there or not; otherwise nothing has changed.
\<close>

theorem delete_empties_slot:
  assumes "volume_store med vid nm vols" and "delete_volume_on i med s = (r, s')"
  shows "vols s' = (case r of
      Inr reply \<Rightarrow> if rp_code reply = None then (vols s)(vid i := None) else vols s
    | Inl e \<Rightarrow> vols s)"
  by (rule volume_store.deleted [OF assms])

text \<open>
  C13: create_twice
  Creating a volume is idempotent: when names are unique, a repeated request, also one of
  another client with another size, is answered with the very volume of the first or not
  answered with a volume, and it changes nothing.
\<close>

theorem create_twice:
  assumes "volume_store med vid nm vols" and "retry_law (en_retry env)" and "named_once (vols s)"
    and "get_volume_final_name env prefix (cv_name q) med = Inr n"
    and "get_volume_final_name env prefix (cv_name q') med = Inr n"
    and "create_volume_on env q prefix se p source sys med s = (Inr reply, s1)" and "rp_body reply = Some a"
    and "create_volume_on env q' prefix se' p source' sys med s1 = (r, s2)"
  shows "vols s2 = vols s1 \<and>
    (\<forall>reply' a'. r = Inr reply' \<longrightarrow> rp_body reply' = Some a' \<longrightarrow>
      (\<exists>v v'. a = generate_csi_create_volume_response v sys (fst source) \<and>
        a' = generate_csi_create_volume_response v' sys (fst source') \<and> vid (vol_id v) = vid (vol_id v')))"
proof -
  have first: "adds_one (vols s) (nm p n) (vols s1)"
    and "\<exists>v. a = generate_csi_create_volume_response v sys (fst source) \<and>
      vols s1 (vid (vol_id v)) = Some (nm p n)"
    using volume_store.created [OF assms(1,2,4,6)] assms(7) by auto
  then obtain v where v: "a = generate_csi_create_volume_response v sys (fst source)"
    "vols s1 (vid (vol_id v)) = Some (nm p n)" by auto
  have "named_once (vols s1)" using named_once_adds [OF first assms(3)] .
  moreover have "vols s2 = vols s1"
    using volume_store.created [OF assms(1,2,5,8)] v(2) by (auto simp: adds_one_def ran_def)
  ultimately show ?thesis
    using volume_store.created [OF assms(1,2,5,8)] v by (metis named_onceD)
qed

text \<open>
  C16: create_delete_roundtrip
  A volume that did not exist, created and answered, and then deleted by the id of the answer
  without an error, leaves the store as it was.
\<close>

theorem create_delete_roundtrip:
  assumes "volume_store med vid nm vols" and "retry_law (en_retry env)" and "nm p n \<notin> ran (vols s)"
    and "get_volume_final_name env prefix (cv_name q) med = Inr n"
    and "create_volume_on env q prefix se p source sys med s = (Inr reply, s1)" and "rp_body reply = Some a"
  shows "\<exists>v. a = generate_csi_create_volume_response v sys (fst source) \<and>
    (\<forall>dr s2. delete_volume_on (vol_id v) med s1 = (Inr dr, s2) \<longrightarrow> rp_code dr = None \<longrightarrow> vols s2 = vols s)"
proof -
  from volume_store.created [OF assms(1,2,4,5)] assms(6) obtain v where
    v: "a = generate_csi_create_volume_response v sys (fst source)" "vols s1 (vid (vol_id v)) = Some (nm p n)"
    and adds: "adds_one (vols s) (nm p n) (vols s1)" by auto
  obtain k where k: "vols s k = None" "vols s1 = (vols s)(k \<mapsto> nm p n)"
    using adds v(2) assms(3) by (auto simp: adds_one_def dest: ranI)
  then have "vid (vol_id v) = k"
    using v(2) assms(3) by (auto split: if_splits dest: ranI)
  then have "vols s2 = vols s" if "delete_volume_on (vol_id v) med s1 = (Inr dr, s2)" "rp_code dr = None" for dr s2
    using volume_store.deleted [OF assms(1) that(1)] that(2) k by (simp add: fun_upd_idem)
  then show ?thesis using v(1) by blast
qed

text \<open>Any sequence of requests to create, delete and expand volumes; only names are kept.\<close>

inductive volume_step :: "'s env \<Rightarrow> 's mediator \<Rightarrow> 's \<Rightarrow> 's \<Rightarrow> bool" for env :: "'s env" and med where
  create: "volume_step env med s (snd (create_volume_on env q prefix se p source sys med s))"
| delete: "volume_step env med s (snd (delete_volume_on i med s))"
| expand: "volume_step env med s (snd (expand_volume_on eq i med s))"

lemma volume_step_named_once:
  assumes "volume_store med vid nm vols" and "retry_law (en_retry env)"
    and "volume_step env med s s'" and "named_once (vols s)"
  shows "named_once (vols s')"
  using assms(3)
proof cases
  case (create q prefix se p source sys)
  show ?thesis
  proof (cases "get_volume_final_name env prefix (cv_name q) med")
    case (Inl e)
    then have "s' = s" using create by (simp add: create_volume_on_def run)
    then show ?thesis using assms(4) by simp
  next
    case (Inr n)
    obtain r where "create_volume_on env q prefix se p source sys med s = (r, s')"
      using create by (metis prod.collapse)
    from volume_store.created [OF assms(1,2) Inr this] have "adds_one (vols s) (nm p n) (vols s')" ..
    then show ?thesis using assms(4) by (rule named_once_adds)
  qed
next
  case (delete i)
  obtain r where "delete_volume_on i med s = (r, s')" using delete by (metis prod.collapse)
  from volume_store.deleted [OF assms(1) this] assms(4) show ?thesis
    by (auto simp: named_once_drop split: sum.splits if_splits)
next
  case (expand q i)
  obtain r where "expand_volume_on q i med s = (r, s')" using expand by (metis prod.collapse)
  from keepsD [OF volume_store.expanded_keeps [OF assms(1)] refl this] assms(4) show ?thesis by simp
qed

text \<open>
  When no two volumes have one name, this stays so under any sequence of requests to create,
  copy, delete and expand volumes, failed ones included.
\<close>

theorem volume_names_unique:
  assumes "volume_store med vid nm vols" and "retry_law (en_retry env)"
    and "named_once (vols s)" and "(volume_step env med)\<^sup>*\<^sup>* s s'"
  shows "named_once (vols s')"
  using assms(4,3) by (induction rule: rtranclp_induct) (auto intro: volume_step_named_once [OF assms(1,2)])

end
