(* ===== verification/ArrayInvariants.thy ===== *)
theory ArrayInvariants
  imports ServerProofs VolumeStore MappingTable
begin

text \<open>
  What any sequence of requests keeps of the arrays behind the server.  A request reaches an
  array only through a mediator that it takes from a pool, and a pool holds only mediators that
  were connected or put back before; so what every operation of the mediators keeps, the server
  keeps.  The two instances are the names of the volumes, which stay unique, and the access to
  them, which stays exclusive.
\<close>

section \<open>Programs that keep an invariant and give something\<close>

text \<open>\<open>gives I Q m\<close>: the program keeps \<open>I\<close>, and from \<open>I\<close> its result satisfies \<open>Q\<close>.\<close>

definition gives :: "('s \<Rightarrow> bool) \<Rightarrow> ('a \<Rightarrow> bool) \<Rightarrow> ('e, 's, 'a) prog \<Rightarrow> bool" where
  "gives I Q m \<longleftrightarrow> (\<forall>s r s'. I s \<longrightarrow> m s = (r, s') \<longrightarrow> I s' \<and> (\<forall>x. r = Inr x \<longrightarrow> Q x))"

lemma givesI: "(\<And>s r s'. I s \<Longrightarrow> m s = (r, s') \<Longrightarrow> I s' \<and> (\<forall>x. r = Inr x \<longrightarrow> Q x)) \<Longrightarrow> gives I Q m"
  unfolding gives_def by blast

lemma givesD: "gives I Q m \<Longrightarrow> I s \<Longrightarrow> m s = (r, s') \<Longrightarrow> I s' \<and> (\<forall>x. r = Inr x \<longrightarrow> Q x)"
  unfolding gives_def by blast

lemma gives_keeps: "gives I (\<lambda>_. True) m \<longleftrightarrow> keeps I m"
  by (auto simp: gives_def keeps_def) (metis snd_conv prod.collapse)+

lemma gives_weaken: "gives I Q m \<Longrightarrow> (\<And>x. Q x \<Longrightarrow> R x) \<Longrightarrow> gives I R m"
  unfolding gives_def by blast

lemma keeps_gives: "gives I Q m \<Longrightarrow> keeps I m"
  by (metis gives_keeps gives_weaken)

lemma keeps_pair [keeps_rules]: "keeps P (Pair r)"
  by (simp add: keeps_def)

named_theorems gives_rules

lemma gives_ret [gives_rules]: "Q x \<Longrightarrow> gives I Q (ret x)"
  and gives_raise [gives_rules]: "gives I Q (raise e)"
  by (simp_all add: gives_def)

lemma gives_bnd: "gives I R m \<Longrightarrow> (\<And>x. R x \<Longrightarrow> gives I Q (f x)) \<Longrightarrow> gives I Q (bnd m f)"
  by (rule givesI, erule bnd_cases) (blast dest: givesD)+

lemma gives_bnd_any: "keeps I m \<Longrightarrow> (\<And>x. gives I Q (f x)) \<Longrightarrow> gives I Q (bnd m f)"
  by (rule gives_bnd [where R = "\<lambda>_. True"]) (simp_all add: gives_keeps)

lemma gives_try_except:
  "gives I Q m \<Longrightarrow> (\<And>e. gives I Q (h e)) \<Longrightarrow> gives I Q (try_except m h)"
  by (rule givesI)
    (auto simp: run split: prod.split_asm sum.split_asm dest: givesD)

section \<open>Pools of good connections\<close>

text \<open>
  \<open>W\<close> is kept of the world, and \<open>G\<close> holds of every connection that waits in a queue.
\<close>

definition stocked_pool :: "('s \<Rightarrow> bool) \<Rightarrow> ('i \<Rightarrow> bool) \<Rightarrow> 'i pool \<times> 's \<Rightarrow> bool" where
  "stocked_pool W G ps \<longleftrightarrow> W (snd ps) \<and> (\<forall>i \<in> set (channel (fst ps)). G i)"

definition stocked :: "('s \<Rightarrow> bool) \<Rightarrow> ('s mediator \<Rightarrow> bool) \<Rightarrow> 's ctl \<Rightarrow> bool" where
  "stocked W G c \<longleftrightarrow> W (ctl_array c) \<and>
     (\<forall>key a. map_of (ctl_agents c) key = Some a \<longrightarrow> (\<forall>i \<in> set (channel (ag_pool a)). G i))"

lemma stocked_agent:
  "stocked W G c \<Longrightarrow> map_of (ctl_agents c) key = Some a \<Longrightarrow> stocked_pool W G (ag_pool a, ctl_array c)"
  unfolding stocked_def stocked_pool_def by (metis fst_conv snd_conv)

lemma keeps_on_array: "keeps W m \<Longrightarrow> keeps (stocked W G) (on_array m)"
  by (rule keepsI) (auto simp: on_array_def stocked_def split: prod.split dest: keepsD)

text \<open>
  What is asked of the environment: connecting gives a good connection, and everything that
  is done apart from a request's own work keeps the world.
\<close>

locale good_links =
  fixes env :: "'s env" and fin :: "'s agent \<Rightarrow> 's \<Rightarrow> 's"
    and W :: "'s \<Rightarrow> bool" and G :: "'s mediator \<Rightarrow> bool"
  assumes sockets: "keeps W (en_connect_ex env h p)"
    and connects: "gives W G (med_class env k u w eps)"
    and finalizes: "W s \<Longrightarrow> (\<And>i. i \<in> set (channel (ag_pool a)) \<Longrightarrow> G i) \<Longrightarrow> W (fin a s)"
    and waits: "gives (stocked_pool W G) G (en_wait env)"
    and checks: "G med \<Longrightarrow> keeps W (is_active med)"
    and disconnects: "G med \<Longrightarrow> keeps W (disconnect med)"
begin

lemma take_active_stocked:
  "stocked_pool W G (p, s) \<Longrightarrow> take_active is_active disconnect (p, s) = (r, ps') \<Longrightarrow>
   stocked_pool W G ps' \<and> (\<forall>i. r = Inr (Some i) \<longrightarrow> G i)"
proof (induction "length (channel p)" arbitrary: p s)
  case 0
  then show ?case by (auto simp: take_active.simps channel_get_def)
next
  case (Suc n)
  then obtain i rest where ch: "channel p = i # rest" by (cases "channel p") auto
  then have i: "G i" and W: "W s" and rest: "\<forall>j \<in> set rest. G j"
    using Suc.prems(1) by (auto simp: stocked_pool_def)
  obtain b s1 where b: "is_active i s = (b, s1)" by (metis surj_pair)
  have s1: "W s1" by (rule keepsD [OF checks [OF i] W b])
  let ?p1 = "p\<lparr>channel := rest\<rparr>"
  have got: "channel_get p = Some (i, ?p1)" using ch by (simp add: channel_get_def)
  show ?case
  proof (cases "b = Inr False")
    case True
    then have "take_active is_active disconnect (release_slot ?p1, snd (disconnect i s1)) = (r, ps')"
      using Suc.prems(2) got b by (simp add: take_active.simps [of _ _ p])
    moreover have "stocked_pool W G (release_slot ?p1, snd (disconnect i s1))"
      using keeps_apply [OF disconnects [OF i] s1] rest by (simp add: stocked_pool_def release_slot_def)
    ultimately show ?thesis
      using Suc.hyps ch by (intro Suc.hyps(1)) (auto simp: release_slot_def)
  next
    case False
    then show ?thesis
      using Suc.prems(2) got b s1 rest i
      by (auto simp: take_active.simps [of _ _ p] stocked_pool_def split: sum.splits bool.splits if_splits)
  qed
qed

lemma on_pool_stocked:
  "(\<And>p. channel (snd (f p)) = channel p) \<Longrightarrow> keeps (stocked_pool W G) (on_pool f)"
  by (rule keepsI) (auto simp: on_pool_def stocked_pool_def split: prod.split, metis snd_conv)

lemma on_world_stocked: "gives W Q m \<Longrightarrow> gives (stocked_pool W G) Q (on_world m)"
  by (rule givesI) (auto simp: on_world_def stocked_pool_def split: prod.splits dest: givesD)

lemma pool_get_stocked:
  "gives (stocked_pool W G) G
     (pool_get is_active disconnect (med_class env k) (en_wait env))"
proof -
  have "gives (stocked_pool W G) (\<lambda>x. \<forall>i. x = Some i \<longrightarrow> G i) (take_active is_active disconnect)"
    by (rule givesI) (auto dest: take_active_stocked)
  then show ?thesis
    unfolding pool_get_def
    by (rule gives_bnd)
      (auto intro!: gives_rules gives_bnd_any gives_try_except on_pool_stocked on_world_stocked connects waits
        simp: reserve_slot_def release_slot_def Let_def split: option.split)
qed

lemma pool_put_stocked: "G i \<Longrightarrow> keeps (stocked_pool W G) (pool_put disconnect i)"
proof -
  assume i: "G i"
  have "keeps (stocked_pool W G)
      (on_pool (\<lambda>p. case channel_put i p of None \<Rightarrow> (True, p) | Some p' \<Rightarrow> (False, p')))"
    using i by (intro keepsI) (auto simp: on_pool_def channel_put_def stocked_pool_def split: prod.splits if_splits)
  moreover have "keeps (stocked_pool W G) (on_world (disconnect i))"
    using on_world_stocked disconnects [OF i] unfolding gives_keeps [symmetric] by blast
  moreover have "keeps (stocked_pool W G) (on_pool check_discard)"
    by (rule on_pool_stocked) (simp add: check_discard_def release_slot_def Let_def)
  ultimately show ?thesis
    unfolding pool_put_def by (intro keeps_rules)
qed

lemma new_pool_stocked:
  "gives W (\<lambda>p. \<forall>i \<in> set (channel p). G i)
     (ConnectionPool is_active disconnect (med_class env k) (en_wait env) eps u w n mx)"
proof (rule givesI)
  fix s r s'
  assume W: "W s" and run: "ConnectionPool is_active disconnect (med_class env k) (en_wait env) eps u w n mx s = (r, s')"
  let ?fill = "for_each (\<lambda>_. bnd (pool_get is_active disconnect (med_class env k) (en_wait env)) (pool_put disconnect))
    (replicate n ())"
  have "gives (stocked_pool W G) (\<lambda>_. True)
      (bnd (pool_get is_active disconnect (med_class env k) (en_wait env)) (pool_put disconnect))"
    by (rule gives_bnd [OF pool_get_stocked]) (simp add: gives_keeps pool_put_stocked)
  then have "keeps (stocked_pool W G) ?fill" by (simp add: gives_keeps keeps_for_each)
  moreover have "stocked_pool W G (empty_pool eps u w mx, s)"
    using W by (simp add: stocked_pool_def empty_pool_def)
  ultimately have "stocked_pool W G (snd (?fill (empty_pool eps u w mx, s)))" by (rule keeps_apply)
  then show "W s' \<and> (\<forall>p. r = Inr p \<longrightarrow> (\<forall>i \<in> set (channel p). G i))"
    using run by (auto simp: ConnectionPool_def stocked_pool_def split: prod.splits sum.splits)
qed

text \<open>The agents of the controller.\<close>

lemma detect_keeps: "keeps W (detect_array_type env eps)"
proof -
  have endpoints: "keeps W (any_endpoint_answers env p es)" for p es
    by (induction es)
      (simp_all only: any_endpoint_answers.simps socket_connect_test_def, (intro keeps_rules sockets | assumption)+)
  have "keeps W (detect_among env ks eps)" for ks
  proof (induction ks)
    case (Cons x ks)
    then show ?case
      by (cases x) (simp only: detect_among.simps, intro keeps_rules endpoints)
  qed (simp only: detect_among.simps keeps_ret)
  then show ?thesis
    unfolding detect_array_type_def by (auto intro!: keeps_rules split: option.split)
qed

lemma agent_stocked:
  "gives W (\<lambda>a. \<forall>i \<in> set (channel (ag_pool a)). G i) (StorageAgent env eps u w ty)"
proof -
  have made: "gives W (\<lambda>a. \<forall>i \<in> set (channel (ag_pool a)). G i)
      (case array_type_to_mediator t of
         None \<Rightarrow> raise KeyError
       | Some k \<Rightarrow>
           bnd (ConnectionPool is_active disconnect (med_class env k) (en_wait env)
                  eps u w 1 (int (min (kind_max_connections k) CSI_CONTROLLER_SERVER_WORKERS))) (\<lambda>pool.
             ret \<lparr>ag_username = u, ag_password = w, ag_endpoints = eps,
                  ag_endpoint_key = join ENDPOINTS_SEPARATOR eps, ag_med_class = k, ag_pool = pool\<rparr>))" for t
    by (auto intro!: gives_rules gives_bnd [OF new_pool_stocked] split: option.split)
  have "keeps W (if truthy ty then ret (the ty) else detect_array_type env eps)"
    by (intro keeps_rules detect_keeps)
  then show ?thesis
    unfolding StorageAgent_def by (rule gives_bnd_any) (rule made)
qed

lemma stocked_set_agent:
  "stocked W G c \<Longrightarrow> W s \<Longrightarrow> \<forall>i \<in> set (channel (ag_pool a)). G i \<Longrightarrow>
   stocked W G (c\<lparr>ctl_agents := dict_set key a (ctl_agents c), ctl_array := s\<rparr>)"
  unfolding stocked_def by simp

lemma create_agent_stocked: "keeps (stocked W G) (create_agent env info ty)"
proof (rule keepsI)
  fix c assume c: "stocked W G c"
  let ?new = "StorageAgent env (ci_array_addresses info) (ci_user info) (ci_password info) ty"
  obtain r s where new: "?new (ctl_array c) = (r, s)" by (metis surj_pair)
  have W: "W (ctl_array c)" using c by (simp add: stocked_def)
  note made = givesD [OF agent_stocked W new]
  show "stocked W G (snd (create_agent env info ty c))"
    using c new made by (cases r) (auto simp: create_agent_def run on_array_def stocked_def)
qed

lemma get_agent_stocked: "keeps (stocked W G) (get_agent env fin info ty)"
proof (rule keepsI)
  fix c assume c: "stocked W G c"
  show "stocked W G (snd (get_agent env fin info ty c))"
  proof (cases "map_of (ctl_agents c) (agent_key_of info)")
    case None
    then show ?thesis
      using c keeps_apply [OF create_agent_stocked c] by (simp add: get_agent_def)
  next
    case (Some a)
    have "stocked W G (c\<lparr>ctl_agents := dict_del (agent_key_of info) (ctl_agents c), ctl_array := fin a (ctl_array c)\<rparr>)"
      using c finalizes [of "ctl_array c" a] stocked_agent [OF c Some]
      by (simp add: stocked_def stocked_pool_def)
    with c Some keeps_apply [OF create_agent_stocked this] show ?thesis
      by (simp add: get_agent_def)
  qed
qed

lemma on_agent_stocked:
  assumes "\<And>a. gives (stocked_pool W G) Q (m a)"
  shows "gives (stocked W G) Q (on_agent key m)"
proof (rule givesI)
  fix c r c' assume c: "stocked W G c" and run: "on_agent key m c = (r, c')"
  show "stocked W G c' \<and> (\<forall>x. r = Inr x \<longrightarrow> Q x)"
  proof (cases "map_of (ctl_agents c) key")
    case None
    then show ?thesis using c run by (auto simp: on_agent_def)
  next
    case (Some a)
    obtain x p s where x: "m a (ag_pool a, ctl_array c) = (x, (p, s))" by (metis surj_pair)
    from givesD [OF assms stocked_agent [OF c Some] x] have
      "W s" "\<forall>i \<in> set (channel p). G i" "\<forall>y. x = Inr y \<longrightarrow> Q y"
      by (auto simp: stocked_pool_def)
    with stocked_set_agent [OF c, of s "a\<lparr>ag_pool := p\<rparr>" key] show ?thesis
      using run Some x by (auto simp: on_agent_def)
  qed
qed

lemma with_mediator_stocked:
  assumes "\<And>med. G med \<Longrightarrow> keeps W (body med)"
  shows "keeps (stocked W G) (with_mediator env fin info ty body)"
proof -
  have lent: "gives (stocked W G) G (lend_mediator env key)" for key
    unfolding lend_mediator_def
    by (rule on_agent_stocked) (auto intro!: gives_try_except pool_get_stocked gives_rules)
  have put_back: "G med \<Longrightarrow> keeps (stocked W G) (return_mediator key med)" for key med
    unfolding return_mediator_def
    by (rule keeps_gives, rule on_agent_stocked [where Q = "\<lambda>_. True"])
      (unfold gives_keeps, rule pool_put_stocked)
  have "gives (stocked W G) (\<lambda>_. True) (with_mediator env fin info ty body)"
    unfolding with_mediator_def
    by (intro gives_bnd_any get_agent_stocked gives_bnd [OF lent])
      (unfold gives_keeps, intro keeps_finally keeps_on_array assms put_back)
  then show ?thesis by (simp add: gives_keeps)
qed

end

section \<open>The server\<close>

text \<open>When the bodies of the handlers keep \<open>W\<close> too, every request does.\<close>

locale good_server = good_links +
  assumes create_body: "G med \<Longrightarrow> keeps W (create_volume_on env cv prefix se pool source sys med)"
    and delete_body: "G med \<Longrightarrow> keeps W (delete_volume_on i med)"
    and expand_body: "G med \<Longrightarrow> keeps W (expand_volume_on ev i med)"
    and publish_body: "G med \<Longrightarrow> keeps W (map_volume_by_initiators (en_retry_map env) med i ini)"
    and unpublish_body: "G med \<Longrightarrow> keeps W (unmap_volume_by_initiators (en_retry env) med i ini)"
    and create_snapshot_body: "G med \<Longrightarrow> keeps W (create_snapshot_on env cs prefix spool i med)"
    and delete_snapshot_body: "G med \<Longrightarrow> keeps W (delete_snapshot_on i med)"

inductive array_step ::
  "'s env \<Rightarrow> ('s agent \<Rightarrow> 's \<Rightarrow> 's) \<Rightarrow> publish_config \<Rightarrow> json \<Rightarrow> ('s \<Rightarrow> bool) \<Rightarrow> 's ctl \<Rightarrow> 's ctl \<Rightarrow> bool"
  for env fin cfg identity W
where
  request: "serve env fin cfg identity q c = (out, c') \<Longrightarrow> array_step env fin cfg identity W c c'"
| outside: "W s \<Longrightarrow> array_step env fin cfg identity W c (c\<lparr>ctl_array := s\<rparr>)"

definition array_init :: "('s \<Rightarrow> bool) \<Rightarrow> 's ctl \<Rightarrow> bool" where
  "array_init W c \<longleftrightarrow> ctl_agents c = [] \<and> W (ctl_array c)"

context good_server
begin

lemma handlers_stocked:
  "keeps (stocked W G) (CreateVolume env fin cv)" "keeps (stocked W G) (DeleteVolume env fin dv)"
  "keeps (stocked W G) (ControllerPublishVolume env fin cfg pv)"
  "keeps (stocked W G) (ControllerUnpublishVolume env fin uv)"
  "keeps (stocked W G) (CreateSnapshot env fin cs)" "keeps (stocked W G) (DeleteSnapshot env fin ds)"
  "keeps (stocked W G) (ControllerExpandVolume env fin ev)"
proof -
  note bodies = create_body delete_body expand_body publish_body unpublish_body
    create_snapshot_body delete_snapshot_body
  note rules = keeps_handled keeps_bnd_lift keeps_rules keeps_on_array detect_keeps
    with_mediator_stocked bodies
  show "keeps (stocked W G) (CreateVolume env fin cv)" "keeps (stocked W G) (DeleteVolume env fin dv)"
    "keeps (stocked W G) (ControllerPublishVolume env fin cfg pv)"
    "keeps (stocked W G) (ControllerUnpublishVolume env fin uv)"
    "keeps (stocked W G) (CreateSnapshot env fin cs)" "keeps (stocked W G) (DeleteSnapshot env fin ds)"
    "keeps (stocked W G) (ControllerExpandVolume env fin ev)"
    unfolding CreateVolume_def create_volume_from_def DeleteVolume_def ControllerPublishVolume_def
      ControllerUnpublishVolume_def CreateSnapshot_def DeleteSnapshot_def ControllerExpandVolume_def
    by (auto intro!: rules split: sum.split prod.split option.split)
qed

lemma serve_stocked:
  assumes "stocked W G c"
  shows "stocked W G (snd (serve env fin cfg identity q c))"
  using assms
  by (cases q) (auto simp: answered_state ValidateVolumeCapabilities_def ListVolumes_def GetCapacity_def
      GetPluginInfo_def intro!: keeps_apply [where P = "stocked W G"] handlers_stocked keeps_handled keeps_rules)

lemma steps_stocked:
  assumes "array_step env fin cfg identity W c c'" and "stocked W G c"
  shows "stocked W G c'"
  using assms(1)
proof cases
  case (request q out)
  with serve_stocked [OF assms(2)] show ?thesis by (metis snd_conv)
next
  case (outside s)
  with assms(2) show ?thesis by (simp add: stocked_def)
qed

lemma init_stocked: "array_init W c \<Longrightarrow> stocked W G c"
  by (simp add: array_init_def stocked_def)

end

sublocale good_server \<subseteq> arrays: invariant_system "array_init W" "array_step env fin cfg identity W" "stocked W G"
  for cfg identity
  by unfold_locales (rule init_stocked, assumption, rule steps_stocked)

context good_server
begin

lemma reachable_kept:
  assumes "reachable (array_init W) (array_step env fin cfg identity W) c" shows "W (ctl_array c)"
  using arrays.reachable_inv [OF assms] by (simp add: stocked_def)

end

section \<open>Unique names\<close>

text \<open>
  \<open>changes_one t x t'\<close>: at most one object with the name \<open>x\<close>, which was free, was added, or only
  objects with that name are gone.
\<close>

definition changes_one :: "('k \<Rightarrow> 'n option) \<Rightarrow> 'n \<Rightarrow> ('k \<Rightarrow> 'n option) \<Rightarrow> bool" where
  "changes_one t x t' \<longleftrightarrow> adds_one t x t' \<or> (\<forall>k. t' k = t k \<or> t k = Some x \<and> t' k = None)"

lemma adds_changes_one: "adds_one t x t' \<Longrightarrow> changes_one t x t'"
  by (simp add: changes_one_def)

lemma changes_one_drops:
  assumes "adds_one t x t1" and "\<forall>k. t' k = t1 k \<or> t1 k = Some x \<and> t' k = None"
  shows "changes_one t x t'"
proof (cases "t1 = t")
  case True
  with assms(2) show ?thesis by (simp add: changes_one_def)
next
  case False
  then obtain w where w: "x \<notin> ran t" "t w = None" "t1 = t(w \<mapsto> x)"
    using assms(1) by (auto simp: adds_one_def)
  then have "t' k = t k" if "k \<noteq> w" for k
    using assms(2) that by (metis fun_upd_other ranI)
  moreover have "t' w = Some x \<or> t' w = None" using assms(2) w by (metis fun_upd_same)
  ultimately have "t' = t1 \<or> t' = t" using w by (metis ext fun_upd_other fun_upd_same)
  with assms(1) show ?thesis by (auto intro: adds_changes_one)
qed

lemma named_once_changes: "changes_one t x t' \<Longrightarrow> named_once t \<Longrightarrow> named_once t'"
  unfolding changes_one_def
proof (elim disjE)
  assume t': "\<forall>k. t' k = t k \<or> t k = Some x \<and> t' k = None" and "named_once t"
  then show "named_once t'" unfolding named_once_def by (metis option.distinct(1))
qed (rule named_once_adds)

text \<open>
  A mediator that keeps a store of volumes and has nothing else that changes it but snapshots.
  Making one is one change; a roll-back may also remove an object that had the name before.
\<close>

locale volume_server = volume_store +
  assumes alive_keeps: "keeps (\<lambda>s. vols s = T) (is_active med)"
    and disconnect_keeps: "keeps (\<lambda>s. vols s = T) (disconnect med)"
    and host_keeps: "keeps (\<lambda>s. vols s = T) (get_host_by_host_identifiers med ini)"
    and wwns_keep: "keeps (\<lambda>s. vols s = T) (get_array_fc_wwns med h)"
    and targets_keep: "keeps (\<lambda>s. vols s = T) (get_iscsi_targets_by_iqn med)"
    and mappings_keep: "keeps (\<lambda>s. vols s = T) (get_volume_mappings med i)"
    and map_keeps: "keeps (\<lambda>s. vols s = T) (map_volume med i h)"
    and unmap_keeps: "keeps (\<lambda>s. vols s = T) (unmap_volume med i h)"
    and snapshot_keeps: "keeps (\<lambda>s. vols s = T) (get_snapshot med i n sp)"
    and snapshot_changes: "create_snapshot med i n sp s = (rs, s') \<Longrightarrow>
      \<exists>q. changes_one (vols s) (nm q n) (vols s') \<and>
        (\<forall>sn. rs = Inr sn \<longrightarrow> vols s' (vid (snap_id sn)) = Some (nm q n))"
    and snapshot_drops: "delete_snapshot med i s = (rd, s') \<Longrightarrow>
      vols s' = (case rd of Inl e \<Rightarrow> vols s | Inr u \<Rightarrow> (vols s)(vid i := None))"
begin

lemma frame_unique: "(\<And>T. keeps (\<lambda>s. vols s = T) m) \<Longrightarrow> keeps (\<lambda>s. named_once (vols s)) m"
  unfolding keeps_def by simp

lemma link_unique:
  "keeps (\<lambda>s. named_once (vols s)) (is_active med)" "keeps (\<lambda>s. named_once (vols s)) (disconnect med)"
  by (rule frame_unique, rule alive_keeps disconnect_keeps)+

lemma create_unique:
  assumes "retry_law (en_retry env)"
  shows "keeps (\<lambda>s. named_once (vols s)) (create_volume_on env cv prefix se p source sys med)"
proof (rule keepsI)
  fix s assume "named_once (vols s)"
  then show "named_once (vols (snd (create_volume_on env cv prefix se p source sys med s)))"
    using created [OF assms, of prefix cv _ se p source sys s]
    by (cases "get_volume_final_name env prefix (cv_name cv) med";
        cases "create_volume_on env cv prefix se p source sys med s")
      (auto simp: create_volume_on_def intro: named_once_adds)
qed

lemma delete_unique: "keeps (\<lambda>s. named_once (vols s)) (delete_volume_on i med)"
proof (rule keepsI)
  fix s assume "named_once (vols s)"
  then show "named_once (vols (snd (delete_volume_on i med s)))"
    using deleted [of i s]
    by (cases "delete_volume_on i med s") (auto simp: named_once_drop split: sum.splits)
qed

lemma publish_unique:
  assumes "retry_law retry"
  shows "keeps (\<lambda>s. named_once (vols s)) (map_volume_by_initiators retry med i ini)"
proof (rule frame_unique)
  fix T
  have again: "keeps (\<lambda>s. vols s = T) (map_volume_retries med i h ex n)" for h ex n
    by (induction n) (simp_all only: map_volume_retries.simps, (intro keeps_rules map_keeps | assumption)+)
  have to_host: "keeps (\<lambda>s. vols s = T) (map_to_host med i h ct ai)" for h ct ai
    unfolding map_to_host_def map_volume_with_retries_def
    by (auto intro!: keeps_rules mappings_keep map_keeps again)
  have "keeps (\<lambda>s. vols s = T) (map_volume_once med i ini)"
    unfolding map_volume_once_def get_array_initiators_def Let_def
    by (auto intro!: keeps_rules host_keeps wwns_keep targets_keep to_host split: prod.split)
  then show "keeps (\<lambda>s. vols s = T) (map_volume_by_initiators retry med i ini)"
    unfolding map_volume_by_initiators_def by (rule keeps_retry [OF assms])
qed

lemma unpublish_unique:
  assumes "retry_law retry"
  shows "keeps (\<lambda>s. named_once (vols s)) (unmap_volume_by_initiators retry med i ini)"
  unfolding unmap_volume_by_initiators_def unmap_volume_once_def
  by (auto intro!: frame_unique keeps_retry [OF assms] keeps_rules host_keeps unmap_keeps split: prod.split)

lemma made_snapshot_unique: "keeps (\<lambda>s. named_once (vols s)) (create_snapshot med i n sp)"
  by (rule keepsI) (metis named_once_changes prod.collapse snapshot_changes)

lemma create_snapshot_unique: "keeps (\<lambda>s. named_once (vols s)) (create_snapshot_on env cs prefix sp i med)"
proof -
  have answer: "keeps P (\<lambda>s. (Inr (g s), s))" for P and g :: "'a \<Rightarrow> create_snapshot_response reply"
    by (simp add: keeps_def)
  show ?thesis
    unfolding create_snapshot_on_def
    by (intro keeps_rules frame_unique [OF snapshot_keeps])
      (auto intro!: keeps_rules made_snapshot_unique answer split: option.split sum.split)
qed

lemma delete_snapshot_unique: "keeps (\<lambda>s. named_once (vols s)) (delete_snapshot_on i med)"
proof -
  have "keeps (\<lambda>s. named_once (vols s)) (delete_snapshot med i)"
  proof (rule keepsI)
    fix s assume "named_once (vols s)"
    then show "named_once (vols (snd (delete_snapshot med i s)))"
      using snapshot_drops [of i s]
      by (cases "delete_snapshot med i s") (auto simp: named_once_drop split: sum.splits)
  qed
  then show ?thesis unfolding delete_snapshot_on_def by (auto intro!: keeps_rules)
qed

lemma expand_unique: "keeps (\<lambda>s. named_once (vols s)) (expand_volume_on ev i med)"
  by (rule frame_unique [OF expanded_keeps])

end

text \<open>The arrays behind a server may name their volumes each in its own way.\<close>

definition names_volumes :: "('s \<Rightarrow> 'k \<Rightarrow> 'n option) \<Rightarrow> 's mediator \<Rightarrow> bool" where
  "names_volumes vols med \<longleftrightarrow> (\<exists>vid nm. volume_server med vid nm vols)"

lemma names_server:
  assumes "good_links env fin (\<lambda>s. named_once (vols s)) (names_volumes vols)"
    and "retry_law (en_retry env)" and "retry_law (en_retry_map env)"
  shows "good_server env fin (\<lambda>s. named_once (vols s)) (names_volumes vols)"
proof (rule good_server.intro [OF assms(1)], unfold_locales)
qed (auto simp: names_volumes_def
    intro: volume_server.create_unique [OF _ assms(2)] volume_server.delete_unique volume_server.expand_unique
      volume_server.publish_unique [OF _ assms(3)] volume_server.unpublish_unique [OF _ assms(2)]
      volume_server.create_snapshot_unique volume_server.delete_snapshot_unique)

text \<open>
  C1: server_names_unique
  After any sequence of requests of any kind, also failed ones and those of other controllers
  that keep it, no two volumes or snapshots have one name, when this holds at the start: given
  that connecting yields mediators that keep a store of volumes.
\<close>

theorem server_names_unique:
  assumes "good_links env fin (\<lambda>s. named_once (vols s)) (names_volumes vols)"
    and "retry_law (en_retry env)" and "retry_law (en_retry_map env)"
    and "reachable (array_init (\<lambda>s. named_once (vols s)))
      (array_step env fin cfg identity (\<lambda>s. named_once (vols s))) c"
  shows "named_once (vols (ctl_array c))"
  by (rule good_server.reachable_kept [OF names_server [OF assms(1-3)] assms(4)])

section \<open>Exclusive access\<close>

definition no_more :: "('k \<Rightarrow> string \<Rightarrow> lun option) \<Rightarrow> ('k \<Rightarrow> string \<Rightarrow> lun option) \<Rightarrow> bool" where
  "no_more t t' \<longleftrightarrow> (\<forall>k h. t' k h \<noteq> None \<longrightarrow> t k h \<noteq> None)"

lemma one_host_only: "one_host t \<Longrightarrow> one_host (t(k := [h \<mapsto> l]))"
  by (auto simp: one_host_def split: if_splits)

text \<open>
  A mediator that keeps a table of mappings, to which nothing but publishing adds one; deleting
  a volume may drop its mappings.
\<close>

locale mapping_server = mapping_table +
  assumes alive_fewer: "keeps (\<lambda>s. no_more T (tbl s)) (is_active med)"
    and disconnect_fewer: "keeps (\<lambda>s. no_more T (tbl s)) (disconnect med)"
    and get_fewer: "keeps (\<lambda>s. no_more T (tbl s)) (get_volume med n gp)"
    and efficiency_fewer: "keeps (\<lambda>s. no_more T (tbl s)) (validate_supported_space_efficiency med se)"
    and create_fewer: "keeps (\<lambda>s. no_more T (tbl s)) (create_volume med n sz se p)"
    and copy_fewer: "keeps (\<lambda>s. no_more T (tbl s)) (copy_to_existing_volume_from_source med i j c m)"
    and delete_fewer: "keeps (\<lambda>s. no_more T (tbl s)) (delete_volume med i)"
    and expand_fewer: "keeps (\<lambda>s. no_more T (tbl s)) (expand_volume med i m)"
    and object_fewer: "keeps (\<lambda>s. no_more T (tbl s)) (get_object_by_id med i ty)"
    and snapshot_fewer: "keeps (\<lambda>s. no_more T (tbl s)) (get_snapshot med i n sp)"
    and create_snapshot_fewer: "keeps (\<lambda>s. no_more T (tbl s)) (create_snapshot med i n sp)"
    and delete_snapshot_fewer: "keeps (\<lambda>s. no_more T (tbl s)) (delete_snapshot med i)"
begin

lemma frame_exclusive: "(\<And>T. keeps (\<lambda>s. no_more T (tbl s)) m) \<Longrightarrow> keeps (\<lambda>s. one_host (tbl s)) m"
  unfolding keeps_def no_more_def by (metis (no_types, lifting) one_host_mono)

lemma link_exclusive:
  "keeps (\<lambda>s. one_host (tbl s)) (is_active med)" "keeps (\<lambda>s. one_host (tbl s)) (disconnect med)"
  by (rule frame_exclusive, rule alive_fewer disconnect_fewer)+

lemma create_exclusive:
  assumes "retry_law (en_retry env)"
  shows "keeps (\<lambda>s. one_host (tbl s)) (create_volume_on env cv prefix se p source sys med)"
proof (rule frame_exclusive)
  fix T
  have found: "keeps (\<lambda>s. no_more T (tbl s)) (find_or_create_volume med n q rq se p source sys)" for n q rq
    unfolding find_or_create_volume_def
    by (cases source) (auto intro!: keeps_rules get_fewer efficiency_fewer create_fewer split: option.splits)
  have undone: "keeps (\<lambda>s. no_more T (tbl s)) (rollback_create_volume_from_source env med i)" for i
    unfolding rollback_create_volume_from_source_def by (rule keeps_retry [OF assms delete_fewer])
  have "keeps (\<lambda>s. no_more T (tbl s)) (create_volume_answer env source sys med m v)" for m v
    unfolding create_volume_answer_def copy_volume_from_source_def
    by (auto intro!: keeps_rules undone object_fewer copy_fewer split: option.split)
  then show "keeps (\<lambda>s. no_more T (tbl s)) (create_volume_on env cv prefix se p source sys med)"
    unfolding create_volume_on_def Let_def
    by (auto intro!: keeps_rules found split: sum.split option.split)
qed

lemma delete_exclusive: "keeps (\<lambda>s. one_host (tbl s)) (delete_volume_on i med)"
  unfolding delete_volume_on_def by (auto intro!: frame_exclusive keeps_rules delete_fewer)

lemma expand_exclusive: "keeps (\<lambda>s. one_host (tbl s)) (expand_volume_on ev i med)"
  unfolding expand_volume_on_def Let_def
  by (auto intro!: frame_exclusive keeps_rules object_fewer expand_fewer split: option.split)

lemma create_snapshot_exclusive: "keeps (\<lambda>s. one_host (tbl s)) (create_snapshot_on env cs prefix sp i med)"
proof (rule frame_exclusive)
  fix T
  have answer: "keeps P (\<lambda>s. (Inr (g s), s))" for P and g :: "'a \<Rightarrow> create_snapshot_response reply"
    by (simp add: keeps_def)
  show "keeps (\<lambda>s. no_more T (tbl s)) (create_snapshot_on env cs prefix sp i med)"
    unfolding create_snapshot_on_def
    by (auto intro!: keeps_rules snapshot_fewer create_snapshot_fewer answer split: option.split sum.split)
qed

lemma delete_snapshot_exclusive: "keeps (\<lambda>s. one_host (tbl s)) (delete_snapshot_on i med)"
  unfolding delete_snapshot_on_def by (auto intro!: frame_exclusive keeps_rules delete_snapshot_fewer)

lemma publish_exclusive:
  assumes "retry_law retry"
  shows "keeps (\<lambda>s. one_host (tbl s)) (map_volume_by_initiators retry med i ini)"
proof (rule keepsI)
  fix s assume s: "one_host (tbl s)"
  obtain r s' where run: "map_volume_by_initiators retry med i ini s = (r, s')" by (metis surj_pair)
  have "one_host (tbl s')"
    using published [OF assms run] s by (cases r) (auto intro: one_host_only)
  with run show "one_host (tbl (snd (map_volume_by_initiators retry med i ini s)))" by simp
qed

lemma unpublish_exclusive:
  assumes "retry_law retry"
  shows "keeps (\<lambda>s. one_host (tbl s)) (unmap_volume_by_initiators retry med i ini)"
proof (rule keepsI)
  fix s assume s: "one_host (tbl s)"
  obtain r s' where run: "unmap_volume_by_initiators retry med i ini s = (r, s')" by (metis surj_pair)
  have "tbl s' k h \<noteq> None \<Longrightarrow> tbl s k h \<noteq> None" for k h
    using unpublished [OF assms run] by (cases r) (auto split: if_splits)
  with s run show "one_host (tbl (snd (unmap_volume_by_initiators retry med i ini s)))"
    by (auto intro: one_host_mono)
qed

end

definition maps_volumes :: "('s \<Rightarrow> 'k \<Rightarrow> string \<Rightarrow> lun option) \<Rightarrow> 's mediator \<Rightarrow> bool" where
  "maps_volumes tbl med \<longleftrightarrow> (\<exists>vid. mapping_server med vid tbl)"

lemma exclusive_server:
  assumes "good_links env fin (\<lambda>s. one_host (tbl s)) (maps_volumes tbl)"
    and "retry_law (en_retry env)" and "retry_law (en_retry_map env)"
  shows "good_server env fin (\<lambda>s. one_host (tbl s)) (maps_volumes tbl)"
proof (rule good_server.intro [OF assms(1)], unfold_locales)
qed (auto simp: maps_volumes_def
    intro: mapping_server.create_exclusive [OF _ assms(2)] mapping_server.delete_exclusive
      mapping_server.expand_exclusive mapping_server.publish_exclusive [OF _ assms(3)]
      mapping_server.unpublish_exclusive [OF _ assms(2)] mapping_server.create_snapshot_exclusive
      mapping_server.delete_snapshot_exclusive)

text \<open>
  C2: server_exclusive_access
  After any sequence of requests of any kind, every volume is mapped to at most one host, when
  this holds at the start: given that connecting yields mediators that keep a table of mappings.
\<close>

theorem server_exclusive_access:
  assumes "good_links env fin (\<lambda>s. one_host (tbl s)) (maps_volumes tbl)"
    and "retry_law (en_retry env)" and "retry_law (en_retry_map env)"
    and "reachable (array_init (\<lambda>s. one_host (tbl s)))
      (array_step env fin cfg identity (\<lambda>s. one_host (tbl s))) c"
  shows "one_host (tbl (ctl_array c))"
  by (rule good_server.reachable_kept [OF exclusive_server [OF assms(1-3)] assms(4)])

end
