(* ===== verification/SnapshotStore.thy ===== *)
theory SnapshotStore
  imports ArrayInvariants
begin

text \<open>
  What creating snapshots means, whatever the storage: a snapshot is an object of the same store
  as the volumes (\<open>VolumeStore\<close>), under a name of its own.  The body of \<^verbatim>\<open>CreateSnapshot\<close> is an
  operation on the store, given a mediator that finds snapshots by name (the locale
  \<open>snapshot_server\<close>).  The storage types meet the contract in \<open>ServedArrays\<close>.
\<close>

section \<open>The contract\<close>

text \<open>
  \<open>key T i sp n\<close> is the name in the store \<open>T\<close> under which the snapshot \<open>n\<close> of the source \<open>i\<close> is looked
  up and made, when the pool \<open>sp\<close> is requested.  On an array where a name is taken only once it is
  \<open>n\<close>; on a DS8K it also has the pool, which is that of the source when none is requested.  A store
  with more objects has the same names for it.
\<close>

locale snapshot_server = volume_server med vid nm vols
  for med :: "'s mediator" and vid :: "string \<Rightarrow> 'k" and nm :: "string \<Rightarrow> string \<Rightarrow> 'n"
    and vols :: "'s \<Rightarrow> 'k \<Rightarrow> 'n option" +
  fixes key :: "('k \<Rightarrow> 'n option) \<Rightarrow> string \<Rightarrow> string option \<Rightarrow> string \<Rightarrow> 'n option"
  assumes snapshot_found: "get_snapshot med i n sp s = (Inr found, s') \<Longrightarrow>
      \<exists>x. key (vols s) i sp n = Some x \<and> (\<forall>sn. found = Some sn \<longrightarrow> vols s (vid (snap_id sn)) = Some x)"
    and snapshot_made: "key (vols s) i sp n = Some x \<Longrightarrow> create_snapshot med i n sp s = (rs, s') \<Longrightarrow>
      changes_one (vols s) x (vols s') \<and>
      (\<forall>sn. rs = Inr sn \<longrightarrow> x \<notin> ran (vols s) \<and> vols s' (vid (snap_id sn)) = Some x)"
    and key_kept: "key T i sp n = Some x \<Longrightarrow> T \<subseteq>\<^sub>m T' \<Longrightarrow> key T' i sp n = Some x"
begin

text \<open>
  What a request does to the store, when it gets as far as looking the snapshot up; an answer with a
  snapshot only adds to it.
\<close>

lemma snapshot_created:
  assumes name: "get_snapshot_final_name env prefix (cs_name q) med = Inr n"
    and run: "create_snapshot_on env q prefix pool i med s = (r, s')"
  shows "key (vols s) i pool n = Some x \<Longrightarrow> changes_one (vols s) x (vols s')"
    and "r = Inr reply \<Longrightarrow> rp_body reply = Some a \<Longrightarrow>
      \<exists>x sn now. key (vols s) i pool n = Some x \<and> adds_one (vols s) x (vols s') \<and>
        a = generate_csi_create_snapshot_response now sn (cs_source_volume_id q) \<and>
        vols s' (vid (snap_id sn)) = Some x \<and>
        (x \<in> ran (vols s) \<longrightarrow> vols s' = vols s \<and> snap_source_volume_id sn = Some i)"
proof -
  obtain g s1 where g: "get_snapshot med i n pool s = (g, s1)" by (metis surj_pair)
  have s1: "vols s1 = vols s" using keepsD [OF snapshot_keeps refl g] by simp
  have "(\<forall>x. key (vols s) i pool n = Some x \<longrightarrow> changes_one (vols s) x (vols s')) \<and>
    (\<forall>reply a. r = Inr reply \<longrightarrow> rp_body reply = Some a \<longrightarrow>
      (\<exists>x sn now. key (vols s) i pool n = Some x \<and> adds_one (vols s) x (vols s') \<and>
        a = generate_csi_create_snapshot_response now sn (cs_source_volume_id q) \<and>
        vols s' (vid (snap_id sn)) = Some x \<and>
        (x \<in> ran (vols s) \<longrightarrow> vols s' = vols s \<and> snap_source_volume_id sn = Some i)))"
  proof (cases g)
    case (Inl e)
    then show ?thesis
      using run g name s1 by (auto simp: create_snapshot_on_def run_bnd adds_changes_one)
  next
    case (Inr found)
    then obtain x where x: "key (vols s) i pool n = Some x"
      and found: "\<And>sn. found = Some sn \<Longrightarrow> vols s (vid (snap_id sn)) = Some x"
      using snapshot_found [OF g [unfolded Inr]] by blast
    show ?thesis
    proof (cases found)
      case (Some sn)
      then show ?thesis
        using run g Inr name s1 x found
        by (auto simp: create_snapshot_on_def run_bnd build_error_response_def build_non_ok_response_def
            adds_changes_one split: if_splits intro!: exI [of _ sn] exI [of _ "en_now env s1"])
    next
      case None
      obtain c s2 where c: "create_snapshot med i n pool s1 = (c, s2)" by (metis surj_pair)
      have made: "changes_one (vols s) x (vols s2)"
        and answered: "\<And>sn. c = Inr sn \<Longrightarrow> x \<notin> ran (vols s) \<and> vols s2 (vid (snap_id sn)) = Some x"
        using snapshot_made [OF x [folded s1] c] by (simp_all add: s1)
      have "x \<notin> ran (vols s) \<Longrightarrow> adds_one (vols s) x (vols s2)"
        using made by (auto simp: changes_one_def fun_eq_iff ran_def adds_one_def)
      with made answered show ?thesis
        using run g Inr None name x c
        by (cases c)
          (auto simp: create_snapshot_on_def run_bnd intro!: exI [of _ "projr c"] exI [of _ "en_now env s2"])
    qed
  qed
  then show "key (vols s) i pool n = Some x \<Longrightarrow> changes_one (vols s) x (vols s')"
    "r = Inr reply \<Longrightarrow> rp_body reply = Some a \<Longrightarrow>
      \<exists>x sn now. key (vols s) i pool n = Some x \<and> adds_one (vols s) x (vols s') \<and>
        a = generate_csi_create_snapshot_response now sn (cs_source_volume_id q) \<and>
        vols s' (vid (snap_id sn)) = Some x \<and>
        (x \<in> ran (vols s) \<longrightarrow> vols s' = vols s \<and> snap_source_volume_id sn = Some i)"
    by blast+
qed

end

lemma adds_one_le: "adds_one t x t' \<Longrightarrow> t \<subseteq>\<^sub>m t'"
  by (auto simp: adds_one_def map_le_def)

section \<open>The handler on a store\<close>

text \<open>
  C15: create_snapshot_twice
  Creating a snapshot is idempotent, where names are unique.  Let a request have been answered with a
  snapshot, and let it be repeated, as it was or by another client, so that both lead to the same
  name in the store: on an SVC or an XIV the name of the snapshot alone, also with another source
  or pool; on a DS8K the name and the pool, which is the requested one or, without one, that of the
  source, so a request for a source in another pool is none of this kind.  When the repeated
  request is answered with a snapshot, then this is the very snapshot of the first, of the
  source that the repeated request names, and nothing has changed.  When it is not answered with
  one, no other object has changed.
\<close>

theorem create_snapshot_twice:
  assumes "snapshot_server med vid nm vols key" and "named_once (vols s)"
    and "get_snapshot_final_name env prefix (cs_name q) med = Inr n"
    and "get_snapshot_final_name env prefix' (cs_name q') med = Inr n'"
    and "key (vols s) i' pool' n' = key (vols s) i pool n"
    and "create_snapshot_on env q prefix pool i med s = (Inr reply, s1)" and "rp_body reply = Some a"
    and "create_snapshot_on env q' prefix' pool' i' med s1 = (r, s2)"
  shows "\<exists>x. key (vols s) i pool n = Some x \<and>
    (\<forall>k. vols s1 k \<noteq> Some x \<longrightarrow> vols s2 k = vols s1 k) \<and>
    (\<forall>reply' a'. r = Inr reply' \<longrightarrow> rp_body reply' = Some a' \<longrightarrow> vols s2 = vols s1 \<and>
      (\<exists>sn sn' t t'. a = generate_csi_create_snapshot_response t sn (cs_source_volume_id q) \<and>
        a' = generate_csi_create_snapshot_response t' sn' (cs_source_volume_id q') \<and>
        vols s1 (vid (snap_id sn)) = Some x \<and>
        vid (snap_id sn) = vid (snap_id sn') \<and> snap_source_volume_id sn' = Some i'))"
proof -
  obtain x sn t where x: "key (vols s) i pool n = Some x" and first: "adds_one (vols s) x (vols s1)"
    and sn: "a = generate_csi_create_snapshot_response t sn (cs_source_volume_id q)"
      "vols s1 (vid (snap_id sn)) = Some x"
    using snapshot_server.snapshot_created(2) [OF assms(1,3,6) refl assms(7)] by blast
  note second = snapshot_server.snapshot_created [OF assms(1,4,8)]
  have again: "key (vols s1) i' pool' n' = Some x"
    using snapshot_server.key_kept [OF assms(1) _ adds_one_le [OF first]] x assms(5) by simp
  have unique: "named_once (vols s1)" by (rule named_once_adds [OF first assms(2)])
  have exists: "x \<in> ran (vols s1)" using sn(2) by (rule ranI)
  then have "\<forall>k. vols s1 k \<noteq> Some x \<longrightarrow> vols s2 k = vols s1 k"
    using second(1) [OF again] by (auto simp: changes_one_def adds_one_def)
  moreover have "vols s2 = vols s1 \<and>
      (\<exists>sn' t'. a' = generate_csi_create_snapshot_response t' sn' (cs_source_volume_id q') \<and>
        vid (snap_id sn) = vid (snap_id sn') \<and> snap_source_volume_id sn' = Some i')"
    if r: "r = Inr reply'" "rp_body reply' = Some a'" for reply' a'
  proof -
    obtain sn' t' where sn': "a' = generate_csi_create_snapshot_response t' sn' (cs_source_volume_id q')"
      "vols s2 (vid (snap_id sn')) = Some x" "vols s2 = vols s1" "snap_source_volume_id sn' = Some i'"
      using second(2) [OF r] again exists by auto
    then have "vid (snap_id sn) = vid (snap_id sn')" by (intro named_onceD [OF unique sn(2)]) simp
    with sn' show ?thesis by blast
  qed
  ultimately show ?thesis using x sn by blast
qed

end
