(* ===== verification/VolumeStores.thy ===== *)
theory VolumeStores
  imports VolumeStore MappingStores
begin

text \<open>
  The three storage types keep a store of volumes, in the sense of \<open>VolumeStore\<close>.  What a command
  of a third-party client does to the volumes on the array is a named hypothesis for each
  client, its documented behaviour.  Volumes and snapshots share their names, so a store holds
  both.  The last section is an array in memory, for the witnesses.
\<close>

section \<open>XIV\<close>

text \<open>
  \<open>objs s\<close> gives the name of the volume or snapshot with a WWN.  The commands
  that list, resize, format and copy keep it; \<^verbatim>\<open>vol_list\<close> finds by name and by WWN; \<^verbatim>\<open>vol_create\<close>
  makes a volume with a fresh WWN; \<^verbatim>\<open>vol_delete\<close> of a volume without snapshots deletes it
  alone.
\<close>

definition xiv_volume_reads :: "('s \<Rightarrow> bool) \<Rightarrow> 's xiv_client \<Rightarrow> bool" where
  "xiv_volume_reads P cl \<longleftrightarrow>
     (\<forall>n. keeps P (xc_vol_list_name cl n)) \<and> (\<forall>w. keeps P (xc_vol_list_wwn cl w)) \<and>
     (\<forall>n b. keeps P (xc_vol_resize cl n b)) \<and> (\<forall>n. keeps P (xc_vol_format cl n)) \<and>
     (\<forall>n m. keeps P (xc_vol_copy cl n m)) \<and> (\<forall>n. keeps P (xc_snapshot_list cl n))"

lemma xiv_volume_reads_keep:
  assumes "xiv_volume_reads P cl"
  shows "keeps P (xiv_get_cli_object_by_name cl n)" "keeps P (xiv_get_cli_object_by_wwn cl w b)"
    "keeps P (xiv_get_object_name_by_wwn cl w)" "keeps P (xiv_generate_volume_response eps cv)"
    "keeps P (xiv_get_volume cl eps n pool)" "keeps P (xiv_expand_volume cl w z)"
    "keeps P (xiv_copy_to_existing_volume_from_source cl i j c m)"
    "keeps P (xiv_get_object_by_id cl eps i ty)" "keeps P (xc_snapshot_list cl n)"
proof -
  have reads: "\<And>n. keeps P (xc_vol_list_name cl n)" "\<And>w. keeps P (xc_vol_list_wwn cl w)"
    "\<And>n b. keeps P (xc_vol_resize cl n b)" "\<And>n. keeps P (xc_vol_format cl n)"
    "\<And>n m. keeps P (xc_vol_copy cl n m)" "\<And>n. keeps P (xc_snapshot_list cl n)"
    using assms by (simp_all add: xiv_volume_reads_def)
  show "keeps P (xc_snapshot_list cl n)" by (rule reads)
  show name: "keeps P (xiv_get_cli_object_by_name cl n)" for n
    unfolding xiv_get_cli_object_by_name_def by (auto intro!: keeps_rules reads)
  show wwn: "keeps P (xiv_get_cli_object_by_wwn cl w b)" for w b
    unfolding xiv_get_cli_object_by_wwn_def by (auto intro!: keeps_rules reads)
  show named: "keeps P (xiv_get_object_name_by_wwn cl w)" for w
    unfolding xiv_get_object_name_by_wwn_def by (auto intro!: keeps_rules wwn split: option.split)
  show response: "keeps P (xiv_generate_volume_response eps cv)" for cv
    unfolding xiv_generate_volume_response_def by (auto intro!: keeps_rules split: option.split)
  show "keeps P (xiv_get_volume cl eps n pool)"
    unfolding xiv_get_volume_def by (auto intro!: keeps_rules name response split: option.split)
  show "keeps P (xiv_expand_volume cl w z)"
    unfolding xiv_expand_volume_def xiv_expand_cli_volume_def
    by (auto intro!: keeps_rules wwn reads split: option.split)
  show "keeps P (xiv_copy_to_existing_volume_from_source cl i j c m)"
    unfolding xiv_copy_to_existing_volume_from_source_def by (auto intro!: keeps_rules named reads)
  show "keeps P (xiv_get_object_by_id cl eps i ty)"
    unfolding xiv_get_object_by_id_def xiv_generate_snapshot_response_def xiv_get_source_object_wwn_def
    by (auto intro!: keeps_rules wwn name response split: option.split)
qed

locale xiv_volumes =
  fixes cl :: "'s xiv_client" and objs :: "'s \<Rightarrow> string \<Rightarrow> string option"
  assumes reads: "xiv_volume_reads (\<lambda>s. objs s = T) cl"
    and by_name: "xc_vol_list_name cl n s = (Inr x, s') \<Longrightarrow>
      (case x of None \<Rightarrow> n \<notin> ran (objs s) | Some v \<Rightarrow> objs s (xv_wwn v) = Some n)"
    and by_wwn: "xc_vol_list_wwn cl w s = (Inr x, s') \<Longrightarrow> objs s w = map_option xv_name x"
    and vol_created: "xc_vol_create cl n b p s = (rc, s') \<Longrightarrow>
      (case rc of
         Inl l \<Rightarrow> objs s' = objs s
       | Inr x \<Rightarrow> \<exists>w. objs s w = None \<and> objs s' = (objs s)(w \<mapsto> n) \<and> (\<forall>v. x = Some v \<longrightarrow> xv_wwn v = w))"
    and vol_deleted: "xc_snapshot_list cl n s = (Inr [], s1) \<Longrightarrow> objs s1 w = Some n \<Longrightarrow>
      xc_vol_delete cl n s1 = (rd, s') \<Longrightarrow>
      (case rd of
         Inl l \<Rightarrow> objs s' = objs s1 \<and> \<not> is_a l Xcli_VolumeBadNameError
       | Inr u \<Rightarrow> objs s' = (objs s1)(w := None))"
begin

lemmas kept = xiv_volume_reads_keep [OF reads]

lemma get_volume_reads:
  assumes run: "xiv_get_volume cl eps n pool s = (r, s')"
  shows "objs s' = objs s \<and> (case r of
      Inl e \<Rightarrow> is_ObjectNotFound e \<longrightarrow> n \<notin> ran (objs s)
    | Inr v \<Rightarrow> objs s (vol_id v) = Some n)"
proof -
  obtain l s1 where l: "xc_vol_list_name cl n s = (l, s1)" by (metis surj_pair)
  have "case r of Inl e \<Rightarrow> is_ObjectNotFound e \<longrightarrow> n \<notin> ran (objs s) | Inr v \<Rightarrow> objs s (vol_id v) = Some n"
  proof (cases l)
    case (Inl e)
    then show ?thesis
      using run l
      by (auto simp: xiv_get_volume_def xiv_get_cli_object_by_name_def except_lib_def lib_def Prelude.run
          split: option.splits if_splits)
  next
    case (Inr x)
    then show ?thesis
      using run l by_name [OF l [unfolded Inr]]
      by (auto simp: xiv_get_volume_def xiv_get_cli_object_by_name_def except_lib_def lib_def Prelude.run
          xiv_generate_volume_response_def xiv_convert_size_blocks_to_bytes_def py_int_def
          split: option.splits if_splits)
  qed
  then show ?thesis using keepsD [OF kept(5) refl run] by simp
qed

lemma create_volume_adds:
  assumes run: "xiv_create_volume cl eps n sz se p s = (r, s')" and free: "n \<notin> ran (objs s)"
  shows "case r of
      Inr (Some v) \<Rightarrow> objs s (vol_id v) = None \<and> objs s' = (objs s)(vol_id v \<mapsto> n)
    | _ \<Rightarrow> adds_one (objs s) n (objs s')"
proof -
  let ?z = "xiv_convert_size_bytes_to_blocks sz"
  obtain c s1 where c: "xc_vol_create cl n ?z p s = (c, s1)" by (metis surj_pair)
  note made = vol_created [OF c]
  show ?thesis
  proof (cases c)
    case (Inl l)
    then show ?thesis
      using run c made
      by (auto simp: xiv_create_volume_def except_lib_def lib_def Prelude.run split: option.splits if_splits)
  next
    case (Inr x)
    then obtain w where w: "objs s w = None" "objs s1 = (objs s)(w \<mapsto> n)" "\<forall>v. x = Some v \<longrightarrow> xv_wwn v = w"
      using made by auto
    then have "adds_one (objs s) n (objs s1)" using free by (simp add: adds_oneI)
    with w show ?thesis
      using run c Inr
      by (auto simp: xiv_create_volume_def except_lib_def lib_def Prelude.run
          xiv_generate_volume_response_def xiv_convert_size_blocks_to_bytes_def py_int_def
          split: option.splits)
  qed
qed

lemma object_named:
  assumes "xiv_get_object_name_by_wwn cl i s = (Inr n, s')"
  shows "objs s i = Some n"
proof -
  obtain l s1 where l: "xc_vol_list_wwn cl i s = (l, s1)" by (metis surj_pair)
  show ?thesis
    using assms l by_wwn [of i s]
    by (cases l) (auto simp: xiv_get_object_name_by_wwn_def xiv_get_cli_object_by_wwn_def except_lib_def lib_def
        Prelude.run split: option.splits if_splits)
qed

lemma delete_volume_drops:
  assumes run: "xiv_delete_volume cl i s = (r, s')"
  shows "case r of
      Inl e \<Rightarrow> objs s' = objs s \<and> (is_ObjectNotFound e \<longrightarrow> objs s i = None)
    | Inr u \<Rightarrow> objs s' = (objs s)(i := None)"
  using run unfolding xiv_delete_volume_def
proof (cases rule: bnd_cases)
  case (error e)
  obtain l s1 where l: "xc_vol_list_wwn cl i s = (l, s1)" by (metis surj_pair)
  have "is_ObjectNotFound e \<longrightarrow> objs s i = None"
    using error(1) l by_wwn [of i s]
    by (cases l) (auto simp: xiv_get_object_name_by_wwn_def xiv_get_cli_object_by_wwn_def except_lib_def lib_def
        Prelude.run split: option.splits if_splits)
  then show ?thesis using keepsD [OF kept(3) refl error(1)] error(2) by simp
next
  case (result n s1)
  have named: "objs s i = Some n" by (rule object_named [OF result(1)])
  have s1: "objs s1 = objs s" using keepsD [OF kept(3) refl result(1)] by simp
  obtain k s2 where k: "xc_snapshot_list cl n s1 = (k, s2)" by (metis surj_pair)
  have s2: "objs s2 = objs s" using keepsD [OF kept(9) refl k] s1 by simp
  show ?thesis
  proof (cases "k = Inr []")
    case True
    obtain d s3 where d: "xc_vol_delete cl n s2 = (d, s3)" by (metis surj_pair)
    from vol_deleted [OF k [unfolded True] _ d, of i] named have
      "case d of Inl l \<Rightarrow> objs s3 = objs s \<and> \<not> is_a l Xcli_VolumeBadNameError | Inr u \<Rightarrow> objs s3 = (objs s)(i := None)"
      unfolding s2 by simp
    then show ?thesis
      using result(2) k True d
      by (cases d) (auto simp: except_lib_def lib_def Prelude.run split: if_splits)
  next
    case False
    then show ?thesis
      using result(2) k s2 by (cases k) (auto simp: lib_def Prelude.run split: if_splits)
  qed
qed

lemma keeps_store: "volume_store (xiv_mediator randint cl eps) id (\<lambda>_ n. n) objs"
proof
  show "keeps (\<lambda>s. objs s = T) (validate_supported_space_efficiency (xiv_mediator randint cl eps) se)" for T se
    by (simp add: xiv_mediator_def xiv_validate_supported_space_efficiency_def keeps_ret keeps_raise)
  show "case r of
      Inr (Some v) \<Rightarrow> objs s (id (vol_id v)) = None \<and> objs s' = (objs s)(id (vol_id v) \<mapsto> n)
    | _ \<Rightarrow> adds_one (objs s) n (objs s')"
    if "n \<notin> ran (objs s)" "create_volume (xiv_mediator randint cl eps) n sz se p s = (r, s')" for n s sz se p r s'
    unfolding id_apply using create_volume_adds [of eps n sz se p s r s'] that by (simp add: xiv_mediator_def)
  show "objs s' = objs s \<and> (case r of
      Inl e \<Rightarrow> is_ObjectNotFound e \<longrightarrow> n \<notin> ran (objs s)
    | Inr v \<Rightarrow> objs s (id (vol_id v)) = Some n)"
    if "get_volume (xiv_mediator randint cl eps) n (Some p) s = (r, s')" for n p s r s'
    unfolding id_apply using get_volume_reads [of eps n "Some p" s r s'] that by (simp add: xiv_mediator_def)
  show "case r of
      Inl e \<Rightarrow> objs s' = objs s \<and> (is_ObjectNotFound e \<longrightarrow> objs s (id i) = None)
    | Inr u \<Rightarrow> objs s' = (objs s)(id i := None)"
    if "delete_volume (xiv_mediator randint cl eps) i s = (r, s')" for i s r s'
    unfolding id_apply using delete_volume_drops [of i s r s'] that by (simp add: xiv_mediator_def)
qed (simp_all add: xiv_mediator_def kept)

end

sublocale xiv_volumes \<subseteq> store: volume_store "xiv_mediator randint cl eps" id "\<lambda>_ n. n" objs
  for randint eps
  by (rule keeps_store)

text \<open>
  The XIV mediator keeps a store of volumes: looking up, creating, copying, expanding and
  deleting change it as the contract says.
\<close>

theorem xiv_keeps_volume_store:
  assumes "xiv_volumes cl objs"
  shows "volume_store (xiv_mediator randint cl eps) id (\<lambda>_ n. n) objs"
  by (rule xiv_volumes.keeps_store [OF assms])

section \<open>SVC\<close>

text \<open>
  The same for SVC: \<open>disks s\<close> gives the name of the volume with a UID.  A command that ends with a
  warning has been carried out; the two messages for an object that is not there tell the
  truth.
\<close>

definition svc_volume_reads :: "('s \<Rightarrow> bool) \<Rightarrow> 's svc_client \<Rightarrow> bool" where
  "svc_volume_reads P cl \<longleftrightarrow>
     (\<forall>n. keeps P (sc_lsvdisk_by_id cl n)) \<and> (\<forall>f. keeps P (sc_lsvdisk_filter cl f)) \<and>
     (\<forall>f. keeps P (sc_lsfcmap cl f)) \<and> (\<forall>n z. keeps P (sc_expandvdisksize cl n z)) \<and>
     (\<forall>n m c. keeps P (sc_mkfcmap cl n m c)) \<and> (\<forall>i. keeps P (sc_startfcmap cl i)) \<and>
     (\<forall>i. keeps P (sc_stopfcmap cl i)) \<and> (\<forall>i b. keeps P (sc_rmfcmap cl i b))"

lemma svc_volume_reads_keep:
  assumes "svc_volume_reads P cl" and "retry_law retry"
  shows "keeps P (svc_get_cli_volume cl n b)" "keeps P (svc_get_cli_volume_by_wwn cl w b)"
    "keeps P (svc_generate_volume_response cl ep cv)" "keeps P (svc_get_volume cl ep n pool)"
    "keeps P (svc_get_fcmap_as_target_if_exists cl n)" "keeps P (svc_get_fcmaps_as_source_if_exist cl n)"
    "keeps P (svc_safe_delete_fcmaps cl n fs)" "keeps P (svc_stop_and_delete_fcmap cl i)"
    "keeps P (svc_expand_volume cl w z)"
    "keeps P (svc_copy_to_existing_volume_from_source retry cl i j c m)"
    "keeps P (svc_get_object_by_id cl ep i ty)"
proof -
  have reads: "\<And>n. keeps P (sc_lsvdisk_by_id cl n)" "\<And>f. keeps P (sc_lsvdisk_filter cl f)"
    "\<And>f. keeps P (sc_lsfcmap cl f)" "\<And>n z. keeps P (sc_expandvdisksize cl n z)"
    "\<And>n m c. keeps P (sc_mkfcmap cl n m c)" "\<And>i. keeps P (sc_startfcmap cl i)"
    "\<And>i. keeps P (sc_stopfcmap cl i)" "\<And>i b. keeps P (sc_rmfcmap cl i b)"
    using assms(1) by (simp_all add: svc_volume_reads_def)
  show name: "keeps P (svc_get_cli_volume cl n b)" for n b
    unfolding svc_get_cli_volume_def by (auto intro!: keeps_rules reads)
  show wwn: "keeps P (svc_get_cli_volume_by_wwn cl w b)" for w b
    unfolding svc_get_cli_volume_by_wwn_def by (auto intro!: keeps_rules reads)
  show target: "keeps P (svc_get_fcmap_as_target_if_exists cl n)"
    and "keeps P (svc_get_fcmaps_as_source_if_exist cl n)" for n
    unfolding svc_get_fcmap_as_target_if_exists_def svc_get_fcmaps_as_source_if_exist_def svc_get_fcmaps_def
    by (auto intro!: keeps_rules reads)
  show response: "keeps P (svc_generate_volume_response cl ep cv)" for cv
    unfolding svc_generate_volume_response_def svc_get_source_volume_wwn_if_exists_def
      svc_get_wwn_by_volume_name_if_exists_def svc_get_cli_volume_if_exists_def
    by (auto intro!: keeps_rules name target split: option.split)
  show "keeps P (svc_get_volume cl ep n pool)"
    unfolding svc_get_volume_def by (intro keeps_rules name response)
  show delete: "keeps P (svc_safe_delete_fcmaps cl n fs)" for n fs
    unfolding svc_safe_delete_fcmaps_def svc_delete_fcmap_def Let_def by (auto intro!: keeps_rules reads)
  show "keeps P (svc_stop_and_delete_fcmap cl i)"
    unfolding svc_stop_and_delete_fcmap_def svc_stop_fcmap_def svc_delete_fcmap_def
    by (intro keeps_rules reads)
  show "keeps P (svc_expand_volume cl w z)"
    unfolding svc_expand_volume_def svc_expand_cli_volume_def svc_get_object_fcmaps_def
      svc_get_fcmaps_as_source_if_exist_def svc_get_fcmaps_def
    by (auto intro!: keeps_rules wwn target delete reads split: option.split)
  show "keeps P (svc_copy_to_existing_volume_from_source retry cl i j c m)"
    unfolding svc_copy_to_existing_volume_from_source_def svc_get_volume_name_by_wwn_def
      svc_get_volume_name_by_wwn_if_exists_def svc_copy_to_target_volume_def svc_create_and_start_fcmap_def
      svc_rollback_copy_to_target_volume_def svc_delete_unstarted_fcmap_if_exists_def svc_delete_fcmap_def
      svc_get_cli_volume_if_exists_def svc_create_fcmap_def svc_start_fcmap_def
    by (auto intro!: keeps_rules keeps_retry [OF assms(2)] wwn name target reads split: option.split)
  show "keeps P (svc_get_object_by_id cl ep i ty)"
    unfolding svc_get_object_by_id_def svc_generate_snapshot_response_with_verification_def
      svc_generate_snapshot_response_def svc_get_wwn_by_volume_name_if_exists_def svc_get_cli_volume_if_exists_def
    by (auto intro!: keeps_rules wwn name target response split: option.split)
qed

lemma except_cli_cases [consumes 1, case_names plain handled]:
  assumes "except_cli m h s = (r, s')"
  obtains "m s = (r, s')" | l s1 where "m s = (Inl (LibExc l), s1)" "h l s1 = (r, s')"
proof -
  obtain r1 s1 where m: "m s = (r1, s1)" by (cases "m s")
  show ?thesis
  proof (cases r1)
    case (Inl e)
    with m assms that show ?thesis
      by (cases e) (auto simp: except_cli_def run split: if_splits)
  next
    case (Inr x)
    with m assms that(1) show ?thesis by (simp add: except_cli_def run)
  qed
qed

lemma warning_error: "is_warning_message m = Inl e \<Longrightarrow> e = IndexError"
  by (auto simp: is_warning_message_def split: list.splits)

text \<open>The answer about a volume that was found does not say that it was not.\<close>

lemma response_not_found:
  "yields (\<lambda>_. True) (\<lambda>e. \<not> is_ObjectNotFound e) (svc_generate_volume_response cl ep x)"
proof -
  have "yields (\<lambda>_. True) (\<lambda>e. \<not> is_ObjectNotFound e) (svc_get_cli_volume cl n False)" for n
    unfolding svc_get_cli_volume_def by (auto intro!: spec_rules)
  then show ?thesis
    unfolding svc_generate_volume_response_def svc_get_source_volume_wwn_if_exists_def
      svc_get_fcmap_as_target_if_exists_def svc_get_fcmaps_def svc_get_wwn_by_volume_name_if_exists_def
      svc_get_cli_volume_if_exists_def
    by (auto intro!: spec_rules split: option.split)
qed

locale svc_volumes =
  fixes retry :: "(exc, 's, unit) retrier" and cl :: "'s svc_client"
    and disks :: "'s \<Rightarrow> string \<Rightarrow> string option"
  assumes retries: "retry_law retry"
    and reads: "svc_volume_reads (\<lambda>s. disks s = T) cl"
    and by_name: "sc_lsvdisk_by_id cl n s = (rv, s') \<Longrightarrow>
      (case rv of
         Inr None \<Rightarrow> n \<notin> ran (disks s)
       | Inr (Some v) \<Rightarrow> disks s (vd_uid v) = Some n
       | Inl l \<Rightarrow> any_in [OBJ_NOT_FOUND, NAME_NOT_EXIST_OR_MEET_RULES] (lx_message l) \<longrightarrow> n \<notin> ran (disks s))"
    and by_uid: "sc_lsvdisk_filter cl (''vdisk_UID='' @ w) s = (Inr x, s') \<Longrightarrow> disks s w = map_option vd_name x"
    and volume_made: "sc_mkvolume cl a s = (ru, s') \<Longrightarrow>
      (if carried_out ru then \<exists>w. disks s w = None \<and> disks s' = (disks s)(w \<mapsto> mv_name a)
       else disks s' = disks s)"
    and volume_removed: "disks s w = Some n \<Longrightarrow> sc_rmvolume cl n s = (ru, s') \<Longrightarrow>
      (if carried_out ru then disks s' = (disks s)(w := None)
       else disks s' = disks s \<and>
         (\<forall>l. ru = Inl l \<longrightarrow> \<not> any_in [OBJ_NOT_FOUND, VOL_NOT_FOUND] (lx_message l)))"
begin

lemmas kept = svc_volume_reads_keep [OF reads retries]
lemmas svc_run = except_cli_def unless_warning_def lib_def Prelude.run

lemma found_by_name:
  assumes "svc_get_cli_volume cl n True s = (r, s')"
  shows "case r of
      Inl e \<Rightarrow> is_ObjectNotFound e \<longrightarrow> n \<notin> ran (disks s)
    | Inr x \<Rightarrow> (\<forall>v. x = Some v \<longrightarrow> disks s (vd_uid v) = Some n)"
proof -
  obtain l s1 where l: "sc_lsvdisk_by_id cl n s = (l, s1)" by (metis surj_pair)
  note found = by_name [OF l]
  show ?thesis
  proof (cases l)
    case (Inr x)
    then show ?thesis
      using assms l found
      by (cases x) (auto simp: svc_get_cli_volume_def svc_run)
  next
    case (Inl e)
    then show ?thesis
      using assms l found
      by (cases "is_warning_message (lx_message e)")
        (auto simp: svc_get_cli_volume_def svc_run any_in_def split: if_splits dest: warning_error)
  qed
qed

lemma response_of:
  assumes "svc_generate_volume_response cl ep (Some v) s = (Inr w, s')"
  shows "vol_id w = vd_uid v"
  using assms by (auto simp: svc_generate_volume_response_def py_int_def Prelude.run
      split: prod.splits sum.splits option.splits)

lemma get_volume_reads:
  assumes run: "svc_get_volume cl ep n pool s = (r, s')"
  shows "disks s' = disks s \<and> (case r of
      Inl e \<Rightarrow> is_ObjectNotFound e \<longrightarrow> n \<notin> ran (disks s)
    | Inr v \<Rightarrow> disks s (vol_id v) = Some n)"
proof -
  have "case r of Inl e \<Rightarrow> is_ObjectNotFound e \<longrightarrow> n \<notin> ran (disks s) | Inr v \<Rightarrow> disks s (vol_id v) = Some n"
    using run unfolding svc_get_volume_def
  proof (cases rule: bnd_cases)
    case (error e)
    with found_by_name [OF error(1)] show ?thesis by simp
  next
    case (result x s1)
    note found = found_by_name [OF result(1)]
    show ?thesis
    proof (cases r)
      case (Inl e)
      with result(2) have "\<not> is_ObjectNotFound e"
        by (metis yields_errorD [OF response_not_found])
      with Inl show ?thesis by simp
    next
      case (Inr w)
      then obtain v where "x = Some v"
        using result(2) by (cases x) (auto simp: svc_generate_volume_response_def Prelude.run)
      with Inr result(2) response_of found show ?thesis by auto
    qed
  qed
  then show ?thesis using keepsD [OF kept(4) refl run] by simp
qed

lemma create_cli_volume_effect:
  assumes run: "svc_create_cli_volume cl ep n sz se p s = (r, s')"
    and m: "sc_mkvolume cl (build_kwargs_from_parameters se p n (svc_convert_size_bytes sz)) s = (m, s1)"
  shows "disks s' = disks s1 \<and> (\<forall>v. r = Inr (Some v) \<longrightarrow> disks s1 (vd_uid v) = Some n)"
proof -
  let ?make = "lib (sc_mkvolume cl (build_kwargs_from_parameters se p n (svc_convert_size_bytes sz)))"
  let ?look = "\<lambda>_. bnd (svc_get_cli_volume cl n True) (\<lambda>cli_volume.
      case cli_volume of None \<Rightarrow> raise AttributeError | Some v \<Rightarrow> ret (Some v))"
  have look: "keeps (\<lambda>s. disks s = T) (?look u)" for T u
    by (auto intro!: keeps_rules kept split: option.split)
  have looked: "disks s2 = disks s1 \<and> (\<forall>v. x = Inr (Some v) \<longrightarrow> disks s1 (vd_uid v) = Some n)"
    if "bnd ?make ?look s = (x, s2)" for x s2
    using that
  proof (cases rule: bnd_cases)
    case (error e)
    with m show ?thesis by (auto simp: lib_def Prelude.run split: sum.splits)
  next
    case (result u s0)
    then have "s0 = s1" using m by (auto simp: lib_def Prelude.run split: sum.splits)
    with result(2) keepsD [OF look refl] have "disks s2 = disks s1" by blast
    moreover have "disks s1 (vd_uid v) = Some n" if "x = Inr (Some v)" for v
      using result(2) unfolding \<open>s0 = s1\<close>
    proof (cases rule: bnd_cases)
      case (result y s3)
      then show ?thesis using that found_by_name [OF result(1)] by (auto split: option.splits)
    qed (use that in simp)
    ultimately show ?thesis by blast
  qed
  from run show ?thesis
    unfolding svc_create_cli_volume_def
  proof (cases rule: except_cli_cases)
    case plain
    then show ?thesis by (rule looked)
  next
    case (handled l s2)
    have "disks s' = disks s2 \<and> (\<forall>x. r = Inr x \<longrightarrow> x = None)"
      using handled(2) by (auto simp: unless_warning_def Prelude.run split: sum.splits if_splits)
    then show ?thesis using looked [OF handled(1)] by auto
  qed
qed

lemma create_cli_volume_adds:
  assumes run: "svc_create_cli_volume cl ep n sz se p s = (r, s')" and free: "n \<notin> ran (disks s)"
  shows "case r of
      Inr (Some v) \<Rightarrow> disks s (vd_uid v) = None \<and> disks s' = (disks s)(vd_uid v \<mapsto> n)
    | _ \<Rightarrow> adds_one (disks s) n (disks s')"
proof -
  let ?args = "build_kwargs_from_parameters se p n (svc_convert_size_bytes sz)"
  obtain m s1 where m: "sc_mkvolume cl ?args s = (m, s1)" by (metis surj_pair)
  have "mv_name ?args = n" by (simp add: build_kwargs_from_parameters_def Let_def)
  with volume_made [OF m] free have "adds_one (disks s) n (disks s1)"
    and "disks s1 w = Some n \<Longrightarrow> disks s w = None \<and> disks s1 = (disks s)(w \<mapsto> n)" for w
    by (auto simp: adds_oneI split: if_splits dest: ranI)
  with create_cli_volume_effect [OF run m] show ?thesis
    by (fastforce split: sum.splits option.splits)
qed

lemma found_by_uid:
  assumes "svc_get_cli_volume_by_wwn cl i b s = (r, s')"
  shows "case r of
      Inl e \<Rightarrow> is_ObjectNotFound e \<longrightarrow> disks s i = None
    | Inr x \<Rightarrow> (b \<longrightarrow> x \<noteq> None) \<and> disks s i = map_option vd_name x"
proof -
  obtain l s1 where l: "sc_lsvdisk_filter cl (''vdisk_UID='' @ i) s = (l, s1)" by (metis surj_pair)
  show ?thesis
  proof (cases l)
    case (Inr x)
    then show ?thesis
      using assms l by_uid [of i s x s1]
      by (cases x; cases b) (auto simp: svc_get_cli_volume_by_wwn_def svc_run)
  next
    case (Inl e)
    then show ?thesis
      using assms l
      by (cases "is_warning_message (lx_message e)")
        (auto simp: svc_get_cli_volume_by_wwn_def svc_run split: if_splits dest: warning_error)
  qed
qed

lemma removed_by_name:
  assumes "svc_delete_volume_by_name cl n b s = (r, s')" and "disks s w = Some n"
  shows "case r of
      Inl e \<Rightarrow> disks s' = disks s \<and> \<not> is_ObjectNotFound e
    | Inr u \<Rightarrow> disks s' = (disks s)(w := None)"
proof -
  obtain c s1 where c: "sc_rmvolume cl n s = (c, s1)" by (metis surj_pair)
  note effect = volume_removed [OF assms(2) c]
  show ?thesis
  proof (cases c)
    case (Inl l)
    then show ?thesis
      using assms(1) c effect
      by (cases "is_warning_message (lx_message l)")
        (auto simp: svc_delete_volume_by_name_def svc_run any_in_def split: if_splits dest: warning_error)
  qed (use assms(1) c effect in \<open>auto simp: svc_delete_volume_by_name_def svc_run\<close>)
qed

lemma delete_object_drops:
  assumes run: "svc_delete_object cl v False s = (r, s')" and "disks s w = Some (vd_name v)"
  shows "case r of
      Inl e \<Rightarrow> disks s' = disks s \<and> \<not> is_ObjectNotFound e
    | Inr u \<Rightarrow> disks s' = (disks s)(w := None)"
proof -
  define before where "before = bnd (svc_get_fcmap_as_target_if_exists cl (vd_name v)) (\<lambda>t.
    bnd (svc_get_fcmaps_as_source_if_exist cl (vd_name v)) (\<lambda>fs.
    bnd (if fs \<noteq> [] then svc_safe_delete_fcmaps cl (vd_name v) fs else ret ()) (\<lambda>_.
      case t of None \<Rightarrow> ret () | Some f \<Rightarrow> svc_stop_and_delete_fcmap cl (fc_id f))))"
  have "keeps (\<lambda>s. disks s = T) before" for T
    unfolding before_def by (auto intro!: keeps_rules kept split: option.split)
  moreover have "yields (\<lambda>_. True) (\<lambda>e. \<not> is_ObjectNotFound e) before"
    unfolding before_def svc_get_fcmap_as_target_if_exists_def svc_get_fcmaps_as_source_if_exist_def svc_get_fcmaps_def
      svc_safe_delete_fcmaps_def svc_stop_and_delete_fcmap_def svc_stop_fcmap_def svc_delete_fcmap_def Let_def
    by (auto intro!: spec_rules split: option.split)
  moreover have "bnd before (\<lambda>_. svc_delete_volume_by_name cl (vd_name v) True) s = (r, s')"
    using run by (simp add: svc_delete_object_def before_def bnd_assoc)
  ultimately have stays: "\<And>T. keeps (\<lambda>s. disks s = T) before"
    and quiet: "yields (\<lambda>_. True) (\<lambda>e. \<not> is_ObjectNotFound e) before"
    and run: "bnd before (\<lambda>_. svc_delete_volume_by_name cl (vd_name v) True) s = (r, s')" .
  from run show ?thesis
  proof (cases rule: bnd_cases)
    case (error e)
    then show ?thesis using keepsD [OF stays refl error(1)] yields_errorD [OF quiet error(1)] by simp
  next
    case (result u s1)
    have s1: "disks s1 = disks s" using keepsD [OF stays refl result(1)] by simp
    show ?thesis
      using removed_by_name [OF result(2), of w] assms(2) s1 by (auto split: sum.splits)
  qed
qed

text \<open>A snapshot's object is deleted in the same way, when it is the target of a mapping.\<close>

lemma delete_snapshot_object_drops:
  assumes run: "svc_delete_object cl v True s = (r, s')" and "disks s w = Some (vd_name v)"
  shows "disks s' = (case r of Inl e \<Rightarrow> disks s | Inr u \<Rightarrow> (disks s)(w := None))"
proof -
  obtain t s1 where t: "svc_get_fcmap_as_target_if_exists cl (vd_name v) s = (t, s1)" by (metis surj_pair)
  have s1: "disks s1 = disks s" using keepsD [OF kept(5) refl t] by simp
  show ?thesis
  proof (cases "t = Inr None")
    case True
    then show ?thesis using run t s1 by (auto simp: svc_delete_object_def Prelude.run)
  next
    case False
    then have "svc_delete_object cl v False s = (r, s')"
      using run t by (cases t) (auto simp: svc_delete_object_def bnd_Inl bnd_Inr)
    from delete_object_drops [OF this assms(2)] show ?thesis by (cases r) simp_all
  qed
qed

lemma delete_volume_drops:
  assumes run: "svc_delete_volume cl i s = (r, s')"
  shows "case r of
      Inl e \<Rightarrow> disks s' = disks s \<and> (is_ObjectNotFound e \<longrightarrow> disks s i = None)
    | Inr u \<Rightarrow> disks s' = (disks s)(i := None)"
  using run unfolding svc_delete_volume_def
proof (cases rule: bnd_cases)
  case (error e)
  with found_by_uid [OF error(1)] keepsD [OF kept(2) refl error(1)] show ?thesis by simp
next
  case (result x s1)
  have s1: "disks s1 = disks s" using keepsD [OF kept(2) refl result(1)] by simp
  obtain v where v: "x = Some v" "disks s i = Some (vd_name v)"
    using found_by_uid [OF result(1)] by auto
  then have "svc_delete_object cl v False s1 = (r, s')" using result(2) by simp
  from delete_object_drops [OF this, of i] v s1 show ?thesis by (auto split: sum.splits)
qed

lemma create_volume_adds:
  assumes run: "svc_create_volume cl ep n sz se p s = (r, s')" and free: "n \<notin> ran (disks s)"
  shows "case r of
      Inr (Some v) \<Rightarrow> disks s (vol_id v) = None \<and> disks s' = (disks s)(vol_id v \<mapsto> n)
    | _ \<Rightarrow> adds_one (disks s) n (disks s')"
  using run unfolding svc_create_volume_def
proof (cases rule: bnd_cases)
  case (error e)
  with create_cli_volume_adds [OF error(1) free] show ?thesis by simp
next
  case (result x s1)
  note made = create_cli_volume_adds [OF result(1) free]
  have "disks s' = disks s1"
    using result(2)
  proof (cases rule: bnd_cases)
    case (error e)
    then show ?thesis using keepsD [OF kept(3) refl error(1)] by simp
  next
    case (result w s2)
    then show ?thesis using keepsD [OF kept(3) refl result(1)] by simp
  qed
  moreover have "adds_one (disks s) n (disks s1)"
    using made free by (auto simp: adds_oneI split: option.splits)
  moreover have "\<exists>v. x = Some v \<and> vol_id w = vd_uid v" if "r = Inr (Some w)" for w
    using result(2) that response_of
    by (cases x) (auto simp: svc_generate_volume_response_def Prelude.run py_int_def
        split: prod.splits sum.splits option.splits)
  ultimately show ?thesis
    using made by (auto split: sum.split option.split)
qed

lemma keeps_store: "volume_store (svc_mediator retry cl ep) id (\<lambda>_ n. n) disks"
proof
  show "keeps (\<lambda>s. disks s = T) (validate_supported_space_efficiency (svc_mediator retry cl ep) se)" for T se
    by (simp add: svc_mediator_def svc_validate_supported_space_efficiency_def keeps_ret keeps_raise)
  show "case r of
      Inr (Some v) \<Rightarrow> disks s (id (vol_id v)) = None \<and> disks s' = (disks s)(id (vol_id v) \<mapsto> n)
    | _ \<Rightarrow> adds_one (disks s) n (disks s')"
    if "n \<notin> ran (disks s)" "create_volume (svc_mediator retry cl ep) n sz se p s = (r, s')" for n s sz se p r s'
    unfolding id_apply using create_volume_adds [of ep n sz se p s r s'] that by (simp add: svc_mediator_def)
  show "disks s' = disks s \<and> (case r of
      Inl e \<Rightarrow> is_ObjectNotFound e \<longrightarrow> n \<notin> ran (disks s)
    | Inr v \<Rightarrow> disks s (id (vol_id v)) = Some n)"
    if "get_volume (svc_mediator retry cl ep) n (Some p) s = (r, s')" for n p s r s'
    unfolding id_apply using get_volume_reads [of ep n "Some p" s r s'] that by (simp add: svc_mediator_def)
  show "case r of
      Inl e \<Rightarrow> disks s' = disks s \<and> (is_ObjectNotFound e \<longrightarrow> disks s (id i) = None)
    | Inr u \<Rightarrow> disks s' = (disks s)(id i := None)"
    if "delete_volume (svc_mediator retry cl ep) i s = (r, s')" for i s r s'
    unfolding id_apply using delete_volume_drops [of i s r s'] that by (simp add: svc_mediator_def)
qed (simp_all add: svc_mediator_def kept)

end

sublocale svc_volumes \<subseteq> store: volume_store "svc_mediator retry cl ep" id "\<lambda>_ n. n" disks
  for ep
  by (rule keeps_store)

text \<open>
  The SVC mediator keeps a store of volumes, warnings and roll-backs included.
\<close>

theorem svc_keeps_volume_store:
  assumes "svc_volumes retry cl disks"
  shows "volume_store (svc_mediator retry cl ep) id (\<lambda>_ n. n) disks"
  by (rule svc_volumes.keeps_store [OF assms])

section \<open>DS8K\<close>

text \<open>
  The same for DS8K, where names are told apart by pool: \<open>held s\<close> gives the pool and the name of the
  volume with a number, which has four digits.  A \<^verbatim>\<open>NotFound\<close> for a number means that there is no
  such volume.
\<close>

definition ds8k_volume_reads :: "('s \<Rightarrow> bool) \<Rightarrow> 's ds8k_api \<Rightarrow> bool" where
  "ds8k_volume_reads P api \<longleftrightarrow>
     (\<forall>i. keeps P (da_get_volumes api i)) \<and> (\<forall>p. keeps P (da_get_volumes_by_pool api p)) \<and>
     (\<forall>i. keeps P (da_get_flashcopies_by_volume api i)) \<and> (\<forall>i z. keeps P (da_update_volume_extend api i z)) \<and>
     (\<forall>i j os. keeps P (da_create_cs_flashcopy api i j os)) \<and> (\<forall>f. keeps P (da_delete_cs_flashcopy api f)) \<and>
     (\<forall>f. keeps P (da_get_cs_flashcopies api f))"

lemma ds8k_volume_reads_keep:
  assumes "ds8k_volume_reads P api"
  shows "keeps P (rest_get_volume api i)" "keeps P (ds8k_get_api_volume_by_name api sys n pool)"
    "keeps P (ds8k_get_api_volume_by_id api i b)" "keeps P (ds8k_get_volume api sa sys n pool)"
    "keeps P (ds8k_safe_delete_flashcopies api fs n)" "keeps P (ds8k_delete_flashcopy api f)"
    "keeps P (ds8k_expand_volume api i z)" "keeps P (ds8k_copy_to_existing_volume_from_source api sa i j c m)"
    "keeps P (ds8k_get_object_by_id api sa sys i ty)"
proof -
  have reads: "\<And>i. keeps P (da_get_volumes api i)" "\<And>p. keeps P (da_get_volumes_by_pool api p)"
    "\<And>i. keeps P (da_get_flashcopies_by_volume api i)" "\<And>i z. keeps P (da_update_volume_extend api i z)"
    "\<And>i j os. keeps P (da_create_cs_flashcopy api i j os)" "\<And>f. keeps P (da_delete_cs_flashcopy api f)"
    "\<And>f. keeps P (da_get_cs_flashcopies api f)"
    using assms by (simp_all add: ds8k_volume_reads_def)
  show one: "keeps P (rest_get_volume api i)" for i
    unfolding rest_get_volume_def by (intro keeps_rules reads)
  have "keeps P (ds8k_get_api_volume_from_volumes api vs n)" for vs n
    by (induction vs) (auto intro!: keeps_rules reads simp: rest_get_flashcopies_by_volume_def)
  then show name: "keeps P (ds8k_get_api_volume_by_name api sys n pool)" for n pool
    unfolding ds8k_get_api_volume_by_name_def rest_get_volumes_by_pool_def
    by (auto intro!: keeps_rules reads split: option.split)
  show id: "keeps P (ds8k_get_api_volume_by_id api i b)" for i b
    unfolding ds8k_get_api_volume_by_id_def rest_get_flashcopies_by_volume_def
    by (auto intro!: keeps_rules one reads)
  show "keeps P (ds8k_get_volume api sa sys n pool)"
    unfolding ds8k_get_volume_def by (auto intro!: keeps_rules name split: option.split)
  show flash: "keeps P (ds8k_delete_flashcopy api f)" for f
    unfolding ds8k_delete_flashcopy_def rest_delete_flashcopy_def by (intro keeps_rules reads)
  have process: "keeps P (ds8k_get_flashcopy_process api f b)" for f b
    unfolding ds8k_get_flashcopy_process_def rest_get_flashcopies_def by (auto intro!: keeps_rules reads)
  show safe: "keeps P (ds8k_safe_delete_flashcopies api fs n)" for fs n
    unfolding ds8k_safe_delete_flashcopies_def ds8k_ensure_flashcopy_safe_to_delete_def
    by (auto intro!: keeps_rules flash process split: option.split)
  have extend: "keeps P (ds8k_extend_volume api v z)" for v z
    unfolding ds8k_extend_volume_def rest_extend_volume_def by (auto intro!: keeps_rules reads)
  show "keeps P (ds8k_expand_volume api i z)"
    unfolding ds8k_expand_volume_def by (auto intro!: keeps_rules id safe extend split: option.split)
  show "keeps P (ds8k_copy_to_existing_volume_from_source api sa i j c m)"
    unfolding ds8k_copy_to_existing_volume_from_source_def ds8k_create_flashcopy_def rest_create_flashcopy_def
      ds8k_get_flashcopy_state_def
    by (auto intro!: keeps_rules id extend process flash reads split: option.split)
  show "keeps P (ds8k_get_object_by_id api sa sys i ty)"
    unfolding ds8k_get_object_by_id_def by (auto intro!: keeps_rules id split: option.split)
qed

locale ds8k_volumes =
  fixes api :: "'s ds8k_api" and held :: "'s \<Rightarrow> string \<Rightarrow> (string \<times> string) option"
  assumes reads: "ds8k_volume_reads (\<lambda>s. held s = T) api"
    and pool_listed: "da_get_volumes_by_pool api p s = (Inr vs, s') \<Longrightarrow>
      (\<forall>v \<in> set vs. held s (dv_id v) = Some (p, dv_name v)) \<and>
      (\<forall>i n. held s i = Some (p, n) \<longrightarrow> n \<in> dv_name ` set vs)"
    and volume_read: "da_get_volumes api i s = (rv, s') \<Longrightarrow>
      (case rv of Inl l \<Rightarrow> is_a l Ds8k_NotFound \<longrightarrow> held s i = None | Inr v \<Rightarrow> dv_id v = i)"
    and flashcopies_read: "da_get_flashcopies_by_volume api i s = (Inl l, s') \<Longrightarrow>
      is_a l Ds8k_NotFound \<Longrightarrow> held s i = None"
    and volume_made: "da_create_volume_fb api a s = (rc, s') \<Longrightarrow>
      (case rc of
         Inl l \<Rightarrow> held s' = held s
       | Inr vs \<Rightarrow> vs \<noteq> [] \<and> held s (dv_id (hd vs)) = None \<and>
           held s' = (held s)(dv_id (hd vs) \<mapsto> (ca_pool a, ca_name a)))"
    and volume_removed: "da_delete_volume api i s = (rd, s') \<Longrightarrow>
      (case rd of
         Inl l \<Rightarrow> held s' = held s \<and> (is_a l Ds8k_NotFound \<longrightarrow> held s i = None)
       | Inr u \<Rightarrow> held s' = (held s)(i := None))"
    and four_digits: "held s i = Some x \<Longrightarrow> length i = 4"
begin

lemmas kept = ds8k_volume_reads_keep [OF reads]
lemmas ds8k_run = except_lib_def lib_def Prelude.run

lemma picked:
  assumes "ds8k_get_api_volume_from_volumes api vs n s = (Inr x, s')"
  shows "case x of None \<Rightarrow> n \<notin> dv_name ` set vs | Some v \<Rightarrow> \<exists>w \<in> set vs. dv_id v = dv_id w \<and> dv_name w = n"
  using assms
  by (induction vs arbitrary: s) (auto simp: Prelude.run split: if_splits prod.splits sum.splits option.splits)

lemma picked_error:
  "ds8k_get_api_volume_from_volumes api vs n s = (Inl e, s') \<Longrightarrow> \<exists>l. e = LibExc l"
  by (induction vs arbitrary: s)
    (auto simp: rest_get_flashcopies_by_volume_def ds8k_run split: if_splits prod.splits sum.splits)

lemma found_by_name:
  assumes "ds8k_get_api_volume_by_name api sys n (Some p) s = (r, s')"
  shows "case r of
      Inl e \<Rightarrow> \<not> is_ObjectNotFound e
    | Inr None \<Rightarrow> (p, n) \<notin> ran (held s)
    | Inr (Some v) \<Rightarrow> held s (dv_id v) = Some (p, n)"
proof -
  obtain l s1 where l: "da_get_volumes_by_pool api p s = (l, s1)" by (metis surj_pair)
  show ?thesis
  proof (cases l)
    case (Inl e)
    then show ?thesis
      using assms l
      by (auto simp: ds8k_get_api_volume_by_name_def rest_get_volumes_by_pool_def ds8k_run split: if_splits)
  next
    case (Inr vs)
    then have "ds8k_get_api_volume_from_volumes api vs n s1 = (r, s')"
      using assms l by (simp add: ds8k_get_api_volume_by_name_def rest_get_volumes_by_pool_def ds8k_run)
    then show ?thesis
      using pool_listed [OF l [unfolded Inr]] picked [of vs n s1 _ s'] picked_error [of vs n s1 _ s']
      by (cases r) (fastforce simp: ran_def split: option.splits)+
  qed
qed

lemma read_keeps: "da_get_volumes api i s = (r, s') \<Longrightarrow> held s' = held s"
  using reads [of "held s"] unfolding ds8k_volume_reads_def by (auto dest: keepsD)

lemma found_by_number:
  assumes "ds8k_get_api_volume_by_id api i True s = (r, s')"
  shows "case r of
      Inl e \<Rightarrow> is_ObjectNotFound e \<longrightarrow> held s i = None
    | Inr x \<Rightarrow> (\<forall>v. x = Some v \<longrightarrow> dv_id v = i)"
proof -
  obtain l s1 where l: "da_get_volumes api i s = (l, s1)" by (metis surj_pair)
  have s1: "held s1 = held s"
    by (rule read_keeps [OF l])
  show ?thesis
  proof (cases l)
    case (Inl e)
    then show ?thesis
      using assms l volume_read [OF l]
      by (auto simp: ds8k_get_api_volume_by_id_def rest_get_volume_def ds8k_run split: if_splits)
  next
    case (Inr v)
    then have v: "dv_id v = i" using volume_read [OF l] by simp
    obtain f s2 where f: "da_get_flashcopies_by_volume api i s1 = (f, s2)" by (metis surj_pair)
    show ?thesis
      using assms l Inr v f flashcopies_read [of i s1 _ s2] s1
      by (cases f) (auto simp: ds8k_get_api_volume_by_id_def rest_get_volume_def
          rest_get_flashcopies_by_volume_def ds8k_run split: if_splits)
  qed
qed

lemma get_volume_reads:
  assumes run: "ds8k_get_volume api sa sys n (Some p) s = (r, s')"
  shows "held s' = held s \<and> (case r of
      Inl e \<Rightarrow> is_ObjectNotFound e \<longrightarrow> (p, n) \<notin> ran (held s)
    | Inr v \<Rightarrow> held s (scsi_id_to_volume_id (vol_id v)) = Some (p, n))"
proof -
  have "case r of Inl e \<Rightarrow> is_ObjectNotFound e \<longrightarrow> (p, n) \<notin> ran (held s)
    | Inr v \<Rightarrow> held s (scsi_id_to_volume_id (vol_id v)) = Some (p, n)"
    using run unfolding ds8k_get_volume_def
  proof (cases rule: bnd_cases)
    case (error e)
    with found_by_name [OF error(1)] show ?thesis by simp
  next
    case (result x s1)
    then show ?thesis
      using found_by_name [OF result(1)] four_digits
      by (cases x) (auto simp: ds8k_generate_volume_response_def py_int_def scsi_id_read_back
          split: option.splits)
  qed
  then show ?thesis using keepsD [OF kept(4) refl run] by simp
qed

lemma created_api_volume:
  assumes run: "ds8k_create_api_volume api sys n sz se p s = (r, s')"
  shows "case r of
      Inr v \<Rightarrow> (p, n) \<notin> ran (held s) \<and> held s (dv_id v) = None \<and> held s' = (held s)(dv_id v \<mapsto> (p, n))
    | Inl e \<Rightarrow> adds_one (held s) (p, n) (held s')"
proof -
  let ?args = "\<lparr>ca_name = n, ca_cap = sz, ca_pool = p, ca_tp = get_array_space_efficiency api se\<rparr>"
  obtain g s1 where g: "ds8k_get_api_volume_by_name api sys n (Some p) s = (g, s1)" by (metis surj_pair)
  have s1: "held s1 = held s" using keepsD [OF kept(2) refl g] by simp
  show ?thesis
  proof (cases "g = Inr None")
    case False
    then show ?thesis
      using run g s1
      by (cases g) (auto simp: ds8k_create_api_volume_def ds8k_run split: exc.splits option.splits if_splits)
  next
    case True
    then have free: "(p, n) \<notin> ran (held s)" using found_by_name [OF g] by simp
    obtain c s2 where c: "da_create_volume_fb api ?args s1 = (c, s2)" by (metis surj_pair)
    note made = volume_made [OF c, unfolded s1]
    have adds: "adds_one (held s) (p, n) (held s2)"
      using made free by (cases c) (auto simp: adds_oneI)
    show ?thesis
    proof (cases c)
      case (Inl l)
      then show ?thesis
        using run g True c adds
        by (auto simp: ds8k_create_api_volume_def rest_create_volume_def ds8k_run split: if_splits)
    next
      case (Inr vs)
      then obtain w ws where vs: "vs = w # ws" using made by (cases vs) auto
      obtain v s3 where v: "da_get_volumes api (dv_id w) s2 = (v, s3)" by (metis surj_pair)
      show ?thesis
        using run g True c Inr vs v volume_read [OF v] made adds read_keeps [OF v] free
        by (cases v) (auto simp: ds8k_create_api_volume_def rest_create_volume_def rest_get_volume_def
            first_item_def ds8k_run split: if_splits)
    qed
  qed
qed

lemma create_volume_adds:
  assumes run: "ds8k_create_volume api sa sys n sz se p s = (r, s')" and free: "(p, n) \<notin> ran (held s)"
  shows "case r of
      Inr (Some v) \<Rightarrow> held s (scsi_id_to_volume_id (vol_id v)) = None \<and>
        held s' = (held s)(scsi_id_to_volume_id (vol_id v) \<mapsto> (p, n))
    | _ \<Rightarrow> adds_one (held s) (p, n) (held s')"
  using run unfolding ds8k_create_volume_def
proof (cases rule: bnd_cases)
  case (error e)
  with created_api_volume [OF error(1)] show ?thesis by simp
next
  case (result v s1)
  have made: "held s (dv_id v) = None" "held s1 = (held s)(dv_id v \<mapsto> (p, n))"
    using created_api_volume [OF result(1)] by auto
  then have "adds_one (held s) (p, n) (held s1)" "length (dv_id v) = 4"
    using free four_digits [of s1 "dv_id v"] by (simp_all add: adds_oneI)
  with made show ?thesis
    using result(2)
    by (auto simp: ds8k_generate_volume_response_def py_int_def scsi_id_read_back Prelude.run
        split: option.splits sum.splits)
qed

lemma unlinked_delete:
  assumes run: "bnd (ds8k_safe_delete_flashcopies api fs n) (\<lambda>_.
      bnd (case t of None \<Rightarrow> ret () | Some f \<Rightarrow> ds8k_delete_flashcopy api (dc_id f)) (\<lambda>_.
        ds8k_delete_volume_by_id api i True)) s = (r, s')"
  shows "case r of
      Inl e \<Rightarrow> held s' = held s \<and> (is_ObjectNotFound e \<longrightarrow> held s i = None)
    | Inr u \<Rightarrow> held s' = (held s)(i := None)"
proof -
  define before where "before = bnd (ds8k_safe_delete_flashcopies api fs n) (\<lambda>_.
      case t of None \<Rightarrow> ret () | Some f \<Rightarrow> ds8k_delete_flashcopy api (dc_id f))"
  have stays: "keeps (\<lambda>s. held s = T) before" for T
    unfolding before_def by (auto intro!: keeps_rules kept split: option.split)
  have quiet: "yields (\<lambda>_. True) (\<lambda>e. \<not> is_ObjectNotFound e) before"
    unfolding before_def ds8k_safe_delete_flashcopies_def ds8k_ensure_flashcopy_safe_to_delete_def
      ds8k_get_flashcopy_process_def rest_get_flashcopies_def ds8k_delete_flashcopy_def
      rest_delete_flashcopy_def
    by (auto intro!: spec_rules split: option.split)
  have "bnd before (\<lambda>_. ds8k_delete_volume_by_id api i True) s = (r, s')"
    using run by (simp add: before_def bnd_assoc)
  then show ?thesis
  proof (cases rule: bnd_cases)
    case (error e)
    then show ?thesis using keepsD [OF stays refl error(1)] yields_errorD [OF quiet error(1)] by simp
  next
    case (result u s1)
    have s1: "held s1 = held s" using keepsD [OF stays refl result(1)] by simp
    obtain d s2 where d: "da_delete_volume api i s1 = (d, s2)" by (metis surj_pair)
    show ?thesis
      using result(2) d volume_removed [OF d, unfolded s1]
      by (cases d) (auto simp: ds8k_delete_volume_by_id_def rest_delete_volume_def ds8k_run
          split: if_splits)
  qed
qed

lemma delete_object_drops:
  assumes run: "ds8k_delete_object api i b s = (r, s')"
  shows "case r of
      Inl e \<Rightarrow> held s' = held s \<and> (\<not> b \<longrightarrow> is_ObjectNotFound e \<longrightarrow> held s i = None)
    | Inr u \<Rightarrow> held s' = (held s)(i := None)"
  using run unfolding ds8k_delete_object_def
proof (cases rule: bnd_cases)
  case (error e)
  with found_by_number [OF error(1)] keepsD [OF kept(3) refl error(1)] show ?thesis by simp
next
  case (result x s1)
  have s1: "held s1 = held s" using keepsD [OF kept(3) refl result(1)] by simp
  show ?thesis
  proof (cases "\<exists>v. x = Some v \<and> \<not> (b \<and> \<not> is_snapshot v)")
    case False
    then show ?thesis using result(2) s1 by (auto simp: Prelude.run split: option.splits)
  next
    case True
    then obtain v where v: "x = Some v" "\<not> (b \<and> \<not> is_snapshot v)" by auto
    have "case r of Inl e \<Rightarrow> held s' = held s1 \<and> (is_ObjectNotFound e \<longrightarrow> held s1 i = None)
      | Inr u \<Rightarrow> held s' = (held s1)(i := None)"
      by (rule unlinked_delete) (use result(2) v in \<open>simp add: if_not_P\<close>)
    then show ?thesis using s1 by (auto split: sum.splits)
  qed
qed

lemma keeps_store:
  "volume_store (ds8k_mediator retry api sa sys) scsi_id_to_volume_id Pair held"
proof
  show "keeps (\<lambda>s. held s = T) (validate_supported_space_efficiency (ds8k_mediator retry api sa sys) se)" for T se
    by (simp add: ds8k_mediator_def ds8k_validate_supported_space_efficiency_def keeps_ret keeps_raise)
  show "case r of
      Inr (Some v) \<Rightarrow> held s (scsi_id_to_volume_id (vol_id v)) = None \<and>
        held s' = (held s)(scsi_id_to_volume_id (vol_id v) \<mapsto> (p, n))
    | _ \<Rightarrow> adds_one (held s) (p, n) (held s')"
    if "(p, n) \<notin> ran (held s)" "create_volume (ds8k_mediator retry api sa sys) n sz se p s = (r, s')"
    for n s sz se p r s'
    using create_volume_adds [of sa sys n sz se p s r s'] that by (simp add: ds8k_mediator_def)
  show "held s' = held s \<and> (case r of
      Inl e \<Rightarrow> is_ObjectNotFound e \<longrightarrow> (p, n) \<notin> ran (held s)
    | Inr v \<Rightarrow> held s (scsi_id_to_volume_id (vol_id v)) = Some (p, n))"
    if "get_volume (ds8k_mediator retry api sa sys) n (Some p) s = (r, s')" for n p s r s'
    using get_volume_reads [of sa sys n p s r s'] that by (simp add: ds8k_mediator_def)
  show "case r of
      Inl e \<Rightarrow> held s' = held s \<and> (is_ObjectNotFound e \<longrightarrow> held s (scsi_id_to_volume_id i) = None)
    | Inr u \<Rightarrow> held s' = (held s)(scsi_id_to_volume_id i := None)"
    if "delete_volume (ds8k_mediator retry api sa sys) i s = (r, s')" for i s r s'
    using delete_object_drops [of "scsi_id_to_volume_id i" False s r s'] that
    by (auto simp: ds8k_mediator_def ds8k_delete_volume_def split: sum.splits)
qed (simp_all add: ds8k_mediator_def kept)

end

sublocale ds8k_volumes \<subseteq> store: volume_store "ds8k_mediator retry api sa sys" scsi_id_to_volume_id Pair held
  for retry sa sys
  by (rule keeps_store)

text \<open>
  The DS8K mediator keeps a store of volumes, told apart by pool and name; the identifiers it
  reports lead back to the volumes.
\<close>

theorem ds8k_keeps_volume_store:
  assumes "ds8k_volumes api held"
  shows "volume_store (ds8k_mediator retry api sa sys) scsi_id_to_volume_id Pair held"
  by (rule ds8k_volumes.keeps_store [OF assms])

section \<open>Arrays in memory\<close>

text \<open>
  The world of the first two is the list of the names; the id of a volume is its name with a
  prefix, so names and ids are unique.
\<close>

type_synonym names_memory = "string list"

fun memory_objs :: "names_memory \<Rightarrow> string \<Rightarrow> string option" where
  "memory_objs s (c # n) = (if c = CHR ''6'' \<and> n \<in> set s then Some n else None)"
| "memory_objs s [] = None"

lemma memory_objs_eq: "memory_objs s w = (if \<exists>n \<in> set s. w = CHR ''6'' # n then Some (tl w) else None)"
  by (cases w) auto

lemma memory_objs_ran [simp]: "n \<in> ran (memory_objs s) \<longleftrightarrow> n \<in> set s"
  by (auto simp: ran_def memory_objs_eq split: if_splits intro!: exI [of _ "CHR ''6'' # n"])

lemma memory_objs_add: "memory_objs (n # s) = (memory_objs s)(CHR ''6'' # n \<mapsto> n)"
  by (auto simp: memory_objs_eq fun_eq_iff)

lemma memory_objs_drop: "memory_objs (removeAll n s) = (memory_objs s)(CHR ''6'' # n := None)"
  by (auto simp: memory_objs_eq fun_eq_iff)

definition named_add :: "lib_exc \<Rightarrow> string \<Rightarrow> 'a \<Rightarrow> (names_memory, 'a) lib_call" where
  "named_add e n x s = (if n \<in> set s then (Inl e, s) else (Inr x, n # s))"

definition named_drop :: "lib_exc \<Rightarrow> string \<Rightarrow> (names_memory, unit) lib_call" where
  "named_drop e n s = (if n \<in> set s then (Inr (), removeAll n s) else (Inl e, s))"

text \<open>A name that starts with \<open>s\<close> is that of a snapshot of the rest of the name.\<close>

fun master_of :: "string \<Rightarrow> string" where
  "master_of (c # n) = (if c = CHR ''s'' then n else [])"
| "master_of [] = []"

definition xiv_of_name :: "string \<Rightarrow> xiv_volume" where
  "xiv_of_name n = sample_xiv_volume\<lparr>xv_wwn := CHR ''6'' # n, xv_name := n, xv_master_name := master_of n\<rparr>"

definition names_xiv :: "names_memory xiv_client" where
  "names_xiv =
     \<lparr>xc_is_connected = xok True, xc_close = xok (), xc_config_get = xok [],
      xc_vol_list_name = (\<lambda>n s. (Inr (if n \<in> set s then Some (xiv_of_name n) else None), s)),
      xc_vol_list_wwn = (\<lambda>w s. (Inr (map_option xiv_of_name (memory_objs s w)), s)),
      xc_vol_create = (\<lambda>n z p. named_add (memory_error [Xcli_VolumeExistsError] '''') n (Some (xiv_of_name n))),
      xc_vol_resize = (\<lambda>_ _. xok ()), xc_vol_format = (\<lambda>_. xok ()),
      xc_vol_copy = (\<lambda>_ _. xok ()),
      xc_vol_delete = (\<lambda>n. named_drop (memory_error [Xcli_VolumeBadNameError] '''') n),
      xc_snapshot_list = (\<lambda>_. xok []),
      xc_snapshot_create = (\<lambda>n v. named_add (memory_error [Xcli_VolumeExistsError] '''') n (Some (xiv_of_name n))),
      xc_snapshot_delete = (\<lambda>n. named_drop (memory_error [Xcli_VolumeBadNameError] '''') n),
      xc_host_list = xok [], xc_vol_mapping_list = (\<lambda>_. xok []), xc_mapping_list = (\<lambda>_. xok []),
      xc_map_vol = (\<lambda>_ _ _. xok ()), xc_unmap_vol = (\<lambda>_ _. xok ()),
      xc_ipinterface_list = xok [], xc_fc_port_list = xok []\<rparr>"

interpretation names_xiv: xiv_volumes names_xiv memory_objs
proof
  show "xiv_volume_reads (\<lambda>s. memory_objs s = T) names_xiv" for T
    by (auto simp: xiv_volume_reads_def names_xiv_def intro: keeps_rules)
  show "case x of None \<Rightarrow> n \<notin> ran (memory_objs s) | Some v \<Rightarrow> memory_objs s (xv_wwn v) = Some n"
    if "xc_vol_list_name names_xiv n s = (Inr x, s')" for n s x s'
    using that by (auto simp: names_xiv_def xiv_of_name_def)
  show "memory_objs s w = map_option xv_name x" if "xc_vol_list_wwn names_xiv w s = (Inr x, s')" for w s x s'
    using that by (auto simp: names_xiv_def xiv_of_name_def comp_def option.map_comp option.map_ident)
  show "case r of
      Inl l \<Rightarrow> memory_objs s' = memory_objs s
    | Inr x \<Rightarrow> \<exists>w. memory_objs s w = None \<and> memory_objs s' = (memory_objs s)(w \<mapsto> n) \<and>
        (\<forall>v. x = Some v \<longrightarrow> xv_wwn v = w)"
    if "xc_vol_create names_xiv n b p s = (r, s')" for n b p s r s'
    using that by (auto simp: names_xiv_def named_add_def memory_objs_add xiv_of_name_def split: if_splits)
  show "case r of
      Inl l \<Rightarrow> memory_objs s' = memory_objs s1 \<and> \<not> is_a l Xcli_VolumeBadNameError
    | Inr u \<Rightarrow> memory_objs s' = (memory_objs s1)(w := None)"
    if "memory_objs s1 w = Some n" "xc_vol_delete names_xiv n s1 = (r, s')" for w n s1 r s'
    using that by (auto simp: names_xiv_def named_drop_def memory_objs_drop memory_objs_eq split: if_splits)
qed

lemma xiv_keeps_volume_store_witness:
  "volume_store (xiv_mediator zero_random names_xiv []) id (\<lambda>_ n. n) memory_objs"
  by (rule xiv_keeps_volume_store [OF names_xiv.xiv_volumes_axioms])

definition svc_of_name :: "string \<Rightarrow> svc_vdisk" where
  "svc_of_name n =
     \<lparr>vd_name = n, vd_uid = CHR ''6'' # n, vd_capacity = ''1073741824'', vd_mdisk_grp_name = ''p'', vd_FC_id = '''',
      vd_se_copy = ''no'', vd_compressed_copy = ''no'', vd_deduplicated_copy = None\<rparr>"

text \<open>The message of an error, whose tag is between quotation marks.\<close>

definition svc_failure :: lib_exc where
  "svc_failure = memory_error [Svc_CLIFailureError] (CHR 0x22 # ''CMMVC6035E'' @ [CHR 0x22])"

definition names_svc :: "names_memory svc_client" where
  "names_svc =
     \<lparr>sc_close = xok (), sc_is_active = xok True, sc_lssystem = xok [],
      sc_lsvdisk_by_id = (\<lambda>n s. (Inr (if n \<in> set s then Some (svc_of_name n) else None), s)),
      sc_lsvdisk_filter = (\<lambda>f s.
        (Inr (map_option svc_of_name (memory_objs s (drop (length ''vdisk_UID='') f))), s)),
      sc_lsfcmap = (\<lambda>_. xok []), sc_expandvdisksize = (\<lambda>_ _. xok ()),
      sc_mkvolume = (\<lambda>a. named_add svc_failure (mv_name a) ()), sc_rmvolume = named_drop svc_failure,
      sc_mkfcmap = (\<lambda>_ _ _. xok ()), sc_startfcmap = (\<lambda>_. xok ()),
      sc_stopfcmap = (\<lambda>_. xok ()), sc_rmfcmap = (\<lambda>_ _. xok ()), sc_lshost = xok [],
      sc_send_raw_command = (\<lambda>_. xok (None, None)), sc_lsvdiskhostmap = (\<lambda>_. xok []),
      sc_lshostvdiskmap = (\<lambda>_. xok []), sc_mkvdiskhostmap = (\<lambda>_ _ _. xok ()),
      sc_rmvdiskhostmap = (\<lambda>_ _. xok ()), sc_lsnode = xok [], sc_lsportip = (\<lambda>_. xok []),
      sc_lsfabric = (\<lambda>_. xok [])\<rparr>"

lemma svc_failure_fails:
  "\<not> carried_out (Inl svc_failure) \<and> \<not> any_in [OBJ_NOT_FOUND, VOL_NOT_FOUND] (lx_message svc_failure)"
  by code_simp

interpretation names_svc: svc_volumes retry_loop names_svc memory_objs
proof
  show "svc_volume_reads (\<lambda>s. memory_objs s = T) names_svc" for T
    by (auto simp: svc_volume_reads_def names_svc_def intro: keeps_rules)
  show "case r of
      Inr None \<Rightarrow> n \<notin> ran (memory_objs s)
    | Inr (Some v) \<Rightarrow> memory_objs s (vd_uid v) = Some n
    | Inl l \<Rightarrow> any_in [OBJ_NOT_FOUND, NAME_NOT_EXIST_OR_MEET_RULES] (lx_message l) \<longrightarrow> n \<notin> ran (memory_objs s)"
    if "sc_lsvdisk_by_id names_svc n s = (r, s')" for n s r s'
    using that by (auto simp: names_svc_def svc_of_name_def)
  show "memory_objs s w = map_option vd_name x"
    if "sc_lsvdisk_filter names_svc (''vdisk_UID='' @ w) s = (Inr x, s')" for w s x s'
    using that by (auto simp: names_svc_def svc_of_name_def comp_def option.map_comp option.map_ident)
  show "if carried_out r then \<exists>w. memory_objs s w = None \<and> memory_objs s' = (memory_objs s)(w \<mapsto> mv_name a)
      else memory_objs s' = memory_objs s"
    if "sc_mkvolume names_svc a s = (r, s')" for a s r s'
    using that svc_failure_fails
    by (auto simp: names_svc_def named_add_def memory_objs_add intro!: exI [of _ "CHR ''6'' # mv_name a"] split: if_splits simp del: carried_out.simps(2))
  show "if carried_out r then memory_objs s' = (memory_objs s)(w := None)
      else memory_objs s' = memory_objs s \<and>
        (\<forall>l. r = Inl l \<longrightarrow> \<not> any_in [OBJ_NOT_FOUND, VOL_NOT_FOUND] (lx_message l))"
    if "memory_objs s w = Some n" "sc_rmvolume names_svc n s = (r, s')" for w n s r s'
    using that svc_failure_fails
    by (auto simp: names_svc_def named_drop_def memory_objs_drop memory_objs_eq split: if_splits
        simp del: carried_out.simps(2))
qed (rule retry_loop_law)

lemma svc_keeps_volume_store_witness:
  "volume_store (svc_mediator retry_loop names_svc ''a'') id (\<lambda>_ n. n) memory_objs"
  by (rule svc_keeps_volume_store [OF names_svc.svc_volumes_axioms])

text \<open>A DS8K: the world is the list of the volumes, by number, with pool and name.\<close>

type_synonym numbers_memory = "(string, string \<times> string) dict"

definition memory_held :: "numbers_memory \<Rightarrow> string \<Rightarrow> (string \<times> string) option" where
  "memory_held s i = (if length i = 4 then map_of s i else None)"

definition ds8k_of_entry :: "string \<Rightarrow> string \<times> string \<Rightarrow> ds8k_volume" where
  "ds8k_of_entry i x = (sample_ds8k_volume [])\<lparr>dv_id := i, dv_pool := fst x, dv_name := snd x\<rparr>"

definition number_missing :: lib_exc where
  "number_missing = memory_error [Ds8k_NotFound] ''''"

definition free_number :: "numbers_memory \<Rightarrow> string option" where
  "free_number s = find (\<lambda>i. map_of s i = None) [''0001'', ''0002'', ''0003'']"

lemma free_number_free: "free_number s = Some i \<Longrightarrow> map_of s i = None \<and> length i = 4"
  by (auto simp: free_number_def split: if_splits)

definition numbers_ds8k :: "numbers_memory ds8k_api" where
  "numbers_ds8k =
     \<lparr>da_tp_ese = ''ese'', da_tp_none = ''none'', da_option_per = ''per'', da_option_nbc = ''nbc'',
      da_option_pset = ''pset'', da_ioport_wwpn = ''wwpn'', da_ioport_status = ''state'',
      da_get_io_enclosures = xok (), da_get_systems = xok [],
      da_get_volumes = (\<lambda>i s. (case memory_held s i of None \<Rightarrow> Inl number_missing | Some x \<Rightarrow> Inr (ds8k_of_entry i x), s)),
      da_get_volumes_by_pool = (\<lambda>p s. (Inr (map (\<lambda>i. ds8k_of_entry i (the (map_of s i)))
        (filter (\<lambda>i. \<exists>x \<in> set_option (memory_held s i). fst x = p) (map fst s))), s)),
      da_get_host = (\<lambda>h s. (Inl no_host, s)), da_get_hosts = xok [],
      da_get_flashcopies_by_volume = (\<lambda>_. xok []), da_get_mappings_by_host = (\<lambda>h. xok []),
      da_create_volume_fb = (\<lambda>a s. case free_number s of
          None \<Rightarrow> (Inl number_missing, s)
        | Some i \<Rightarrow> (Inr [ds8k_of_entry i (ca_pool a, ca_name a)], dict_set i (ca_pool a, ca_name a) s)),
      da_update_volume_extend = (\<lambda>v n. xok ()),
      da_delete_volume = (\<lambda>i s. if memory_held s i = None then (Inl number_missing, s)
        else (Inr (), dict_del i s)),
      da_map_volume_to_host = (\<lambda>h v l. xok []), da_unmap_volume_from_host = (\<lambda>h v. xok ()),
      da_create_cs_flashcopy = (\<lambda>v w o'. xok []), da_delete_cs_flashcopy = (\<lambda>f. xok ()),
      da_get_cs_flashcopies = (\<lambda>f. xok (sample_flashcopy ''disabled''))\<rparr>"

interpretation numbers_ds8k: ds8k_volumes numbers_ds8k memory_held
proof
  show "ds8k_volume_reads (\<lambda>s. memory_held s = T) numbers_ds8k" for T
    by (auto simp: ds8k_volume_reads_def numbers_ds8k_def intro: keeps_rules)
  show "(\<forall>v \<in> set vs. memory_held s (dv_id v) = Some (p, dv_name v)) \<and>
      (\<forall>i n. memory_held s i = Some (p, n) \<longrightarrow> n \<in> dv_name ` set vs)"
    if "da_get_volumes_by_pool numbers_ds8k p s = (Inr vs, s')" for p s vs s'
    using that
    by (auto simp: numbers_ds8k_def ds8k_of_entry_def memory_held_def image_image image_iff
        split: if_splits dest: map_of_SomeD) (force dest: map_of_SomeD)
  show "case r of Inl l \<Rightarrow> is_a l Ds8k_NotFound \<longrightarrow> memory_held s i = None | Inr v \<Rightarrow> dv_id v = i"
    if "da_get_volumes numbers_ds8k i s = (r, s')" for i s r s'
    using that by (auto simp: numbers_ds8k_def ds8k_of_entry_def split: option.splits)
  show "case r of
      Inl l \<Rightarrow> memory_held s' = memory_held s
    | Inr vs \<Rightarrow> vs \<noteq> [] \<and> memory_held s (dv_id (hd vs)) = None \<and>
        memory_held s' = (memory_held s)(dv_id (hd vs) \<mapsto> (ca_pool a, ca_name a))"
    if "da_create_volume_fb numbers_ds8k a s = (r, s')" for a s r s'
    using that free_number_free [of s]
    by (auto simp: numbers_ds8k_def ds8k_of_entry_def memory_held_def fun_eq_iff split: option.splits)
  show "case r of
      Inl l \<Rightarrow> memory_held s' = memory_held s \<and> (is_a l Ds8k_NotFound \<longrightarrow> memory_held s i = None)
    | Inr u \<Rightarrow> memory_held s' = (memory_held s)(i := None)"
    if "da_delete_volume numbers_ds8k i s = (r, s')" for i s r s'
    using that by (auto simp: numbers_ds8k_def memory_held_def fun_eq_iff split: if_splits)
  show "memory_held s i = None"
    if "da_get_flashcopies_by_volume numbers_ds8k i s = (Inl l, s')" for i s l s'
    using that by (simp add: numbers_ds8k_def xok_def)
  show "length i = 4" if "memory_held s i = Some x" for s i x
    using that by (simp add: memory_held_def split: if_splits)
qed

lemma ds8k_keeps_volume_store_witness:
  "volume_store (ds8k_mediator retry_loop numbers_ds8k ''a'' sample_system) scsi_id_to_volume_id Pair memory_held"
  by (rule ds8k_keeps_volume_store [OF numbers_ds8k.ds8k_volumes_axioms])

section \<open>Runs on the memory\<close>

abbreviation names_env :: "names_memory env" where
  "names_env \<equiv> stub_env ds8k_answers"

abbreviation names_mediator :: "names_memory mediator" where
  "names_mediator \<equiv> xiv_mediator zero_random names_xiv []"

lemmas names_store = names_xiv.keeps_store [of zero_random "[]"]

lemma names_retry: "retry_law (en_retry names_env)"
  by (simp add: stub_env_def retry_loop_law)

lemma names_v1: "get_volume_final_name names_env None ''v1'' names_mediator = Inr ''v1''"
  by code_simp

lemma names_final_name:
  "get_volume_final_name names_env None (cv_name (sample_request 1073741824)) names_mediator = Inr ''v1''"
  by (simp add: sample_request_def names_v1)

definition names_created :: volume where
  "names_created =
     \<lparr>vol_capacity_bytes = 1073741824, vol_id = ''6v1'', vol_name = ''v1'', vol_array_address = AddrList [],
      vol_pool = ''p'', vol_copy_source_id = None, vol_array_type = ''A9000''\<rparr>"

definition names_reply :: "create_volume_response reply" where
  "names_reply = \<lparr>rp_code = None, rp_details = NoDetails,
     rp_body = Some (generate_csi_create_volume_response names_created None None)\<rparr>"

lemma names_size_fits: "maximal_volume_size_in_bytes names_mediator = 1125899906842624"
  by (simp add: xiv_mediator_def)

lemma names_made:
  "create_volume names_mediator ''v1'' z None ''p'' [] = (Inr (Some names_created), [''v1''])"
  by (simp add: xiv_mediator_def xiv_create_volume_def names_xiv_def named_add_def xiv_of_name_def
      xiv_generate_volume_response_def xiv_convert_size_blocks_to_bytes_def py_int_def sample_xiv_capacity
      XIV_BLOCK_SIZE_IN_BYTES_def ARRAY_TYPE_XIV_def except_lib_def lib_def run sample_xiv_volume_def names_created_def)

lemma names_got:
  "get_volume names_mediator ''v1'' p s =
     (if ''v1'' \<in> set s then Inr names_created else Inl (ObjectNotFoundError ''v1''), s)"
  by (simp add: xiv_mediator_def xiv_get_volume_def xiv_get_cli_object_by_name_def names_xiv_def xiv_of_name_def
      xiv_generate_volume_response_def xiv_convert_size_blocks_to_bytes_def py_int_def sample_xiv_capacity
      XIV_BLOCK_SIZE_IN_BYTES_def ARRAY_TYPE_XIV_def except_lib_def lib_def run sample_xiv_volume_def names_created_def)

lemma names_efficiency: "validate_supported_space_efficiency names_mediator None s = (Inr (), s)"
  by (simp add: xiv_mediator_def xiv_validate_supported_space_efficiency_def)

lemma names_create:
  "s \<in> {[], [''v1'']} \<Longrightarrow>
   create_volume_on names_env (sample_request 1073741824) None None ''p'' (None, None) None names_mediator s =
     (Inr names_reply, [''v1''])"
  by (auto simp: create_volume_on_def names_v1 names_size_fits names_got names_made names_efficiency
      sample_request_def requested_bytes_def find_or_create_volume_def handle_existing_volume_source_def
      create_volume_answer_def run Let_def names_reply_def names_created_def)

lemmas names_create_first = names_create [of "[]", simplified]
lemmas names_create_again = names_create [of "[''v1'']", simplified]

lemma names_delete: "delete_volume_on ''6v1'' names_mediator [''v1''] = (Inr empty_reply, [])"
  by code_simp

lemma created_volume_stored_witness:
  "adds_one (memory_objs []) ''v1'' (memory_objs [''v1''])"
  using created_volume_stored [OF names_store names_retry names_final_name names_create_first] by blast

text \<open>A volume, \<^verbatim>\<open>v2\<close>, where a snapshot is expected as the source of the new volume \<^verbatim>\<open>v1\<close>.\<close>

lemma names_no_snapshot:
  "get_object_by_id names_mediator ''6v2'' SNAPSHOT_TYPE [''v1'', ''v2''] =
     (Inl (ExpectedSnapshotButFoundVolumeError ''6v2'' ''[]''), [''v1'', ''v2''])"
  "fst (delete_volume names_mediator (vol_id names_created) [''v1'', ''v2'']) = Inr ()"
  by code_simp+

lemma copy_failure_rolled_back_witness:
  "\<exists>s'. create_volume_answer names_env (Some SNAPSHOT_TYPE, Some ''6v2'') None names_mediator 512 names_created
      [''v1'', ''v2''] = (Inl (ExpectedSnapshotButFoundVolumeError ''6v2'' ''[]''), s') \<and>
    memory_objs s' = (memory_objs [''v1'', ''v2''])(''6v1'' := None)"
proof -
  let ?run = "create_volume_answer names_env (Some SNAPSHOT_TYPE, Some ''6v2'') None names_mediator 512 names_created
      [''v1'', ''v2'']"
  let ?del = "delete_volume names_mediator (vol_id names_created)"
  have source: "''6v2'' \<noteq> []" by simp
  have "?run = (fst ?run, snd ?run)" by simp
  note settled = copy_failure_rolled_back [OF names_store names_retry source disjI1 [OF names_no_snapshot(1)] this]
  obtain k where k: "\<forall>i<k. \<exists>e. fst (?del (attempt ?del i [''v1'', ''v2''])) = Inl e"
    and out: "case ?del (attempt ?del k [''v1'', ''v2'']) of
       (Inr u, t) \<Rightarrow> fst ?run = Inl (ExpectedSnapshotButFoundVolumeError ''6v2'' ''[]'') \<and> snd ?run = t \<and>
         memory_objs (snd ?run) = (memory_objs [''v1'', ''v2''])(id (vol_id names_created) := None)
     | (Inl e, t) \<Rightarrow> k = 4 \<and> fst ?run = Inl e \<and> snd ?run = t \<and> memory_objs (snd ?run) = memory_objs [''v1'', ''v2'']"
    using settled by (elim exE conjE)
  have "k = 0" using k names_no_snapshot(2) by (cases k) auto
  obtain t where "?del [''v1'', ''v2''] = (Inr (), t)"
    using names_no_snapshot(2) by (metis prod.collapse)
  note outcome = out [unfolded \<open>k = 0\<close> attempt_simps(1) this prod.case sum.case]
  have "vol_id names_created = ''6v1''" by (simp add: names_created_def)
  from outcome [unfolded this id_apply] have "fst ?run = Inl (ExpectedSnapshotButFoundVolumeError ''6v2'' ''[]'')"
    and "memory_objs (snd ?run) = (memory_objs [''v1'', ''v2''])(''6v1'' := None)"
    by blast+
  then show ?thesis by (intro exI [of _ "snd ?run"] conjI) (simp_all only: prod_eq_iff fst_conv snd_conv)
qed

lemma delete_empties_slot_witness:
  "memory_objs [] = (memory_objs [''v1''])(''6v1'' := None)"
  using delete_empties_slot [OF names_store names_delete] by (simp add: empty_reply_def)

lemma names_once: "named_once (memory_objs s)"
  by (auto simp: named_once_def memory_objs_eq split: if_splits)

lemma create_twice_witness:
  "\<exists>a v v'. rp_body names_reply = Some a \<and> a = generate_csi_create_volume_response v None None \<and>
    a = generate_csi_create_volume_response v' None None \<and> vol_id v = vol_id v'"
  using create_twice [OF names_store names_retry names_once names_final_name names_final_name names_create_first _
      names_create_again]
  by (auto simp: names_reply_def)

lemma create_delete_roundtrip_witness:
  "\<exists>v. rp_body names_reply = Some (generate_csi_create_volume_response v None None)"
proof -
  have "''v1'' \<notin> ran (memory_objs [])" by simp
  from create_delete_roundtrip [OF names_store names_retry this names_final_name names_create_first]
  show ?thesis by (auto simp: names_reply_def)
qed

lemma volume_names_unique_witness: "named_once (memory_objs [''v1''])"
proof (rule volume_names_unique [OF names_store names_retry names_once])
  have "volume_step names_env names_mediator [] (snd (create_volume_on names_env (sample_request 1073741824) None None
      ''p'' (None, None) None names_mediator []))" by (rule volume_step.create)
  then show "(volume_step names_env names_mediator)\<^sup>*\<^sup>* [] [''v1'']" by (simp add: names_create_first)
qed

end
