(* ===== verification/ServedArrays.thy ===== *)
theory ServedArrays
  imports SnapshotStore VolumeStores
begin

text \<open>
  The three storage types are what \<open>ArrayInvariants\<close> asks of the arrays behind a server: with their
  snapshots they keep a store of uniquely named objects (the contract of \<open>SnapshotStore\<close>), and with
  their volumes a table of mappings that only publishing extends.  To the documented behaviour of the clients in \<open>VolumeStores\<close> and
  \<open>MappingStores\<close> this adds what the commands for snapshots do, that a name in use is refused, and
  that commands for mappings keep the volumes and the other commands make no mapping.
\<close>

section \<open>XIV\<close>

definition xiv_mapping_calls :: "('s \<Rightarrow> bool) \<Rightarrow> 's randint \<Rightarrow> 's xiv_client \<Rightarrow> bool" where
  "xiv_mapping_calls P randint cl \<longleftrightarrow> xiv_lists P randint cl \<and>
     (\<forall>h n l. keeps P (xc_map_vol cl h n l)) \<and> (\<forall>h n. keeps P (xc_unmap_vol cl h n)) \<and>
     keeps P (xc_is_connected cl) \<and> keeps P (xc_close cl)"

lemma xiv_mapping_calls_keep:
  assumes "xiv_mapping_calls P randint cl"
  shows "keeps P (xiv_map_volume randint cl v h)" "keeps P (xiv_unmap_volume cl v h)"
    "keeps P (xiv_disconnect cl)"
proof -
  have lists: "xiv_lists P randint cl" and calls: "\<And>h n l. keeps P (xc_map_vol cl h n l)"
    "\<And>h n. keeps P (xc_unmap_vol cl h n)" "keeps P (xc_is_connected cl)" "keeps P (xc_close cl)"
    using assms by (simp_all add: xiv_mapping_calls_def)
  show "keeps P (xiv_map_volume randint cl v h)"
    unfolding xiv_map_volume_def by (auto intro!: keeps_rules xiv_lists_keep [OF lists] calls)
  show "keeps P (xiv_unmap_volume cl v h)"
    unfolding xiv_unmap_volume_def by (auto intro!: keeps_rules xiv_lists_keep [OF lists] calls)
  show "keeps P (xiv_disconnect cl)"
    unfolding xiv_disconnect_def by (auto intro!: keeps_rules calls)
qed

definition xiv_volume_calls :: "('s \<Rightarrow> bool) \<Rightarrow> 's xiv_client \<Rightarrow> bool" where
  "xiv_volume_calls P cl \<longleftrightarrow> xiv_volume_reads P cl \<and>
     (\<forall>n b p. keeps P (xc_vol_create cl n b p)) \<and> (\<forall>n. keeps P (xc_vol_delete cl n)) \<and>
     (\<forall>n v. keeps P (xc_snapshot_create cl n v)) \<and> (\<forall>n. keeps P (xc_snapshot_delete cl n)) \<and>
     keeps P (xc_is_connected cl) \<and> keeps P (xc_close cl)"

lemma xiv_snapshot_reads_keep:
  assumes "xiv_volume_reads P cl"
  shows "keeps P (xiv_get_snapshot cl eps i n pool)" "keeps P (xiv_generate_snapshot_response cl eps x)"
proof -
  have name: "\<And>n. keeps P (xc_vol_list_name cl n)" using assms by (simp add: xiv_volume_reads_def)
  show response: "keeps P (xiv_generate_snapshot_response cl eps x)" for x
    unfolding xiv_generate_snapshot_response_def xiv_get_source_object_wwn_def
    by (auto intro!: keeps_rules xiv_volume_reads_keep [OF assms] split: option.split)
  show "keeps P (xiv_get_snapshot cl eps i n pool)"
    unfolding xiv_get_snapshot_def by (auto intro!: keeps_rules name response split: option.split)
qed

lemma xiv_volume_calls_keep:
  assumes "xiv_volume_calls P cl"
  shows "keeps P (xiv_create_volume cl eps n sz se p)" "keeps P (xiv_delete_volume cl i)"
    "keeps P (xiv_create_snapshot cl eps i n pool)" "keeps P (xiv_delete_snapshot cl i)"
    "keeps P (xiv_disconnect cl)"
proof -
  have reads: "xiv_volume_reads P cl" and calls: "\<And>n b p. keeps P (xc_vol_create cl n b p)"
    "\<And>n. keeps P (xc_vol_delete cl n)" "\<And>n v. keeps P (xc_snapshot_create cl n v)"
    "\<And>n. keeps P (xc_snapshot_delete cl n)" "keeps P (xc_is_connected cl)" "keeps P (xc_close cl)"
    using assms by (simp_all add: xiv_volume_calls_def)
  note kept = xiv_volume_reads_keep [OF reads] xiv_snapshot_reads_keep [OF reads]
  show "keeps P (xiv_create_volume cl eps n sz se p)"
    unfolding xiv_create_volume_def by (auto intro!: keeps_rules kept calls)
  show "keeps P (xiv_delete_volume cl i)"
    unfolding xiv_delete_volume_def by (auto intro!: keeps_rules kept calls)
  show "keeps P (xiv_create_snapshot cl eps i n pool)"
    unfolding xiv_create_snapshot_def by (auto intro!: keeps_rules kept calls split: option.split)
  show "keeps P (xiv_delete_snapshot cl i)"
    unfolding xiv_delete_snapshot_def by (auto intro!: keeps_rules kept calls)
  show "keeps P (xiv_disconnect cl)"
    unfolding xiv_disconnect_def by (auto intro!: keeps_rules calls)
qed

text \<open>
  Names: \<^verbatim>\<open>snapshot_create\<close> refuses a name in use, and makes an object with a fresh WWN;
  \<^verbatim>\<open>snapshot_delete\<close> deletes the object with the name.
\<close>

locale xiv_named = xiv_volumes +
  fixes randint :: "'a randint"
  assumes mapping_calls: "xiv_mapping_calls (\<lambda>s. objs s = T) randint cl"
    and snapshot_created: "xc_snapshot_create cl n v s = (rc, s') \<Longrightarrow>
      (case rc of
         Inl l \<Rightarrow> objs s' = objs s
       | Inr x \<Rightarrow> n \<notin> ran (objs s) \<and>
           (\<exists>w. objs s w = None \<and> objs s' = (objs s)(w \<mapsto> n) \<and> (\<forall>o'. x = Some o' \<longrightarrow> xv_wwn o' = w)))"
    and snapshot_deleted: "objs s w = Some n \<Longrightarrow> xc_snapshot_delete cl n s = (rd, s') \<Longrightarrow>
      objs s' = (case rd of Inl l \<Rightarrow> objs s | Inr u \<Rightarrow> (objs s)(w := None))"
begin

lemmas calls_keep = xiv_mapping_calls_keep [OF mapping_calls]
lemmas lists_keep = xiv_lists_keep [OF conjunct1 [OF mapping_calls [unfolded xiv_mapping_calls_def]]]

lemma create_snapshot_adds:
  assumes run: "xiv_create_snapshot cl eps i n pool s = (r, s')"
  shows "adds_one (objs s) n (objs s') \<and>
    (\<forall>sn. r = Inr sn \<longrightarrow> n \<notin> ran (objs s) \<and> objs s' (snap_id sn) = Some n)"
  using run unfolding xiv_create_snapshot_def
proof (cases rule: bnd_cases)
  case (error e)
  then show ?thesis using keepsD [OF kept(2) refl error(1)] by simp
next
  case (result x s1)
  have s1: "objs s1 = objs s" using keepsD [OF kept(2) refl result(1)] by simp
  show ?thesis
  proof (cases "\<exists>src. x = Some src \<and> \<not> (truthy pool \<and> the pool \<noteq> xv_pool_name src)")
    case False
    then show ?thesis using result(2) s1 by (auto simp: Prelude.run split: option.splits if_splits)
  next
    case True
    then obtain src where src: "x = Some src" "\<not> (truthy pool \<and> the pool \<noteq> xv_pool_name src)" by auto
    obtain c s2 where c: "xc_snapshot_create cl n (xv_name src) s1 = (c, s2)" by (metis surj_pair)
    note made = snapshot_created [OF c, unfolded s1]
    have adds: "adds_one (objs s) n (objs s2)" using made by (cases c) (auto intro: adds_oneI)
    show ?thesis
    proof (cases c)
      case (Inl l)
      then show ?thesis
        using result(2) src c made
        by (auto simp: except_lib_def lib_def Prelude.run split: if_splits)
    next
      case (Inr y)
      obtain g s3 where g: "xiv_generate_snapshot_response cl eps y s2 = (g, s3)" by (metis surj_pair)
      have s3: "objs s3 = objs s2"
        using keepsD [OF xiv_snapshot_reads_keep(2) [OF reads] refl g] by simp
      have "\<exists>o'. y = Some o' \<and> snap_id sn = xv_wwn o'" if "g = Inr sn" for sn
        using g that by (auto simp: xiv_generate_snapshot_response_def Prelude.run
            split: option.splits prod.splits sum.splits)
      then have named: "g = Inr sn \<Longrightarrow> n \<notin> ran (objs s) \<and> objs s2 (snap_id sn) = Some n" for sn
        using made Inr by fastforce
      have "objs s' = objs s3 \<and> (\<forall>sn. r = Inr sn \<longrightarrow> g = Inr sn)"
        using result(2) src c Inr g
        by (cases g) (auto simp: except_lib_def lib_def Prelude.run split: if_splits exc.splits option.splits)
      with adds s3 named show ?thesis by auto
    qed
  qed
qed

lemma delete_snapshot_drops:
  assumes run: "xiv_delete_snapshot cl i s = (r, s')"
  shows "objs s' = (case r of Inl e \<Rightarrow> objs s | Inr u \<Rightarrow> (objs s)(i := None))"
  using run unfolding xiv_delete_snapshot_def
proof (cases rule: bnd_cases)
  case (error e)
  then show ?thesis using keepsD [OF kept(3) refl error(1)] by simp
next
  case (result n s1)
  have s1: "objs s1 = objs s" using keepsD [OF kept(3) refl result(1)] by simp
  have "objs s i = Some n" by (rule object_named [OF result(1)])
  moreover obtain d s2 where d: "xc_snapshot_delete cl n s1 = (d, s2)" by (metis surj_pair)
  ultimately have "objs s2 = (case d of Inl l \<Rightarrow> objs s | Inr u \<Rightarrow> (objs s)(i := None))"
    using snapshot_deleted [OF _ d, of i] by (cases d) (simp_all add: s1)
  then show ?thesis
    using result(2) d by (cases d) (auto simp: except_lib_def lib_def Prelude.run split: if_splits)
qed

lemma found_snapshot:
  assumes "xiv_get_snapshot cl eps i n pool s = (Inr (Some sn), s')"
  shows "objs s (snap_id sn) = Some n"
proof -
  obtain x s1 where x: "xc_vol_list_name cl n s = (Inr (Some x), s1)" "snap_id sn = xv_wwn x"
    using assms by (auto simp: xiv_get_snapshot_def xiv_generate_snapshot_response_def except_lib_def lib_def
        Prelude.run split: prod.splits sum.splits option.splits if_splits)
  then show ?thesis using by_name [OF x(1)] by simp
qed

lemma serves_volumes: "volume_server (xiv_mediator randint cl eps) id (\<lambda>_ n. n) objs"
proof (rule volume_server.intro [OF keeps_store], unfold_locales)
  show "\<exists>q. changes_one (objs s) n (objs s') \<and> (\<forall>sn. r = Inr sn \<longrightarrow> objs s' (id (snap_id sn)) = Some n)"
    if "create_snapshot (xiv_mediator randint cl eps) i n sp s = (r, s')" for i n sp s r s'
    using create_snapshot_adds [of eps i n sp s r s'] that by (simp add: xiv_mediator_def adds_changes_one)
  show "objs s' = (case r of Inl e \<Rightarrow> objs s | Inr u \<Rightarrow> (objs s)(id i := None))"
    if "delete_snapshot (xiv_mediator randint cl eps) i s = (r, s')" for i s r s'
    unfolding id_apply using delete_snapshot_drops [of i s r s'] that by (simp add: xiv_mediator_def)
qed (simp_all add: xiv_mediator_def xiv_is_active_def keeps_ret calls_keep lists_keep
    xiv_snapshot_reads_keep [OF reads])

lemma serves_snapshots: "snapshot_server (xiv_mediator randint cl eps) id (\<lambda>_ n. n) objs (\<lambda>_ _ _. Some)"
proof (rule snapshot_server.intro [OF serves_volumes], unfold_locales)
  show "\<exists>x. Some n = Some x \<and> (\<forall>sn. found = Some sn \<longrightarrow> objs s (id (snap_id sn)) = Some x)"
    if "get_snapshot (xiv_mediator randint cl eps) i n sp s = (Inr found, s')" for n i sp s found s'
    using found_snapshot [of eps i n sp s _ s'] that by (auto simp: xiv_mediator_def)
  show "changes_one (objs s) x (objs s') \<and>
      (\<forall>sn. r = Inr sn \<longrightarrow> x \<notin> ran (objs s) \<and> objs s' (id (snap_id sn)) = Some x)"
    if "Some n = Some x" "create_snapshot (xiv_mediator randint cl eps) i n sp s = (r, s')" for n x i sp s r s'
    using create_snapshot_adds [of eps i n sp s r s'] that by (simp add: xiv_mediator_def adds_changes_one)
qed

end

sublocale xiv_named \<subseteq> served: snapshot_server "xiv_mediator randint cl eps" id "\<lambda>_ n. n" objs "\<lambda>_ _ _. Some"
  for eps
  by (rule serves_snapshots)

text \<open>Access: the other commands make no mapping.\<close>

locale xiv_mapped = xiv_array +
  assumes volume_calls:
    "xiv_volume_calls (\<lambda>s. no_more T (named_table (names s) (luns s) LunStr)) cl"
begin

lemma serves_mappings:
  "mapping_server (xiv_mediator randint cl eps) id (\<lambda>s. named_table (names s) (luns s) LunStr)"
proof (rule mapping_server.intro [OF keeps_table], unfold_locales)
qed (simp_all add: xiv_mediator_def xiv_is_active_def keeps_ret xiv_volume_calls_keep [OF volume_calls]
    xiv_validate_supported_space_efficiency_def keeps_raise
    xiv_volume_reads_keep [OF conjunct1 [OF volume_calls [unfolded xiv_volume_calls_def]]]
    xiv_snapshot_reads_keep [OF conjunct1 [OF volume_calls [unfolded xiv_volume_calls_def]]])

end

sublocale xiv_mapped \<subseteq> served: mapping_server "xiv_mediator randint cl eps" id
  "\<lambda>s. named_table (names s) (luns s) LunStr" for eps
  by (rule serves_mappings)

section \<open>SVC\<close>

definition svc_mapping_calls :: "('s \<Rightarrow> bool) \<Rightarrow> 's svc_client \<Rightarrow> bool" where
  "svc_mapping_calls P cl \<longleftrightarrow> svc_lists P cl \<and>
     (\<forall>h n l. keeps P (sc_mkvdiskhostmap cl h n l)) \<and> (\<forall>h n. keeps P (sc_rmvdiskhostmap cl h n)) \<and>
     keeps P (sc_is_active cl) \<and> keeps P (sc_close cl)"

lemma svc_mapping_calls_keep:
  assumes "svc_mapping_calls P cl"
  shows "keeps P (svc_map_volume cl v h)" "keeps P (svc_unmap_volume cl v h)"
    "keeps P (svc_is_active cl)" "keeps P (svc_disconnect cl)"
proof -
  have lists: "svc_lists P cl" and calls: "\<And>h n l. keeps P (sc_mkvdiskhostmap cl h n l)"
    "\<And>h n. keeps P (sc_rmvdiskhostmap cl h n)" "keeps P (sc_is_active cl)" "keeps P (sc_close cl)"
    using assms by (simp_all add: svc_mapping_calls_def)
  show "keeps P (svc_map_volume cl v h)"
    unfolding svc_map_volume_def by (auto intro!: keeps_rules svc_lists_keep [OF lists] calls)
  show "keeps P (svc_unmap_volume cl v h)"
    unfolding svc_unmap_volume_def by (auto intro!: keeps_rules svc_lists_keep [OF lists] calls)
  show "keeps P (svc_is_active cl)" "keeps P (svc_disconnect cl)"
    unfolding svc_is_active_def svc_disconnect_def by (intro keeps_rules calls)+
qed

definition svc_volume_calls :: "('s \<Rightarrow> bool) \<Rightarrow> 's svc_client \<Rightarrow> bool" where
  "svc_volume_calls P cl \<longleftrightarrow> svc_volume_reads P cl \<and>
     (\<forall>a. keeps P (sc_mkvolume cl a)) \<and> (\<forall>n. keeps P (sc_rmvolume cl n)) \<and>
     keeps P (sc_is_active cl) \<and> keeps P (sc_close cl)"

lemma svc_snapshot_reads_keep:
  fixes retry :: "(exc, 's, unit) retrier" and cl :: "'s svc_client"
  assumes "svc_volume_reads P cl" and "retry_law retry"
  shows "keeps P (svc_get_snapshot cl ep i n pool)" "keeps P (svc_get_volume_name_by_wwn cl w)"
    "keeps P (svc_create_and_start_fcmap cl m n b)" "keeps P (svc_delete_unstarted_fcmap_if_exists cl n)"
    "keeps P (svc_generate_snapshot_response ep x src)"
proof -
  note kept = svc_volume_reads_keep [OF assms]
  have reads: "\<And>n m c. keeps P (sc_mkfcmap cl n m c)" "\<And>i. keeps P (sc_startfcmap cl i)"
    "\<And>i b. keeps P (sc_rmfcmap cl i b)"
    using assms(1) by (simp_all add: svc_volume_reads_def)
  show response: "keeps P (svc_generate_snapshot_response ep x src)" for x src
    unfolding svc_generate_snapshot_response_def by (auto intro!: keeps_rules split: option.split)
  show "keeps P (svc_get_snapshot cl ep i n pool)"
    unfolding svc_get_snapshot_def svc_generate_snapshot_response_with_verification_def
      svc_get_wwn_by_volume_name_if_exists_def svc_get_cli_volume_if_exists_def
    by (auto intro!: keeps_rules kept response split: option.split)
  show "keeps P (svc_get_volume_name_by_wwn cl w)"
    unfolding svc_get_volume_name_by_wwn_def svc_get_volume_name_by_wwn_if_exists_def
    by (intro keeps_rules kept)
  show "keeps P (svc_create_and_start_fcmap cl m n b)"
    unfolding svc_create_and_start_fcmap_def svc_create_fcmap_def svc_start_fcmap_def
    by (auto intro!: keeps_rules kept reads split: option.split)
  show "keeps P (svc_delete_unstarted_fcmap_if_exists cl n)"
    unfolding svc_delete_unstarted_fcmap_if_exists_def svc_get_cli_volume_if_exists_def svc_delete_fcmap_def
    by (auto intro!: keeps_rules kept reads split: option.split)
qed

lemma svc_volume_calls_keep:
  assumes "svc_volume_calls P cl" and "retry_law retry"
  shows "keeps P (svc_create_volume cl ep n sz se p)" "keeps P (svc_delete_volume cl i)"
    "keeps P (svc_create_snapshot retry cl ep i n pool)" "keeps P (svc_delete_snapshot cl i)"
    "keeps P (svc_is_active cl)" "keeps P (svc_disconnect cl)"
proof -
  have vols: "svc_volume_reads P cl" and calls: "\<And>a. keeps P (sc_mkvolume cl a)"
    "\<And>n. keeps P (sc_rmvolume cl n)" "keeps P (sc_is_active cl)" "keeps P (sc_close cl)"
    using assms(1) by (simp_all add: svc_volume_calls_def)
  note kept = svc_volume_reads_keep [OF vols assms(2)] svc_snapshot_reads_keep [OF vols assms(2)]
  have made: "keeps P (svc_create_cli_volume cl ep n sz se p)" for n sz se p
    unfolding svc_create_cli_volume_def by (auto intro!: keeps_rules kept calls split: option.split)
  have removed: "keeps P (svc_delete_volume_by_name cl n b)" for n b
    unfolding svc_delete_volume_by_name_def by (auto intro!: keeps_rules calls)
  have object: "keeps P (svc_delete_object cl v b)" for v b
    unfolding svc_delete_object_def by (auto intro!: keeps_rules kept removed split: option.splits)
  have target: "keeps P (svc_create_snapshot_volume retry cl ep n src pool)" for n src pool
    unfolding svc_create_snapshot_volume_def svc_create_similar_volume_def svc_rollback_create_snapshot_def
      svc_delete_target_volume_if_exists_def
    by (auto intro!: keeps_rules keeps_retry [OF assms(2)] kept made removed split: option.split)
  show "keeps P (svc_create_volume cl ep n sz se p)"
    unfolding svc_create_volume_def by (intro keeps_rules made kept)
  show "keeps P (svc_delete_volume cl i)" "keeps P (svc_delete_snapshot cl i)"
    unfolding svc_delete_volume_def svc_delete_snapshot_def
    by (auto intro!: keeps_rules kept object split: option.split)
  show "keeps P (svc_create_snapshot retry cl ep i n pool)"
    unfolding svc_create_snapshot_def by (auto intro!: keeps_rules kept target split: option.split)
  show "keeps P (svc_is_active cl)" "keeps P (svc_disconnect cl)"
    unfolding svc_is_active_def svc_disconnect_def by (intro keeps_rules calls)+
qed

text \<open>
  A volume that is found by its name carries it, and \<^verbatim>\<open>mkvolume\<close> refuses a name in use.
\<close>

locale svc_named = svc_volumes +
  assumes mapping_calls: "svc_mapping_calls (\<lambda>s. disks s = T) cl"
    and found_is_named: "sc_lsvdisk_by_id cl n s = (Inr (Some v), s') \<Longrightarrow> vd_name v = n"
    and name_refused: "sc_mkvolume cl a s = (ru, s') \<Longrightarrow> carried_out ru \<Longrightarrow> mv_name a \<notin> ran (disks s)"
begin

lemmas calls_keep = svc_mapping_calls_keep [OF mapping_calls]
lemmas lists_keep = svc_lists_keep [OF conjunct1 [OF mapping_calls [unfolded svc_mapping_calls_def]]]
lemmas reads_keep = svc_snapshot_reads_keep [OF reads retries]

lemma similar_adds:
  assumes "svc_create_similar_volume cl ep src n pool s = (r, s')"
  shows "adds_one (disks s) n (disks s')"
proof (cases "py_int (vd_capacity src)")
  case (Inl e)
  then show ?thesis using assms by (simp add: svc_create_similar_volume_def)
next
  case (Inr z)
  let ?se = "Some (get_cli_volume_space_efficiency src)"
  let ?p = "if truthy pool then the pool else vd_mdisk_grp_name src"
  let ?args = "build_kwargs_from_parameters ?se ?p n (svc_convert_size_bytes z)"
  obtain m s1 where m: "sc_mkvolume cl ?args s = (m, s1)" by (metis surj_pair)
  have "mv_name ?args = n" by (simp add: build_kwargs_from_parameters_def Let_def)
  with volume_made [OF m] name_refused [OF m] have adds: "adds_one (disks s) n (disks s1)"
    by (auto simp: adds_oneI split: if_splits)
  obtain c s2 where c: "svc_create_cli_volume cl ep n z ?se ?p s = (c, s2)" by (metis surj_pair)
  then have "s' = s2"
    using assms Inr by (cases c) (auto simp: svc_create_similar_volume_def Prelude.run)
  with create_cli_volume_effect [OF c m] adds show ?thesis by simp
qed

lemma created_free:
  assumes "svc_create_cli_volume cl ep n sz se p s = (Inr x, s')"
  shows "n \<notin> ran (disks s)"
proof -
  let ?args = "build_kwargs_from_parameters se p n (svc_convert_size_bytes sz)"
  obtain m s1 where m: "sc_mkvolume cl ?args s = (m, s1)" by (metis surj_pair)
  have "carried_out m"
    using assms m by (cases m) (auto simp: svc_create_cli_volume_def svc_run split: if_splits sum.splits)
  moreover have "mv_name ?args = n" by (simp add: build_kwargs_from_parameters_def Let_def)
  ultimately show ?thesis using name_refused [OF m] by simp
qed

lemma similar_free:
  assumes "svc_create_similar_volume cl ep src n pool s = (Inr u, s')"
  shows "n \<notin> ran (disks s)"
  using assms by (auto simp: svc_create_similar_volume_def Prelude.run py_int_def
      split: prod.splits sum.splits option.splits dest: created_free)

lemma started_named:
  assumes "svc_create_and_start_fcmap cl m n b s = (Inr (Some v), s')"
  shows "disks s' (vd_uid v) = Some n"
  using assms unfolding svc_create_and_start_fcmap_def
proof (cases rule: bnd_cases)
  case (result u s1)
  have "keeps (\<lambda>s. disks s = T) (svc_create_and_start_fcmap cl m n b)" for T by (rule reads_keep)
  from keepsD [OF this refl assms] have s': "disks s' = disks s" .
  have "keeps (\<lambda>s. disks s = T) (svc_create_fcmap cl m n b)" for T
    using reads unfolding svc_create_fcmap_def svc_volume_reads_def by (auto intro!: keeps_rules)
  from keepsD [OF this refl result(1)] have s1: "disks s1 = disks s" .
  from result(2) show ?thesis
  proof (cases rule: bnd_cases)
    case (result x s2)
    then show ?thesis
      using found_by_name [OF result(1)] s1 s'
      by (auto simp: Prelude.run split: option.splits prod.splits sum.splits)
  qed simp
qed simp

lemma rollback_drops:
  assumes "svc_rollback_create_snapshot retry cl n s = (r, s')"
  shows "\<forall>k. disks s' k = disks s k \<or> disks s k = Some n \<and> disks s' k = None"
proof -
  let ?m = "bnd (svc_delete_unstarted_fcmap_if_exists cl n) (svc_delete_target_volume_if_exists cl)"
  let ?P = "\<lambda>t. \<forall>k. disks t k = disks s k \<or> disks s k = Some n \<and> disks t k = None"
  have "keeps ?P ?m"
  proof (rule keepsI)
    fix t assume t: "?P t"
    obtain x t1 where x: "svc_delete_unstarted_fcmap_if_exists cl n t = (x, t1)" by (metis surj_pair)
    have t1: "disks t1 = disks t" using keepsD [OF reads_keep(4) refl x] by simp
    show "?P (snd (?m t))"
    proof (cases "\<exists>v. x = Inr (Some v)")
      case False
      then show ?thesis
        using t t1 x by (cases x) (auto simp: svc_delete_target_volume_if_exists_def bnd_Inl bnd_Inr)
    next
      case True
      then obtain v where v: "x = Inr (Some v)" by auto
      then obtain t2 where "sc_lsvdisk_by_id cl n t = (Inr (Some v), t2)"
        using x by (auto simp: svc_delete_unstarted_fcmap_if_exists_def svc_get_cli_volume_if_exists_def
            svc_get_cli_volume_def svc_run split: prod.splits sum.splits if_splits option.splits)
      then have named: "vd_name v = n" "disks t1 (vd_uid v) = Some n"
        using by_name [of n t "Inr (Some v)"] found_is_named t1 by auto
      then have before: "disks s (vd_uid v) = Some n" using t t1 by (metis option.distinct(1))
      obtain d t3 where d: "svc_delete_volume_by_name cl n False t1 = (d, t3)" by (metis surj_pair)
      have "snd (?m t) = t3"
        using x v named d by (simp add: bnd_Inr svc_delete_target_volume_if_exists_def)
      with removed_by_name [OF d named(2)] t t1 before show ?thesis
        by (auto split: sum.splits)
    qed
  qed
  from keepsD [OF keeps_retry [OF retries this] _ assms [unfolded svc_rollback_create_snapshot_def]]
  show ?thesis by simp
qed

lemma create_snapshot_volume_changes:
  assumes run: "svc_create_snapshot_volume retry cl ep n src pool s = (r, s')"
  shows "changes_one (disks s) n (disks s') \<and>
    (\<forall>v. r = Inr (Some v) \<longrightarrow> n \<notin> ran (disks s) \<and> disks s' (vd_uid v) = Some n)"
proof -
  let ?make = "bnd (svc_create_similar_volume cl ep src n pool)
    (\<lambda>_. svc_create_and_start_fcmap cl (vd_name src) n False)"
  have made: "adds_one (disks s) n (disks s1) \<and>
      (\<forall>v. x = Inr (Some v) \<longrightarrow> n \<notin> ran (disks s) \<and> disks s1 (vd_uid v) = Some n)"
    if "?make s = (x, s1)" for x s1
    using that
  proof (cases rule: bnd_cases)
    case (error e)
    with similar_adds [OF error(1)] show ?thesis by simp
  next
    case (result u s0)
    have "disks s1 = disks s0" using keepsD [OF reads_keep(3) refl result(2)] by simp
    moreover have "disks s1 (vd_uid v) = Some n" if "x = Inr (Some v)" for v
      by (rule started_named) (use result(2) that in simp)
    ultimately show ?thesis using similar_adds [OF result(1)] similar_free [OF result(1)] by simp
  qed
  from run show ?thesis
    unfolding svc_create_snapshot_volume_def
  proof (cases rule: except_cli_cases)
    case plain
    with made show ?thesis by (auto intro: adds_changes_one)
  next
    case (handled l s1)
    obtain b s2 where b: "svc_rollback_create_snapshot retry cl n s1 = (b, s2)" by (metis surj_pair)
    have "s' = s2 \<and> (\<exists>e. r = Inl e)" using handled(2) b by (cases b) (auto simp: Prelude.run)
    with changes_one_drops [OF _ rollback_drops [OF b]] made [OF handled(1)] show ?thesis by auto
  qed
qed

lemma create_snapshot_changes:
  assumes run: "svc_create_snapshot retry cl ep i n pool s = (r, s')"
  shows "changes_one (disks s) n (disks s') \<and>
    (\<forall>sn. r = Inr sn \<longrightarrow> n \<notin> ran (disks s) \<and> disks s' (snap_id sn) = Some n)"
proof -
  define look where "look = bnd (svc_get_volume_name_by_wwn cl i) (\<lambda>m. svc_get_cli_volume cl m True)"
  have look_keeps: "keeps (\<lambda>s. disks s = T) look" for T
    unfolding look_def by (intro keeps_rules kept reads_keep)
  have "bnd look (\<lambda>x. case x of
      None \<Rightarrow> raise AttributeError
    | Some src \<Rightarrow>
        bnd (svc_create_snapshot_volume retry cl ep n src pool) (\<lambda>t.
          svc_generate_snapshot_response ep t (Some (vd_uid src)))) s = (r, s')"
    using run by (simp add: svc_create_snapshot_def look_def bnd_assoc)
  then show ?thesis
  proof (cases rule: bnd_cases)
    case (error e)
    then show ?thesis using keepsD [OF look_keeps refl error(1)] by (simp add: adds_changes_one)
  next
    case (result x s1)
    have s1: "disks s1 = disks s" using keepsD [OF look_keeps refl result(1)] by simp
    show ?thesis
    proof (cases x)
      case None
      then show ?thesis using result(2) s1 by (auto simp: adds_changes_one Prelude.run)
    next
      case (Some src)
      then have "bnd (svc_create_snapshot_volume retry cl ep n src pool) (\<lambda>t.
          svc_generate_snapshot_response ep t (Some (vd_uid src))) s1 = (r, s')"
        using result(2) by simp
      then show ?thesis
      proof (cases rule: bnd_cases)
        case (error e)
        with create_snapshot_volume_changes [OF error(1)] s1 show ?thesis by simp
      next
        case (result t s2)
        have "disks s' = disks s2" using keepsD [OF reads_keep(5) refl result(2)] by simp
        moreover have "\<exists>v. t = Some v \<and> snap_id sn = vd_uid v" if "r = Inr sn" for sn
          using result(2) that
          by (cases t) (auto simp: svc_generate_snapshot_response_def py_int_def Prelude.run
              split: option.splits sum.splits prod.splits)
        ultimately show ?thesis using create_snapshot_volume_changes [OF result(1)] s1 by auto
      qed
    qed
  qed
qed

lemma delete_snapshot_drops:
  assumes run: "svc_delete_snapshot cl i s = (r, s')"
  shows "disks s' = (case r of Inl e \<Rightarrow> disks s | Inr u \<Rightarrow> (disks s)(i := None))"
  using run unfolding svc_delete_snapshot_def
proof (cases rule: bnd_cases)
  case (error e)
  then show ?thesis using keepsD [OF kept(2) refl error(1)] by simp
next
  case (result x s1)
  have s1: "disks s1 = disks s" using keepsD [OF kept(2) refl result(1)] by simp
  show ?thesis
  proof (cases "\<exists>v. x = Some v \<and> vd_FC_id v \<noteq> []")
    case False
    then show ?thesis using result(2) s1 by (auto simp: Prelude.run split: option.splits if_splits)
  next
    case True
    then obtain v where v: "x = Some v" "vd_FC_id v \<noteq> []" by auto
    then have "disks s i = Some (vd_name v)" using found_by_uid [OF result(1)] by simp
    with delete_snapshot_object_drops [of v s1 r s' i] result(2) v show ?thesis by (simp only: s1) simp
  qed
qed

text \<open>
  A lookup that finds nothing says little: every failure of the command that has no error of its
  own is taken for a missing snapshot.
\<close>

lemma found_snapshot:
  assumes "svc_get_snapshot cl ep i n pool s = (Inr (Some sn), s')"
  shows "disks s (snap_id sn) = Some n"
proof -
  obtain x s1 where x: "sc_lsvdisk_by_id cl n s = (Inr (Some x), s1)" "snap_id sn = vd_uid x"
    using assms by (auto simp: svc_get_snapshot_def svc_get_cli_volume_if_exists_def svc_get_cli_volume_def svc_run
        svc_generate_snapshot_response_with_verification_def svc_generate_snapshot_response_def py_int_def
        split: prod.splits sum.splits option.splits if_splits)
  then show ?thesis using by_name [OF x(1)] by simp
qed

lemma serves_volumes: "volume_server (svc_mediator retry cl ep) id (\<lambda>_ n. n) disks"
proof (rule volume_server.intro [OF keeps_store], unfold_locales)
  show "\<exists>q. changes_one (disks s) n (disks s') \<and> (\<forall>sn. r = Inr sn \<longrightarrow> disks s' (id (snap_id sn)) = Some n)"
    if "create_snapshot (svc_mediator retry cl ep) i n sp s = (r, s')" for i n sp s r s'
    using create_snapshot_changes [of ep i n sp s r s'] that by (simp add: svc_mediator_def)
  show "disks s' = (case r of Inl e \<Rightarrow> disks s | Inr u \<Rightarrow> (disks s)(id i := None))"
    if "delete_snapshot (svc_mediator retry cl ep) i s = (r, s')" for i s r s'
    unfolding id_apply using delete_snapshot_drops [of i s r s'] that by (simp add: svc_mediator_def)
qed (simp_all add: svc_mediator_def calls_keep lists_keep reads_keep)

lemma serves_snapshots: "snapshot_server (svc_mediator retry cl ep) id (\<lambda>_ n. n) disks (\<lambda>_ _ _. Some)"
proof (rule snapshot_server.intro [OF serves_volumes], unfold_locales)
  show "\<exists>x. Some n = Some x \<and> (\<forall>sn. found = Some sn \<longrightarrow> disks s (id (snap_id sn)) = Some x)"
    if "get_snapshot (svc_mediator retry cl ep) i n sp s = (Inr found, s')" for n i sp s found s'
    using found_snapshot [of ep i n sp s _ s'] that by (auto simp: svc_mediator_def)
  show "changes_one (disks s) x (disks s') \<and>
      (\<forall>sn. r = Inr sn \<longrightarrow> x \<notin> ran (disks s) \<and> disks s' (id (snap_id sn)) = Some x)"
    if "Some n = Some x" "create_snapshot (svc_mediator retry cl ep) i n sp s = (r, s')" for n x i sp s r s'
    using create_snapshot_changes [of ep i n sp s r s'] that by (simp add: svc_mediator_def)
qed

end

sublocale svc_named \<subseteq> served: snapshot_server "svc_mediator retry cl ep" id "\<lambda>_ n. n" disks "\<lambda>_ _ _. Some"
  for ep
  by (rule serves_snapshots)

locale svc_mapped = svc_array cl names luns
  for cl :: "'s svc_client" and names and luns +
  fixes retry :: "(exc, 's, unit) retrier"
  assumes retries: "retry_law retry"
    and volume_calls: "svc_volume_calls (\<lambda>s. no_more T (named_table (names s) (luns s) LunStr)) cl"
begin

lemma serves_mappings:
  "mapping_server (svc_mediator retry cl ep) id (\<lambda>s. named_table (names s) (luns s) LunStr)"
proof (rule mapping_server.intro [OF keeps_table], unfold_locales)
qed (simp_all add: svc_mediator_def svc_volume_calls_keep [OF volume_calls retries]
    svc_validate_supported_space_efficiency_def keeps_raise keeps_ret
    svc_volume_reads_keep [OF conjunct1 [OF volume_calls [unfolded svc_volume_calls_def]] retries]
    svc_snapshot_reads_keep [OF conjunct1 [OF volume_calls [unfolded svc_volume_calls_def]] retries])

end

sublocale svc_mapped \<subseteq> served: mapping_server "svc_mediator retry cl ep" id
  "\<lambda>s. named_table (names s) (luns s) LunStr" for ep
  by (rule serves_mappings)

section \<open>DS8K\<close>

definition ds8k_mapping_calls :: "('s \<Rightarrow> bool) \<Rightarrow> 's ds8k_api \<Rightarrow> bool" where
  "ds8k_mapping_calls P api \<longleftrightarrow> keeps P (da_get_hosts api) \<and> (\<forall>h. keeps P (da_get_host api h)) \<and>
     (\<forall>h. keeps P (da_get_mappings_by_host api h)) \<and> (\<forall>h v l. keeps P (da_map_volume_to_host api h v l)) \<and>
     (\<forall>h i. keeps P (da_unmap_volume_from_host api h i)) \<and> keeps P (da_get_io_enclosures api)"

lemma ds8k_mapping_calls_keep:
  assumes "ds8k_mapping_calls P api"
  shows "keeps P (ds8k_get_volume_mappings api v)" "keeps P (ds8k_map_volume api v h)"
    "keeps P (ds8k_unmap_volume api v h)" "keeps P (ds8k_get_host_by_host_identifiers api ini)"
    "keeps P (ds8k_get_array_fc_wwns api h)" "keeps P ds8k_get_iscsi_targets_by_iqn"
    "keeps P (ds8k_is_active api)" "keeps P ds8k_disconnect"
proof -
  have calls: "keeps P (da_get_hosts api)" "\<And>h. keeps P (da_get_host api h)"
    "\<And>h. keeps P (da_get_mappings_by_host api h)" "\<And>h v l. keeps P (da_map_volume_to_host api h v l)"
    "\<And>h i. keeps P (da_unmap_volume_from_host api h i)" "keeps P (da_get_io_enclosures api)"
    using assms by (simp_all add: ds8k_mapping_calls_def)
  show "keeps P (ds8k_get_volume_mappings api v)" "keeps P (ds8k_map_volume api v h)"
    "keeps P (ds8k_unmap_volume api v h)"
    unfolding ds8k_get_volume_mappings_def ds8k_map_volume_def ds8k_unmap_volume_def rest_get_hosts_def
      rest_map_volume_to_host_def rest_get_host_mappings_def rest_unmap_volume_from_host_def
    by (auto intro!: keeps_rules calls split: option.split)
  show "keeps P (ds8k_get_host_by_host_identifiers api ini)" "keeps P (ds8k_get_array_fc_wwns api h)"
    "keeps P ds8k_get_iscsi_targets_by_iqn"
    unfolding ds8k_get_host_by_host_identifiers_def ds8k_get_array_fc_wwns_def ds8k_get_iscsi_targets_by_iqn_def
      rest_get_hosts_def rest_get_host_def
    by (auto intro!: keeps_rules calls)
  show "keeps P (ds8k_is_active api)" "keeps P ds8k_disconnect"
    unfolding ds8k_is_active_def rest_is_valid_def ds8k_disconnect_def by (intro keeps_rules calls)+
qed

definition ds8k_volume_calls :: "('s \<Rightarrow> bool) \<Rightarrow> 's ds8k_api \<Rightarrow> bool" where
  "ds8k_volume_calls P api \<longleftrightarrow> ds8k_volume_reads P api \<and>
     (\<forall>a. keeps P (da_create_volume_fb api a)) \<and> (\<forall>i. keeps P (da_delete_volume api i)) \<and>
     keeps P (da_get_io_enclosures api)"

lemma ds8k_snapshot_reads_keep:
  assumes "ds8k_volume_reads P api"
  shows "keeps P (ds8k_get_snapshot api sa sys i n pool)" "keeps P (ds8k_create_flashcopy api sa i j os)"
proof -
  note kept = ds8k_volume_reads_keep [OF assms]
  have reads: "\<And>i j os. keeps P (da_create_cs_flashcopy api i j os)" "\<And>f. keeps P (da_get_cs_flashcopies api f)"
    using assms by (simp_all add: ds8k_volume_reads_def)
  show "keeps P (ds8k_get_snapshot api sa sys i n pool)"
    unfolding ds8k_get_snapshot_def ds8k_get_api_snapshot_def
    by (auto intro!: keeps_rules kept split: option.split)
  have state: "keeps P (ds8k_get_flashcopy_state api f)" for f
    unfolding ds8k_get_flashcopy_state_def ds8k_get_flashcopy_process_def rest_get_flashcopies_def
    by (auto intro!: keeps_rules reads split: option.split)
  show "keeps P (ds8k_create_flashcopy api sa i j os)"
    unfolding ds8k_create_flashcopy_def rest_create_flashcopy_def by (auto intro!: keeps_rules kept state reads)
qed

lemma ds8k_volume_calls_keep:
  assumes "ds8k_volume_calls P api" and "retry_law retry"
  shows "keeps P (ds8k_create_volume api sa sys n sz se p)" "keeps P (ds8k_delete_volume api i)"
    "keeps P (ds8k_create_snapshot retry api sa sys i n pool)" "keeps P (ds8k_delete_snapshot api i)"
    "keeps P (ds8k_is_active api)" "keeps P ds8k_disconnect"
proof -
  have vols: "ds8k_volume_reads P api" and calls: "\<And>a. keeps P (da_create_volume_fb api a)"
    "\<And>i. keeps P (da_delete_volume api i)" "keeps P (da_get_io_enclosures api)"
    using assms(1) by (simp_all add: ds8k_volume_calls_def)
  note kept = ds8k_volume_reads_keep [OF vols] ds8k_snapshot_reads_keep [OF vols]
  have made: "keeps P (ds8k_create_api_volume api sys n sz se p)" for n sz se p
    unfolding ds8k_create_api_volume_def rest_create_volume_def by (auto intro!: keeps_rules kept calls)
  have removed: "keeps P (ds8k_delete_volume_by_id api i b)" for i b
    unfolding ds8k_delete_volume_by_id_def rest_delete_volume_def by (auto intro!: keeps_rules calls)
  have target: "keeps P (ds8k_create_snapshot_volume retry api sa sys n src pool)" for n src pool
    unfolding ds8k_create_snapshot_volume_def ds8k_create_similar_volume_def ds8k_delete_target_volume_if_exist_def
    by (auto intro!: keeps_rules keeps_retry [OF assms(2)] kept made removed)
  show "keeps P (ds8k_create_volume api sa sys n sz se p)"
    unfolding ds8k_create_volume_def by (intro keeps_rules made)
  show "keeps P (ds8k_delete_volume api i)" "keeps P (ds8k_delete_snapshot api i)"
    unfolding ds8k_delete_volume_def ds8k_delete_snapshot_def ds8k_delete_object_def
    by (auto intro!: keeps_rules kept removed split: option.splits)
  show "keeps P (ds8k_create_snapshot retry api sa sys i n pool)"
    unfolding ds8k_create_snapshot_def by (auto intro!: keeps_rules kept target split: option.split)
  show "keeps P (ds8k_is_active api)" "keeps P ds8k_disconnect"
    unfolding ds8k_is_active_def rest_is_valid_def ds8k_disconnect_def by (intro keeps_rules calls)+
qed

text \<open>Without a requested pool, the snapshot's is that of its source.\<close>

definition ds8k_snapshot_key ::
  "(string \<Rightarrow> (string \<times> string) option) \<Rightarrow> string \<Rightarrow> string option \<Rightarrow> string \<Rightarrow> (string \<times> string) option" where
  "ds8k_snapshot_key T i sp n =
     (if truthy sp then Some (the sp, n)
      else map_option (\<lambda>(p, m). (p, n)) (T (scsi_id_to_volume_id i)))"

locale ds8k_named = ds8k_volumes api held
  for api :: "'s ds8k_api" and held +
  fixes retry :: "(exc, 's, unit) retrier"
  assumes retries: "retry_law retry"
    and mapping_calls: "ds8k_mapping_calls (\<lambda>s. held s = T) api"
    and pool_read: "da_get_volumes api i s = (Inr v, s') \<Longrightarrow> \<exists>n. held s i = Some (dv_pool v, n)"
begin

lemmas calls_keep = ds8k_mapping_calls_keep [OF mapping_calls]
lemmas reads_keep = ds8k_snapshot_reads_keep [OF reads]

lemma target_dropped:
  assumes "ds8k_delete_target_volume_if_exist retry api i s = (r, s')"
  shows "held s' \<in> {held s, (held s)(i := None)}"
proof -
  let ?P = "\<lambda>t. held t \<in> {held s, (held s)(i := None)}"
  have "keeps ?P (ds8k_delete_volume_by_id api i False)"
  proof (rule keepsI)
    fix t assume t: "?P t"
    obtain d t1 where d: "da_delete_volume api i t = (d, t1)" by (metis surj_pair)
    have "snd (ds8k_delete_volume_by_id api i False t) = t1"
      using d by (cases d) (auto simp: ds8k_delete_volume_by_id_def rest_delete_volume_def ds8k_run)
    then show "?P (snd (ds8k_delete_volume_by_id api i False t))"
      using volume_removed [OF d] t by (cases d) auto
  qed
  from keepsD [OF keeps_retry [OF retries this] _ assms [unfolded ds8k_delete_target_volume_if_exist_def]]
  show ?thesis by simp
qed

lemma copied_target:
  assumes "ds8k_create_flashcopy api sa i j os s = (Inr (Some v), s')"
  shows "dv_id v = j"
proof -
  have "yields (\<lambda>x. \<forall>v. x = Some v \<longrightarrow> dv_id v = j) (\<lambda>_. True) (ds8k_get_api_volume_by_id api j True)"
    by (rule yieldsI) (auto dest: found_by_number)
  then have "yields (\<lambda>x. \<forall>v. x = Some v \<longrightarrow> dv_id v = j) (\<lambda>_. True) (ds8k_create_flashcopy api sa i j os)"
    unfolding ds8k_create_flashcopy_def by (auto intro!: spec_rules yields_any)
  from yields_resultD [OF this assms] show ?thesis by simp
qed

lemma create_snapshot_volume_adds:
  fixes src pool
  defines "q \<equiv> if truthy pool then the pool else dv_pool src"
  assumes run: "ds8k_create_snapshot_volume retry api sa sys n src pool s = (r, s')"
  shows "adds_one (held s) (q, n) (held s') \<and>
    (\<forall>v. r = Inr (Some v) \<longrightarrow> (q, n) \<notin> ran (held s) \<and> held s' (dv_id v) = Some (q, n))"
proof -
  let ?q = "if truthy pool then the pool else dv_pool src"
  have similar: "case r1 of
      Inr v \<Rightarrow> (?q, n) \<notin> ran (held s) \<and> held s (dv_id v) = None \<and> held s1 = (held s)(dv_id v \<mapsto> (?q, n))
    | Inl e \<Rightarrow> adds_one (held s) (?q, n) (held s1)"
    if "ds8k_create_similar_volume api sys n src pool s = (r1, s1)" for r1 s1
    using that created_api_volume unfolding ds8k_create_similar_volume_def
    by (cases "py_int (dv_cap src)") auto
  from run have "adds_one (held s) (?q, n) (held s') \<and>
      (\<forall>v. r = Inr (Some v) \<longrightarrow> (?q, n) \<notin> ran (held s) \<and> held s' (dv_id v) = Some (?q, n))"
    unfolding ds8k_create_snapshot_volume_def
  proof (cases rule: bnd_cases)
    case (error e)
    with similar [OF error(1)] show ?thesis by simp
  next
    case (result t s1)
    then have new: "(?q, n) \<notin> ran (held s)" "held s (dv_id t) = None" "held s1 = (held s)(dv_id t \<mapsto> (?q, n))"
      using similar [OF result(1)] by auto
    then have adds: "adds_one (held s) (?q, n) (held s1)" by (simp add: adds_oneI)
    obtain c s2 where c: "ds8k_create_flashcopy api sa (dv_id src) (dv_id t) [da_option_nbc api, da_option_per api] s1 = (c, s2)"
      by (metis surj_pair)
    have s2: "held s2 = held s1" using keepsD [OF reads_keep(2) refl c] by simp
    show ?thesis
    proof (cases c)
      case (Inr x)
      then have r: "r = c" "s' = s2" using result(2) c by (simp_all add: try_Inr)
      have "held s2 (dv_id v) = Some (?q, n)" if "c = Inr (Some v)" for v
        using copied_target [OF c [unfolded that]] s2 new(3) by simp
      with r s2 adds new(1) show ?thesis by simp
    next
      case (Inl e)
      obtain d s3 where d: "ds8k_delete_target_volume_if_exist retry api (dv_id t) s2 = (d, s3)" by (metis surj_pair)
      have "held s3 = held s1 \<or> held s3 = held s"
        using target_dropped [OF d] s2 new by auto
      moreover have "s' \<in> {s2, s3} \<and> (\<exists>e. r = Inl e)"
        using result(2) c d Inl by (cases d) (auto simp: Prelude.run split: if_splits)
      ultimately show ?thesis using adds s2 by auto
    qed
  qed
  then show ?thesis by (simp add: q_def)
qed

text \<open>The source that is read tells the pool.\<close>

lemma source_pool:
  assumes "ds8k_get_api_volume_by_id api i b s = (Inr (Some v), s')"
  shows "\<exists>m. held s i = Some (dv_pool v, m)"
proof -
  obtain l s1 where l: "da_get_volumes api i s = (l, s1)" by (metis surj_pair)
  obtain w where w: "l = Inr w"
    using assms l by (cases l) (auto simp: ds8k_get_api_volume_by_id_def rest_get_volume_def ds8k_run split: if_splits)
  obtain f s2 where f: "da_get_flashcopies_by_volume api (dv_id w) s1 = (f, s2)" by (metis surj_pair)
  have "dv_pool v = dv_pool w"
    using assms l w f
    by (cases f) (auto simp: ds8k_get_api_volume_by_id_def rest_get_volume_def rest_get_flashcopies_by_volume_def ds8k_run
        split: if_splits)
  then show ?thesis using pool_read [OF l [unfolded w]] by simp
qed

definition snapshot_pool :: "'s \<Rightarrow> string \<Rightarrow> string option \<Rightarrow> string" where
  "snapshot_pool s i pool = (if truthy pool then the pool else fst (the (held s i)))"

lemma create_snapshot_adds:
  assumes run: "ds8k_create_snapshot retry api sa sys i n pool s = (r, s')"
  shows "adds_one (held s) (snapshot_pool s i pool, n) (held s') \<and>
    (\<forall>sn. r = Inr sn \<longrightarrow> (snapshot_pool s i pool, n) \<notin> ran (held s) \<and>
      held s' (scsi_id_to_volume_id (snap_id sn)) = Some (snapshot_pool s i pool, n))"
  using run unfolding ds8k_create_snapshot_def
proof (cases rule: bnd_cases)
  case (error e)
  then show ?thesis using keepsD [OF kept(3) refl error(1)] by simp
next
  case (result x s1)
  have s1: "held s1 = held s" using keepsD [OF kept(3) refl result(1)] by simp
  show ?thesis
  proof (cases x)
    case None
    then show ?thesis using result(2) s1 by (auto simp: Prelude.run)
  next
    case (Some src)
    let ?q = "snapshot_pool s i pool"
    have q: "(if truthy pool then the pool else dv_pool src) = ?q"
      using source_pool [OF result(1) [unfolded Some]] by (auto simp: snapshot_pool_def)
    from result(2) Some have "bnd (ds8k_create_snapshot_volume retry api sa sys n src pool)
        (\<lambda>t. lift (ds8k_generate_snapshot_response sa sys t i)) s1 = (r, s')" by simp
    then show ?thesis
    proof (cases rule: bnd_cases)
      case (error e)
      with create_snapshot_volume_adds [OF error(1), unfolded q] s1 show ?thesis by simp
    next
      case (result t s2)
      have s': "s' = s2" using result(2) by (simp add: lift_def)
      note made = create_snapshot_volume_adds [OF result(1), unfolded q s1]
      have "(?q, n) \<notin> ran (held s) \<and> held s2 (scsi_id_to_volume_id (snap_id sn)) = Some (?q, n)"
        if "r = Inr sn" for sn
      proof -
        have "ds8k_generate_snapshot_response sa sys t i = Inr sn" using result(2) that by (simp add: lift_def)
        then obtain v where v: "t = Some v" "snap_id sn = ds8k_scsi_identifier sys (dv_id v)"
          by (auto simp: ds8k_generate_snapshot_response_def bnd_err_Inr_iff split: option.splits)
        with made have "(?q, n) \<notin> ran (held s)" "held s2 (dv_id v) = Some (?q, n)" by auto
        with four_digits [OF this(2)] v(2) show ?thesis by (simp add: scsi_id_read_back)
      qed
      with made s' show ?thesis by blast
    qed
  qed
qed

lemma found_snapshot:
  assumes "ds8k_get_snapshot api sa sys i n pool s = (Inr found, s')"
  shows "(truthy pool \<or> held s i \<noteq> None) \<and>
    (\<forall>sn. found = Some sn \<longrightarrow> held s (scsi_id_to_volume_id (snap_id sn)) = Some (snapshot_pool s i pool, n))"
  using assms unfolding ds8k_get_snapshot_def
proof (cases rule: bnd_cases)
  case (result p s1)
  have p: "(truthy pool \<or> held s i \<noteq> None) \<and> p = snapshot_pool s i pool \<and> held s1 = held s"
  proof (cases "truthy pool")
    case True
    then show ?thesis using result(1) by (simp add: snapshot_pool_def)
  next
    case False
    then obtain v where v: "ds8k_get_api_volume_by_id api i True s = (Inr (Some v), s1)" "p = dv_pool v"
      using result(1) by (auto simp: Prelude.run split: prod.splits sum.splits option.splits)
    then show ?thesis
      using source_pool [OF v(1)] keepsD [OF kept(3) refl v(1)] False by (auto simp: snapshot_pool_def)
  qed
  have "held s (scsi_id_to_volume_id (snap_id sn)) = Some (p, n)" if some: "found = Some sn" for sn
  proof -
    obtain x s2 where x: "ds8k_get_api_volume_by_name api sys n (Some p) s1 = (Inr (Some x), s2)"
        "snap_id sn = ds8k_scsi_identifier sys (dv_id x)"
      using result(2) unfolding some by (auto simp: ds8k_get_api_snapshot_def Prelude.run bnd_err_Inr_iff
          ds8k_generate_snapshot_response_with_verification_def ds8k_generate_snapshot_response_def
          split: prod.splits sum.splits option.splits if_splits)
    then have "held s (dv_id x) = Some (p, n)" using found_by_name [OF x(1)] p by simp
    with four_digits [OF this] x(2) show ?thesis by (simp add: scsi_id_read_back)
  qed
  with p show ?thesis by simp
qed simp

lemma serves_volumes:
  "volume_server (ds8k_mediator retry api sa sys) scsi_id_to_volume_id Pair held"
proof (rule volume_server.intro [OF keeps_store], unfold_locales)
  show "\<exists>q. changes_one (held s) (q, n) (held s') \<and>
      (\<forall>sn. r = Inr sn \<longrightarrow> held s' (scsi_id_to_volume_id (snap_id sn)) = Some (q, n))"
    if "create_snapshot (ds8k_mediator retry api sa sys) i n sp s = (r, s')" for i n sp s r s'
    using create_snapshot_adds [of sa sys "scsi_id_to_volume_id i" n sp s r s'] that
    by (auto simp: ds8k_mediator_def intro!: exI [of _ "snapshot_pool s (scsi_id_to_volume_id i) sp"] adds_changes_one)
  show "held s' = (case r of Inl e \<Rightarrow> held s | Inr u \<Rightarrow> (held s)(scsi_id_to_volume_id i := None))"
    if "delete_snapshot (ds8k_mediator retry api sa sys) i s = (r, s')" for i s r s'
    using delete_object_drops [of "scsi_id_to_volume_id i" True s r s'] that
    by (auto simp: ds8k_mediator_def ds8k_delete_snapshot_def split: sum.splits)
qed (simp_all add: ds8k_mediator_def calls_keep reads_keep)

lemma serves_snapshots:
  "snapshot_server (ds8k_mediator retry api sa sys) scsi_id_to_volume_id Pair held ds8k_snapshot_key"
proof (rule snapshot_server.intro [OF serves_volumes], unfold_locales)
  have key: "ds8k_snapshot_key (held s) i sp n =
      (if truthy sp \<or> held s (scsi_id_to_volume_id i) \<noteq> None
       then Some (snapshot_pool s (scsi_id_to_volume_id i) sp, n) else None)" for s i sp n
    by (auto simp: ds8k_snapshot_key_def snapshot_pool_def map_option_case split: option.split prod.split)
  show "\<exists>x. ds8k_snapshot_key (held s) i sp n = Some x \<and>
      (\<forall>sn. found = Some sn \<longrightarrow> held s (scsi_id_to_volume_id (snap_id sn)) = Some x)"
    if "get_snapshot (ds8k_mediator retry api sa sys) i n sp s = (Inr found, s')" for i n sp s found s'
    using found_snapshot [of sa sys "scsi_id_to_volume_id i" n sp s found s'] that
    by (auto simp: ds8k_mediator_def key)
  show "changes_one (held s) x (held s') \<and>
      (\<forall>sn. r = Inr sn \<longrightarrow> x \<notin> ran (held s) \<and> held s' (scsi_id_to_volume_id (snap_id sn)) = Some x)"
    if "ds8k_snapshot_key (held s) i sp n = Some x"
      "create_snapshot (ds8k_mediator retry api sa sys) i n sp s = (r, s')" for i sp n x s r s'
    using create_snapshot_adds [of sa sys "scsi_id_to_volume_id i" n sp s r s'] that
    by (auto simp: ds8k_mediator_def key intro: adds_changes_one split: if_splits)
  show "ds8k_snapshot_key T' i sp n = Some x"
    if "ds8k_snapshot_key T i sp n = Some x" "T \<subseteq>\<^sub>m T'" for T T' :: "string \<Rightarrow> (string \<times> string) option" and i sp n x
    using that by (auto simp: ds8k_snapshot_key_def map_le_def dom_def split: if_splits)
qed

end

sublocale ds8k_named \<subseteq> served: snapshot_server "ds8k_mediator retry api sa sys" scsi_id_to_volume_id Pair held
    ds8k_snapshot_key
  for sa sys
  by (rule serves_snapshots)

locale ds8k_mapped = ds8k_array api luns
  for api :: "'s ds8k_api" and luns +
  fixes retry :: "(exc, 's, unit) retrier"
  assumes retries: "retry_law retry"
    and volume_calls: "ds8k_volume_calls (\<lambda>s. no_more T (number_table (luns s))) api"
begin

lemma serves_mappings:
  "mapping_server (ds8k_mediator retry api sa sys) scsi_id_to_volume_id (\<lambda>s. number_table (luns s))"
proof (rule mapping_server.intro [OF keeps_table], unfold_locales)
qed (simp_all add: ds8k_mediator_def ds8k_volume_calls_keep [OF volume_calls retries]
    ds8k_validate_supported_space_efficiency_def keeps_raise keeps_ret
    ds8k_volume_reads_keep [OF conjunct1 [OF volume_calls [unfolded ds8k_volume_calls_def]]]
    ds8k_snapshot_reads_keep [OF conjunct1 [OF volume_calls [unfolded ds8k_volume_calls_def]]])

end

sublocale ds8k_mapped \<subseteq> served: mapping_server "ds8k_mediator retry api sa sys" scsi_id_to_volume_id
  "\<lambda>s. number_table (luns s)" for sa sys
  by (rule serves_mappings)

section \<open>The contracts of the server\<close>

text \<open>
  C20: xiv_serves_volumes
  The XIV mediator is what the server needs for unique names: a snapshot is an object of its own
  name, found by this name, and made only when the name is free.
\<close>

theorem xiv_serves_volumes:
  assumes "xiv_named cl objs randint"
  shows "snapshot_server (xiv_mediator randint cl eps) id (\<lambda>_ n. n) objs (\<lambda>_ _ _. Some)"
  by (rule xiv_named.serves_snapshots [OF assms])

text \<open>
  C18: svc_serves_volumes
  The SVC mediator is what the server needs for unique names: a snapshot is found by its name, and
  making one adds it under a free name or fails; the roll-back then removes at most objects with
  the snapshot's name.
\<close>

theorem svc_serves_volumes:
  assumes "svc_named retry cl disks"
  shows "snapshot_server (svc_mediator retry cl ep) id (\<lambda>_ n. n) disks (\<lambda>_ _ _. Some)"
  by (rule svc_named.serves_snapshots [OF assms])

text \<open>
  C19: ds8k_serves_volumes
  The DS8K mediator is what the server needs for names that are unique within a pool, those of
  snapshots included, whose pool is the requested one or else that of the source; a target that is
  left behind by a failed snapshot is a volume of the store.
\<close>

theorem ds8k_serves_volumes:
  assumes "ds8k_named api held retry"
  shows "snapshot_server (ds8k_mediator retry api sa sys) scsi_id_to_volume_id Pair held ds8k_snapshot_key"
  by (rule ds8k_named.serves_snapshots [OF assms])

text \<open>
  C23: xiv_serves_mappings
  The XIV mediator is what the server needs for exclusive access: only mapping adds to its table.
\<close>

theorem xiv_serves_mappings:
  assumes "xiv_mapped randint cl names luns"
  shows "mapping_server (xiv_mediator randint cl eps) id (\<lambda>s. named_table (names s) (luns s) LunStr)"
  by (rule xiv_mapped.serves_mappings [OF assms])

text \<open>
  C21: svc_serves_mappings
  The SVC mediator is what the server needs for exclusive access, its roll-backs included.
\<close>

theorem svc_serves_mappings:
  assumes "svc_mapped cl names luns retry"
  shows "mapping_server (svc_mediator retry cl ep) id (\<lambda>s. named_table (names s) (luns s) LunStr)"
  by (rule svc_mapped.serves_mappings [OF assms])

text \<open>
  C22: ds8k_serves_mappings
  The DS8K mediator is what the server needs for exclusive access.
\<close>

theorem ds8k_serves_mappings:
  assumes "ds8k_mapped api luns retry"
  shows "mapping_server (ds8k_mediator retry api sa sys) scsi_id_to_volume_id (\<lambda>s. number_table (luns s))"
  by (rule ds8k_mapped.serves_mappings [OF assms])

section \<open>Arrays in memory\<close>

interpretation names_xiv: xiv_named names_xiv memory_objs zero_random
proof
  show "xiv_mapping_calls (\<lambda>s. memory_objs s = T) zero_random names_xiv" for T
    by (auto simp: xiv_mapping_calls_def xiv_lists_def names_xiv_def zero_random_def intro: keeps_rules)
  show "case r of
      Inl l \<Rightarrow> memory_objs s' = memory_objs s
    | Inr x \<Rightarrow> n \<notin> ran (memory_objs s) \<and> (\<exists>w. memory_objs s w = None \<and>
        memory_objs s' = (memory_objs s)(w \<mapsto> n) \<and> (\<forall>v. x = Some v \<longrightarrow> xv_wwn v = w))"
    if "xc_snapshot_create names_xiv n v s = (r, s')" for n v s r s'
    using that by (auto simp: names_xiv_def named_add_def memory_objs_add xiv_of_name_def split: if_splits)
  show "memory_objs s' = (case r of Inl l \<Rightarrow> memory_objs s | Inr u \<Rightarrow> (memory_objs s)(w := None))"
    if "memory_objs s w = Some n" "xc_snapshot_delete names_xiv n s = (r, s')" for w n s r s'
    using that by (auto simp: names_xiv_def named_drop_def memory_objs_drop memory_objs_eq split: if_splits)
qed

lemma xiv_serves_volumes_witness:
  "snapshot_server (xiv_mediator zero_random names_xiv []) id (\<lambda>_ n. n) memory_objs
     (\<lambda>_ _ _. Some)"
  by (rule xiv_serves_volumes [OF names_xiv.xiv_named_axioms])

text \<open>The volume \<open>1\<close> and its snapshot \<open>s1\<close>, asked for twice.\<close>

definition sample_snapshot_request :: create_snapshot_request where
  "sample_snapshot_request =
     \<lparr>cs_name = ''s1'', cs_source_volume_id = ''A9000:61'', cs_secrets = [], cs_parameters = []\<rparr>"

definition names_snapshot :: snapshot where
  "names_snapshot =
     \<lparr>snap_capacity_bytes = 1073741824, snap_id = ''6s1'', snap_name = ''s1'', snap_array_address = AddrList [],
      snap_source_volume_id = Some ''61'', snap_is_ready = True, snap_array_type = ''A9000''\<rparr>"

definition names_snapshot_reply :: "create_snapshot_response reply" where
  "names_snapshot_reply = \<lparr>rp_code = None, rp_details = NoDetails,
     rp_body = Some (generate_csi_create_snapshot_response 0 names_snapshot ''A9000:61'')\<rparr>"

lemma names_s1: "get_snapshot_final_name names_env None ''s1'' names_mediator = Inr ''s1''"
  by code_simp

lemmas names_xiv_runs = xiv_mediator_def names_xiv_def xiv_of_name_def xiv_generate_snapshot_response_def
  xiv_convert_size_blocks_to_bytes_def py_int_def sample_xiv_capacity XIV_BLOCK_SIZE_IN_BYTES_def ARRAY_TYPE_XIV_def
  except_lib_def lib_def run sample_xiv_volume_def xiv_get_source_object_wwn_def xiv_get_cli_object_by_name_def

lemma names_snapshot_got:
  "''1'' \<in> set s \<Longrightarrow> get_snapshot names_mediator ''61'' ''s1'' None s =
     (Inr (if ''s1'' \<in> set s then Some names_snapshot else None), s)"
  by (simp add: names_xiv_runs xiv_get_snapshot_def names_snapshot_def)

lemma names_snapshot_made:
  "create_snapshot names_mediator ''61'' ''s1'' None [''1''] = (Inr names_snapshot, [''s1'', ''1''])"
  by (simp add: names_xiv_runs xiv_create_snapshot_def xiv_get_cli_object_by_wwn_def named_add_def names_snapshot_def)

lemma names_now: "en_now names_env s = 0"
  by (simp add: stub_env_def)

lemma names_source: "snap_source_volume_id names_snapshot = Some ''61''"
  by (simp add: names_snapshot_def)

lemma names_create_snapshot:
  "s \<in> {[''1''], [''s1'', ''1'']} \<Longrightarrow>
   create_snapshot_on names_env sample_snapshot_request None None ''61'' names_mediator s =
     (Inr names_snapshot_reply, [''s1'', ''1''])"
  by (auto simp: create_snapshot_on_def sample_snapshot_request_def names_s1 run names_snapshot_got
      names_snapshot_made names_snapshot_reply_def names_now names_source)

lemmas names_snapshot_first = names_create_snapshot [of "[''1'']", simplified]
lemmas names_snapshot_again = names_create_snapshot [of "[''s1'', ''1'']", simplified]

lemma create_snapshot_twice_witness:
  "\<exists>sn'. rp_body names_snapshot_reply = Some (generate_csi_create_snapshot_response 0 sn' ''A9000:61'') \<and>
    snap_source_volume_id sn' = Some ''61''"
proof -
  have name: "get_snapshot_final_name names_env None (cs_name sample_snapshot_request) names_mediator = Inr ''s1''"
    by (simp add: sample_snapshot_request_def names_s1)
  from create_snapshot_twice [OF names_xiv.serves_snapshots names_once name name refl names_snapshot_first _
      names_snapshot_again]
  show ?thesis by (auto simp: names_snapshot_reply_def sample_snapshot_request_def names_snapshot_def)
qed

interpretation names_svc: svc_named retry_loop names_svc memory_objs
proof
  show "svc_mapping_calls (\<lambda>s. memory_objs s = T) names_svc" for T
    by (auto simp: svc_mapping_calls_def svc_lists_def names_svc_def intro: keeps_rules)
  show "vd_name v = n" if "sc_lsvdisk_by_id names_svc n s = (Inr (Some v), s')" for n s v s'
    using that by (auto simp: names_svc_def svc_of_name_def split: if_splits)
  show "mv_name a \<notin> ran (memory_objs s)" if "sc_mkvolume names_svc a s = (r, s')" "carried_out r" for a s r s'
    using that svc_failure_fails
    by (auto simp: names_svc_def named_add_def split: if_splits simp del: carried_out.simps(2))
qed

lemma svc_serves_volumes_witness:
  "snapshot_server (svc_mediator retry_loop names_svc ''a'') id (\<lambda>_ n. n) memory_objs
     (\<lambda>_ _ _. Some)"
  by (rule svc_serves_volumes [OF names_svc.svc_named_axioms])

interpretation numbers_ds8k: ds8k_named numbers_ds8k memory_held retry_loop
proof
  show "ds8k_mapping_calls (\<lambda>s. memory_held s = T) numbers_ds8k" for T
    by (auto simp: ds8k_mapping_calls_def numbers_ds8k_def intro: keeps_rules)
  show "\<exists>n. memory_held s i = Some (dv_pool v, n)" if "da_get_volumes numbers_ds8k i s = (Inr v, s')" for i s v s'
    using that by (auto simp: numbers_ds8k_def ds8k_of_entry_def split: option.splits prod.splits)
qed (rule retry_loop_law)

lemma ds8k_serves_volumes_witness:
  "snapshot_server (ds8k_mediator retry_loop numbers_ds8k ''a'' sample_system) scsi_id_to_volume_id Pair memory_held
     ds8k_snapshot_key"
  by (rule ds8k_serves_volumes [OF numbers_ds8k.ds8k_named_axioms])

interpretation memory_xiv: xiv_mapped zero_random memory_xiv "\<lambda>_. Some" memory_luns
proof
  show "xiv_volume_calls (\<lambda>s. no_more T (named_table Some (memory_luns s) LunStr)) memory_xiv" for T
    by (auto simp: xiv_volume_calls_def xiv_volume_reads_def memory_xiv_def intro: keeps_rules)
qed

lemma xiv_serves_mappings_witness:
  "mapping_server (xiv_mediator zero_random memory_xiv []) id (\<lambda>s. named_table Some (memory_luns s) LunStr)"
  by (rule xiv_serves_mappings [OF memory_xiv.xiv_mapped_axioms])

interpretation memory_svc: svc_mapped memory_svc "\<lambda>_. Some" memory_luns retry_loop
proof
  show "svc_volume_calls (\<lambda>s. no_more T (named_table Some (memory_luns s) LunStr)) memory_svc" for T
    by (auto simp: svc_volume_calls_def svc_volume_reads_def memory_svc_def intro: keeps_rules)
qed (rule retry_loop_law)

lemma svc_serves_mappings_witness:
  "mapping_server (svc_mediator retry_loop memory_svc ''a'') id (\<lambda>s. named_table Some (memory_luns s) LunStr)"
  by (rule svc_serves_mappings [OF memory_svc.svc_mapped_axioms])

interpretation memory_ds8k: ds8k_mapped memory_ds8k h1_luns retry_loop
proof
  show "ds8k_volume_calls (\<lambda>s. no_more T (number_table (h1_luns s))) memory_ds8k" for T
    by (auto simp: ds8k_volume_calls_def ds8k_volume_reads_def memory_ds8k_def intro: keeps_rules)
qed (rule retry_loop_law)

lemma ds8k_serves_mappings_witness:
  "mapping_server (ds8k_mediator retry_loop memory_ds8k ''a'' sample_system) scsi_id_to_volume_id
     (\<lambda>s. number_table (h1_luns s))"
  by (rule ds8k_serves_mappings [OF memory_ds8k.ds8k_mapped_axioms])

section \<open>A server on arrays in memory\<close>

text \<open>A server whose connections lead to an XIV in memory.\<close>

definition xiv_answers :: "string \<Rightarrow> int \<Rightarrow> lib_exc + int" where
  "xiv_answers h p = (if p = 7778 then Inr 0 else Inr 111)"

definition linked_env :: "'s xiv_client \<Rightarrow> 's env" where
  "linked_env cl = (stub_env xiv_answers)\<lparr>en_xiv_connect := (\<lambda>_ _ _ s. (Inr cl, s))\<rparr>"

lemma linked_retries: "retry_law (en_retry (linked_env cl))" "retry_law (en_retry_map (linked_env cl))"
  by (simp_all add: linked_env_def stub_env_def retry_loop_law)

lemma gives_failing: "gives I Q (\<lambda>s. (Inl e, s))"
  by (simp add: gives_def)

lemma linked_connects:
  fixes cl :: "'s xiv_client"
  assumes "\<And>eps. G (xiv_mediator zero_random cl eps)"
  shows "gives W G (med_class (linked_env cl) k u w eps)"
proof (cases k)
  case XIV
  have "(zero_random :: 's randint) = (\<lambda>a b s. (a, s))" by (simp add: fun_eq_iff zero_random_def)
  with assms [of eps] have "G (xiv_mediator (\<lambda>a b s. (a, s)) cl eps)" by simp
  with XIV show ?thesis
    by (auto simp: linked_env_def stub_env_def XIVArrayMediator_def xiv_connect_client_def except_lib_def
        gives_def run)
next
  case DS8K
  then show ?thesis
    by (auto simp: linked_env_def stub_env_def DS8KArrayMediator_def ds8k_connect_client_def except_lib_def
        gives_def run first_item_def split: list.splits if_splits)
next
  case SVC
  then show ?thesis
    by (auto simp: linked_env_def stub_env_def SVCArrayMediator_def svc_connect_client_def
        gives_def run split: list.splits if_splits)
qed

lemma linked_links:
  assumes "\<And>eps. G (xiv_mediator zero_random cl eps)"
    and "\<And>med. G med \<Longrightarrow> keeps W (is_active med) \<and> keeps W (disconnect med)"
  shows "good_links (linked_env cl) (\<lambda>_ s. s) W G"
proof
  show "gives W G (med_class (linked_env cl) k u w eps)" for k u w eps
    using assms(1) by (rule linked_connects)
  show "gives (stocked_pool W G) G (en_wait (linked_env cl))"
    by (simp add: linked_env_def stub_env_def gives_raise)
  show "keeps W (en_connect_ex (linked_env cl) h p)" for h p
    by (simp add: linked_env_def stub_env_def keeps_same keeps_pair)
qed (use assms(2) in auto)


definition drop_request :: rpc where
  "drop_request = DeleteVolumeRpc \<lparr>dv_volume_id = ''A9000:6v1'', dv_secrets = sample_secrets\<rparr>"

lemma drop_served:
  "ctl_array (snd (serve (linked_env names_xiv) (\<lambda>_ s. s) default_publish_config shipped_identity
     drop_request (no_agents [''v1'', ''v2'']))) = [''v2'']"
  unfolding linked_env_def drop_request_def by code_simp

lemma names_links:
  "good_links (linked_env names_xiv) (\<lambda>_ s. s) (\<lambda>s. named_once (memory_objs s)) (names_volumes memory_objs)"
proof (rule linked_links)
  show "names_volumes memory_objs (xiv_mediator zero_random names_xiv eps)" for eps
    unfolding names_volumes_def using names_xiv.serves_volumes by blast
  show "keeps (\<lambda>s. named_once (memory_objs s)) (is_active med) \<and>
      keeps (\<lambda>s. named_once (memory_objs s)) (disconnect med)"
    if "names_volumes memory_objs med" for med
    using that by (auto simp: names_volumes_def intro: volume_server.link_unique)
qed

lemma step_reachable:
  assumes "array_init W c"
  shows "reachable (array_init W) (array_step env fin cfg identity W) (snd (serve env fin cfg identity q c))"
  by (rule reachable.next_state, rule reachable.start, rule assms, rule array_step.request, rule prod.collapse [symmetric])

lemma server_names_unique_witness:
  "named_once (memory_objs (ctl_array (snd (serve (linked_env names_xiv) (\<lambda>_ s. s) default_publish_config
     shipped_identity drop_request (no_agents [''v1'', ''v2'']))))) \<and>
   ctl_array (snd (serve (linked_env names_xiv) (\<lambda>_ s. s) default_publish_config
     shipped_identity drop_request (no_agents [''v1'', ''v2'']))) = [''v2'']"
proof -
  have "array_init (\<lambda>s. named_once (memory_objs s)) (no_agents [''v1'', ''v2''])"
    by (simp add: array_init_def no_agents_def names_once)
  then have "named_once (memory_objs (ctl_array (snd (serve (linked_env names_xiv) (\<lambda>_ s. s) default_publish_config
      shipped_identity drop_request (no_agents [''v1'', ''v2''])))))"
    by (rule server_names_unique [OF names_links linked_retries step_reachable])
  then show ?thesis by (simp add: drop_served)
qed

definition node_request :: rpc where
  "node_request = PublishVolumeRpc \<lparr>pv_volume_id = ''A9000:6001'', pv_node_id = ''n;;iqn'', pv_readonly = False,
     pv_capability = \<lparr>cap_mount_fs_type = Some ''ext4'', cap_has_block = False, cap_access_mode = 1,
       cap_access_mode_text = []\<rparr>, pv_secrets = sample_secrets\<rparr>"

lemma node_served:
  "ctl_array (snd (serve (linked_env memory_xiv) (\<lambda>_ s. s) default_publish_config shipped_identity
     node_request (no_agents []))) = [((''6001'', ''h1''), ''1'')]"
  unfolding linked_env_def node_request_def by code_simp

lemma table_links:
  "good_links (linked_env memory_xiv) (\<lambda>_ s. s) (\<lambda>s. one_host (memory_table s)) (maps_volumes memory_table)"
proof (rule linked_links)
  show "maps_volumes memory_table (xiv_mediator zero_random memory_xiv eps)" for eps
    unfolding maps_volumes_def using memory_xiv.serves_mappings by blast
  show "keeps (\<lambda>s. one_host (memory_table s)) (is_active med) \<and>
      keeps (\<lambda>s. one_host (memory_table s)) (disconnect med)"
    if "maps_volumes memory_table med" for med
    using that by (auto simp: maps_volumes_def intro: mapping_server.link_exclusive)
qed

lemma server_exclusive_access_witness:
  "one_host (memory_table (ctl_array (snd (serve (linked_env memory_xiv) (\<lambda>_ s. s) default_publish_config
     shipped_identity node_request (no_agents []))))) \<and>
   ctl_array (snd (serve (linked_env memory_xiv) (\<lambda>_ s. s) default_publish_config
     shipped_identity node_request (no_agents []))) = [((''6001'', ''h1''), ''1'')]"
proof -
  have "array_init (\<lambda>s. one_host (memory_table s)) (no_agents [])"
    by (simp add: array_init_def no_agents_def one_host_def named_table_def memory_luns_def)
  then have "one_host (memory_table (ctl_array (snd (serve (linked_env memory_xiv) (\<lambda>_ s. s) default_publish_config
      shipped_identity node_request (no_agents [])))))"
    by (rule server_exclusive_access [OF table_links linked_retries step_reachable])
  then show ?thesis by (simp add: node_served)
qed

end
