(* ===== verification/GrpcStubs.thy ===== *)
theory GrpcStubs
  imports Server
begin

text \<open>
  \<^verbatim>\<open>csi_general/csi_pb2_grpc.py\<close>: for each of the three CSI services the client's stub, the base
  class of a servicer, the registration of a servicer with a server, and the static client
  methods.  The package \<^verbatim>\<open>grpc\<close> and the classes of \<^verbatim>\<open>csi_pb2.py\<close> are not modelled: a serializer
  stands here by the name of its message class, and a server is whatever the package's calls
  make it.  What the registered methods do is in \<open>Server\<close>; that they are the ones a client
  reaches is shown in \<open>ServerStart\<close>.
\<close>

section \<open>What the module uses of the package\<close>

text \<open>\<^verbatim>\<open>channel.unary_unary(method, request_serializer=..., response_deserializer=...)\<close>.\<close>

record unary_unary =
  uu_method :: string
  uu_request :: string
  uu_response :: string

definition channel_unary_unary :: "string \<Rightarrow> string \<Rightarrow> string \<Rightarrow> unary_unary" where
  "channel_unary_unary path request response = \<lparr>uu_method = path, uu_request = request, uu_response = response\<rparr>"

text \<open>\<^verbatim>\<open>grpc.unary_unary_rpc_method_handler(behavior, request_deserializer=..., response_serializer=...)\<close>.\<close>

record 'b method_handler =
  mh_behaviour :: 'b
  mh_request :: string
  mh_response :: string

text \<open>\<^verbatim>\<open>grpc.method_handlers_generic_handler(service, method_handlers)\<close>.\<close>

type_synonym 'b generic_handler = "string \<times> (string, 'b method_handler) dict"

text \<open>The calls that the controller makes to start a server; \<^verbatim>\<open>sleep\<close> may end with an interrupt.\<close>

datatype sleep_end = Slept | KeyboardInterrupt

record ('w, 'srv, 'b) grpc_package =
  gp_server :: "nat \<Rightarrow> ('w, 'srv) lib_call"
  gp_add_generic_rpc_handlers :: "'srv \<Rightarrow> 'b generic_handler \<Rightarrow> ('w, unit) lib_call"
  gp_add_insecure_port :: "'srv \<Rightarrow> string option \<Rightarrow> ('w, unit) lib_call"
  gp_start :: "'srv \<Rightarrow> ('w, unit) lib_call"
  gp_stop :: "'srv \<Rightarrow> nat \<Rightarrow> ('w, unit) lib_call"
  gp_sleep :: "nat \<Rightarrow> 'w \<Rightarrow> sleep_end \<times> 'w"

section \<open>Servicers\<close>

text \<open>
  A servicer is the list of its class and the base classes, each with the methods it defines; an
  attribute is looked up in this order.
\<close>

type_synonym 'b servicer = "(string, 'b) dict list"

fun servicer_attribute :: "'b servicer \<Rightarrow> string \<Rightarrow> exc + 'b" where
  "servicer_attribute [] n = Inl AttributeError"
| "servicer_attribute (c # cs) n =
     (case map_of c n of Some b \<Rightarrow> Inr b | None \<Rightarrow> servicer_attribute cs n)"

text \<open>
  The dictionary \<^verbatim>\<open>rpc_method_handlers\<close>, from its rows: the key, the attribute of the servicer,
  and the classes of the request and of the response.
\<close>

fun method_handlers ::
  "'b servicer \<Rightarrow> (string \<times> string \<times> string \<times> string) list \<Rightarrow> exc + (string, 'b method_handler) dict" where
  "method_handlers servicer [] = Inr []"
| "method_handlers servicer ((key, attribute, request, response) # rows) =
     bnd_err (servicer_attribute servicer attribute) (\<lambda>b.
     bnd_err (method_handlers servicer rows) (\<lambda>hs.
       Inr ((key, \<lparr>mh_behaviour = b, mh_request = request, mh_response = response\<rparr>) # hs)))"

section \<open>Static client methods\<close>

text \<open>
  \<^verbatim>\<open>grpc.experimental.unary_unary\<close>, which takes the options by their position.
\<close>

record 'v call_options =
  co_options :: 'v
  co_channel_credentials :: 'v
  co_call_credentials :: 'v
  co_compression :: 'v
  co_wait_for_ready :: 'v
  co_timeout :: 'v
  co_metadata :: 'v

type_synonym ('m, 'v, 'r) experimental = "'m \<Rightarrow> string \<Rightarrow> unary_unary \<Rightarrow> 'v list \<Rightarrow> 'r"
type_synonym ('m, 'v, 'r) static_call = "'m \<Rightarrow> string \<Rightarrow> 'v call_options \<Rightarrow> 'r"

definition positional :: "'v call_options \<Rightarrow> 'v list" where
  "positional opt = [co_options opt, co_channel_credentials opt, co_call_credentials opt, co_compression opt,
     co_wait_for_ready opt, co_timeout opt, co_metadata opt]"

definition experimental_unary_unary ::
  "('m, 'v, 'r) experimental \<Rightarrow> string \<Rightarrow> string \<Rightarrow> string \<Rightarrow> ('m, 'v, 'r) static_call" where
  "experimental_unary_unary ex path request_class response_class request target opt =
     ex request target \<lparr>uu_method = path, uu_request = request_class, uu_response = response_class\<rparr> (positional opt)"

section \<open>The identity service\<close>

definition IdentityStub :: "(string, unary_unary) dict" where
  "IdentityStub =
     [(''GetPluginInfo'', channel_unary_unary ''/csi.v1.Identity/GetPluginInfo''
        ''GetPluginInfoRequest'' ''GetPluginInfoResponse''),
      (''GetPluginCapabilities'', channel_unary_unary ''/csi.v1.Identity/GetPluginCapabilities''
        ''GetPluginCapabilitiesRequest'' ''GetPluginCapabilitiesResponse''),
      (''Probe'', channel_unary_unary ''/csi.v1.Identity/Probe''
        ''ProbeRequest'' ''ProbeResponse'')]"

definition IdentityServicer :: "'b \<Rightarrow> (string, 'b) dict" where
  "IdentityServicer unimplemented =
     [(''GetPluginInfo'', unimplemented),
      (''GetPluginCapabilities'', unimplemented),
      (''Probe'', unimplemented)]"

definition Identity_rpc_method_handlers :: "(string \<times> string \<times> string \<times> string) list" where
  "Identity_rpc_method_handlers =
     [(''GetPluginInfo'', ''GetPluginInfo'', ''GetPluginInfoRequest'', ''GetPluginInfoResponse''),
      (''GetPluginCapabilities'', ''GetPluginCapabilities'', ''GetPluginCapabilitiesRequest'', ''GetPluginCapabilitiesResponse''),
      (''Probe'', ''Probe'', ''ProbeRequest'', ''ProbeResponse'')]"

definition add_IdentityServicer_to_server ::
  "('w, 'srv, 'b) grpc_package \<Rightarrow> 'b servicer \<Rightarrow> 'srv \<Rightarrow> ('w, unit) pyprog" where
  "add_IdentityServicer_to_server gp servicer server =
     bnd (lift (method_handlers servicer Identity_rpc_method_handlers)) (\<lambda>rpc_method_handlers.
       lib (gp_add_generic_rpc_handlers gp server (''csi.v1.Identity'', rpc_method_handlers)))"

definition Identity_calls :: "('m, 'v, 'r) experimental \<Rightarrow> (string, ('m, 'v, 'r) static_call) dict" where
  "Identity_calls ex =
     [(''GetPluginInfo'', experimental_unary_unary ex ''/csi.v1.Identity/GetPluginInfo''
        ''GetPluginInfoRequest'' ''GetPluginInfoResponse''),
      (''GetPluginCapabilities'', experimental_unary_unary ex ''/csi.v1.Identity/GetPluginCapabilities''
        ''GetPluginCapabilitiesRequest'' ''GetPluginCapabilitiesResponse''),
      (''Probe'', experimental_unary_unary ex ''/csi.v1.Identity/Probe''
        ''ProbeRequest'' ''ProbeResponse'')]"

section \<open>The controller service\<close>

definition ControllerStub :: "(string, unary_unary) dict" where
  "ControllerStub =
     [(''CreateVolume'', channel_unary_unary ''/csi.v1.Controller/CreateVolume''
        ''CreateVolumeRequest'' ''CreateVolumeResponse''),
      (''DeleteVolume'', channel_unary_unary ''/csi.v1.Controller/DeleteVolume''
        ''DeleteVolumeRequest'' ''DeleteVolumeResponse''),
      (''ControllerPublishVolume'', channel_unary_unary ''/csi.v1.Controller/ControllerPublishVolume''
        ''ControllerPublishVolumeRequest'' ''ControllerPublishVolumeResponse''),
      (''ControllerUnpublishVolume'', channel_unary_unary ''/csi.v1.Controller/ControllerUnpublishVolume''
        ''ControllerUnpublishVolumeRequest'' ''ControllerUnpublishVolumeResponse''),
      (''ValidateVolumeCapabilities'', channel_unary_unary ''/csi.v1.Controller/ValidateVolumeCapabilities''
        ''ValidateVolumeCapabilitiesRequest'' ''ValidateVolumeCapabilitiesResponse''),
      (''ListVolumes'', channel_unary_unary ''/csi.v1.Controller/ListVolumes''
        ''ListVolumesRequest'' ''ListVolumesResponse''),
      (''GetCapacity'', channel_unary_unary ''/csi.v1.Controller/GetCapacity''
        ''GetCapacityRequest'' ''GetCapacityResponse''),
      (''ControllerGetCapabilities'', channel_unary_unary ''/csi.v1.Controller/ControllerGetCapabilities''
        ''ControllerGetCapabilitiesRequest'' ''ControllerGetCapabilitiesResponse''),
      (''CreateSnapshot'', channel_unary_unary ''/csi.v1.Controller/CreateSnapshot''
        ''CreateSnapshotRequest'' ''CreateSnapshotResponse''),
      (''DeleteSnapshot'', channel_unary_unary ''/csi.v1.Controller/DeleteSnapshot''
        ''DeleteSnapshotRequest'' ''DeleteSnapshotResponse''),
      (''ListSnapshots'', channel_unary_unary ''/csi.v1.Controller/ListSnapshots''
        ''ListSnapshotsRequest'' ''ListSnapshotsResponse''),
      (''ControllerExpandVolume'', channel_unary_unary ''/csi.v1.Controller/ControllerExpandVolume''
        ''ControllerExpandVolumeRequest'' ''ControllerExpandVolumeResponse'')]"

definition ControllerServicer :: "'b \<Rightarrow> (string, 'b) dict" where
  "ControllerServicer unimplemented =
     [(''CreateVolume'', unimplemented),
      (''DeleteVolume'', unimplemented),
      (''ControllerPublishVolume'', unimplemented),
      (''ControllerUnpublishVolume'', unimplemented),
      (''ValidateVolumeCapabilities'', unimplemented),
      (''ListVolumes'', unimplemented),
      (''GetCapacity'', unimplemented),
      (''ControllerGetCapabilities'', unimplemented),
      (''CreateSnapshot'', unimplemented),
      (''DeleteSnapshot'', unimplemented),
      (''ListSnapshots'', unimplemented),
      (''ControllerExpandVolume'', unimplemented)]"

definition Controller_rpc_method_handlers :: "(string \<times> string \<times> string \<times> string) list" where
  "Controller_rpc_method_handlers =
     [(''CreateVolume'', ''CreateVolume'', ''CreateVolumeRequest'', ''CreateVolumeResponse''),
      (''DeleteVolume'', ''DeleteVolume'', ''DeleteVolumeRequest'', ''DeleteVolumeResponse''),
      (''ControllerPublishVolume'', ''ControllerPublishVolume'', ''ControllerPublishVolumeRequest'', ''ControllerPublishVolumeResponse''),
      (''ControllerUnpublishVolume'', ''ControllerUnpublishVolume'', ''ControllerUnpublishVolumeRequest'', ''ControllerUnpublishVolumeResponse''),
      (''ValidateVolumeCapabilities'', ''ValidateVolumeCapabilities'', ''ValidateVolumeCapabilitiesRequest'', ''ValidateVolumeCapabilitiesResponse''),
      (''ListVolumes'', ''ListVolumes'', ''ListVolumesRequest'', ''ListVolumesResponse''),
      (''GetCapacity'', ''GetCapacity'', ''GetCapacityRequest'', ''GetCapacityResponse''),
      (''ControllerGetCapabilities'', ''ControllerGetCapabilities'', ''ControllerGetCapabilitiesRequest'', ''ControllerGetCapabilitiesResponse''),
      (''CreateSnapshot'', ''CreateSnapshot'', ''CreateSnapshotRequest'', ''CreateSnapshotResponse''),
      (''DeleteSnapshot'', ''DeleteSnapshot'', ''DeleteSnapshotRequest'', ''DeleteSnapshotResponse''),
      (''ListSnapshots'', ''ListSnapshots'', ''ListSnapshotsRequest'', ''ListSnapshotsResponse''),
      (''ControllerExpandVolume'', ''ControllerExpandVolume'', ''ControllerExpandVolumeRequest'', ''ControllerExpandVolumeResponse'')]"

definition add_ControllerServicer_to_server ::
  "('w, 'srv, 'b) grpc_package \<Rightarrow> 'b servicer \<Rightarrow> 'srv \<Rightarrow> ('w, unit) pyprog" where
  "add_ControllerServicer_to_server gp servicer server =
     bnd (lift (method_handlers servicer Controller_rpc_method_handlers)) (\<lambda>rpc_method_handlers.
       lib (gp_add_generic_rpc_handlers gp server (''csi.v1.Controller'', rpc_method_handlers)))"

definition Controller_calls :: "('m, 'v, 'r) experimental \<Rightarrow> (string, ('m, 'v, 'r) static_call) dict" where
  "Controller_calls ex =
     [(''CreateVolume'', experimental_unary_unary ex ''/csi.v1.Controller/CreateVolume''
        ''CreateVolumeRequest'' ''CreateVolumeResponse''),
      (''DeleteVolume'', experimental_unary_unary ex ''/csi.v1.Controller/DeleteVolume''
        ''DeleteVolumeRequest'' ''DeleteVolumeResponse''),
      (''ControllerPublishVolume'', experimental_unary_unary ex ''/csi.v1.Controller/ControllerPublishVolume''
        ''ControllerPublishVolumeRequest'' ''ControllerPublishVolumeResponse''),
      (''ControllerUnpublishVolume'', experimental_unary_unary ex ''/csi.v1.Controller/ControllerUnpublishVolume''
        ''ControllerUnpublishVolumeRequest'' ''ControllerUnpublishVolumeResponse''),
      (''ValidateVolumeCapabilities'', experimental_unary_unary ex ''/csi.v1.Controller/ValidateVolumeCapabilities''
        ''ValidateVolumeCapabilitiesRequest'' ''ValidateVolumeCapabilitiesResponse''),
      (''ListVolumes'', experimental_unary_unary ex ''/csi.v1.Controller/ListVolumes''
        ''ListVolumesRequest'' ''ListVolumesResponse''),
      (''GetCapacity'', experimental_unary_unary ex ''/csi.v1.Controller/GetCapacity''
        ''GetCapacityRequest'' ''GetCapacityResponse''),
      (''ControllerGetCapabilities'', experimental_unary_unary ex ''/csi.v1.Controller/ControllerGetCapabilities''
        ''ControllerGetCapabilitiesRequest'' ''ControllerGetCapabilitiesResponse''),
      (''CreateSnapshot'', experimental_unary_unary ex ''/csi.v1.Controller/CreateSnapshot''
        ''CreateSnapshotRequest'' ''CreateSnapshotResponse''),
      (''DeleteSnapshot'', experimental_unary_unary ex ''/csi.v1.Controller/DeleteSnapshot''
        ''DeleteSnapshotRequest'' ''DeleteSnapshotResponse''),
      (''ListSnapshots'', experimental_unary_unary ex ''/csi.v1.Controller/ListSnapshots''
        ''ListSnapshotsRequest'' ''ListSnapshotsResponse''),
      (''ControllerExpandVolume'', experimental_unary_unary ex ''/csi.v1.Controller/ControllerExpandVolume''
        ''ControllerExpandVolumeRequest'' ''ControllerExpandVolumeResponse'')]"

section \<open>The node service\<close>

text \<open>The controller does not register it: the node plugin, which does, is another program.\<close>

definition NodeStub :: "(string, unary_unary) dict" where
  "NodeStub =
     [(''NodeStageVolume'', channel_unary_unary ''/csi.v1.Node/NodeStageVolume''
        ''NodeStageVolumeRequest'' ''NodeStageVolumeResponse''),
      (''NodeUnstageVolume'', channel_unary_unary ''/csi.v1.Node/NodeUnstageVolume''
        ''NodeUnstageVolumeRequest'' ''NodeUnstageVolumeResponse''),
      (''NodePublishVolume'', channel_unary_unary ''/csi.v1.Node/NodePublishVolume''
        ''NodePublishVolumeRequest'' ''NodePublishVolumeResponse''),
      (''NodeUnpublishVolume'', channel_unary_unary ''/csi.v1.Node/NodeUnpublishVolume''
        ''NodeUnpublishVolumeRequest'' ''NodeUnpublishVolumeResponse''),
      (''NodeGetVolumeStats'', channel_unary_unary ''/csi.v1.Node/NodeGetVolumeStats''
        ''NodeGetVolumeStatsRequest'' ''NodeGetVolumeStatsResponse''),
      (''NodeExpandVolume'', channel_unary_unary ''/csi.v1.Node/NodeExpandVolume''
        ''NodeExpandVolumeRequest'' ''NodeExpandVolumeResponse''),
      (''NodeGetCapabilities'', channel_unary_unary ''/csi.v1.Node/NodeGetCapabilities''
        ''NodeGetCapabilitiesRequest'' ''NodeGetCapabilitiesResponse''),
      (''NodeGetInfo'', channel_unary_unary ''/csi.v1.Node/NodeGetInfo''
        ''NodeGetInfoRequest'' ''NodeGetInfoResponse'')]"

definition NodeServicer :: "'b \<Rightarrow> (string, 'b) dict" where
  "NodeServicer unimplemented =
     [(''NodeStageVolume'', unimplemented),
      (''NodeUnstageVolume'', unimplemented),
      (''NodePublishVolume'', unimplemented),
      (''NodeUnpublishVolume'', unimplemented),
      (''NodeGetVolumeStats'', unimplemented),
      (''NodeExpandVolume'', unimplemented),
      (''NodeGetCapabilities'', unimplemented),
      (''NodeGetInfo'', unimplemented)]"

definition Node_rpc_method_handlers :: "(string \<times> string \<times> string \<times> string) list" where
  "Node_rpc_method_handlers =
     [(''NodeStageVolume'', ''NodeStageVolume'', ''NodeStageVolumeRequest'', ''NodeStageVolumeResponse''),
      (''NodeUnstageVolume'', ''NodeUnstageVolume'', ''NodeUnstageVolumeRequest'', ''NodeUnstageVolumeResponse''),
      (''NodePublishVolume'', ''NodePublishVolume'', ''NodePublishVolumeRequest'', ''NodePublishVolumeResponse''),
      (''NodeUnpublishVolume'', ''NodeUnpublishVolume'', ''NodeUnpublishVolumeRequest'', ''NodeUnpublishVolumeResponse''),
      (''NodeGetVolumeStats'', ''NodeGetVolumeStats'', ''NodeGetVolumeStatsRequest'', ''NodeGetVolumeStatsResponse''),
      (''NodeExpandVolume'', ''NodeExpandVolume'', ''NodeExpandVolumeRequest'', ''NodeExpandVolumeResponse''),
      (''NodeGetCapabilities'', ''NodeGetCapabilities'', ''NodeGetCapabilitiesRequest'', ''NodeGetCapabilitiesResponse''),
      (''NodeGetInfo'', ''NodeGetInfo'', ''NodeGetInfoRequest'', ''NodeGetInfoResponse'')]"

definition add_NodeServicer_to_server ::
  "('w, 'srv, 'b) grpc_package \<Rightarrow> 'b servicer \<Rightarrow> 'srv \<Rightarrow> ('w, unit) pyprog" where
  "add_NodeServicer_to_server gp servicer server =
     bnd (lift (method_handlers servicer Node_rpc_method_handlers)) (\<lambda>rpc_method_handlers.
       lib (gp_add_generic_rpc_handlers gp server (''csi.v1.Node'', rpc_method_handlers)))"

definition Node_calls :: "('m, 'v, 'r) experimental \<Rightarrow> (string, ('m, 'v, 'r) static_call) dict" where
  "Node_calls ex =
     [(''NodeStageVolume'', experimental_unary_unary ex ''/csi.v1.Node/NodeStageVolume''
        ''NodeStageVolumeRequest'' ''NodeStageVolumeResponse''),
      (''NodeUnstageVolume'', experimental_unary_unary ex ''/csi.v1.Node/NodeUnstageVolume''
        ''NodeUnstageVolumeRequest'' ''NodeUnstageVolumeResponse''),
      (''NodePublishVolume'', experimental_unary_unary ex ''/csi.v1.Node/NodePublishVolume''
        ''NodePublishVolumeRequest'' ''NodePublishVolumeResponse''),
      (''NodeUnpublishVolume'', experimental_unary_unary ex ''/csi.v1.Node/NodeUnpublishVolume''
        ''NodeUnpublishVolumeRequest'' ''NodeUnpublishVolumeResponse''),
      (''NodeGetVolumeStats'', experimental_unary_unary ex ''/csi.v1.Node/NodeGetVolumeStats''
        ''NodeGetVolumeStatsRequest'' ''NodeGetVolumeStatsResponse''),
      (''NodeExpandVolume'', experimental_unary_unary ex ''/csi.v1.Node/NodeExpandVolume''
        ''NodeExpandVolumeRequest'' ''NodeExpandVolumeResponse''),
      (''NodeGetCapabilities'', experimental_unary_unary ex ''/csi.v1.Node/NodeGetCapabilities''
        ''NodeGetCapabilitiesRequest'' ''NodeGetCapabilitiesResponse''),
      (''NodeGetInfo'', experimental_unary_unary ex ''/csi.v1.Node/NodeGetInfo''
        ''NodeGetInfoRequest'' ''NodeGetInfoResponse'')]"


end
