(* ===== verification/CsiLogger.thy ===== *)
theory CsiLogger
  imports Errors Transition
begin

text \<open>
  \<^verbatim>\<open>common/csi_logger.py\<close> and \<^verbatim>\<open>set_current_thread_name\<close> of \<^verbatim>\<open>common/utils.py\<close>: the one logger of the
  controller, which every module asks for when it is imported, and its level.  What is logged,
  and the text of a record, are left out; a handler is its level and its format.
\<close>

section \<open>The logger\<close>

record log_handler =
  lh_level :: string
  lh_formatter :: string

text \<open>
  \<^verbatim>\<open>logger_properties['log_level']\<close>, and the logger's own level, handlers and attribute \<^verbatim>\<open>handler_set\<close>.
\<close>

record csi_logger =
  lp_log_level :: string
  lg_level :: string
  lg_handlers :: "log_handler list"
  lg_handler_set :: bool

definition logger_entry :: string where
  "logger_entry =
     ''%(asctime)s %(levelname)s'' @ [CHR 9] @ ''[%(thread)d] [%(threadName)s] '' @
     ''(%(filename)s:%(funcName)s:%(lineno)d) - %(message)s''"

definition fresh_logger :: csi_logger where
  "fresh_logger = \<lparr>lp_log_level = ''DEBUG'', lg_level = ''NOTSET'', lg_handlers = [], lg_handler_set = False\<rparr>"

text \<open>\<^verbatim>\<open>Logger.setLevel\<close> of the standard library refuses a name that it does not know.\<close>

definition level_names :: "string list" where
  "level_names = [''CRITICAL'', ''FATAL'', ''ERROR'', ''WARN'', ''WARNING'', ''INFO'', ''DEBUG'', ''NOTSET'']"

definition setLevel :: "string \<Rightarrow> (csi_logger, unit) pyprog" where
  "setLevel level = (\<lambda>lg.
     if level \<in> set level_names then (Inr (), lg\<lparr>lg_level := level\<rparr>) else (Inl ValueError, lg))"

definition get_stdout_logger :: "(csi_logger, unit) pyprog" where
  "get_stdout_logger = (\<lambda>lg.
     if \<not> lg_handler_set lg then
       bnd (setLevel (lp_log_level lg)) (\<lambda>_ lg.
         (Inr (), lg\<lparr>lg_handlers := lg_handlers lg @ [\<lparr>lh_level = ''DEBUG'', lh_formatter = logger_entry\<rparr>],
                     lg_handler_set := True\<rparr>)) lg
     else (Inr (), lg))"

definition set_log_level :: "string option \<Rightarrow> (csi_logger, unit) pyprog" where
  "set_log_level log_level_to_set = (\<lambda>lg.
     if truthy log_level_to_set then
       (let lg = lg\<lparr>lp_log_level := upper (the log_level_to_set)\<rparr> in setLevel (lp_log_level lg) lg)
     else (Inr (), lg))"

text \<open>The name of the current thread.\<close>

definition set_current_thread_name :: "string \<Rightarrow> string \<Rightarrow> string" where
  "set_current_thread_name name current = (if name \<noteq> [] then name else current)"

section \<open>Any use of the logger\<close>

inductive logger_step :: "csi_logger \<Rightarrow> csi_logger \<Rightarrow> bool" where
  get: "logger_step lg (snd (get_stdout_logger lg))"
| set: "logger_step lg (snd (set_log_level level lg))"

inductive_cases logger_stepE: "logger_step lg lg'"

definition logger_ok :: "csi_logger \<Rightarrow> bool" where
  "logger_ok lg \<longleftrightarrow> lg_level lg \<in> set level_names \<and>
     lg_handlers lg = (if lg_handler_set lg then [\<lparr>lh_level = ''DEBUG'', lh_formatter = logger_entry\<rparr>] else [])"

lemma logger_step_ok: "logger_step lg lg' \<Longrightarrow> logger_ok lg \<Longrightarrow> logger_ok lg'"
  by (erule logger_stepE)
    (auto simp: logger_ok_def get_stdout_logger_def set_log_level_def setLevel_def run Let_def)

text \<open>However often, and in whatever order, the two functions are called, there is one handler at most.\<close>

lemma fresh_logger_ok: "logger_ok fresh_logger"
  by (simp add: logger_ok_def fresh_logger_def level_names_def)

interpretation stdout_logger: invariant_system "\<lambda>lg. lg = fresh_logger" logger_step logger_ok
  by unfold_locales (auto intro: fresh_logger_ok logger_step_ok)

lemma logger_one_handler: "logger_step\<^sup>*\<^sup>* fresh_logger lg \<Longrightarrow> logger_ok lg"
  by (rule stdout_logger.steps_inv) (auto intro: fresh_logger_ok)

text \<open>
  A level that the library knows, in any case of its letters, is in force once it is set, also
  when it is set after the first call of \<^verbatim>\<open>get_stdout_logger\<close>, and later calls leave it so; the
  docstring asks for the other order.
\<close>

lemma log_level_in_force:
  assumes "logger_step\<^sup>*\<^sup>* fresh_logger lg" and "lg_handler_set lg" and "upper level \<in> set level_names"
    and "level \<noteq> []"
  shows "lg_level (snd (get_stdout_logger (snd (set_log_level (Some level) lg)))) = upper level \<and>
    length (lg_handlers (snd (get_stdout_logger (snd (set_log_level (Some level) lg))))) = 1"
  using logger_one_handler [OF assms(1)] assms(2-4)
  by (simp add: logger_ok_def get_stdout_logger_def set_log_level_def setLevel_def Let_def)

text \<open>A level that the library does not know ends the start of the controller with an exception.\<close>

lemma unknown_level_refused:
  "level \<noteq> [] \<Longrightarrow> upper level \<notin> set level_names \<Longrightarrow>
   set_log_level (Some level) lg = (Inl ValueError, lg\<lparr>lp_log_level := upper level\<rparr>)"
  by (simp add: set_log_level_def setLevel_def Let_def)

end
