(* ===== verification/ServerStart.thy ===== *)
theory ServerStart
  imports GrpcStubs CsiLogger ServerProofs
begin

text \<open>
  The start of the controller: \<^verbatim>\<open>main\<close> and \<^verbatim>\<open>start_server\<close> of \<^verbatim>\<open>csi_controller_server.py\<close>, and the
  servicer's class as the registration of \<^verbatim>\<open>csi_pb2_grpc.py\<close> sees it.  It is shown that a client's
  stub reaches the method that \<open>serve\<close> runs, that no other procedure is served, and that the
  server runs until it is interrupted.
\<close>

section \<open>The servicer's class\<close>

text \<open>
  What a method does with a request; \<open>None\<close> for a message of another class than the method's
  own, which the deserializer that is registered with it does not make.
\<close>

type_synonym 's behaviour = "rpc \<Rightarrow> ('s ctl \<Rightarrow> outcome \<times> 's ctl) option"

definition ControllerServicer_own ::
  "'s env \<Rightarrow> ('s agent \<Rightarrow> 's \<Rightarrow> 's) \<Rightarrow> publish_config \<Rightarrow> json \<Rightarrow> (string, 's behaviour) dict" where
  "ControllerServicer_own env fin cfg identity =
     [(''CreateVolume'', \<lambda>q. case q of
         CreateVolumeRpc r \<Rightarrow> Some (answered CreateVolumeResponse (CreateVolume env fin r)) | _ \<Rightarrow> None),
      (''DeleteVolume'', \<lambda>q. case q of
         DeleteVolumeRpc r \<Rightarrow> Some (answered NoFields (DeleteVolume env fin r)) | _ \<Rightarrow> None),
      (''ControllerPublishVolume'', \<lambda>q. case q of
         PublishVolumeRpc r \<Rightarrow> Some (answered PublishVolumeResponse (ControllerPublishVolume env fin cfg r))
       | _ \<Rightarrow> None),
      (''ControllerUnpublishVolume'', \<lambda>q. case q of
         UnpublishVolumeRpc r \<Rightarrow> Some (answered NoFields (ControllerUnpublishVolume env fin r)) | _ \<Rightarrow> None),
      (''ValidateVolumeCapabilities'', \<lambda>q. case q of
         ValidateVolumeCapabilitiesRpc \<Rightarrow> Some (answered NoFields ValidateVolumeCapabilities) | _ \<Rightarrow> None),
      (''ListVolumes'', \<lambda>q. case q of
         ListVolumesRpc \<Rightarrow> Some (answered NoFields ListVolumes) | _ \<Rightarrow> None),
      (''CreateSnapshot'', \<lambda>q. case q of
         CreateSnapshotRpc r \<Rightarrow> Some (answered CreateSnapshotResponse (CreateSnapshot env fin r)) | _ \<Rightarrow> None),
      (''DeleteSnapshot'', \<lambda>q. case q of
         DeleteSnapshotRpc r \<Rightarrow> Some (answered NoFields (DeleteSnapshot env fin r)) | _ \<Rightarrow> None),
      (''GetCapacity'', \<lambda>q. case q of
         GetCapacityRpc \<Rightarrow> Some (answered NoFields GetCapacity) | _ \<Rightarrow> None),
      (''ControllerExpandVolume'', \<lambda>q. case q of
         ExpandVolumeRpc r \<Rightarrow> Some (answered ExpandVolumeResponse (ControllerExpandVolume env fin r)) | _ \<Rightarrow> None),
      (''ControllerGetCapabilities'', \<lambda>q. case q of
         GetCapabilitiesRpc \<Rightarrow> Some (\<lambda>c. (returned CapabilitiesResponse ControllerGetCapabilities, c)) | _ \<Rightarrow> None),
      (''GetPluginInfo'', \<lambda>q. case q of
         GetPluginInfoRpc \<Rightarrow> Some (answered PluginInfoResponse (GetPluginInfo identity)) | _ \<Rightarrow> None),
      (''GetPluginCapabilities'', \<lambda>q. case q of
         GetPluginCapabilitiesRpc \<Rightarrow>
           Some (\<lambda>c. (returned PluginCapabilitiesResponse (GetPluginCapabilities identity), c)) | _ \<Rightarrow> None),
      (''Probe'', \<lambda>q. case q of ProbeRpc \<Rightarrow> Some (answered NoFields (ret Probe)) | _ \<Rightarrow> None)]"

text \<open>Its base class is the generated one; a method of that answers any message in the same way.\<close>

definition controller_servicer ::
  "'s env \<Rightarrow> ('s agent \<Rightarrow> 's \<Rightarrow> 's) \<Rightarrow> publish_config \<Rightarrow> json \<Rightarrow> 's behaviour servicer" where
  "controller_servicer env fin cfg identity =
     [ControllerServicer_own env fin cfg identity, ControllerServicer (\<lambda>_. Some (\<lambda>c. (base_method, c)))]"

text \<open>The procedure that a request is for.\<close>

fun rpc_method :: "rpc \<Rightarrow> string" where
  "rpc_method (CreateVolumeRpc _) = ''CreateVolume''"
| "rpc_method (DeleteVolumeRpc _) = ''DeleteVolume''"
| "rpc_method (PublishVolumeRpc _) = ''ControllerPublishVolume''"
| "rpc_method (UnpublishVolumeRpc _) = ''ControllerUnpublishVolume''"
| "rpc_method ValidateVolumeCapabilitiesRpc = ''ValidateVolumeCapabilities''"
| "rpc_method ListVolumesRpc = ''ListVolumes''"
| "rpc_method GetCapacityRpc = ''GetCapacity''"
| "rpc_method GetCapabilitiesRpc = ''ControllerGetCapabilities''"
| "rpc_method (CreateSnapshotRpc _) = ''CreateSnapshot''"
| "rpc_method (DeleteSnapshotRpc _) = ''DeleteSnapshot''"
| "rpc_method ListSnapshotsRpc = ''ListSnapshots''"
| "rpc_method (ExpandVolumeRpc _) = ''ControllerExpandVolume''"
| "rpc_method GetPluginInfoRpc = ''GetPluginInfo''"
| "rpc_method GetPluginCapabilitiesRpc = ''GetPluginCapabilities''"
| "rpc_method ProbeRpc = ''Probe''"

section \<open>Starting and stopping\<close>

text \<open>\<^verbatim>\<open>start_server\<close>, up to the call of \<^verbatim>\<open>start\<close>; the version is read to be logged.\<close>

definition listen ::
  "('w, 'srv, 'b) grpc_package \<Rightarrow> 'b servicer \<Rightarrow> string option \<Rightarrow> json \<Rightarrow> ('w, 'srv) pyprog" where
  "listen gp self endpoint identity =
     bnd (lib (gp_server gp CSI_CONTROLLER_SERVER_WORKERS)) (\<lambda>controller_server.
     bnd (add_ControllerServicer_to_server gp self controller_server) (\<lambda>_.
     bnd (add_IdentityServicer_to_server gp self controller_server) (\<lambda>_.
     bnd (lib (gp_add_insecure_port gp controller_server endpoint)) (\<lambda>_.
     bnd (lift (get_identity_config identity ''version'')) (\<lambda>_.
     bnd (lib (gp_start gp controller_server)) (\<lambda>_.
       ret controller_server))))))"

text \<open>\<^verbatim>\<open>while True: time.sleep(60 * 60 * 60)\<close>, until \<^verbatim>\<open>KeyboardInterrupt\<close>.\<close>

partial_function (option) sleep_until_interrupted :: "('w, 'srv, 'b) grpc_package \<Rightarrow> 'w \<Rightarrow> 'w option" where
  "sleep_until_interrupted gp w =
     (case gp_sleep gp (60 * 60 * 60) w of
        (KeyboardInterrupt, w') \<Rightarrow> Some w'
      | (Slept, w') \<Rightarrow> sleep_until_interrupted gp w')"

text \<open>\<open>None\<close>: the method does not return.\<close>

definition start_server ::
  "('w, 'srv, 'b) grpc_package \<Rightarrow> 'b servicer \<Rightarrow> string option \<Rightarrow> json \<Rightarrow> 'w \<Rightarrow> ((exc + unit) \<times> 'w) option" where
  "start_server gp self endpoint identity w =
     (case listen gp self endpoint identity w of
        (Inl e, w1) \<Rightarrow> Some (Inl e, w1)
      | (Inr controller_server, w1) \<Rightarrow>
          (case sleep_until_interrupted gp w1 of
             None \<Rightarrow> None
           | Some w2 \<Rightarrow> Some (lib (gp_stop gp controller_server 0) w2)))"

text \<open>
  \<^verbatim>\<open>main\<close>, from the parsed arguments.  \<open>open_config\<close> opens and loads \<^verbatim>\<open>config.yaml\<close>; it gives the
  two sections of the document that the handlers read.
\<close>

record arguments =
  arg_endpoint :: "string option"
  arg_loglevel :: "string option"

definition main ::
  "('w, 'srv, 's behaviour) grpc_package \<Rightarrow> ('w, publish_config \<times> json) lib_call
   \<Rightarrow> 's env \<Rightarrow> ('s agent \<Rightarrow> 's \<Rightarrow> 's) \<Rightarrow> arguments \<Rightarrow> csi_logger \<times> 'w
   \<Rightarrow> ((exc + unit) \<times> csi_logger \<times> 'w) option" where
  "main gp open_config env fin arguments = (\<lambda>(lg, w).
     (case set_log_level (arg_loglevel arguments) lg of
        (Inl e, lg') \<Rightarrow> Some (Inl e, lg', w)
      | (Inr _, lg') \<Rightarrow>
          (case lib open_config w of
             (Inl e, w1) \<Rightarrow> Some (Inl e, lg', w1)
           | (Inr (cfg, identity), w1) \<Rightarrow>
               map_option (\<lambda>(r, w2). (r, lg', w2))
                 (start_server gp (controller_servicer env fin cfg identity) (arg_endpoint arguments) identity w1))))"

section \<open>The package's side\<close>

text \<open>
  What the package is documented to do: a server starts without handlers, and keeps those that
  are added, in their order; a call is routed by its path, \<^verbatim>\<open>/service/method\<close>, to the first handler
  that has it.  \<open>registered w srv\<close> are the handlers of the server \<open>srv\<close>; \<open>route\<close> is \<open>None\<close> for a call
  that the server answers itself, as not implemented.
\<close>

definition rpc_path :: "string \<Rightarrow> string \<Rightarrow> string" where
  "rpc_path service m = ''/'' @ service @ ''/'' @ m"

definition handler_paths :: "'b generic_handler list \<Rightarrow> (string \<times> 'b method_handler) list" where
  "handler_paths hs = concat (map (\<lambda>(service, table). map (\<lambda>(m, h). (rpc_path service m, h)) table) hs)"

locale grpc_server =
  fixes gp :: "('w, 'srv, 'b) grpc_package" and registered :: "'w \<Rightarrow> 'srv \<Rightarrow> 'b generic_handler list"
    and route :: "'b generic_handler list \<Rightarrow> string \<Rightarrow> 'b method_handler option"
  assumes new_server: "gp_server gp n w = (Inr srv, w') \<Longrightarrow> registered w' srv = []"
    and handlers_added: "gp_add_generic_rpc_handlers gp srv h w = (Inr u, w') \<Longrightarrow>
      registered w' srv = registered w srv @ [h]"
    and port_keeps: "keeps (\<lambda>w. registered w srv = T) (gp_add_insecure_port gp srv endpoint)"
    and start_keeps: "keeps (\<lambda>w. registered w srv = T) (gp_start gp srv)"
    and routed: "route hs path = map_of (handler_paths hs) path"
begin

lemma listening:
  assumes "listen gp self endpoint identity w = (Inr srv, w')"
  obtains tc ti where "method_handlers self Controller_rpc_method_handlers = Inr tc"
    "method_handlers self Identity_rpc_method_handlers = Inr ti"
    "registered w' srv = [(''csi.v1.Controller'', tc), (''csi.v1.Identity'', ti)]"
proof -
  from assms obtain w1 w2 w3 w4 tc ti where t: "method_handlers self Controller_rpc_method_handlers = Inr tc"
      "method_handlers self Identity_rpc_method_handlers = Inr ti"
    and w1: "gp_server gp CSI_CONTROLLER_SERVER_WORKERS w = (Inr srv, w1)"
    and w2: "gp_add_generic_rpc_handlers gp srv (''csi.v1.Controller'', tc) w1 = (Inr (), w2)"
    and w3: "gp_add_generic_rpc_handlers gp srv (''csi.v1.Identity'', ti) w2 = (Inr (), w3)"
    and w4: "gp_add_insecure_port gp srv endpoint w3 = (Inr (), w4)" "gp_start gp srv w4 = (Inr (), w')"
    unfolding listen_def add_ControllerServicer_to_server_def add_IdentityServicer_to_server_def lib_def
    by (auto simp: run split: prod.splits sum.splits)
  have "registered w3 srv = [(''csi.v1.Controller'', tc), (''csi.v1.Identity'', ti)]"
    using new_server [OF w1] handlers_added [OF w2] handlers_added [OF w3] by simp
  then have "registered w' srv = [(''csi.v1.Controller'', tc), (''csi.v1.Identity'', ti)]"
    using keepsD [OF start_keeps keepsD [OF port_keeps _ w4(1)] w4(2)] by simp
  with t that show thesis by blast
qed

end

section \<open>A server in memory\<close>

datatype server_event = Bound "string option" | Started | Stopped nat

text \<open>The handlers, what was done with the server, and the number of sleeps before the interrupt.\<close>

record 'b memory_server =
  ms_handlers :: "'b generic_handler list"
  ms_events :: "server_event list"
  ms_sleeps :: nat

definition memory_event :: "server_event \<Rightarrow> ('b memory_server, unit) lib_call" where
  "memory_event e w = (Inr (), w\<lparr>ms_events := ms_events w @ [e]\<rparr>)"

definition memory_package :: "('b memory_server, nat, 'b) grpc_package" where
  "memory_package =
     \<lparr>gp_server = \<lambda>n w. (Inr n, w\<lparr>ms_handlers := []\<rparr>),
      gp_add_generic_rpc_handlers = \<lambda>srv h w. (Inr (), w\<lparr>ms_handlers := ms_handlers w @ [h]\<rparr>),
      gp_add_insecure_port = \<lambda>srv endpoint. memory_event (Bound endpoint),
      gp_start = \<lambda>srv. memory_event Started,
      gp_stop = \<lambda>srv grace. memory_event (Stopped grace),
      gp_sleep = \<lambda>n w. case ms_sleeps w of
         0 \<Rightarrow> (KeyboardInterrupt, w) | Suc k \<Rightarrow> (Slept, w\<lparr>ms_sleeps := k\<rparr>)\<rparr>"

definition memory_route :: "'b generic_handler list \<Rightarrow> string \<Rightarrow> 'b method_handler option" where
  "memory_route hs path = map_of (handler_paths hs) path"

interpretation memory_grpc: grpc_server memory_package "\<lambda>w srv. ms_handlers w" memory_route
  by unfold_locales (auto simp: memory_package_def memory_event_def memory_route_def keeps_def)

definition idle_server :: "nat \<Rightarrow> 'b memory_server" where
  "idle_server n = \<lparr>ms_handlers = [], ms_events = [], ms_sleeps = n\<rparr>"

section \<open>What a client reaches\<close>

lemmas service_tables = Controller_rpc_method_handlers_def Identity_rpc_method_handlers_def

lemma method_handlers_rows:
  "method_handlers servicer rows = Inr t \<Longrightarrow>
   t = map (\<lambda>(key, a, q, r). (key, \<lparr>mh_behaviour = projr (servicer_attribute servicer a),
     mh_request = q, mh_response = r\<rparr>)) rows"
  by (induction servicer rows arbitrary: t rule: method_handlers.induct) (auto simp: bnd_err_Inr_iff)

text \<open>The paths that are served are those of the two tables, whatever the servicer.\<close>

lemma table_paths:
  assumes "method_handlers servicer rows = Inr t"
  shows "map fst (handler_paths [(service, t)]) = map (\<lambda>(key, a, q, r). rpc_path service key) rows"
  unfolding method_handlers_rows [OF assms] handler_paths_def by (simp add: case_prod_unfold)

lemma handler_paths_two: "handler_paths [h, k] = handler_paths [h] @ handler_paths [k]"
  by (simp add: handler_paths_def)

lemma memory_listen:
  assumes "method_handlers self Controller_rpc_method_handlers = Inr tc"
    and "method_handlers self Identity_rpc_method_handlers = Inr ti"
  shows "listen memory_package self endpoint shipped_identity (idle_server n) =
    (Inr 10, \<lparr>ms_handlers = [(''csi.v1.Controller'', tc), (''csi.v1.Identity'', ti)],
      ms_events = [Bound endpoint, Started], ms_sleeps = n\<rparr>)"
  by (simp add: listen_def add_ControllerServicer_to_server_def add_IdentityServicer_to_server_def run lib_def assms
      memory_package_def memory_event_def idle_server_def CSI_CONTROLLER_SERVER_WORKERS_def
      get_identity_config_def shipped_identity_def)

text \<open>Every attribute that the tables name is found, in the class or in its base class.\<close>

lemma controller_attributes:
  "\<exists>tc. method_handlers (controller_servicer env fin cfg identity) Controller_rpc_method_handlers = Inr tc"
  "\<exists>ti. method_handlers (controller_servicer env fin cfg identity) Identity_rpc_method_handlers = Inr ti"
  by (simp_all add: service_tables controller_servicer_def ControllerServicer_own_def ControllerServicer_def)

lemma memory_listens:
  "\<exists>w. listen memory_package (controller_servicer env fin cfg shipped_identity) endpoint shipped_identity
     (idle_server n) = (Inr 10, w) \<and> ms_events w = [Bound endpoint, Started] \<and> ms_sleeps w = n"
proof -
  obtain tc ti where
    "method_handlers (controller_servicer env fin cfg shipped_identity) Controller_rpc_method_handlers = Inr tc"
    "method_handlers (controller_servicer env fin cfg shipped_identity) Identity_rpc_method_handlers = Inr ti"
    using controller_attributes by blast
  from memory_listen [OF this] show ?thesis by simp
qed

text \<open>
  C5: client_calls_served
  Every call of a client's stub is served by the method that \<open>serve\<close> runs for it: when the
  server has been started, the path of the stub leads to a handler with the same classes of
  messages, and what this does with the request is \<open>serve\<close>.
\<close>

theorem client_calls_served:
  assumes "grpc_server gp registered route"
    and "listen gp (controller_servicer env fin cfg identity) endpoint identity w = (Inr srv, w')"
  shows "\<exists>call h m. map_of (ControllerStub @ IdentityStub) (rpc_method q) = Some call \<and>
    route (registered w' srv) (uu_method call) = Some h \<and>
    uu_request call = rpc_method q @ ''Request'' \<and> uu_response call = rpc_method q @ ''Response'' \<and>
    mh_request h = uu_request call \<and> mh_response h = uu_response call \<and>
    mh_behaviour h q = Some m \<and> m c = serve env fin cfg identity q c"
proof -
  let ?self = "controller_servicer env fin cfg identity"
  obtain tc ti where t: "method_handlers ?self Controller_rpc_method_handlers = Inr tc"
      "method_handlers ?self Identity_rpc_method_handlers = Inr ti"
    and hs: "registered w' srv = [(''csi.v1.Controller'', tc), (''csi.v1.Identity'', ti)]"
    by (rule grpc_server.listening [OF assms])
  show ?thesis
    unfolding hs grpc_server.routed [OF assms(1)] t [THEN method_handlers_rows]
    by (cases q) (simp_all add: service_tables handler_paths_def rpc_path_def controller_servicer_def
        ControllerServicer_own_def ControllerServicer_def ControllerStub_def IdentityStub_def channel_unary_unary_def)
qed

lemma client_calls_served_witness:
  "\<exists>w' call h m. listen memory_package (controller_servicer xiv_env (\<lambda>_ s. s) default_publish_config shipped_identity)
       (Some ''unix:///csi.sock'') shipped_identity (idle_server 0) = (Inr 10, w') \<and>
     map_of (ControllerStub @ IdentityStub) ''DeleteVolume'' = Some call \<and>
     memory_route (ms_handlers w') (uu_method call) = Some h \<and> mh_behaviour h delete_request = Some m \<and>
     m (no_agents []) = serve xiv_env (\<lambda>_ s. s) default_publish_config shipped_identity delete_request (no_agents [])"
proof -
  obtain w' where w': "listen memory_package
      (controller_servicer xiv_env (\<lambda>_ s. s) default_publish_config shipped_identity)
      (Some ''unix:///csi.sock'') shipped_identity (idle_server 0) = (Inr 10, w')"
    using memory_listens by blast
  have "rpc_method delete_request = ''DeleteVolume''" by (simp add: delete_request_def)
  with client_calls_served [OF memory_grpc.grpc_server_axioms w', of delete_request "no_agents []"] w'
  show ?thesis by metis
qed

text \<open>
  C6: served_paths
  No other procedure is served: the server routes exactly the paths of the two stubs, and so
  none of those of the node service.
\<close>

theorem served_paths:
  assumes "grpc_server gp registered route" and "listen gp self endpoint identity w = (Inr srv, w')"
  shows "(route (registered w' srv) path \<noteq> None \<longleftrightarrow>
      path \<in> set (map (uu_method \<circ> snd) (ControllerStub @ IdentityStub))) \<and>
    list_all (\<lambda>(m, call). route (registered w' srv) (uu_method call) = None) NodeStub"
proof -
  obtain tc ti where t: "method_handlers self Controller_rpc_method_handlers = Inr tc"
      "method_handlers self Identity_rpc_method_handlers = Inr ti"
    and hs: "registered w' srv = [(''csi.v1.Controller'', tc), (''csi.v1.Identity'', ti)]"
    by (rule grpc_server.listening [OF assms])
  have "map fst (handler_paths (registered w' srv)) = map (uu_method \<circ> snd) (ControllerStub @ IdentityStub)"
    unfolding hs handler_paths_two map_append table_paths [OF t(1)] table_paths [OF t(2)]
    by (simp add: service_tables rpc_path_def ControllerStub_def IdentityStub_def channel_unary_unary_def)
  then have routes: "route (registered w' srv) p = None \<longleftrightarrow>
      p \<notin> set (map (uu_method \<circ> snd) (ControllerStub @ IdentityStub))" for p
    unfolding grpc_server.routed [OF assms(1)] map_of_eq_None_iff by (metis list.set_map)
  show ?thesis
    by (simp only: routes, simp add: ControllerStub_def IdentityStub_def NodeStub_def channel_unary_unary_def)
qed

section \<open>Running until interrupted\<close>

text \<open>The world when the sleep is interrupted that follows \<open>n\<close> others, if it is.\<close>

primrec interrupted_in :: "('w, 'srv, 'b) grpc_package \<Rightarrow> nat \<Rightarrow> 'w \<Rightarrow> 'w option" where
  "interrupted_in gp 0 w =
     (case gp_sleep gp (60 * 60 * 60) w of (KeyboardInterrupt, w') \<Rightarrow> Some w' | (Slept, w') \<Rightarrow> None)"
| "interrupted_in gp (Suc n) w =
     (case gp_sleep gp (60 * 60 * 60) w of (KeyboardInterrupt, w') \<Rightarrow> None | (Slept, w') \<Rightarrow> interrupted_in gp n w')"

lemma interrupted_sleep: "interrupted_in gp n w = Some w' \<Longrightarrow> sleep_until_interrupted gp w = Some w'"
proof (induction n arbitrary: w)
  case 0
  then show ?case
    by (subst sleep_until_interrupted.simps) (auto split: prod.splits sleep_end.splits)
next
  case (Suc n)
  then show ?case
    by (subst sleep_until_interrupted.simps) (auto split: prod.splits sleep_end.splits)
qed

lemma sleep_interrupted: "sleep_until_interrupted gp w = Some w' \<Longrightarrow> \<exists>n. interrupted_in gp n w = Some w'"
proof (induction rule: sleep_until_interrupted.raw_induct [rotated, consumes 1])
  case (1 f gp w w')
  show ?case
  proof (cases "gp_sleep gp (60 * 60 * 60) w")
    case (Pair e w1)
    show ?thesis
    proof (cases e)
      case Slept
      then have "f gp w1 = Some w'" using 1(2) Pair by simp
      from 1(1) [OF this] obtain n where "interrupted_in gp n w1 = Some w'" ..
      then have "interrupted_in gp (Suc n) w = Some w'" using Pair Slept by simp
      then show ?thesis by blast
    next
      case KeyboardInterrupt
      then have "interrupted_in gp 0 w = Some w'" using 1 Pair by simp
      then show ?thesis by blast
    qed
  qed
qed

lemma sleep_iff: "sleep_until_interrupted gp w = Some w' \<longleftrightarrow> (\<exists>n. interrupted_in gp n w = Some w')"
  by (auto intro: interrupted_sleep sleep_interrupted)

lemma main_started:
  assumes "set_log_level level lg = (Inr (), lg')" and "open_config w = (Inr (cfg, identity), w0)"
    and "listen gp (controller_servicer env fin cfg identity) endpoint identity w0 = (Inr srv, w1)"
  shows "main gp open_config env fin \<lparr>arg_endpoint = endpoint, arg_loglevel = level\<rparr> (lg, w) =
    map_option (\<lambda>w2. (fst (lib (gp_stop gp srv 0) w2), lg', snd (lib (gp_stop gp srv 0) w2)))
      (sleep_until_interrupted gp w1)"
  using assms by (simp add: main_def start_server_def lib_Inr case_prod_unfold split: option.split)

text \<open>
  C7: main_runs_until_interrupted
  Once the level of the log is set, the configuration read and the server started, \<^verbatim>\<open>main\<close>
  returns exactly when a sleep is interrupted, after any number of others; the last thing it
  does then is to stop that server.
\<close>

theorem main_runs_until_interrupted:
  assumes "set_log_level level lg = (Inr (), lg')" and "open_config w = (Inr (cfg, identity), w0)"
    and "listen gp (controller_servicer env fin cfg identity) endpoint identity w0 = (Inr srv, w1)"
  shows "main gp open_config env fin \<lparr>arg_endpoint = endpoint, arg_loglevel = level\<rparr> (lg, w) = Some (r, lg2, w3) \<longleftrightarrow>
    lg2 = lg' \<and> (\<exists>n w2. interrupted_in gp n w1 = Some w2 \<and> lib (gp_stop gp srv 0) w2 = (r, w3))"
  unfolding main_started [where open_config = open_config and w = w, OF assms] map_option_eq_Some sleep_iff by (auto simp: prod_eq_iff)

text \<open>A server in memory that sleeps twice before it is interrupted.\<close>

lemma memory_interrupted: "ms_sleeps w = n \<Longrightarrow> interrupted_in memory_package n w = Some (w\<lparr>ms_sleeps := 0\<rparr>)"
  by (induction n arbitrary: w) (simp_all add: memory_package_def)

lemma served_paths_witness:
  "\<exists>w'. listen memory_package (controller_servicer xiv_env (\<lambda>_ s. s) default_publish_config shipped_identity)
       None shipped_identity (idle_server 0) = (Inr 10, w') \<and>
     memory_route (ms_handlers w') ''/csi.v1.Identity/Probe'' \<noteq> None \<and>
     memory_route (ms_handlers w') ''/csi.v1.Node/NodeGetInfo'' = None"
proof -
  obtain w' where w': "listen memory_package
      (controller_servicer xiv_env (\<lambda>_ s. s) default_publish_config shipped_identity)
      None shipped_identity (idle_server 0) = (Inr 10, w')"
    using memory_listens by blast
  have "''/csi.v1.Identity/Probe'' \<in> set (map (uu_method \<circ> snd) (ControllerStub @ IdentityStub))"
    "''/csi.v1.Node/NodeGetInfo'' \<notin> set (map (uu_method \<circ> snd) (ControllerStub @ IdentityStub))"
    by (simp_all add: ControllerStub_def IdentityStub_def channel_unary_unary_def)
  then show ?thesis
    using w' served_paths [OF memory_grpc.grpc_server_axioms w'] by blast
qed

lemma main_runs_until_interrupted_witness:
  "\<exists>w3. main memory_package (\<lambda>w. (Inr (default_publish_config, shipped_identity), w)) xiv_env (\<lambda>_ s. s)
       \<lparr>arg_endpoint = Some ''unix:///csi.sock'', arg_loglevel = Some ''info''\<rparr> (fresh_logger, idle_server 2) =
     Some (Inr (), fresh_logger\<lparr>lp_log_level := ''INFO'', lg_level := ''INFO''\<rparr>, w3) \<and>
     ms_events w3 = [Bound (Some ''unix:///csi.sock''), Started, Stopped 0]"
proof -
  have level: "set_log_level (Some ''info'') fresh_logger =
      (Inr (), fresh_logger\<lparr>lp_log_level := ''INFO'', lg_level := ''INFO''\<rparr>)"
    by code_simp
  obtain w1 where w1: "listen memory_package
      (controller_servicer xiv_env (\<lambda>_ s. s) default_publish_config shipped_identity)
      (Some ''unix:///csi.sock'') shipped_identity (idle_server 2) = (Inr 10, w1)"
    "ms_events w1 = [Bound (Some ''unix:///csi.sock''), Started]" "ms_sleeps w1 = 2"
    using memory_listens by blast
  have stop: "lib (gp_stop memory_package 10 0) (w1\<lparr>ms_sleeps := 0\<rparr>) =
      (Inr (), w1\<lparr>ms_sleeps := 0, ms_events := ms_events w1 @ [Stopped 0]\<rparr>)"
    by (simp add: lib_def run memory_package_def memory_event_def)
  have "main memory_package (\<lambda>w. (Inr (default_publish_config, shipped_identity), w)) xiv_env (\<lambda>_ s. s)
      \<lparr>arg_endpoint = Some ''unix:///csi.sock'', arg_loglevel = Some ''info''\<rparr> (fresh_logger, idle_server 2) =
      Some (Inr (), fresh_logger\<lparr>lp_log_level := ''INFO'', lg_level := ''INFO''\<rparr>,
        w1\<lparr>ms_sleeps := 0, ms_events := ms_events w1 @ [Stopped 0]\<rparr>)"
    using main_runs_until_interrupted [OF level, of "\<lambda>w. (Inr (default_publish_config, shipped_identity), w)"
        "idle_server 2", OF refl w1(1)] memory_interrupted [OF w1(3)] stop by blast
  with w1(2) show ?thesis by simp
qed

section \<open>Static client methods\<close>

text \<open>They call the procedures of the stubs, with the same classes and the options in their order.\<close>

definition static_of_stub :: "('m, 'v, 'r) experimental \<Rightarrow> unary_unary \<Rightarrow> ('m, 'v, 'r) static_call" where
  "static_of_stub ex uu request target opt = ex request target uu (positional opt)"

lemma static_calls:
  "Controller_calls ex = map (\<lambda>(m, uu). (m, static_of_stub ex uu)) ControllerStub"
  "Identity_calls ex = map (\<lambda>(m, uu). (m, static_of_stub ex uu)) IdentityStub"
  "Node_calls ex = map (\<lambda>(m, uu). (m, static_of_stub ex uu)) NodeStub"
  by (simp_all add: Controller_calls_def Identity_calls_def Node_calls_def ControllerStub_def IdentityStub_def
      NodeStub_def channel_unary_unary_def static_of_stub_def experimental_unary_unary_def fun_eq_iff)

text \<open>
  The node service is registered under its own name, and its base class answers every procedure
  as not implemented.
\<close>

lemma node_base_class:
  "\<exists>t. method_handlers [NodeServicer b] Node_rpc_method_handlers = Inr t \<and>
     map (\<lambda>(m, h). (m, mh_behaviour h)) t = NodeServicer b \<and>
     map fst (handler_paths [(''csi.v1.Node'', t)]) = map (uu_method \<circ> snd) NodeStub"
  by (simp add: NodeServicer_def Node_rpc_method_handlers_def NodeStub_def channel_unary_unary_def
      handler_paths_def rpc_path_def)

end
