(* ===== verification/Capacities.thy ===== *)
theory Capacities
  imports VolumeStores
begin

text \<open>
  What expanding a volume means, whatever the storage: the sizes of the volumes by id, and the
  contract of a mediator that reads and extends them (the locale \<open>sized_volumes\<close>).  The body of
  \<^verbatim>\<open>ControllerExpandVolume\<close> of \<^verbatim>\<open>csi_controller_server.py\<close> then reports the size that the volume has,
  which is large enough.  The SVC meets the contract for every size, the XIV for whole blocks; the
  DS8K does not, because it takes most failures of the command for a success
  (\<open>ds8k_expand_drops_errors\<close>).
\<close>

section \<open>The contract\<close>

text \<open>\<open>fits m\<close>: the sizes that the mediator can reach without rounding down.\<close>

locale sized_volumes =
  fixes med :: "'s mediator" and vid :: "string \<Rightarrow> 'k" and capacity :: "'s \<Rightarrow> 'k \<Rightarrow> int option"
    and fits :: "int \<Rightarrow> bool"
  assumes object_sized: "get_object_by_id med i VOLUME_TYPE s = (rg, s') \<Longrightarrow> capacity s' = capacity s \<and>
      (\<forall>x. rg = Inr (Some x) \<longrightarrow> capacity s (vid i) = Some (object_capacity x))"
    and expand_sized: "expand_volume med i m s = (re, s') \<Longrightarrow>
      (case re of
         Inl e \<Rightarrow> capacity s' = capacity s
       | Inr u \<Rightarrow> \<exists>c. (\<forall>k. k \<noteq> vid i \<longrightarrow> capacity s' k = capacity s k) \<and> capacity s' (vid i) = Some c \<and> (fits m \<longrightarrow> m \<le> c))"
begin

lemma expanded:
  assumes "expand_volume_on q i med s = (r, s')"
  shows "(\<forall>k. k \<noteq> vid i \<longrightarrow> capacity s' k = capacity s k) \<and>
    (\<forall>reply b. r = Inr reply \<longrightarrow> rp_body reply = Some b \<longrightarrow>
      capacity s' (vid i) = Some (evr_capacity_bytes b) \<and>
      (fits (requested_bytes (ev_required_bytes q)) \<longrightarrow>
        requested_bytes (ev_required_bytes q) \<le> evr_capacity_bytes b) \<and>
      (if evr_node_expansion_required b
       then \<exists>c. capacity s (vid i) = Some c \<and> c < requested_bytes (ev_required_bytes q)
       else capacity s' = capacity s))"
proof -
  let ?m = "requested_bytes (ev_required_bytes q)"
  obtain g s1 where g: "get_object_by_id med i VOLUME_TYPE s = (g, s1)" by (metis surj_pair)
  note before = object_sized [OF g]
  show ?thesis
  proof (cases "\<exists>x. g = Inr (Some x) \<and> object_capacity x < ?m \<and> ?m \<le> maximal_volume_size_in_bytes med")
    case False
    then show ?thesis
      using assms g before
      by (cases g) (auto simp: expand_volume_on_def Let_def run generate_csi_expand_volume_response_def
          build_error_response_def build_non_ok_response_def split: option.splits if_splits)
  next
    case True
    then obtain x where x: "g = Inr (Some x)" "object_capacity x < ?m" "?m \<le> maximal_volume_size_in_bytes med"
      by auto
    obtain e s2 where e: "expand_volume med i ?m s1 = (e, s2)" by (metis surj_pair)
    obtain h s3 where h: "get_object_by_id med i VOLUME_TYPE s2 = (h, s3)" by (metis surj_pair)
    note grown = expand_sized [OF e] and after = object_sized [OF h]
    show ?thesis
      using assms g x before e grown h after
      by (cases e; cases h) (auto simp: expand_volume_on_def Let_def run generate_csi_expand_volume_response_def
          split: option.splits)
  qed
qed

end

section \<open>The handler on sizes\<close>

text \<open>
  C17: expanded_volume_large_enough
  Expanding a volume changes no other volume.  When it is answered, the capacity in the reply is
  the size that the volume then has, and it is at least the requested size, where the storage
  type can reach this; the node is told to expand exactly when the volume was smaller, and
  otherwise nothing has changed.
\<close>

theorem expanded_volume_large_enough:
  assumes "sized_volumes med vid capacity fits" and "expand_volume_on q i med s = (r, s')"
  shows "(\<forall>k. k \<noteq> vid i \<longrightarrow> capacity s' k = capacity s k) \<and>
    (\<forall>reply b. r = Inr reply \<longrightarrow> rp_body reply = Some b \<longrightarrow>
      capacity s' (vid i) = Some (evr_capacity_bytes b) \<and>
      (fits (requested_bytes (ev_required_bytes q)) \<longrightarrow>
        requested_bytes (ev_required_bytes q) \<le> evr_capacity_bytes b) \<and>
      (if evr_node_expansion_required b
       then \<exists>c. capacity s (vid i) = Some c \<and> c < requested_bytes (ev_required_bytes q)
       else capacity s' = capacity s))"
  by (rule sized_volumes.expanded [OF assms])

section \<open>SVC\<close>

text \<open>
  The name and the size of the volume with an id.  \<^verbatim>\<open>expandvdisksize\<close> adds to the size; the other
  commands keep it.
\<close>

locale svc_sizes =
  fixes cl :: "'s svc_client" and disk :: "'s \<Rightarrow> string \<Rightarrow> (string \<times> int) option"
  assumes size_reads: "keeps (\<lambda>s. disk s = T) (sc_lsvdisk_by_id cl n)"
      "keeps (\<lambda>s. disk s = T) (sc_lsvdisk_filter cl f)"
      "keeps (\<lambda>s. disk s = T) (sc_lsfcmap cl f)" "keeps (\<lambda>s. disk s = T) (sc_rmfcmap cl j b)"
    and listed_size: "sc_lsvdisk_filter cl (''vdisk_UID='' @ w) s = (Inr (Some v), s') \<Longrightarrow>
      \<exists>c. disk s w = Some (vd_name v, c) \<and> py_int (vd_capacity v) = Inr c"
    and size_added: "disk s w = Some (n, c) \<Longrightarrow> sc_expandvdisksize cl n z s = (ru, s') \<Longrightarrow>
      disk s' = (if carried_out ru then (disk s)(w \<mapsto> (n, c + z)) else disk s)"
begin

lemmas svc_run = except_cli_def unless_warning_def lib_def Prelude.run

lemma kept:
  "keeps (\<lambda>s. disk s = T) (svc_get_cli_volume_by_wwn cl w b)"
  "keeps (\<lambda>s. disk s = T) (svc_get_object_by_id cl ep i VOLUME_TYPE)"
  "keeps (\<lambda>s. disk s = T) (svc_get_object_fcmaps cl n)"
  "keeps (\<lambda>s. disk s = T) (svc_safe_delete_fcmaps cl n fs)"
proof -
  show wwn: "keeps (\<lambda>s. disk s = T) (svc_get_cli_volume_by_wwn cl w b)" for w b
    unfolding svc_get_cli_volume_by_wwn_def by (auto intro!: keeps_rules size_reads)
  show "keeps (\<lambda>s. disk s = T) (svc_get_object_by_id cl ep i VOLUME_TYPE)"
    unfolding svc_get_object_by_id_def svc_generate_volume_response_def svc_get_source_volume_wwn_if_exists_def
      svc_get_wwn_by_volume_name_if_exists_def svc_get_cli_volume_if_exists_def svc_get_cli_volume_def
      svc_get_fcmap_as_target_if_exists_def svc_get_fcmaps_def
    by (auto intro!: keeps_rules wwn size_reads split: option.split)
  show "keeps (\<lambda>s. disk s = T) (svc_get_object_fcmaps cl n)"
    unfolding svc_get_object_fcmaps_def svc_get_fcmap_as_target_if_exists_def
      svc_get_fcmaps_as_source_if_exist_def svc_get_fcmaps_def
    by (auto intro!: keeps_rules size_reads split: option.split)
  show "keeps (\<lambda>s. disk s = T) (svc_safe_delete_fcmaps cl n fs)"
    unfolding svc_safe_delete_fcmaps_def svc_delete_fcmap_def Let_def by (auto intro!: keeps_rules size_reads)
qed

lemma found_size:
  assumes "svc_get_cli_volume_by_wwn cl w b s = (Inr (Some v), s')"
  shows "\<exists>c. disk s w = Some (vd_name v, c) \<and> py_int (vd_capacity v) = Inr c"
proof -
  obtain s1 where "sc_lsvdisk_filter cl (''vdisk_UID='' @ w) s = (Inr (Some v), s1)"
    using assms by (auto simp: svc_get_cli_volume_by_wwn_def svc_run split: prod.splits sum.splits if_splits)
  then show ?thesis by (rule listed_size)
qed

lemma extended:
  assumes "svc_expand_cli_volume cl v z s = (r, s')" and "sc_expandvdisksize cl (vd_name v) z s = (q, s1)"
  shows "s' = s1 \<and> (case r of Inl e \<Rightarrow> \<not> carried_out q | Inr u \<Rightarrow> carried_out q)"
  using assms by (cases q) (auto simp: svc_expand_cli_volume_def svc_run split: if_splits sum.splits)

lemma expand_reaches:
  assumes run: "svc_expand_volume cl i m s = (r, s')"
  shows "case r of
      Inl e \<Rightarrow> disk s' = disk s
    | Inr u \<Rightarrow> \<exists>n. disk s' = (disk s)(i \<mapsto> (n, svc_convert_size_bytes m))"
  using run unfolding svc_expand_volume_def
proof (cases rule: bnd_cases)
  case (error e)
  then show ?thesis using keepsD [OF kept(1) refl error(1)] by simp
next
  case (result x s1)
  have s1: "disk s1 = disk s" using keepsD [OF kept(1) refl result(1)] by simp
  show ?thesis
  proof (cases x)
    case None
    then show ?thesis using result(2) s1 by auto
  next
    case (Some v)
    obtain c where c: "disk s i = Some (vd_name v, c)" "py_int (vd_capacity v) = Inr c"
      using found_size [OF result(1) [unfolded Some]] by blast
    obtain f s2 where f: "svc_get_object_fcmaps cl (vd_name v) s1 = (f, s2)" by (metis surj_pair)
    have s2: "disk s2 = disk s" using keepsD [OF kept(3) refl f] s1 by simp
    show ?thesis
    proof (cases f)
      case (Inl e)
      then show ?thesis using result(2) Some f s2 by (auto simp: bnd_Inl)
    next
      case (Inr fs)
      obtain d s3 where d: "svc_safe_delete_fcmaps cl (vd_name v) fs s2 = (d, s3)" by (metis surj_pair)
      have s3: "disk s3 = disk s" using keepsD [OF kept(4) refl d] s2 by simp
      obtain z s4 where z: "sc_expandvdisksize cl (vd_name v) (svc_convert_size_bytes m - c) s3 = (z, s4)"
        by (metis surj_pair)
      have s4: "disk s4 = (if carried_out z then (disk s)(i \<mapsto> (vd_name v, svc_convert_size_bytes m)) else disk s)"
        using size_added [OF _ z, of i] c(1) s3 by simp
      show ?thesis
      proof (cases d)
        case (Inl e)
        then show ?thesis using result(2) Some f Inr d s3 by (auto simp: bnd_Inl bnd_Inr)
      next
        case (Inr u)
        then have "svc_expand_cli_volume cl v (svc_convert_size_bytes m - c) s3 = (r, s')"
          using result(2) Some f \<open>f = Inr fs\<close> d c(2) by (simp add: bnd_Inr)
        from extended [OF this z] s4 show ?thesis by (auto split: sum.splits)
      qed
    qed
  qed
qed

lemma sized: "sized_volumes (svc_mediator retry cl ep) id (\<lambda>s i. map_option snd (disk s i)) (\<lambda>_. True)"
proof
  fix i s rg s' assume run: "get_object_by_id (svc_mediator retry cl ep) i VOLUME_TYPE s = (rg, s')"
  then have "disk s' = disk s" using keepsD [OF kept(2) refl] by (simp add: svc_mediator_def)
  moreover have "map_option snd (disk s i) = Some (object_capacity x)" if rg: "rg = Inr (Some x)" for x
  proof -
    obtain v s1 where v: "svc_get_cli_volume_by_wwn cl i False s = (Inr (Some v), s1)"
        "py_int (vd_capacity v) = Inr (object_capacity x)"
      using run rg by (auto simp: svc_mediator_def svc_get_object_by_id_def svc_generate_volume_response_def
          Prelude.run split: prod.splits sum.splits option.splits)
    from found_size [OF v(1)] v(2) show ?thesis by auto
  qed
  ultimately show "(\<lambda>i. map_option snd (disk s' i)) = (\<lambda>i. map_option snd (disk s i)) \<and>
      (\<forall>x. rg = Inr (Some x) \<longrightarrow> map_option snd (disk s (id i)) = Some (object_capacity x))"
    by simp
next
  fix i m s re s' assume "expand_volume (svc_mediator retry cl ep) i m s = (re, s')"
  then have "case re of
      Inl e \<Rightarrow> disk s' = disk s
    | Inr u \<Rightarrow> \<exists>n. disk s' = (disk s)(i \<mapsto> (n, svc_convert_size_bytes m))"
    using expand_reaches [of i m s re s'] by (simp add: svc_mediator_def)
  moreover have "m \<le> svc_convert_size_bytes m"
    by (simp add: svc_convert_size_bytes_def Let_def SVC_BLOCK_SIZE_IN_BYTES_def less_imp_le)
  ultimately show "case re of
      Inl e \<Rightarrow> (\<lambda>i. map_option snd (disk s' i)) = (\<lambda>i. map_option snd (disk s i))
    | Inr u \<Rightarrow> \<exists>c. (\<forall>k. k \<noteq> id i \<longrightarrow> map_option snd (disk s' k) = map_option snd (disk s k)) \<and>
        map_option snd (disk s' (id i)) = Some c \<and> (True \<longrightarrow> m \<le> c)"
    by (auto split: sum.splits)
qed

end

sublocale svc_sizes \<subseteq> sizes: sized_volumes "svc_mediator retry cl ep" id "\<lambda>s i. map_option snd (disk s i)" "\<lambda>_. True"
  for retry ep
  by (rule sized)

section \<open>XIV\<close>

text \<open>The size is in blocks; \<^verbatim>\<open>vol_resize\<close> sets it.\<close>

locale xiv_sizes =
  fixes cl :: "'s xiv_client" and disk :: "'s \<Rightarrow> string \<Rightarrow> (string \<times> int) option"
  assumes size_reads: "keeps (\<lambda>s. disk s = T) (xc_vol_list_wwn cl w)"
    and listed_size: "xc_vol_list_wwn cl w s = (Inr (Some v), s') \<Longrightarrow>
      \<exists>c. disk s w = Some (xv_name v, c) \<and> py_int (xv_capacity v) = Inr c"
    and size_set: "disk s w = Some (n, c) \<Longrightarrow> xc_vol_resize cl n b s = (ru, s') \<Longrightarrow>
      disk s' = (case ru of Inl l \<Rightarrow> disk s | Inr u \<Rightarrow> (disk s)(w \<mapsto> (n, b)))"
begin

lemmas xiv_run = except_lib_def lib_def Prelude.run

lemma kept:
  "keeps (\<lambda>s. disk s = T) (xiv_get_cli_object_by_wwn cl w b)"
  "keeps (\<lambda>s. disk s = T) (xiv_get_object_by_id cl eps i VOLUME_TYPE)"
proof -
  show wwn: "keeps (\<lambda>s. disk s = T) (xiv_get_cli_object_by_wwn cl w b)" for w b
    unfolding xiv_get_cli_object_by_wwn_def by (auto intro!: keeps_rules size_reads)
  show "keeps (\<lambda>s. disk s = T) (xiv_get_object_by_id cl eps i VOLUME_TYPE)"
    unfolding xiv_get_object_by_id_def xiv_generate_volume_response_def
    by (auto intro!: keeps_rules wwn split: option.split)
qed

lemma found_size:
  assumes "xiv_get_cli_object_by_wwn cl w b s = (Inr (Some v), s')"
  shows "\<exists>c. disk s w = Some (xv_name v, c) \<and> py_int (xv_capacity v) = Inr c"
proof -
  obtain s1 where "xc_vol_list_wwn cl w s = (Inr (Some v), s1)"
    using assms by (auto simp: xiv_get_cli_object_by_wwn_def xiv_run split: prod.splits sum.splits if_splits)
  then show ?thesis by (rule listed_size)
qed

lemma expand_reaches:
  assumes run: "xiv_expand_volume cl i m s = (r, s')"
  shows "case r of
      Inl e \<Rightarrow> disk s' = disk s
    | Inr u \<Rightarrow> \<exists>n. disk s' = (disk s)(i \<mapsto> (n, xiv_convert_size_bytes_to_blocks m))"
  using run unfolding xiv_expand_volume_def
proof (cases rule: bnd_cases)
  case (error e)
  then show ?thesis using keepsD [OF kept(1) refl error(1)] by simp
next
  case (result x s1)
  have s1: "disk s1 = disk s" using keepsD [OF kept(1) refl result(1)] by simp
  show ?thesis
  proof (cases x)
    case None
    then show ?thesis using result(2) s1 by auto
  next
    case (Some v)
    obtain c where c: "disk s i = Some (xv_name v, c)" using found_size [OF result(1) [unfolded Some]] by blast
    obtain z s2 where z: "xc_vol_resize cl (xv_name v) (xiv_convert_size_bytes_to_blocks m) s1 = (z, s2)"
      by (metis surj_pair)
    from size_set [OF _ z, of i] c s1 z result(2) Some show ?thesis
      by (cases z) (auto simp: xiv_expand_cli_volume_def xiv_run split: if_splits)
  qed
qed

lemma sized:
  "sized_volumes (xiv_mediator randint cl eps) id (\<lambda>s i. map_option (\<lambda>(n, b). b * 512) (disk s i))
     (\<lambda>m. 512 dvd m \<and> 0 \<le> m \<and> m < 2 ^ 53)"
proof
  fix i s rg s' assume run: "get_object_by_id (xiv_mediator randint cl eps) i VOLUME_TYPE s = (rg, s')"
  then have "disk s' = disk s" using keepsD [OF kept(2) refl] by (simp add: xiv_mediator_def)
  moreover have "map_option (\<lambda>(n, b). b * 512) (disk s i) = Some (object_capacity x)" if rg: "rg = Inr (Some x)" for x
  proof -
    obtain v s1 b where v: "xiv_get_cli_object_by_wwn cl i False s = (Inr (Some v), s1)"
        "py_int (xv_capacity v) = Inr b" "object_capacity x = b * 512"
      using run rg by (auto simp: xiv_mediator_def xiv_get_object_by_id_def xiv_generate_volume_response_def
          xiv_convert_size_blocks_to_bytes_def XIV_BLOCK_SIZE_IN_BYTES_def bnd_err_Inr_iff Prelude.run
          split: prod.splits sum.splits option.splits)
    from found_size [OF v(1)] v(2,3) show ?thesis by auto
  qed
  ultimately show "(\<lambda>i. map_option (\<lambda>(n, b). b * 512) (disk s' i)) = (\<lambda>i. map_option (\<lambda>(n, b). b * 512) (disk s i)) \<and>
      (\<forall>x. rg = Inr (Some x) \<longrightarrow> map_option (\<lambda>(n, b). b * 512) (disk s (id i)) = Some (object_capacity x))"
    by simp
next
  fix i m s re s' assume "expand_volume (xiv_mediator randint cl eps) i m s = (re, s')"
  then have "case re of
      Inl e \<Rightarrow> disk s' = disk s
    | Inr u \<Rightarrow> \<exists>n. disk s' = (disk s)(i \<mapsto> (n, xiv_convert_size_bytes_to_blocks m))"
    using expand_reaches [of i m s re s'] by (simp add: xiv_mediator_def)
  moreover have "xiv_convert_size_bytes_to_blocks m * 512 = m" if "512 dvd m" "0 \<le> m" "m < 2 ^ 53"
    using that xiv_blocks_exact [of m] by simp
  ultimately show "case re of
      Inl e \<Rightarrow> (\<lambda>i. map_option (\<lambda>(n, b). b * 512) (disk s' i)) = (\<lambda>i. map_option (\<lambda>(n, b). b * 512) (disk s i))
    | Inr u \<Rightarrow> \<exists>c. (\<forall>k. k \<noteq> id i \<longrightarrow> map_option (\<lambda>(n, b). b * 512) (disk s' k) = map_option (\<lambda>(n, b). b * 512) (disk s k)) \<and>
        map_option (\<lambda>(n, b). b * 512) (disk s' (id i)) = Some c \<and> (512 dvd m \<and> 0 \<le> m \<and> m < 2 ^ 53 \<longrightarrow> m \<le> c)"
    by (auto split: sum.splits)
qed

end

sublocale xiv_sizes \<subseteq> sizes: sized_volumes "xiv_mediator randint cl eps" id
    "\<lambda>s i. map_option (\<lambda>(n, b). b * 512) (disk s i)" "\<lambda>m. 512 dvd m \<and> 0 \<le> m \<and> m < 2 ^ 53"
  for randint eps
  by (rule sized)

section \<open>A volume in memory\<close>

text \<open>The world is the size of the only volume, with the name \<open>1\<close> and the id \<open>61\<close>.\<close>

definition one_disk :: "int \<Rightarrow> string \<Rightarrow> (string \<times> int) option" where
  "one_disk c w = (if w = ''61'' then Some (''1'', c) else None)"

definition one_svc :: "int svc_client" where
  "one_svc =
     \<lparr>sc_close = xok (), sc_is_active = xok True, sc_lssystem = xok [],
      sc_lsvdisk_by_id = (\<lambda>n c. (Inr (if n = ''1'' then Some ((svc_of_name n)\<lparr>vd_capacity := str_int c\<rparr>) else None), c)),
      sc_lsvdisk_filter = (\<lambda>f c. (Inr (if f = ''vdisk_UID=61''
        then Some ((svc_of_name ''1'')\<lparr>vd_capacity := str_int c\<rparr>) else None), c)),
      sc_lsfcmap = (\<lambda>_. xok []),
      sc_expandvdisksize = (\<lambda>n z c. if n = ''1'' then (Inr (), c + z) else (Inl svc_failure, c)),
      sc_mkvolume = (\<lambda>_. xok ()), sc_rmvolume = (\<lambda>_. xok ()),
      sc_mkfcmap = (\<lambda>_ _ _. xok ()), sc_startfcmap = (\<lambda>_. xok ()),
      sc_stopfcmap = (\<lambda>_. xok ()), sc_rmfcmap = (\<lambda>_ _. xok ()), sc_lshost = xok [],
      sc_send_raw_command = (\<lambda>_. xok (None, None)), sc_lsvdiskhostmap = (\<lambda>_. xok []),
      sc_lshostvdiskmap = (\<lambda>_. xok []), sc_mkvdiskhostmap = (\<lambda>_ _ _. xok ()),
      sc_rmvdiskhostmap = (\<lambda>_ _. xok ()), sc_lsnode = xok [], sc_lsportip = (\<lambda>_. xok []),
      sc_lsfabric = (\<lambda>_. xok [])\<rparr>"

interpretation one_svc: svc_sizes one_svc one_disk
  by unfold_locales
    (auto simp: one_svc_def one_disk_def keeps_def svc_of_name_def py_int_def int_of_str_int xok_def split: if_splits)

definition one_xiv :: "int xiv_client" where
  "one_xiv =
     \<lparr>xc_is_connected = xok True, xc_close = xok (), xc_config_get = xok [],
      xc_vol_list_name = (\<lambda>_. xok None),
      xc_vol_list_wwn = (\<lambda>w c. (Inr (if w = ''61''
        then Some ((xiv_of_name ''1'')\<lparr>xv_capacity := str_int c\<rparr>) else None), c)),
      xc_vol_create = (\<lambda>_ _ _. xok None),
      xc_vol_resize = (\<lambda>n b c. if n = ''1'' then (Inr (), b)
        else (Inl (memory_error [Xcli_VolumeBadNameError] []), c)),
      xc_vol_format = (\<lambda>_. xok ()), xc_vol_copy = (\<lambda>_ _. xok ()), xc_vol_delete = (\<lambda>_. xok ()),
      xc_snapshot_list = (\<lambda>_. xok []), xc_snapshot_create = (\<lambda>_ _. xok None), xc_snapshot_delete = (\<lambda>_. xok ()),
      xc_host_list = xok [], xc_vol_mapping_list = (\<lambda>_. xok []), xc_mapping_list = (\<lambda>_. xok []),
      xc_map_vol = (\<lambda>_ _ _. xok ()), xc_unmap_vol = (\<lambda>_ _. xok ()),
      xc_ipinterface_list = xok [], xc_fc_port_list = xok []\<rparr>"

interpretation one_xiv: xiv_sizes one_xiv one_disk
  by unfold_locales
    (auto simp: one_xiv_def one_disk_def keeps_def xiv_of_name_def py_int_def int_of_str_int xok_def split: if_splits)

lemma one_capacity: "py_int (str_int c) = Inr c"
  by (simp add: py_int_def int_of_str_int)

definition sample_expand_request :: "int \<Rightarrow> expand_volume_request" where
  "sample_expand_request n = \<lparr>ev_volume_id = ''SVC:61'', ev_required_bytes = Some n, ev_secrets = []\<rparr>"

lemma one_svc_calls:
  "sc_lsfcmap one_svc f c = (Inr [], c)" "sc_expandvdisksize one_svc ''1'' z c = (Inr (), c + z)"
  by (simp_all add: one_svc_def xok_def)

lemma one_svc_found:
  "svc_get_cli_volume_by_wwn one_svc ''61'' b c = (Inr (Some ((svc_of_name ''1'')\<lparr>vd_capacity := str_int c\<rparr>)), c)"
  by (simp add: svc_get_cli_volume_by_wwn_def one_svc_def one_svc.svc_run)

lemma one_svc_object:
  "\<exists>x. get_object_by_id (svc_mediator retry_loop one_svc ''a'') ''61'' VOLUME_TYPE c = (Inr (Some x), c) \<and>
     object_capacity x = c"
  by (simp add: svc_mediator_def svc_get_object_by_id_def one_svc_found bnd_Inr svc_generate_volume_response_def
      svc_get_source_volume_wwn_if_exists_def svc_of_name_def one_capacity
      svc_get_fcmap_as_target_if_exists_def svc_get_fcmaps_def one_svc_calls one_svc.svc_run)

lemma one_svc_expands:
  "expand_volume (svc_mediator retry_loop one_svc ''a'') ''61'' 2000 1024 = (Inr (), 2048)"
  by (simp add: svc_mediator_def svc_expand_volume_def one_svc_found bnd_Inr svc_get_object_fcmaps_def
      svc_get_fcmap_as_target_if_exists_def svc_get_fcmaps_as_source_if_exist_def svc_get_fcmaps_def
      svc_safe_delete_fcmaps_def svc_expand_cli_volume_def svc_of_name_def one_capacity one_svc_calls one_svc.svc_run
      svc_convert_size_bytes_def SVC_BLOCK_SIZE_IN_BYTES_def)

lemma one_svc_answers:
  "expand_volume_on (sample_expand_request 2000) ''61'' (svc_mediator retry_loop one_svc ''a'') 1024 =
    (Inr \<lparr>rp_code = None, rp_details = NoDetails, rp_body = Some (generate_csi_expand_volume_response 2048 True)\<rparr>, 2048)"
proof -
  obtain x y where "get_object_by_id (svc_mediator retry_loop one_svc ''a'') ''61'' VOLUME_TYPE 1024 = (Inr (Some x), 1024)"
      "object_capacity x = 1024"
      "get_object_by_id (svc_mediator retry_loop one_svc ''a'') ''61'' VOLUME_TYPE 2048 = (Inr (Some y), 2048)"
      "object_capacity y = 2048"
    using one_svc_object by meson
  moreover have "maximal_volume_size_in_bytes (svc_mediator retry_loop one_svc ''a'') \<ge> 2000"
    by (simp add: svc_mediator_def)
  ultimately show ?thesis
    by (simp add: expand_volume_on_def sample_expand_request_def requested_bytes_def Let_def run one_svc_expands)
qed

lemma expanded_volume_large_enough_witness:
  "map_option snd (one_disk 2048 ''61'') = Some 2048 \<and> (2000 :: int) \<le> 2048 \<and>
   (\<exists>c. map_option snd (one_disk 1024 ''61'') = Some c \<and> c < 2000)"
  using expanded_volume_large_enough [OF one_svc.sized one_svc_answers]
  by (simp add: generate_csi_expand_volume_response_def sample_expand_request_def requested_bytes_def)

end
