(* ===== verification/Spec2Isabelle.thy ===== *)
theory Spec2Isabelle
  imports PoolRefinement RequestFlows ConnThreads MappingStores Ds8kHosts ServedArrays ServerStart Capacities
begin

text \<open>
  A verification development for the controller of the IBM block storage CSI driver, the
  Python package \<^verbatim>\<open>src/controller\<close>.  It is a shallow embedding: every definition is translated
  from the function or class of the same name, and the theorems are about those definitions.

  \<^bold>\<open>The program.\<close>  The controller is a gRPC server.  A request names a volume or a snapshot by an
  id, carries the secrets of one or more storage systems, and is answered by working on one
  system through a \<^emph>\<open>mediator\<close>, the adaptor of that storage type (SVC, XIV or DS8K).  A request
  passes through these parts:

  \<^item> \<^verbatim>\<open>controller_server/csi_controller_server.py\<close> (theories \<open>Servicer\<close>, \<open>Identity\<close>): one method
    per remote procedure, wrapped by \<^verbatim>\<open>exception_handler.py\<close> (\<open>ExceptionHandler\<close>); which method
    answers which procedure is in \<open>Server\<close>; \<^verbatim>\<open>main\<close> and \<^verbatim>\<open>start_server\<close> are in \<open>ServerStart\<close>;
  \<^item> \<^verbatim>\<open>csi_general/csi_pb2_grpc.py\<close> (\<open>GrpcStubs\<close>): the clients' stubs, the servicers' base classes and
    the registration of the three CSI services; \<^verbatim>\<open>common/csi_logger.py\<close> (\<open>CsiLogger\<close>): the logger;
  \<^item> \<^verbatim>\<open>controller_server/utils.py\<close> (\<open>Utils\<close>, \<open>Validation\<close>): validation, secrets and topologies,
    ids and responses;
  \<^item> \<^verbatim>\<open>array_action/storage_agent.py\<close> (\<open>Agent\<close>): the cache of agents, one per user and addresses,
    and the detection of the storage type;
  \<^item> \<^verbatim>\<open>array_action/array_connection_pool.py\<close> (\<open>Pool\<close>, \<open>PoolThreads\<close>): an agent's pool of mediators,
    shared by the worker threads;
  \<^item> \<^verbatim>\<open>array_action/array_connection_manager.py\<close> (\<open>ConnManager\<close>): the counter of open connections that
    the agents have replaced; nothing calls it now;
  \<^item> \<^verbatim>\<open>array_action/array_mediator_svc.py\<close>, \<^verbatim>\<open>_xiv.py\<close>, \<^verbatim>\<open>_ds8k.py\<close> (\<open>Svc\<close>, \<open>Xiv\<close>, \<open>Ds8k\<close>), over the clients
    \<open>SvcClient\<close>, \<open>XivClient\<close> and \<^verbatim>\<open>ds8k_rest_client.py\<close> (\<open>Ds8kRest\<close>, and \<open>Ds8kHosts\<close> for the
    methods that the mediator does not use); the host list of an SVC is
    read by \<^verbatim>\<open>svc_cli_result_reader.py\<close> (\<open>CliReader\<close>);
  \<^item> \<^verbatim>\<open>array_action/array_mediator_abstract.py\<close> (\<open>Mediator\<close>): mapping a volume to a node, the same
    for all types.

  \<open>Messages\<close>, \<open>Errors\<close> and \<open>ArrayTypes\<close> hold the messages, the exceptions, the constants and the data;
  \<open>Prelude\<close>, \<open>PyStr\<close> and \<open>PyJson\<close> the fragment of Python that the code uses (programs that raise,
  dictionaries in insertion order, strings, integers, decoded JSON values); \<open>Transition\<close> the
  reachable states and invariants of a transition system.

  \<^bold>\<open>State and effects.\<close>  A method is a function \<^typ>\<open>('s, 'a) pyprog\<close>: from the state of the world
  behind the clients to an exception or a result, and the new state.  The type of that state
  is a variable, so nothing is assumed about an array beyond what a theorem states.  The
  third-party clients, the JSON decoder, the hash functions, \<^verbatim>\<open>retry\<close>, \<^verbatim>\<open>random\<close>, the version
  order, sockets, the clock and the queue's blocking wait are parameters; the handlers take
  them as one record, \<^typ>\<open>'s env\<close>.  A client's call can only raise a third-party exception, a value
  that knows its classes and texts.  The controller's own state is the cache of agents with
  their pools, \<^typ>\<open>'s ctl\<close>.  Threads are modelled where they share state: \<open>PoolThreads\<close> interleaves
  the atomic actions of \<^verbatim>\<open>get\<close> and \<^verbatim>\<open>put\<close>, \<open>ConnManager\<close> the reads and writes of the counter.

  \<^bold>\<open>What is shown.\<close>
  \<^item> \<open>Validation\<close>: ids are read back and fit the protocol's limit; secrets that validation accepts
    give connection information; the topology chosen is the first that matches; what the node
    is told at publishing is complete.
  \<^item> \<open>CliReader\<close>: what the array prints is read back, for any number of objects.
  \<^item> \<open>PoolThreads\<close>: under any interleaving the pool's counter is the number of queued connections, of
    those in use or being made, and of the slots lost because \<^verbatim>\<open>is_active\<close> raised; no connection is
    shared; a waiting caller can starve, and a pool that has lost all its slots is dead.
  \<^item> \<open>PoolRefinement\<close>: the interleaved calls implement an abstract table of leases, by a simulation.
  \<^item> \<open>ConnThreads\<close>: the manager's counter is restored by every \<^verbatim>\<open>with\<close> statement, and exact for threads
    that share a lock; the code's lock is replaced by every manager, and then it is not.
  \<^item> \<open>SvcProofs\<close>, \<open>XivProofs\<close>, \<open>Ds8kProofs\<close>: sizes, LUN choice, host lookup, refused deletions,
    the roll-back of a snapshot in all its attempts; each type meets the contract of \<open>Mediator\<close>, the locale \<open>array_mediator\<close>, by an
    interpretation.
  \<^item> \<open>Mediator\<close>: an existing mapping is never made twice, and mapping is retried a bounded number
    of times.
  \<^item> \<open>MappingTable\<close>: publishing and unpublishing are operations on an abstract table of the LUNs by
    volume and host: one host per volume, at any time, whatever fails (the locale
    \<open>mapping_table\<close> is what they need of a mediator).
  \<^item> \<open>MappingStores\<close>: the three mediators keep such a table, given the documented behaviour of
    their clients (the locales \<open>xiv_array\<close>, \<open>svc_array\<close>, \<open>ds8k_array\<close>, each interpreted on a client in
    memory).  For the DS8K a \<^verbatim>\<open>NotFound\<close> must carry one of the two codes the mediator knows.
  \<^item> \<open>VolumeStore\<close>: creating, copying, deleting and expanding volumes are operations on an abstract
    store of names by id: at most one new volume per request, repeated requests give the same
    volume, deleting undoes creating, names stay unique, and a failed copy is undone unless all five
    attempts at it fail (the locale \<open>volume_store\<close>).
  \<^item> \<open>VolumeStores\<close>: the three mediators keep such a store, given the documented behaviour of their
    clients (the locales \<open>xiv_volumes\<close>, \<open>svc_volumes\<close>, \<open>ds8k_volumes\<close>, each interpreted on a client in
    memory).  On an SVC and an XIV names are unique, on a DS8K within their pool.
  \<^item> \<open>SnapshotStore\<close>: creating a snapshot is an operation on the same store: a repeated request that
    leads to the same name in it and is answered with a snapshot is answered with the same one, of
    the source it names (the locale \<open>snapshot_server\<close>).  On a DS8K that name has the pool, which without
    a requested one is that of the source.
  \<^item> \<open>Capacities\<close>: expanding a volume reaches the requested size and reports it (the locale
    \<open>sized_volumes\<close>, which the SVC and, for whole blocks, the XIV meet: \<open>svc_sizes\<close>, \<open>xiv_sizes\<close>).
  \<^item> \<open>ArrayInvariants\<close>: what any sequence of requests to the server keeps of the arrays: a pool holds
    only connections made to the arrays, and with those that keep a store, or a table, names stay
    unique and access exclusive (the locales \<open>good_links\<close> and \<open>good_server\<close>, of which both are
    instances, \<open>volume_server\<close> and \<open>mapping_server\<close> for what they need of a mediator).
  \<^item> \<open>ServedArrays\<close>: the three mediators are such, their snapshots and roll-backs included (\<open>xiv_named\<close>,
    \<open>xiv_mapped\<close> and so on); and a server that works on arrays in memory.
  \<^item> \<open>Ds8kHosts\<close>: attaching a port either moves that port alone or nothing.
  \<^item> \<open>AgentProofs\<close>: requests return the connection they borrow; the connections of an agent were opened
    with its user, password and addresses; finalizers end, or do not.
  \<^item> \<open>ServicerProofs\<close>: every handler replies, returns its connection, and does nothing for a
    rejected request; names fit; repeated requests are answered from what exists.
  \<^item> \<open>ServerProofs\<close>: after any sequence of requests the pools are sound, and each holds connections
    of its agent's storage type and login only; a request is lent none that was opened with another
    user, password or address; no exception leaves a request, and an error has no message.  For the
    pools of an SVC this assumes \<open>svc_alive\<close>: \<^verbatim>\<open>is_active\<close> of its client does not raise, an exception of
    which the pool does not guard against.
  \<^item> \<open>ServerStart\<close>: a call of a client's stub reaches the method that \<open>serve\<close> runs for it, with the
    same classes of messages on both sides, and no other procedure is served, given the documented
    behaviour of \<^verbatim>\<open>grpc\<close> (the locale \<open>grpc_server\<close>, interpreted on a server in memory); \<^verbatim>\<open>main\<close>
    returns exactly when it is interrupted, with that server stopped.
  \<^item> \<open>CsiLogger\<close>: there is one handler at most, and a level that is set is in force.
  \<^item> \<open>RequestFlows\<close>: whole requests: the id in a reply is the address of the volume that was found or
    made, a published volume's reply is complete, and the error about a missing source gets lost.

  \<^bold>\<open>Fuel and bounds.\<close>  Only \<open>pool_del\<close>, the finalizer of a pool, takes fuel, because the code's loop
  need not end: \<open>agent_finalizer_ends\<close> shows that one more than the number of queued connections
  is enough for a sound pool, \<open>leaked_finalizer_loops\<close> that no fuel is enough for a pool that has
  lost a slot.  The loop of \<^verbatim>\<open>start_server\<close>, which ends only when it is interrupted, is a partial
  function into \<open>option\<close>, with \<open>None\<close> when it does not return.  Every other loop is a terminating
  recursion.  Python's integers are \<open>int\<close>; the division of sizes in the XIV mediator is that of
  doubles, written out with its rounding.

  \<^bold>\<open>Not modelled.\<close>  The descriptors in the generated \<^verbatim>\<open>csi_pb2.py\<close>: messages are records of the fields
  that are read, and their classes are named where they are registered.  The parsing of the
  command line, and what is written to the log.  The node plugin, which is written in Go.
\<close>

end
